(* ===== verification/Rota_Prelude.thy ===== *)
theory Rota_Prelude
  imports Main "HOL-Library.Word" "HOL-Library.AList" "HOL-Library.Multiset"
begin

text \<open>
  The vocabulary every component shares: Go's \<open>error\<close> values, the type of an operation that
  may fail after it has changed the state, Go's maps and decimal printing, and the lemma
  collections \<open>exec\<close> (symbolic execution of operations) and \<open>keeps\<close> (preservation of
  a state predicate by composed operations).
\<close>

named_theorems exec \<open>one step of the symbolic execution of an operation\<close>
named_theorems keeps \<open>preservation of a state predicate\<close>

section \<open>Errors (internal/domain/errors.go)\<close>

text \<open>
  The sentinels of \<^verbatim>\<open>domain/errors.go\<close>, the one of \<^verbatim>\<open>chain/evm\<close>, the one of
  \<^verbatim>\<open>auth/token.go\<close>, and every other \<^verbatim>\<open>errors.New\<close>.
\<close>

datatype sentinel =
    ErrNotFound
  | ErrInvalidTransition
  | ErrValidation
  | ErrUnauthorized
  | ErrForbidden
  | ErrConflict
  | ErrNotWired
  | ErrInvalidToken
  | ErrOther

text \<open>
  An error value is a sentinel with the format and the arguments of the \<^verbatim>\<open>fmt.Errorf\<close>
  that wrapped it (empty when the bare sentinel is returned), possibly wrapped again behind a
  prefix. \<^verbatim>\<open>errors.Is\<close> sees the innermost sentinel.
\<close>

datatype err =
    Errorf sentinel string "string list"
  | Wrapf string err

fun errors_Is :: "err \<Rightarrow> sentinel \<Rightarrow> bool" where
  "errors_Is (Errorf k _ _) s = (k = s)"
| "errors_Is (Wrapf _ e) s = errors_Is e s"

abbreviation sentinel_err :: "sentinel \<Rightarrow> err" where
  "sentinel_err k \<equiv> Errorf k '''' []"

section \<open>Operations\<close>

text \<open>
  A Go method that returns \<^verbatim>\<open>(T, error)\<close> and changes what its receiver points to: the
  result and the state left behind, also when it fails halfway.
\<close>

type_synonym ('s, 'a) act = "'s \<Rightarrow> (err + 'a) \<times> 's"

definition ret :: "'a \<Rightarrow> ('s, 'a) act" where
  "ret x = (\<lambda>s. (Inr x, s))"

definition fail :: "err \<Rightarrow> ('s, 'a) act" where
  "fail e = (\<lambda>s. (Inl e, s))"

definition lift :: "err + 'a \<Rightarrow> ('s, 'a) act" where
  "lift r = (\<lambda>s. (r, s))"

text \<open>\<open>x, err := m; if err != nil { return err }; k\<close>\<close>

definition andThen :: "('s, 'a) act \<Rightarrow> ('a \<Rightarrow> ('s, 'b) act) \<Rightarrow> ('s, 'b) act" where
  "andThen m k = (\<lambda>s. case m s of (Inl e, s') \<Rightarrow> (Inl e, s') | (Inr x, s') \<Rightarrow> k x s')"

text \<open>\<open>x, err := m\<close> with the error looked at by what follows.\<close>

definition attempt :: "('s, 'a) act \<Rightarrow> ('s, err + 'a) act" where
  "attempt m = (\<lambda>s. case m s of (r, s') \<Rightarrow> (Inr r, s'))"

text \<open>\<open>_ = m\<close>\<close>

definition ignoring :: "('s, 'a) act \<Rightarrow> ('s, unit) act" where
  "ignoring m = (\<lambda>s. (Inr (), snd (m s)))"

text \<open>\<open>return fmt.Errorf("p: %w", err)\<close> on failure.\<close>

definition wrapErr :: "string \<Rightarrow> ('s, 'a) act \<Rightarrow> ('s, 'a) act" where
  "wrapErr p m = (\<lambda>s. case m s of (Inl e, s') \<Rightarrow> (Inl (Wrapf p e), s') | (Inr x, s') \<Rightarrow> (Inr x, s'))"

definition guardE :: "bool \<Rightarrow> err \<Rightarrow> ('s, unit) act" where
  "guardE b e = (if b then fail e else ret ())"

text \<open>A \<open>for\<close> loop that returns at the first error.\<close>

fun forEach :: "'a list \<Rightarrow> ('a \<Rightarrow> ('s, unit) act) \<Rightarrow> ('s, unit) act" where
  "forEach [] f = ret ()"
| "forEach (x # xs) f = andThen (f x) (\<lambda>_. forEach xs f)"

lemma ret_apply [exec]: "ret x s = (Inr x, s)"
  by (simp add: ret_def)

lemma fail_apply [exec]: "fail e s = (Inl e, s)"
  by (simp add: fail_def)

lemma lift_apply [exec]: "lift r s = (r, s)"
  by (simp add: lift_def)

lemma andThen_apply [exec]:
  "andThen m k s = (case m s of (Inl e, s') \<Rightarrow> (Inl e, s') | (Inr x, s') \<Rightarrow> k x s')"
  by (simp add: andThen_def)

lemma attempt_apply [exec]: "attempt m s = (Inr (fst (m s)), snd (m s))"
  by (simp add: attempt_def split: prod.split)

lemma ignoring_apply [exec]: "ignoring m s = (Inr (), snd (m s))"
  by (simp add: ignoring_def)

lemma wrapErr_apply [exec]:
  "wrapErr p m s = (case m s of (Inl e, s') \<Rightarrow> (Inl (Wrapf p e), s') | (Inr x, s') \<Rightarrow> (Inr x, s'))"
  by (simp add: wrapErr_def)

lemma guardE_apply [exec]: "guardE b e s = (if b then (Inl e, s) else (Inr (), s))"
  by (simp add: guardE_def exec)

subsection \<open>Preservation\<close>

text \<open>
  \<open>preserves I m\<close>: whatever \<open>m\<close> returns, it leaves \<open>I\<close> true. The rules follow the
  combinators, so a long handler needs one fact per state-changing call.
\<close>

definition preserves :: "('s \<Rightarrow> bool) \<Rightarrow> ('s, 'a) act \<Rightarrow> bool" where
  "preserves I m \<longleftrightarrow> (\<forall>s. I s \<longrightarrow> I (snd (m s)))"

lemma preservesI: "(\<And>s. I s \<Longrightarrow> I (snd (m s))) \<Longrightarrow> preserves I m"
  by (simp add: preserves_def)

lemma preservesD: "preserves I m \<Longrightarrow> I s \<Longrightarrow> I (snd (m s))"
  by (simp add: preserves_def)

lemma preserves_ret [keeps]: "preserves I (ret x)"
  by (simp add: preserves_def exec)

lemma preserves_fail [keeps]: "preserves I (fail e)"
  by (simp add: preserves_def exec)

lemma preserves_lift [keeps]: "preserves I (lift r)"
  by (simp add: preserves_def exec)

lemma preserves_guardE [keeps]: "preserves I (guardE b e)"
  by (simp add: preserves_def exec)

lemma preserves_andThen [keeps]:
  "preserves I m \<Longrightarrow> (\<And>x. preserves I (k x)) \<Longrightarrow> preserves I (andThen m k)"
  by (fastforce simp: preserves_def exec split: prod.split sum.split)

lemma preserves_attempt [keeps]: "preserves I m \<Longrightarrow> preserves I (attempt m)"
  by (simp add: preserves_def exec)

lemma preserves_ignoring [keeps]: "preserves I m \<Longrightarrow> preserves I (ignoring m)"
  by (simp add: preserves_def exec)

lemma preserves_wrapErr [keeps]: "preserves I m \<Longrightarrow> preserves I (wrapErr p m)"
  by (fastforce simp: preserves_def exec split: prod.split sum.split)

lemma preserves_forEach [keeps]: "(\<And>x. x \<in> set xs \<Longrightarrow> preserves I (f x)) \<Longrightarrow> preserves I (forEach xs f)"
  by (induction xs) (auto intro!: keeps)

lemma preserves_if [keeps]:
  "(b \<Longrightarrow> preserves I m) \<Longrightarrow> (\<not> b \<Longrightarrow> preserves I n) \<Longrightarrow> preserves I (if b then m else n)"
  by simp

lemma preserves_case_sum [keeps]:
  "(\<And>e. preserves I (f e)) \<Longrightarrow> (\<And>x. preserves I (g x)) \<Longrightarrow> preserves I (case r of Inl e \<Rightarrow> f e | Inr x \<Rightarrow> g x)"
  by (cases r) auto

lemma preserves_case_option [keeps]:
  "preserves I f \<Longrightarrow> (\<And>x. preserves I (g x)) \<Longrightarrow> preserves I (case r of None \<Rightarrow> f | Some x \<Rightarrow> g x)"
  by (cases r) auto

section \<open>Go maps\<close>

text \<open>
  A Go map is the list of its entries, each key once. \<^verbatim>\<open>range\<close> visits the entries in an
  order the language leaves open; the list is that order at the moment of the loop, and nothing
  but the loop looks at it. A statement about every such list is a statement about every order.
\<close>

type_synonym ('k, 'v) gomap = "('k \<times> 'v) list"

definition gm_get :: "('k, 'v) gomap \<Rightarrow> 'k \<Rightarrow> 'v option" where
  "gm_get m k = map_of m k"

definition gm_set :: "'k \<Rightarrow> 'v \<Rightarrow> ('k, 'v) gomap \<Rightarrow> ('k, 'v) gomap" where
  "gm_set k v m = AList.update k v m"

definition gm_delete :: "'k \<Rightarrow> ('k, 'v) gomap \<Rightarrow> ('k, 'v) gomap" where
  "gm_delete k m = AList.delete k m"

definition gm_range :: "('k, 'v) gomap \<Rightarrow> 'v list" where
  "gm_range m = map snd m"

definition gm_ok :: "('k, 'v) gomap \<Rightarrow> bool" where
  "gm_ok m \<longleftrightarrow> distinct (map fst m)"

lemma gm_get_set: "gm_get (gm_set k v m) k' = (if k' = k then Some v else gm_get m k')"
  by (simp add: gm_get_def gm_set_def update_conv)

lemma gm_get_empty [simp]: "gm_get [] k = None"
  by (simp add: gm_get_def)

lemma gm_get_delete: "gm_get (gm_delete k m) k' = (if k' = k then None else gm_get m k')"
  by (simp add: gm_get_def gm_delete_def delete_conv)

lemma gm_ok_empty [simp]: "gm_ok []"
  by (simp add: gm_ok_def)

lemma gm_ok_set: "gm_ok m \<Longrightarrow> gm_ok (gm_set k v m)"
  by (simp add: gm_ok_def gm_set_def distinct_update)

lemma gm_ok_delete: "gm_ok m \<Longrightarrow> gm_ok (gm_delete k m)"
  by (simp add: gm_ok_def gm_delete_def distinct_delete)

lemma gm_range_get: "gm_ok m \<Longrightarrow> v \<in> set (gm_range m) \<longleftrightarrow> (\<exists>k. gm_get m k = Some v)"
  by (force simp: gm_ok_def gm_range_def gm_get_def)

lemma gm_get_perm:
  assumes "gm_ok m" and "mset m = mset m'"
  shows "gm_get m = gm_get m'"
proof -
  have "mset (map fst m) = mset (map fst m')"
    using assms(2) by (metis mset_map)
  then have d: "distinct (map fst m')"
    using assms(1) unfolding gm_ok_def by (metis mset_eq_imp_distinct_iff)
  have "set m = set m'"
    using assms(2) by (rule mset_eq_setD)
  with assms(1) d have "map_of m = map_of m'"
    by (metis gm_ok_def map_of_inject_set)
  then show ?thesis
    by (simp add: gm_get_def fun_eq_iff)
qed

lemma gm_set_new: "gm_get m k = None \<Longrightarrow> gm_set k v m = m @ [(k, v)]"
  by (induction m) (auto simp: gm_get_def gm_set_def split: if_splits)

lemma gm_range_set_new: "gm_get m k = None \<Longrightarrow> gm_range (gm_set k v m) = gm_range m @ [v]"
  by (simp add: gm_set_new gm_range_def)

text \<open>A predicate on entries that a new entry satisfies is kept by storing it.\<close>

definition gm_all :: "('k \<Rightarrow> 'v \<Rightarrow> bool) \<Rightarrow> ('k, 'v) gomap \<Rightarrow> bool" where
  "gm_all P m \<longleftrightarrow> (\<forall>k v. gm_get m k = Some v \<longrightarrow> P k v)"

lemma gm_allD: "gm_all P m \<Longrightarrow> gm_get m k = Some v \<Longrightarrow> P k v"
  by (simp add: gm_all_def)

lemma gm_all_empty [simp]: "gm_all P []"
  by (simp add: gm_all_def)

lemma gm_all_set: "gm_all P m \<Longrightarrow> P k v \<Longrightarrow> gm_all P (gm_set k v m)"
  by (simp add: gm_all_def gm_get_set)

section \<open>Decimal numbers (strconv.Itoa, strconv.FormatInt)\<close>

fun nat_digits :: "nat \<Rightarrow> string" where
  "nat_digits n =
     (if n < 10 then [char_of (48 + n)] else nat_digits (n div 10) @ [char_of (48 + n mod 10)])"

declare nat_digits.simps [simp del]

definition decimal :: "int \<Rightarrow> string" where
  "decimal i = (if i < 0 then CHR ''-'' # nat_digits (nat (- i)) else nat_digits (nat i))"

definition digits_value :: "string \<Rightarrow> nat" where
  "digits_value s = foldl (\<lambda>v c. 10 * v + (of_char c - 48)) 0 s"

definition parse_decimal :: "string \<Rightarrow> int" where
  "parse_decimal s =
     (case s of [] \<Rightarrow> 0
      | c # cs \<Rightarrow> if c = CHR ''-'' then - int (digits_value cs) else int (digits_value s))"

abbreviation is_digit :: "char \<Rightarrow> bool" where
  "is_digit c \<equiv> of_char c \<in> {48 .. 57 :: nat}"

lemma of_char_digit: "d < 10 \<Longrightarrow> of_char (char_of (48 + d) :: char) = (48 + d :: nat)"
  by (simp add: of_char_of take_bit_nat_def flip: take_bit_eq_mod)

lemma nat_digits_value: "digits_value (nat_digits n) = n"
proof (induction n rule: nat_digits.induct)
  case (1 n)
  show ?case
  proof (cases "n < 10")
    case True
    then show ?thesis
      by (subst nat_digits.simps) (simp add: digits_value_def of_char_digit)
  next
    case False
    with 1 have "digits_value (nat_digits (n div 10)) = n div 10"
      by simp
    with False show ?thesis
      by (subst nat_digits.simps) (simp add: digits_value_def of_char_digit)
  qed
qed

lemma nat_digits_is_digit: "c \<in> set (nat_digits n) \<Longrightarrow> is_digit c"
proof (induction n rule: nat_digits.induct)
  case (1 n)
  then show ?case
    by (subst (asm) (2) nat_digits.simps) (auto simp: of_char_digit split: if_splits)
qed

lemma nat_digits_neq_Nil [simp]: "nat_digits n \<noteq> []"
  by (subst nat_digits.simps) simp

lemma nat_digits_length: "0 < k \<Longrightarrow> n < 10 ^ k \<Longrightarrow> length (nat_digits n) \<le> k"
proof (induction k arbitrary: n)
  case (Suc k)
  show ?case
  proof (cases "n < 10")
    case True
    then show ?thesis by (subst nat_digits.simps) simp
  next
    case False
    with Suc.prems have "0 < k" and "n div 10 < 10 ^ k"
      by (auto simp: less_mult_imp_div_less mult.commute intro!: gr0I)
    with Suc.IH False show ?thesis
      by (subst nat_digits.simps) simp
  qed
qed simp

lemma parse_decimal_decimal: "parse_decimal (decimal i) = i"
proof (cases "i < 0")
  case True
  then show ?thesis
    by (simp add: parse_decimal_def decimal_def nat_digits_value)
next
  case False
  obtain c cs where ds: "nat_digits (nat i) = c # cs"
    by (cases "nat_digits (nat i)") auto
  have "is_digit c"
    by (rule nat_digits_is_digit [of _ "nat i"]) (simp add: ds)
  then have "c \<noteq> CHR ''-''"
    by auto
  moreover have "digits_value (c # cs) = nat i"
    using nat_digits_value [of "nat i"] by (simp add: ds)
  ultimately show ?thesis
    using False by (simp add: parse_decimal_def decimal_def ds)
qed

lemma decimal_inject [simp]: "decimal i = decimal j \<longleftrightarrow> i = j"
  by (metis parse_decimal_decimal)

lemma decimal_chars: "c \<in> set (decimal i) \<Longrightarrow> c = CHR ''-'' \<or> is_digit c"
  by (auto simp: decimal_def split: if_splits dest: nat_digits_is_digit)

section \<open>64-bit integers\<close>

lemma sint64_word_of_int:
  assumes "- (2 ^ 63) \<le> x" and "x < 2 ^ 63"
  shows "sint (word_of_int x :: 64 word) = x"
proof -
  have "(x + 2 ^ 63) mod 2 ^ 64 = x + 2 ^ 63"
    using assms by (intro mod_pos_pos_trivial) simp_all
  then show ?thesis
    by (simp add: int_word_sint)
qed

lemma sint64_of_nat: "int n < 2 ^ 63 \<Longrightarrow> sint (of_nat n :: 64 word) = int n"
  using sint64_word_of_int [of "int n"] by simp

lemma mult64_of_nat: "of_nat n * w = word_of_int (int n * sint w)" for w :: "64 word"
  by simp

section \<open>Strings\<close>

text \<open>\<open>join sep parts\<close>: the parts with the separator byte between them.\<close>

fun join :: "char \<Rightarrow> string list \<Rightarrow> string" where
  "join sep [] = []"
| "join sep [p] = p"
| "join sep (p # q # ps) = p @ sep # join sep (q # ps)"

lemma split_first_sep:
  "sep \<notin> set p \<Longrightarrow> sep \<notin> set q \<Longrightarrow> p @ sep # r = q @ sep # t \<longleftrightarrow> p = q \<and> r = t"
  by (auto simp: append_eq_append_conv2 Cons_eq_append_conv append_eq_Cons_conv)

lemma join_single_neq: "sep \<notin> set p \<Longrightarrow> p \<noteq> q @ sep # r"
  by auto

lemma join_inject:
  "parts \<noteq> [] \<Longrightarrow> parts' \<noteq> [] \<Longrightarrow>
   \<forall>p \<in> set parts. sep \<notin> set p \<Longrightarrow> \<forall>p \<in> set parts'. sep \<notin> set p \<Longrightarrow>
   join sep parts = join sep parts' \<Longrightarrow> parts = parts'"
proof (induction sep parts arbitrary: parts' rule: join.induct)
  case (2 sep p)
  then show ?case
    by (cases "(sep, parts')" rule: join.cases) auto
next
  case (3 sep p q ps)
  then obtain p' rest where parts': "parts' = p' # rest"
    by (cases parts') auto
  with "3.prems" have seps: "sep \<notin> set p" "sep \<notin> set p'"
    by auto
  show ?case
  proof (cases rest)
    case Nil
    with "3.prems"(5) parts' have "p' = p @ sep # join sep (q # ps)"
      by simp
    with seps(2) show ?thesis
      by simp
  next
    case (Cons q' ps')
    with "3.prems"(5) parts' seps have "p = p'" and eq: "join sep (q # ps) = join sep rest"
      by (simp_all add: split_first_sep)
    have "q # ps = rest"
      by (rule "3.IH") (use "3.prems" parts' Cons eq in auto)
    with parts' \<open>p = p'\<close> show ?thesis
      by simp
  qed
qed simp

end
