(* ===== verification/Domain_Types.thy ===== *)
theory Domain_Types
  imports Rota_Prelude
begin

text \<open>
  \<^verbatim>\<open>internal/domain/types.go\<close> and \<^verbatim>\<open>user.go\<close>: money, identifiers, the commitment
  digest, and the user account with the rule that lets a user take part. SHA-256 is the argument
  \<open>sha\<close> (bytes to the hexadecimal digest): the code relies on it being deterministic and
  free of collisions, which the theorems that need it name as \<open>inj sha\<close>. A time is its number
  of nanoseconds since the Unix epoch, in UTC.
\<close>

section \<open>Money, identifiers, digests (types.go)\<close>

type_synonym money = "64 word"
type_synonym time = int
type_synonym duration = "64 word"

definition money_String :: "money \<Rightarrow> string" where
  "money_String m = decimal (sint m)"

text \<open>\<^verbatim>\<open>hex.EncodeToString\<close>: two lower-case digits per byte.\<close>

definition hex_digit :: "nat \<Rightarrow> char" where
  "hex_digit n = ''0123456789abcdef'' ! n"

definition hex_encode :: "string \<Rightarrow> string" where
  "hex_encode bs = concat (map (\<lambda>c. [hex_digit (of_char c div 16), hex_digit (of_char c mod 16)]) bs)"

text \<open>\<open>b\<close> is what \<^verbatim>\<open>crypto/rand\<close> filled the 16-byte buffer with.\<close>

definition NewID :: "string \<Rightarrow> string" where
  "NewID b = hex_encode b"

abbreviation unit_sep :: char where
  "unit_sep \<equiv> CHR 0x1F"

definition Hash :: "(string \<Rightarrow> string) \<Rightarrow> string list \<Rightarrow> string" where
  "Hash sha parts = ''0x'' @ sha (join unit_sep parts)"

lemma hex_digit_less: "n < 16 \<Longrightarrow> hex_digit n \<in> set ''0123456789abcdef''"
  unfolding hex_digit_def by (rule nth_mem) simp

lemma hex_digit_inject: "m < 16 \<Longrightarrow> n < 16 \<Longrightarrow> hex_digit m = hex_digit n \<longleftrightarrow> m = n"
  unfolding hex_digit_def by (rule nth_eq_iff_index_eq) simp_all

lemma of_char_less_256: "(of_char c :: nat) < 256"
  using of_char_mod_256 [of c, where 'a = nat] by (metis mod_less_divisor zero_less_numeral)

lemma hex_encode_chars: "c \<in> set (hex_encode bs) \<Longrightarrow> c \<in> set ''0123456789abcdef''"
proof -
  assume "c \<in> set (hex_encode bs)"
  then obtain b where "c = hex_digit (of_char b div 16) \<or> c = hex_digit (of_char b mod 16)"
    by (auto simp: hex_encode_def)
  moreover have "of_char b div 16 < (16 :: nat)" "of_char b mod 16 < (16 :: nat)"
    using of_char_less_256 [of b] by (simp_all add: div_less_iff_less_mult)
  ultimately show ?thesis
    using hex_digit_less by blast
qed

lemma hex_encode_inject: "hex_encode a = hex_encode b \<longleftrightarrow> a = b"
proof
  show "hex_encode a = hex_encode b \<Longrightarrow> a = b"
  proof (induction a arbitrary: b)
    case Nil
    then show ?case by (cases b) (auto simp: hex_encode_def)
  next
    case (Cons c cs)
    then obtain d ds where b: "b = d # ds"
      by (cases b) (auto simp: hex_encode_def)
    have small: "of_char x div 16 < (16 :: nat)" for x
      using of_char_less_256 [of x] by (simp add: div_less_iff_less_mult)
    from Cons.prems b have "(of_char c div 16 :: nat) = of_char d div 16"
      and "(of_char c mod 16 :: nat) = of_char d mod 16" and "hex_encode cs = hex_encode ds"
      by (simp_all add: hex_encode_def hex_digit_inject small)
    then have "(of_char c :: nat) = of_char d"
      by (metis div_mult_mod_eq)
    moreover have "cs = ds"
      using \<open>hex_encode cs = hex_encode ds\<close> by (rule Cons.IH)
    ultimately show ?case
      using b by simp
  qed
qed simp

lemma NewID_inject [simp]: "NewID a = NewID b \<longleftrightarrow> a = b"
  by (simp add: NewID_def hex_encode_inject)

text \<open>An identifier holds neither the digest's separator nor the stores' key separator.\<close>

lemma NewID_plain: "unit_sep \<notin> set (NewID b)" "CHR ''|'' \<notin> set (NewID b)"
proof -
  show "unit_sep \<notin> set (NewID b)"
    unfolding NewID_def by (rule notI, drule hex_encode_chars) simp
  show "CHR ''|'' \<notin> set (NewID b)"
    unfolding NewID_def by (rule notI, drule hex_encode_chars) simp
qed

lemma Hash_inject_sep:
  "inj sha \<Longrightarrow> Hash sha ps = Hash sha qs \<longleftrightarrow> join unit_sep ps = join unit_sep qs"
  by (simp add: Hash_def inj_eq)

lemma decimal_no_sep: "unit_sep \<notin> set (decimal i)"
  by (rule notI, drule decimal_chars) simp

section \<open>Users (user.go)\<close>

datatype role = RoleMember | RoleAdmin | RoleOther string
datatype user_status = UserActive | UserSuspended
datatype kyc_status = KYCPending | KYCApproved | KYCRejected

fun role_string :: "role \<Rightarrow> string" where
  "role_string RoleMember = ''member''"
| "role_string RoleAdmin = ''admin''"
| "role_string (RoleOther s) = s"

fun user_status_string :: "user_status \<Rightarrow> string" where
  "user_status_string UserActive = ''active''"
| "user_status_string UserSuspended = ''suspended''"

fun kyc_status_string :: "kyc_status \<Rightarrow> string" where
  "kyc_status_string KYCPending = ''pending''"
| "kyc_status_string KYCApproved = ''approved''"
| "kyc_status_string KYCRejected = ''rejected''"

record user =
  u_ID :: string
  u_Email :: string
  u_DisplayName :: string
  u_WalletAddress :: string
  u_IdentityCommitment :: string
  u_KYCProvider :: string
  u_KYCStatus :: kyc_status
  u_Role :: role
  u_Status :: user_status
  u_PasswordHash :: string
  u_CreatedAt :: time
  u_UpdatedAt :: time

definition CanParticipate :: "user \<Rightarrow> err + unit" where
  "CanParticipate u =
     (if u_Status u \<noteq> UserActive
      then Inl (Errorf ErrForbidden ''account is %s'' [user_status_string (u_Status u)])
      else if u_KYCStatus u \<noteq> KYCApproved
      then Inl (Errorf ErrForbidden ''KYC is %s, must be approved'' [kyc_status_string (u_KYCStatus u)])
      else Inr ())"

text \<open>\<^verbatim>\<open>Time.Unix\<close>: whole seconds, rounded down.\<close>

definition unix_seconds :: "time \<Rightarrow> int" where
  "unix_seconds t = t div 1000000000"

definition ComputeIdentityCommitment :: "(string \<Rightarrow> string) \<Rightarrow> string \<Rightarrow> string \<Rightarrow> time \<Rightarrow> string" where
  "ComputeIdentityCommitment sha userID kycProviderSig ts =
     Hash sha [userID, kycProviderSig, decimal (unix_seconds ts)]"

lemma CanParticipate_ok:
  "CanParticipate u = Inr x \<longleftrightarrow> u_Status u = UserActive \<and> u_KYCStatus u = KYCApproved"
  by (auto simp: CanParticipate_def)

lemma CanParticipate_forbidden: "CanParticipate u = Inl e \<Longrightarrow> errors_Is e ErrForbidden"
  by (auto simp: CanParticipate_def split: if_splits)

text \<open>The last field may be split off from the right when it holds no separator.\<close>

lemma split_last_sep:
  assumes "sep \<notin> set p" and "sep \<notin> set q"
  shows "r @ sep # p = t @ sep # q \<longleftrightarrow> r = t \<and> p = q"
proof
  assume "r @ sep # p = t @ sep # q"
  then have "rev p @ sep # rev r = rev q @ sep # rev t"
    by (metis rev_append rev.simps(2) append.assoc append_Cons append_Nil)
  with assms show "r = t \<and> p = q"
    by (simp add: split_first_sep)
qed simp

text \<open>
  The identity commitment determines the user, the provider's signature and the second it was
  made: two registrations with the same commitment agree on all three. The identifier is one that
  \<open>NewID\<close> made; the signature is whatever the client sent, separator bytes included.
\<close>

lemma identity_commitment_binds:
  assumes "inj sha"
    and "ComputeIdentityCommitment sha (NewID b) kycSig ts = ComputeIdentityCommitment sha (NewID b') kycSig' ts'"
  shows "b = b' \<and> kycSig = kycSig' \<and> unix_seconds ts = unix_seconds ts'"
proof -
  have "NewID b @ unit_sep # kycSig @ unit_sep # decimal (unix_seconds ts)
      = NewID b' @ unit_sep # kycSig' @ unit_sep # decimal (unix_seconds ts')"
    using assms(2) by (simp add: ComputeIdentityCommitment_def Hash_inject_sep [OF assms(1)])
  then have "b = b'"
    and "kycSig @ unit_sep # decimal (unix_seconds ts) = kycSig' @ unit_sep # decimal (unix_seconds ts')"
    by (simp_all add: split_first_sep NewID_plain)
  then show ?thesis
    by (simp add: split_last_sep decimal_no_sep)
qed

end
