(* ===== verification/Domain_Group.thy ===== *)
theory Domain_Group
  imports Domain_Types
begin

text \<open>
  \<^verbatim>\<open>internal/domain/group.go\<close>, \<^verbatim>\<open>cycle.go\<close> and \<^verbatim>\<open>membership.go\<close>: the group with
  its one-way lifecycle, the checks before creation and before activation, and the schedule of
  cycles. The contract of a one-way lifecycle is the locale \<open>one_way\<close>, interpreted on
  \<open>CanTransition\<close>'s table.
\<close>

section \<open>Membership, join requests, invitations (membership.go)\<close>

datatype membership_status = MembershipActive | MembershipLeft | MembershipRemoved

record membership =
  m_ID :: string
  m_GroupID :: string
  m_UserID :: string
  m_Organizer :: bool
  m_Status :: membership_status
  m_JoinedAt :: time

datatype join_request_status = JoinPending | JoinApproved | JoinRejected

fun join_request_status_string :: "join_request_status \<Rightarrow> string" where
  "join_request_status_string JoinPending = ''pending''"
| "join_request_status_string JoinApproved = ''approved''"
| "join_request_status_string JoinRejected = ''rejected''"

record join_request =
  j_ID :: string
  j_GroupID :: string
  j_UserID :: string
  j_Status :: join_request_status
  j_CreatedAt :: time
  j_DecidedAt :: "time option"
  j_DecidedBy :: string

datatype invitation_status = InvitePending | InviteAccepted | InviteDeclined

fun invitation_status_string :: "invitation_status \<Rightarrow> string" where
  "invitation_status_string InvitePending = ''pending''"
| "invitation_status_string InviteAccepted = ''accepted''"
| "invitation_status_string InviteDeclined = ''declined''"

record invitation =
  i_ID :: string
  i_GroupID :: string
  i_UserID :: string
  i_InvitedBy :: string
  i_Status :: invitation_status
  i_CreatedAt :: time

section \<open>Cycles (cycle.go)\<close>

record cycle =
  c_GroupID :: string
  c_Index :: int
  c_Deadline :: time
  c_PayoutUser :: string
  c_Settled :: bool

definition IsOverdue :: "cycle \<Rightarrow> time \<Rightarrow> bool" where
  "IsOverdue c now \<longleftrightarrow> c_Deadline c < now"

section \<open>Groups (group.go)\<close>

datatype group_state = GroupCreated | GroupActive | GroupSettlement | GroupClosed

fun group_state_string :: "group_state \<Rightarrow> string" where
  "group_state_string GroupCreated = ''CREATED''"
| "group_state_string GroupActive = ''ACTIVE''"
| "group_state_string GroupSettlement = ''SETTLEMENT''"
| "group_state_string GroupClosed = ''CLOSED''"

text \<open>The table maps each state to the states it may go to; an absent entry reads as false.\<close>

definition allowedTransitions :: "(group_state \<times> group_state list) list" where
  "allowedTransitions =
     [(GroupCreated, [GroupActive]),
      (GroupActive, [GroupSettlement]),
      (GroupSettlement, [GroupClosed]),
      (GroupClosed, [])]"

record group =
  g_ID :: string
  g_ContractAddress :: string
  g_Name :: string
  g_OrganizerID :: string
  g_ContributionAmount :: money
  g_CycleLength :: duration
  g_MaxMembers :: int
  g_TotalCycles :: int
  g_Members :: "string list"
  g_PayoutOrder :: "string list"
  g_State :: group_state
  g_CreatedAt :: time
  g_ActivatedAt :: "time option"

definition ValidateConfig :: "group \<Rightarrow> err + unit" where
  "ValidateConfig g =
     (if g_Name g = '''' then Inl (Errorf ErrValidation ''group name is required'' [])
      else if sint (g_ContributionAmount g) \<le> 0
      then Inl (Errorf ErrValidation ''contribution amount must be positive'' [])
      else if sint (g_CycleLength g) \<le> 0
      then Inl (Errorf ErrValidation ''cycle length must be positive'' [])
      else if g_MaxMembers g < 2
      then Inl (Errorf ErrValidation ''max members must be at least 2'' [])
      else Inr ())"

definition HasMember :: "group \<Rightarrow> string \<Rightarrow> bool" where
  "HasMember g userID \<longleftrightarrow> list_ex (\<lambda>m. m = userID) (g_Members g)"

text \<open>The two loops of \<^verbatim>\<open>Validate\<close> over the set \<open>seen\<close>.\<close>

fun check_members :: "string set \<Rightarrow> string list \<Rightarrow> err + string set" where
  "check_members seen [] = Inr seen"
| "check_members seen (m # ms) =
     (if m \<in> seen then Inl (Errorf ErrValidation ''duplicate member %q'' [m])
      else check_members (insert m seen) ms)"

fun check_payees :: "string set \<Rightarrow> string list \<Rightarrow> err + unit" where
  "check_payees seen [] = Inr ()"
| "check_payees seen (p # ps) =
     (if p \<notin> seen then Inl (Errorf ErrValidation ''payout user %q is not a member'' [p])
      else check_payees seen ps)"

definition Validate :: "group \<Rightarrow> err + unit" where
  "Validate g =
     (if g_Name g = '''' then Inl (Errorf ErrValidation ''group name is required'' [])
      else if sint (g_ContributionAmount g) \<le> 0
      then Inl (Errorf ErrValidation ''contribution amount must be positive'' [])
      else if length (g_Members g) < 2
      then Inl (Errorf ErrValidation ''a group needs at least 2 members'' [])
      else if sint (g_CycleLength g) \<le> 0
      then Inl (Errorf ErrValidation ''cycle length must be positive'' [])
      else if length (g_PayoutOrder g) \<noteq> length (g_Members g)
      then Inl (Errorf ErrValidation ''payout order must cover every member exactly once'' [])
      else case check_members {} (g_Members g) of
             Inl e \<Rightarrow> Inl e
           | Inr seen \<Rightarrow> check_payees seen (g_PayoutOrder g))"

definition CanTransition :: "group \<Rightarrow> group_state \<Rightarrow> bool" where
  "CanTransition g nxt \<longleftrightarrow>
     (case map_of allowedTransitions (g_State g) of None \<Rightarrow> False | Some ns \<Rightarrow> List.member ns nxt)"

definition Transition :: "group \<Rightarrow> group_state \<Rightarrow> err + group" where
  "Transition g nxt =
     (if \<not> CanTransition g nxt
      then Inl (Errorf ErrInvalidTransition ''%s -> %s''
                  [group_state_string (g_State g), group_state_string nxt])
      else Inr (g\<lparr>g_State := nxt\<rparr>))"

text \<open>
  \<^verbatim>\<open>time.Duration(i+1) * time.Duration(g.CycleLength)\<close> is a product of 64-bit integers and
  wraps; \<^verbatim>\<open>start.Add\<close> adds its signed value.
\<close>

definition cycle_deadline :: "group \<Rightarrow> time \<Rightarrow> nat \<Rightarrow> time" where
  "cycle_deadline g start i = start + sint (of_nat (i + 1) * g_CycleLength g)"

fun cycles_from :: "group \<Rightarrow> time \<Rightarrow> nat \<Rightarrow> string list \<Rightarrow> cycle list" where
  "cycles_from g start i [] = []"
| "cycles_from g start i (payee # ps) =
     \<lparr>c_GroupID = g_ID g, c_Index = int i, c_Deadline = cycle_deadline g start i,
      c_PayoutUser = payee, c_Settled = False\<rparr> # cycles_from g start (i + 1) ps"

definition Cycles :: "group \<Rightarrow> time \<Rightarrow> cycle list" where
  "Cycles g start = cycles_from g start 0 (g_PayoutOrder g)"

subsection \<open>The order of the lifecycle\<close>

fun lifecycle_rank :: "group_state \<Rightarrow> nat" where
  "lifecycle_rank GroupCreated = 0"
| "lifecycle_rank GroupActive = 1"
| "lifecycle_rank GroupSettlement = 2"
| "lifecycle_rank GroupClosed = 3"

lemma lifecycle_rank_inject [simp]: "lifecycle_rank a = lifecycle_rank b \<longleftrightarrow> a = b"
  by (cases a; cases b) simp_all

instantiation group_state :: linorder
begin

definition less_eq_group_state :: "group_state \<Rightarrow> group_state \<Rightarrow> bool" where
  "less_eq_group_state a b \<longleftrightarrow> lifecycle_rank a \<le> lifecycle_rank b"

definition less_group_state :: "group_state \<Rightarrow> group_state \<Rightarrow> bool" where
  "less_group_state a b \<longleftrightarrow> lifecycle_rank a < lifecycle_rank b"

instance
  by standard (auto simp: less_eq_group_state_def less_group_state_def)

end

lemmas group_state_order = less_eq_group_state_def less_group_state_def

text \<open>
  The contract of a one-way lifecycle: a move always goes up. Then a run never comes back to a
  state it has left.
\<close>

locale one_way =
  fixes move :: "'s :: linorder \<Rightarrow> 's \<Rightarrow> bool"
  assumes move_up: "move a b \<Longrightarrow> a < b"
begin

lemma run_up: "rtranclp move a b \<Longrightarrow> a \<le> b"
  by (induction rule: rtranclp_induct) (auto dest: move_up)

lemma no_return: "move a b \<Longrightarrow> \<not> rtranclp move b a"
  using move_up run_up by fastforce

end

inductive lifecycle_move :: "group_state \<Rightarrow> group_state \<Rightarrow> bool" where
  "map_of allowedTransitions a = Some ns \<Longrightarrow> List.member ns b \<Longrightarrow> lifecycle_move a b"

inductive_simps lifecycle_move_iff: "lifecycle_move a b"

lemma CanTransition_move: "CanTransition g b \<longleftrightarrow> lifecycle_move (g_State g) b"
  by (auto simp: CanTransition_def lifecycle_move_iff split: option.splits)

lemma lifecycle_move_next: "lifecycle_move a b \<longleftrightarrow> lifecycle_rank b = Suc (lifecycle_rank a)"
  by (cases a; cases b) (simp_all add: lifecycle_move_iff allowedTransitions_def)

interpretation lifecycle: one_way lifecycle_move
  by unfold_locales (simp add: lifecycle_move_next group_state_order)

lemma Transition_state:
  "Transition g nxt = Inr g' \<longleftrightarrow> lifecycle_move (g_State g) nxt \<and> g' = g\<lparr>g_State := nxt\<rparr>"
  by (auto simp: Transition_def CanTransition_move)

subsection \<open>What the checks accept\<close>

lemma HasMember_iff [simp]: "HasMember g u \<longleftrightarrow> u \<in> set (g_Members g)"
  by (auto simp: HasMember_def list_ex_iff)

lemma ValidateConfig_ok:
  "ValidateConfig g = Inr x \<longleftrightarrow>
     g_Name g \<noteq> '''' \<and> 0 < sint (g_ContributionAmount g) \<and> 0 < sint (g_CycleLength g) \<and> 2 \<le> g_MaxMembers g"
  by (auto simp: ValidateConfig_def)

lemma check_members_ok:
  "check_members seen ms = Inr seen' \<longleftrightarrow> distinct ms \<and> set ms \<inter> seen = {} \<and> seen' = seen \<union> set ms"
  by (induction seen ms rule: check_members.induct) auto

lemma check_members_validation: "check_members seen ms = Inl e \<Longrightarrow> errors_Is e ErrValidation"
  by (induction seen ms rule: check_members.induct) (auto split: if_splits)

lemma check_payees_ok: "check_payees seen ps = Inr x \<longleftrightarrow> set ps \<subseteq> seen"
  by (induction seen ps rule: check_payees.induct) auto

lemma check_payees_validation: "check_payees seen ps = Inl e \<Longrightarrow> errors_Is e ErrValidation"
  by (induction seen ps rule: check_payees.induct) (auto split: if_splits)

lemma Validate_validation: "Validate g = Inl e \<Longrightarrow> errors_Is e ErrValidation"
  by (auto simp: Validate_def split: if_splits sum.splits
      dest: check_members_validation check_payees_validation)

lemma Validate_ok:
  "Validate g = Inr x \<longleftrightarrow>
     g_Name g \<noteq> '''' \<and> 0 < sint (g_ContributionAmount g) \<and> 2 \<le> length (g_Members g)
     \<and> 0 < sint (g_CycleLength g) \<and> length (g_PayoutOrder g) = length (g_Members g)
     \<and> distinct (g_Members g) \<and> set (g_PayoutOrder g) \<subseteq> set (g_Members g)"
proof (cases "check_members {} (g_Members g)")
  case (Inl e)
  then have "\<not> distinct (g_Members g)"
    using check_members_ok [of "{}" "g_Members g" "set (g_Members g)"] by auto
  with Inl show ?thesis
    by (auto simp: Validate_def)
next
  case (Inr seen)
  then show ?thesis
    using check_members_ok [of "{}" "g_Members g" seen] by (auto simp: Validate_def check_payees_ok)
qed

subsection \<open>The schedule\<close>

lemma length_cycles_from [simp]: "length (cycles_from g start i ps) = length ps"
  by (induction ps arbitrary: i) auto

lemma cycles_from_nth:
  "k < length ps \<Longrightarrow> cycles_from g start i ps ! k =
     \<lparr>c_GroupID = g_ID g, c_Index = int (i + k), c_Deadline = cycle_deadline g start (i + k),
      c_PayoutUser = ps ! k, c_Settled = False\<rparr>"
  by (induction ps arbitrary: i k) (auto simp: nth_Cons split: nat.split)

lemma Cycles_nth:
  "k < length (g_PayoutOrder g) \<Longrightarrow> Cycles g start ! k =
     \<lparr>c_GroupID = g_ID g, c_Index = int k, c_Deadline = cycle_deadline g start k,
      c_PayoutUser = g_PayoutOrder g ! k, c_Settled = False\<rparr>"
  by (simp add: Cycles_def cycles_from_nth)

lemma length_Cycles [simp]: "length (Cycles g start) = length (g_PayoutOrder g)"
  by (simp add: Cycles_def)

lemma map_c_Index_Cycles: "map c_Index (Cycles g start) = map int [0..<length (g_PayoutOrder g)]"
  by (rule nth_equalityI) (simp_all add: Cycles_nth)

text \<open>With a schedule that fits 64 bits the deadlines are the multiples of the cycle length.\<close>

lemma cycle_deadline_exact:
  assumes "0 < sint (g_CycleLength g)" and "(int i + 1) * sint (g_CycleLength g) < 2 ^ 63"
  shows "cycle_deadline g start i = start + (int i + 1) * sint (g_CycleLength g)"
proof -
  let ?L = "sint (g_CycleLength g)"
  have "0 \<le> (int i + 1) * ?L"
    using assms(1) by simp
  with assms(2) have "sint (word_of_int ((int i + 1) * ?L) :: 64 word) = (int i + 1) * ?L"
    by (intro sint64_word_of_int) simp_all
  then show ?thesis
    using mult64_of_nat [of "i + 1" "g_CycleLength g"] by (simp add: cycle_deadline_def add.commute)
qed

section \<open>Properties\<close>

text \<open>
  A transition is accepted exactly when it is the next step of
  CREATED, ACTIVE, SETTLEMENT, CLOSED, and then it changes the state and nothing else; any other
  is refused as an invalid transition.
\<close>

lemma Transition_next_state:
  "Transition g nxt =
     (if lifecycle_rank nxt = Suc (lifecycle_rank (g_State g)) then Inr (g\<lparr>g_State := nxt\<rparr>)
      else Inl (Errorf ErrInvalidTransition ''%s -> %s''
                  [group_state_string (g_State g), group_state_string nxt]))"
  by (simp add: Transition_def CanTransition_move lifecycle_move_next)

text \<open>
  C28: what a group must be to pass \<open>Validate\<close>: a name, a positive amount, at least two members,
  a positive cycle length, no member twice, and a payout order as long as the membership and made
  of members only.
\<close>

theorem Validate_accepts:
  "(Validate g = Inr ()) =
     (g_Name g \<noteq> '''' \<and> 0 < sint (g_ContributionAmount g) \<and> 2 \<le> length (g_Members g)
      \<and> 0 < sint (g_CycleLength g) \<and> length (g_PayoutOrder g) = length (g_Members g)
      \<and> distinct (g_Members g) \<and> set (g_PayoutOrder g) \<subseteq> set (g_Members g))"
  by (rule Validate_ok)

text \<open>
  The accepted payout order need not cover every member: a group of two passes \<open>Validate\<close>
  with the first member paid in both cycles and the second in none, although the check's own
  message asks that the order cover every member exactly once.
\<close>

lemma Validate_accepts_repeated_payee:
  "\<exists>g. Validate g = Inr () \<and> g_Members g = [''a'', ''b''] \<and> map c_PayoutUser (Cycles g 0) = [''a'', ''a'']"
proof -
  let ?g = "\<lparr>g_ID = ''g'', g_ContractAddress = '''', g_Name = ''n'', g_OrganizerID = ''a'',
    g_ContributionAmount = 100, g_CycleLength = 1000, g_MaxMembers = 2, g_TotalCycles = 2,
    g_Members = [''a'', ''b''], g_PayoutOrder = [''a'', ''a''], g_State = GroupCreated,
    g_CreatedAt = 0, g_ActivatedAt = None\<rparr>"
  have "Validate ?g = Inr ()"
    by (simp add: Validate_ok)
  moreover have "map c_PayoutUser (Cycles ?g 0) = [''a'', ''a'']"
    by (simp add: Cycles_def)
  ultimately show ?thesis
    by (intro exI [of _ ?g]) simp
qed

text \<open>
  C29: the schedule of a group whose whole rotation fits in 64 bits of nanoseconds: one cycle per
  entry of the payout order, numbered from 0, unsettled, cycle k paying the k-th entry with its
  deadline exactly k + 1 cycle lengths after the start, so that deadlines strictly increase.
\<close>

theorem Cycles_schedule:
  assumes "0 < sint (g_CycleLength g)"
    and "int (length (g_PayoutOrder g)) * sint (g_CycleLength g) < 2 ^ 63"
  shows "Cycles g start =
      map (\<lambda>k. \<lparr>c_GroupID = g_ID g, c_Index = int k,
                c_Deadline = start + (int k + 1) * sint (g_CycleLength g),
                c_PayoutUser = g_PayoutOrder g ! k, c_Settled = False\<rparr>)
        [0..<length (g_PayoutOrder g)]
    \<and> sorted_wrt (<) (map c_Deadline (Cycles g start))"
proof -
  let ?L = "sint (g_CycleLength g)" and ?n = "length (g_PayoutOrder g)"
  have "cycle_deadline g start k = start + (int k + 1) * ?L" if "k < ?n" for k
  proof (rule cycle_deadline_exact [OF assms(1)])
    have "(int k + 1) * ?L \<le> int ?n * ?L"
      using that assms(1) by (intro mult_right_mono) simp_all
    with assms(2) show "(int k + 1) * ?L < 2 ^ 63"
      by linarith
  qed
  then have eq: "Cycles g start =
      map (\<lambda>k. \<lparr>c_GroupID = g_ID g, c_Index = int k, c_Deadline = start + (int k + 1) * ?L,
                c_PayoutUser = g_PayoutOrder g ! k, c_Settled = False\<rparr>) [0..<?n]"
    by (intro nth_equalityI) (simp_all add: Cycles_nth)
  moreover have "sorted_wrt (<) (map c_Deadline (Cycles g start))"
    unfolding eq using assms(1) by (simp add: sorted_wrt_iff_nth_less)
  ultimately show ?thesis
    by blast
qed

theorem Cycles_schedule_witness:
  "map c_Deadline (Cycles \<lparr>g_ID = ''g'', g_ContractAddress = '''', g_Name = ''n'', g_OrganizerID = ''a'',
      g_ContributionAmount = 100, g_CycleLength = 1000, g_MaxMembers = 2, g_TotalCycles = 2,
      g_Members = [''a'', ''b''], g_PayoutOrder = [''b'', ''a''], g_State = GroupCreated,
      g_CreatedAt = 0, g_ActivatedAt = None\<rparr> 50) = [1050, 2050]"
  by (subst Cycles_schedule [THEN conjunct1]) (simp_all add: upt_rec)

text \<open>
  C30: nothing bounds the cycle length from above, and the product that makes a deadline wraps: a
  group that passes \<open>Validate\<close> with a cycle length of 2^62 nanoseconds (146 years) has its second
  deadline before the start of the first cycle.
\<close>

theorem Cycles_deadline_wraps:
  "\<exists>g. Validate g = Inr () \<and> ValidateConfig g = Inr () \<and> length (Cycles g 0) = 2
     \<and> c_Deadline (Cycles g 0 ! 1) = - (2 ^ 63) \<and> IsOverdue (Cycles g 0 ! 1) 0"
proof -
  let ?g = "\<lparr>g_ID = ''g'', g_ContractAddress = '''', g_Name = ''n'', g_OrganizerID = ''a'',
    g_ContributionAmount = 100, g_CycleLength = 4611686018427387904, g_MaxMembers = 2, g_TotalCycles = 2,
    g_Members = [''a'', ''b''], g_PayoutOrder = [''b'', ''a''], g_State = GroupCreated,
    g_CreatedAt = 0, g_ActivatedAt = None\<rparr>"
  have "Validate ?g = Inr ()" "ValidateConfig ?g = Inr ()"
    by (simp_all add: Validate_ok ValidateConfig_ok)
  moreover have "c_Deadline (Cycles ?g 0 ! 1) = - (2 ^ 63)"
    by (simp add: Cycles_def cycle_deadline_def)
  ultimately show ?thesis
    by (intro exI [of _ ?g]) (simp add: IsOverdue_def)
qed

end
