(* ===== verification/Float64.thy ===== *)
theory Float64
  imports Complex_Main
begin

text \<open>
  Go's \<^verbatim>\<open>float64\<close>: a value is the real number it stands for, and every conversion
  from an integer and every arithmetic operation rounds its exact result to binary64, to nearest
  and ties to even, with gradual underflow. Infinities and NaN are not represented: the code
  that uses this theory never divides by zero and stays far from the largest finite value.
\<close>

definition round_even :: "real \<Rightarrow> int" where
  "round_even x =
     (let f = \<lfloor>x\<rfloor>; d = x - of_int f
      in if d < 1/2 then f else if 1/2 < d then f + 1 else if even f then f else f + 1)"

text \<open>The exponent of the unit in the last place: 52 below the leading bit, at least -1074.\<close>

definition f64_ulp_exp :: "real \<Rightarrow> int" where
  "f64_ulp_exp x = max (\<lfloor>log 2 \<bar>x\<bar>\<rfloor> - 52) (- 1074)"

definition f64_round :: "real \<Rightarrow> real" where
  "f64_round x =
     (if x = 0 then 0
      else of_int (round_even (x / 2 powr of_int (f64_ulp_exp x))) * 2 powr of_int (f64_ulp_exp x))"

definition f64_of_int :: "int \<Rightarrow> real" where
  "f64_of_int n = f64_round (of_int n)"

definition f64_div :: "real \<Rightarrow> real \<Rightarrow> real" where
  "f64_div a b = f64_round (a / b)"

definition f64_mul :: "real \<Rightarrow> real \<Rightarrow> real" where
  "f64_mul a b = f64_round (a * b)"

definition f64_add :: "real \<Rightarrow> real \<Rightarrow> real" where
  "f64_add a b = f64_round (a + b)"

definition f64_sub :: "real \<Rightarrow> real \<Rightarrow> real" where
  "f64_sub a b = f64_round (a - b)"

lemma round_even_of_int [simp]: "round_even (of_int n) = n"
  by (simp add: round_even_def)

lemma round_even_mono:
  assumes "x \<le> y"
  shows "round_even x \<le> round_even y"
proof (cases "\<lfloor>x\<rfloor> = \<lfloor>y\<rfloor>")
  case True
  with assms show ?thesis
    by (auto simp: round_even_def Let_def)
next
  case False
  with assms have "\<lfloor>x\<rfloor> + 1 \<le> \<lfloor>y\<rfloor>"
    using floor_mono [OF assms] by linarith
  moreover have "round_even x \<le> \<lfloor>x\<rfloor> + 1" "\<lfloor>y\<rfloor> \<le> round_even y"
    by (auto simp: round_even_def Let_def)
  ultimately show ?thesis
    by linarith
qed

lemma f64_round_0 [simp]: "f64_round 0 = 0"
  by (simp add: f64_round_def)

lemma f64_round_1 [simp]: "f64_round 1 = 1"
proof -
  have e: "f64_ulp_exp 1 = - 52"
    by (simp add: f64_ulp_exp_def)
  have p: "(2::real) powr (- 52) = inverse (2 ^ 52)"
    using powr_realpow [of "2::real" 52] by (simp only: powr_minus) simp
  have r: "round_even (2 ^ 52 :: real) = 2 ^ 52"
    using round_even_of_int [of "2 ^ 52"] by (simp only: of_int_power of_int_numeral)
  have "f64_round 1 = of_int (round_even (1 / 2 powr (- 52))) * 2 powr (- 52)"
    by (simp only: f64_round_def e one_neq_zero if_False of_int_minus of_int_numeral)
  also have "1 / 2 powr (- 52) = (2 ^ 52 :: real)"
    by (simp only: p inverse_eq_divide divide_divide_eq_right mult_1)
  also have "of_int (round_even (2 ^ 52 :: real)) * 2 powr (- 52) = (1 :: real)"
    by (simp only: r p of_int_power of_int_numeral) (rule right_inverse, rule power_not_zero, rule zero_neq_numeral [symmetric])
  finally show ?thesis .
qed

lemma f64_ulp_exp_mono: "0 < x \<Longrightarrow> x \<le> y \<Longrightarrow> f64_ulp_exp x \<le> f64_ulp_exp y"
proof -
  assume "0 < x" "x \<le> y"
  then have "\<lfloor>log 2 x\<rfloor> \<le> \<lfloor>log 2 y\<rfloor>"
    by (intro floor_mono) simp
  with \<open>0 < x\<close> \<open>x \<le> y\<close> show ?thesis
    by (simp add: f64_ulp_exp_def)
qed

lemma f64_round_nonneg: "0 \<le> x \<Longrightarrow> 0 \<le> f64_round x"
  using round_even_mono [of 0 "x / 2 powr of_int (f64_ulp_exp x)"] round_even_of_int [of 0]
  by (simp add: f64_round_def)

lemma f64_round_upper:
  assumes "0 < x"
  shows "f64_round x \<le> 2 powr (of_int (f64_ulp_exp x) + 53)"
proof -
  let ?e = "f64_ulp_exp x"
  have "\<lfloor>log 2 x\<rfloor> \<le> ?e + 52"
    using assms by (simp add: f64_ulp_exp_def)
  then have "log 2 x < of_int ?e + 53"
    by linarith
  then have "x < 2 powr (of_int ?e + 53)"
    using assms by (simp add: log_less_iff)
  then have "x / 2 powr of_int ?e \<le> of_int (2 ^ 53)"
    by (simp add: powr_add divide_le_eq mult.commute)
  then have "round_even (x / 2 powr of_int ?e) \<le> 2 ^ 53"
    using round_even_mono round_even_of_int by metis
  then have "of_int (round_even (x / 2 powr of_int ?e)) \<le> (2 ^ 53 :: real)"
    by (metis of_int_le_iff of_int_numeral of_int_power)
  then have "of_int (round_even (x / 2 powr of_int ?e)) * 2 powr of_int ?e \<le> 2 ^ 53 * (2 powr of_int ?e :: real)"
    by (intro mult_right_mono) simp_all
  with assms show ?thesis
    by (simp add: f64_round_def powr_add mult.commute)
qed

lemma f64_round_lower:
  assumes "0 < x" and "- 1074 < f64_ulp_exp x"
  shows "2 powr (of_int (f64_ulp_exp x) + 52) \<le> f64_round x"
proof -
  let ?e = "f64_ulp_exp x"
  have "\<lfloor>log 2 x\<rfloor> = ?e + 52"
    using assms by (simp add: f64_ulp_exp_def max_def split: if_splits)
  then have "of_int ?e + 52 \<le> log 2 x"
    by linarith
  then have "2 powr (of_int ?e + 52) \<le> x"
    using assms by (simp add: le_log_iff)
  then have "of_int (2 ^ 52) \<le> x / 2 powr of_int ?e"
    by (simp add: powr_add le_divide_eq mult.commute)
  then have "2 ^ 52 \<le> round_even (x / 2 powr of_int ?e)"
    using round_even_mono round_even_of_int by metis
  then have "(2 ^ 52 :: real) \<le> of_int (round_even (x / 2 powr of_int ?e))"
    by (metis of_int_le_iff of_int_numeral of_int_power)
  then have "2 ^ 52 * (2 powr of_int ?e :: real) \<le> of_int (round_even (x / 2 powr of_int ?e)) * 2 powr of_int ?e"
    by (intro mult_right_mono) simp_all
  with assms show ?thesis
    by (simp add: f64_round_def powr_add mult.commute)
qed

lemma f64_round_mono:
  assumes "0 \<le> x" and "x \<le> y"
  shows "f64_round x \<le> f64_round y"
proof (cases "x = 0")
  case True
  with assms show ?thesis
    by (simp add: f64_round_nonneg)
next
  case False
  with assms have x: "0 < x" and y: "0 < y"
    by auto
  have e: "f64_ulp_exp x \<le> f64_ulp_exp y"
    using x assms(2) by (rule f64_ulp_exp_mono)
  show ?thesis
  proof (cases "f64_ulp_exp x = f64_ulp_exp y")
    case True
    let ?u = "2 powr of_int (f64_ulp_exp y) :: real"
    have "round_even (x / ?u) \<le> round_even (y / ?u)"
      using assms(2) by (intro round_even_mono divide_right_mono) simp_all
    with x y True show ?thesis
      by (simp add: f64_round_def)
  next
    case False
    with e have lt: "f64_ulp_exp x + 1 \<le> f64_ulp_exp y"
      by linarith
    then have big: "- 1074 < f64_ulp_exp y"
      by (simp add: f64_ulp_exp_def)
    have "f64_round x \<le> 2 powr (of_int (f64_ulp_exp x) + 53)"
      using x by (rule f64_round_upper)
    also have "\<dots> \<le> 2 powr (of_int (f64_ulp_exp y) + 52)"
      using lt by (intro powr_mono) linarith+
    also have "\<dots> \<le> f64_round y"
      using y big by (rule f64_round_lower)
    finally show ?thesis .
  qed
qed

lemma f64_of_int_mono: "0 \<le> a \<Longrightarrow> a \<le> b \<Longrightarrow> f64_of_int a \<le> f64_of_int b"
  by (simp add: f64_of_int_def f64_round_mono)

lemma f64_of_int_ge_1: "1 \<le> a \<Longrightarrow> 1 \<le> f64_of_int a"
  using f64_of_int_mono [of 1 a] by (simp add: f64_of_int_def)

lemma f64_of_int_nonneg: "0 \<le> a \<Longrightarrow> 0 \<le> f64_of_int a"
  by (simp add: f64_of_int_def f64_round_nonneg)

text \<open>The quotient of two counts, the smaller over the larger, lies in the unit interval.\<close>

lemma f64_div_unit:
  assumes "0 \<le> a" and "a \<le> b" and "0 < b"
  shows "0 \<le> f64_div (f64_of_int a) (f64_of_int b) \<and> f64_div (f64_of_int a) (f64_of_int b) \<le> 1"
proof -
  let ?q = "f64_of_int a / f64_of_int b"
  have b: "1 \<le> f64_of_int b"
    using assms(3) by (intro f64_of_int_ge_1) simp
  have a: "0 \<le> f64_of_int a" "f64_of_int a \<le> f64_of_int b"
    using assms by (simp_all add: f64_of_int_nonneg f64_of_int_mono)
  then have "0 \<le> ?q" "?q \<le> 1"
    using b by simp_all
  then show ?thesis
    using f64_round_mono [of ?q 1] f64_round_nonneg [of ?q] by (simp add: f64_div_def)
qed

lemma f64_div_self: "0 < b \<Longrightarrow> f64_div (f64_of_int b) (f64_of_int b) = 1"
  using f64_of_int_ge_1 [of b] by (simp add: f64_div_def)

text \<open>Integers below \<open>2 ^ 53\<close> are doubles.\<close>

lemma f64_round_int:
  assumes "\<bar>n\<bar> < 2 ^ 53"
  shows "f64_round (of_int n) = of_int n"
proof (cases "n = 0")
  case False
  let ?x = "of_int n :: real"
  have "\<bar>?x\<bar> < 2 ^ 53"
    using assms by (metis of_int_abs of_int_less_iff of_int_numeral of_int_power)
  then have "\<bar>?x\<bar> < 2 powr 53"
    using powr_realpow [of 2 53] by simp
  then have "log 2 \<bar>?x\<bar> < 53"
    using False by (simp add: log_less_iff)
  then have "\<lfloor>log 2 \<bar>?x\<bar>\<rfloor> \<le> 52"
    by linarith
  then have e: "f64_ulp_exp ?x \<le> 0"
    by (simp add: f64_ulp_exp_def)
  then obtain k where k: "f64_ulp_exp ?x = - int k"
    by (metis nonpos_int_cases)
  have p: "2 powr of_int (f64_ulp_exp ?x) = (1 / 2 ^ k :: real)"
    using powr_realpow [of 2 k] by (simp add: k powr_minus inverse_eq_divide)
  have "?x / 2 powr of_int (f64_ulp_exp ?x) = of_int (n * 2 ^ k)"
    by (simp add: p)
  then have "f64_round ?x = of_int (n * 2 ^ k) * 2 powr of_int (f64_ulp_exp ?x)"
    using False by (simp add: f64_round_def del: of_int_mult)
  then show ?thesis
    by (simp add: p)
qed simp

lemma f64_of_int_exact: "\<bar>n\<bar> < 2 ^ 53 \<Longrightarrow> f64_of_int n = of_int n"
  by (simp add: f64_of_int_def f64_round_int)

end
