(* ===== verification/Domain_Ledger.thy ===== *)
theory Domain_Ledger
  imports Domain_Group Float64
begin

text \<open>
  \<^verbatim>\<open>internal/domain/contribution.go\<close>, \<^verbatim>\<open>payout.go\<close>, \<^verbatim>\<open>escrow.go\<close>,
  \<^verbatim>\<open>reputation.go\<close>, \<^verbatim>\<open>audit.go\<close>, \<^verbatim>\<open>notification.go\<close> and
  \<^verbatim>\<open>webhook.go\<close>: the records of the ledgers and the two folds over them, the escrow
  balance and the reputation summary.
\<close>

section \<open>Contributions and payouts\<close>

record contribution =
  co_ID :: string
  co_GroupID :: string
  co_UserID :: string
  co_CycleIndex :: int
  co_Amount :: money
  co_Commitment :: string
  co_Revealed :: bool
  co_PaidAt :: "time option"

definition ComputeContributionCommitment ::
  "(string \<Rightarrow> string) \<Rightarrow> string \<Rightarrow> string \<Rightarrow> int \<Rightarrow> money \<Rightarrow> string" where
  "ComputeContributionCommitment sha userID groupID cyc amount =
     Hash sha [userID, groupID, decimal cyc, decimal (sint amount)]"

record payout =
  po_ID :: string
  po_GroupID :: string
  po_CycleIndex :: int
  po_PayeeUserID :: string
  po_GrossAmount :: money
  po_ExpectedAmount :: money
  po_Shortfall :: money
  po_DisbursementRef :: string
  po_SettledAt :: time

section \<open>Audit, notifications, webhooks\<close>

record audit_entry =
  a_ID :: string
  a_ActorID :: string
  a_Action :: string
  a_Target :: string
  a_Detail :: string
  a_CreatedAt :: time

datatype notification_kind =
    NotifyContributionDue
  | NotifyContributionMade
  | NotifyPayoutSent
  | NotifyDefaultRecorded
  | NotifyJoinRequest
  | NotifyJoinDecision
  | NotifyInvitation
  | NotifyGroupActivated
  | NotifyRiskWarning

fun notification_kind_string :: "notification_kind \<Rightarrow> string" where
  "notification_kind_string NotifyContributionDue = ''contribution_due''"
| "notification_kind_string NotifyContributionMade = ''contribution_made''"
| "notification_kind_string NotifyPayoutSent = ''payout_sent''"
| "notification_kind_string NotifyDefaultRecorded = ''default_recorded''"
| "notification_kind_string NotifyJoinRequest = ''join_request''"
| "notification_kind_string NotifyJoinDecision = ''join_decision''"
| "notification_kind_string NotifyInvitation = ''invitation''"
| "notification_kind_string NotifyGroupActivated = ''group_activated''"
| "notification_kind_string NotifyRiskWarning = ''risk_warning''"

record notification =
  n_ID :: string
  n_UserID :: string
  n_Kind :: notification_kind
  n_Title :: string
  n_Body :: string
  n_Read :: bool
  n_CreatedAt :: time

record webhook =
  w_ID :: string
  w_URL :: string
  w_Secret :: string
  w_Active :: bool
  w_CreatedBy :: string
  w_CreatedAt :: time

record webhook_event =
  we_ID :: string
  we_Type :: string
  we_UserID :: string
  we_Data :: "(string \<times> string) list"
  we_Timestamp :: time

section \<open>Escrow (escrow.go)\<close>

datatype ledger_direction = LedgerCredit | LedgerDebit

record escrow_entry =
  e_ID :: string
  e_GroupID :: string
  e_CycleIndex :: int
  e_UserID :: string
  e_Direction :: ledger_direction
  e_Amount :: money
  e_Reference :: string
  e_Memo :: string
  e_CreatedAt :: time

definition escrow_step :: "money \<Rightarrow> escrow_entry \<Rightarrow> money" where
  "escrow_step bal e =
     (case e_Direction e of LedgerCredit \<Rightarrow> bal + e_Amount e | LedgerDebit \<Rightarrow> bal - e_Amount e)"

definition EscrowBalance :: "escrow_entry list \<Rightarrow> money" where
  "EscrowBalance entries = foldl escrow_step 0 entries"

text \<open>The signed amount of an entry; the balance is their sum modulo 2^64.\<close>

definition signed_amount :: "escrow_entry \<Rightarrow> money" where
  "signed_amount e = (case e_Direction e of LedgerCredit \<Rightarrow> e_Amount e | LedgerDebit \<Rightarrow> - e_Amount e)"

lemma foldl_escrow_step: "foldl escrow_step b es = b + sum_list (map signed_amount es)"
  by (induction es arbitrary: b)
    (simp_all add: escrow_step_def signed_amount_def split: ledger_direction.splits)

lemma EscrowBalance_sum: "EscrowBalance es = sum_list (map signed_amount es)"
  by (simp add: EscrowBalance_def foldl_escrow_step)

lemma EscrowBalance_Nil [simp]: "EscrowBalance [] = 0"
  by (simp add: EscrowBalance_def)

lemma EscrowBalance_append: "EscrowBalance (es @ fs) = EscrowBalance es + EscrowBalance fs"
  by (simp add: EscrowBalance_sum)

lemma EscrowBalance_single: "EscrowBalance [e] = signed_amount e"
  by (simp add: EscrowBalance_sum)

section \<open>Reputation (reputation.go)\<close>

datatype event_type =
    EventContributionMade
  | EventContributionMissed
  | EventPayoutReceived
  | EventGroupExit
  | EventGroupExpulsion

record reputation_event =
  r_ID :: string
  r_UserID :: string
  r_GroupID :: string
  r_CycleIndex :: int
  r_Type :: event_type
  r_Amount :: money
  r_ProofHash :: string
  r_Timestamp :: time

record reputation_summary =
  rs_UserID :: string
  rs_ContributionsMade :: int
  rs_ContributionsMissed :: int
  rs_PayoutsReceived :: int
  rs_GroupExits :: int
  rs_Expulsions :: int
  rs_TotalContributed :: money
  rs_TotalMissed :: money
  rs_ReliabilityRatio :: real

definition summary_step :: "string \<Rightarrow> reputation_summary \<Rightarrow> reputation_event \<Rightarrow> reputation_summary" where
  "summary_step userID s e =
     (if r_UserID e \<noteq> userID then s
      else case r_Type e of
          EventContributionMade \<Rightarrow>
            s\<lparr>rs_ContributionsMade := rs_ContributionsMade s + 1,
              rs_TotalContributed := rs_TotalContributed s + r_Amount e\<rparr>
        | EventContributionMissed \<Rightarrow>
            s\<lparr>rs_ContributionsMissed := rs_ContributionsMissed s + 1,
              rs_TotalMissed := rs_TotalMissed s + r_Amount e\<rparr>
        | EventPayoutReceived \<Rightarrow> s\<lparr>rs_PayoutsReceived := rs_PayoutsReceived s + 1\<rparr>
        | EventGroupExit \<Rightarrow> s\<lparr>rs_GroupExits := rs_GroupExits s + 1\<rparr>
        | EventGroupExpulsion \<Rightarrow> s\<lparr>rs_Expulsions := rs_Expulsions s + 1\<rparr>)"

definition SummariseReputation :: "string \<Rightarrow> reputation_event list \<Rightarrow> reputation_summary" where
  "SummariseReputation userID events =
     (let s = foldl (summary_step userID)
            \<lparr>rs_UserID = userID, rs_ContributionsMade = 0, rs_ContributionsMissed = 0,
             rs_PayoutsReceived = 0, rs_GroupExits = 0, rs_Expulsions = 0,
             rs_TotalContributed = 0, rs_TotalMissed = 0, rs_ReliabilityRatio = 1\<rparr> events;
          obligations = rs_ContributionsMade s + rs_ContributionsMissed s
      in if 0 < obligations
         then s\<lparr>rs_ReliabilityRatio := f64_div (f64_of_int (rs_ContributionsMade s)) (f64_of_int obligations)\<rparr>
         else s)"

text \<open>What the fold computes, field by field.\<close>

definition events_of :: "string \<Rightarrow> event_type \<Rightarrow> reputation_event list \<Rightarrow> reputation_event list" where
  "events_of userID t = filter (\<lambda>e. r_UserID e = userID \<and> r_Type e = t)"

definition reliability :: "nat \<Rightarrow> nat \<Rightarrow> real" where
  "reliability made missed =
     (if 0 < int made + int missed then f64_div (f64_of_int (int made)) (f64_of_int (int made + int missed)) else 1)"

lemma events_of_simps:
  "events_of u t [] = []"
  "events_of u t (e # es) = (if r_UserID e = u \<and> r_Type e = t then e # events_of u t es else events_of u t es)"
  by (simp_all add: events_of_def)

lemma summary_step_other: "r_UserID e \<noteq> u \<Longrightarrow> summary_step u s e = s"
  by (simp add: summary_step_def)

lemma foldl_summary_step:
  "foldl (summary_step u) s es = s\<lparr>
     rs_ContributionsMade := rs_ContributionsMade s + int (length (events_of u EventContributionMade es)),
     rs_ContributionsMissed := rs_ContributionsMissed s + int (length (events_of u EventContributionMissed es)),
     rs_PayoutsReceived := rs_PayoutsReceived s + int (length (events_of u EventPayoutReceived es)),
     rs_GroupExits := rs_GroupExits s + int (length (events_of u EventGroupExit es)),
     rs_Expulsions := rs_Expulsions s + int (length (events_of u EventGroupExpulsion es)),
     rs_TotalContributed := rs_TotalContributed s + sum_list (map r_Amount (events_of u EventContributionMade es)),
     rs_TotalMissed := rs_TotalMissed s + sum_list (map r_Amount (events_of u EventContributionMissed es))\<rparr>"
proof (induction es arbitrary: s)
  case Nil
  then show ?case by (simp add: events_of_simps)
next
  case (Cons e es)
  show ?case
  proof (cases "r_UserID e = u")
    case False
    then show ?thesis
      by (simp add: Cons.IH summary_step_other events_of_simps)
  next
    case True
    then show ?thesis
      by (cases "r_Type e") (simp_all add: Cons.IH events_of_simps, simp_all add: summary_step_def)
  qed
qed

lemma SummariseReputation_fields:
  "SummariseReputation u es = \<lparr>
     rs_UserID = u,
     rs_ContributionsMade = int (length (events_of u EventContributionMade es)),
     rs_ContributionsMissed = int (length (events_of u EventContributionMissed es)),
     rs_PayoutsReceived = int (length (events_of u EventPayoutReceived es)),
     rs_GroupExits = int (length (events_of u EventGroupExit es)),
     rs_Expulsions = int (length (events_of u EventGroupExpulsion es)),
     rs_TotalContributed = sum_list (map r_Amount (events_of u EventContributionMade es)),
     rs_TotalMissed = sum_list (map r_Amount (events_of u EventContributionMissed es)),
     rs_ReliabilityRatio =
       reliability (length (events_of u EventContributionMade es)) (length (events_of u EventContributionMissed es))\<rparr>"
  by (auto simp: SummariseReputation_def foldl_summary_step Let_def reliability_def)

lemma reliability_unit: "0 \<le> reliability a b \<and> reliability a b \<le> 1"
  using f64_div_unit [of "int a" "int a + int b"] by (auto simp: reliability_def)

lemma reliability_no_miss [simp]: "reliability a 0 = 1"
  by (simp add: reliability_def f64_div_self)

lemma length_events_of_perm: "mset es = mset fs \<Longrightarrow> mset (events_of u t es) = mset (events_of u t fs)"
  by (simp add: events_of_def)

section \<open>Properties\<close>

text \<open>
  A contribution commitment binds the exact user, group, cycle and amount, for identifiers that
  \<open>NewID\<close> made: a payment cannot be re-attributed to another of them.
\<close>

lemma contribution_commitment_binds:
  assumes "inj sha"
    and "ComputeContributionCommitment sha (NewID u) (NewID g) cyc amount
       = ComputeContributionCommitment sha (NewID u') (NewID g') cyc' amount'"
  shows "u = u' \<and> g = g' \<and> cyc = cyc' \<and> amount = amount'"
proof -
  let ?ps = "[NewID u, NewID g, decimal cyc, decimal (sint amount)]"
  let ?qs = "[NewID u', NewID g', decimal cyc', decimal (sint amount')]"
  have "join unit_sep ?ps = join unit_sep ?qs"
    using assms(2) by (simp only: ComputeContributionCommitment_def Hash_inject_sep [OF assms(1)])
  then have "?ps = ?qs"
    by (intro join_inject [of ?ps ?qs unit_sep]) (simp_all add: NewID_plain decimal_no_sep)
  then show ?thesis
    by (auto intro: signed_word_eqI)
qed

text \<open>
  The escrow balance is all credits less all debits in 64-bit arithmetic, whatever the order of
  the entries; in particular a longer ledger's balance is the sum of its parts' balances.
\<close>

lemma EscrowBalance_credits_less_debits:
  "EscrowBalance es = sum_list (map e_Amount (filter (\<lambda>e. e_Direction e = LedgerCredit) es))
                    - sum_list (map e_Amount (filter (\<lambda>e. e_Direction e = LedgerDebit) es))"
  by (induction es) (auto simp: EscrowBalance_sum signed_amount_def split: ledger_direction.splits)

text \<open>
  C32: the reputation summary depends on the events of the log only as a collection, not on their
  order or on other users' events, and its reliability ratio lies in the unit interval and is 1
  when the user missed nothing.
\<close>

theorem SummariseReputation_order_independent:
  assumes "mset (filter (\<lambda>e. r_UserID e = u) es) = mset (filter (\<lambda>e. r_UserID e = u) fs)"
  shows "SummariseReputation u es = SummariseReputation u fs
    \<and> 0 \<le> rs_ReliabilityRatio (SummariseReputation u es)
    \<and> rs_ReliabilityRatio (SummariseReputation u es) \<le> 1
    \<and> (rs_ContributionsMissed (SummariseReputation u es) = 0
         \<longrightarrow> rs_ReliabilityRatio (SummariseReputation u es) = 1)"
proof -
  have same: "mset (events_of u t es) = mset (events_of u t fs)" for t
  proof -
    have "mset (events_of u t xs) = filter_mset (\<lambda>e. r_Type e = t) (mset (filter (\<lambda>e. r_UserID e = u) xs))" for xs
      by (simp add: events_of_def filter_filter_mset conj_commute)
    then show ?thesis
      using assms by simp
  qed
  have len: "length (events_of u t es) = length (events_of u t fs)" for t
    using same [of t] by (metis size_mset)
  have sums: "sum_list (map r_Amount (events_of u t es)) = sum_list (map r_Amount (events_of u t fs))" for t
    using same [of t] by (metis mset_map sum_mset_sum_list)
  show ?thesis
    using reliability_unit by (simp add: SummariseReputation_fields len sums)
qed

theorem SummariseReputation_order_independent_witness:
  "rs_ReliabilityRatio (SummariseReputation ''a''
     [\<lparr>r_ID = ''1'', r_UserID = ''b'', r_GroupID = ''g'', r_CycleIndex = 0, r_Type = EventContributionMissed,
       r_Amount = 5, r_ProofHash = '''', r_Timestamp = 0\<rparr>,
      \<lparr>r_ID = ''2'', r_UserID = ''a'', r_GroupID = ''g'', r_CycleIndex = 0, r_Type = EventContributionMade,
       r_Amount = 5, r_ProofHash = '''', r_Timestamp = 0\<rparr>]) = 1"
  (is "rs_ReliabilityRatio (SummariseReputation _ [?x, ?y]) = 1")
proof -
  have "mset (filter (\<lambda>e. r_UserID e = ''a'') [?x, ?y]) = mset (filter (\<lambda>e. r_UserID e = ''a'') [?y, ?x])"
    by simp
  from SummariseReputation_order_independent [OF this]
  show ?thesis
    by (simp add: SummariseReputation_fields events_of_def)
qed

end
