(* ===== verification/Store_Contracts.thy ===== *)
theory Store_Contracts
  imports Domain_Ledger
begin

text \<open>
  What the orchestration layer relies on in \<^verbatim>\<open>internal/store/store.go\<close>, as contracts an
  implementation of the interface provides: a table that returns what was last saved under a key,
  a log that only grows, and the escrow ledger as a log whose balance is known after each entry.
\<close>

section \<open>A keyed table\<close>

text \<open>
  \<open>addr\<close> is where a key is kept: an implementation may keep two keys at the same place only
  if it confuses them everywhere.
\<close>

locale keyed_store =
  fixes addr :: "'k \<Rightarrow> 'a"
    and key :: "'v \<Rightarrow> 'k"
    and save :: "'v \<Rightarrow> 's \<Rightarrow> 's"
    and get :: "'s \<Rightarrow> 'k \<Rightarrow> err + 'v"
  assumes get_save: "get (save v s) k = (if addr k = addr (key v) then Inr v else get s k)"
begin

lemma get_save_same: "get (save v s) (key v) = Inr v"
  by (simp add: get_save)

lemma get_save_other: "addr k \<noteq> addr (key v) \<Longrightarrow> get (save v s) k = get s k"
  by (simp add: get_save)

lemma get_saves_other: "addr k \<notin> (addr \<circ> key) ` set vs \<Longrightarrow> get (fold save vs s) k = get s k"
  by (induction vs arbitrary: s) (auto simp: get_save)

lemma get_saves:
  "distinct (map (addr \<circ> key) vs) \<Longrightarrow> v \<in> set vs \<Longrightarrow> get (fold save vs s) (key v) = Inr v"
proof (induction vs arbitrary: s)
  case (Cons w ws)
  show ?case
  proof (cases "v \<in> set ws")
    case True
    with Cons show ?thesis by simp
  next
    case False
    with Cons.prems have "v = w" and "addr (key w) \<notin> (addr \<circ> key) ` set ws"
      by auto
    then show ?thesis
      using get_saves_other [of "key w" ws "save w s"] by (simp add: get_save)
  qed
qed simp

lemma get_saves_cases:
  "get (fold save vs s) k = Inr v \<Longrightarrow> (v \<in> set vs \<and> addr k = addr (key v)) \<or> get s k = Inr v"
  by (induction vs arbitrary: s) (fastforce simp: get_save split: if_splits)+

end

section \<open>An append-only log\<close>

locale append_log =
  fixes owner :: "'e \<Rightarrow> 'k"
    and append :: "'e \<Rightarrow> 's \<Rightarrow> 's"
    and entries :: "'s \<Rightarrow> 'k \<Rightarrow> 'e list"
  assumes entries_append:
    "entries (append e s) k = (if owner e = k then entries s k @ [e] else entries s k)"
begin

lemma entries_appends: "entries (fold append es s) k = entries s k @ filter (\<lambda>e. owner e = k) es"
  by (induction es arbitrary: s) (simp_all add: entries_append)

lemma entries_grow: "\<exists>new. entries (fold append es s) k = entries s k @ new"
  by (simp add: entries_appends)

end

text \<open>The escrow ledger is such a log, keyed by the group, and its balance moves by each entry.\<close>

locale escrow_ledger = append_log e_GroupID append entries
  for append :: "escrow_entry \<Rightarrow> 's \<Rightarrow> 's" and entries :: "'s \<Rightarrow> string \<Rightarrow> escrow_entry list"
begin

lemma balance_append:
  "EscrowBalance (entries (append e s) k)
     = EscrowBalance (entries s k) + (if e_GroupID e = k then signed_amount e else 0)"
  by (simp add: entries_append EscrowBalance_append EscrowBalance_single)

lemma balance_appends:
  "EscrowBalance (entries (fold append es s) k)
     = EscrowBalance (entries s k) + EscrowBalance (filter (\<lambda>e. e_GroupID e = k) es)"
  by (simp add: entries_appends EscrowBalance_append)

end

end
