(* ===== verification/Memory_Store.thy ===== *)
theory Memory_Store
  imports Store_Contracts
begin

text \<open>
  \<^verbatim>\<open>internal/store/memory.go\<close>: the in-memory implementation of the interface of
  \<^verbatim>\<open>internal/store/store.go\<close>. Every method holds the store's mutex from its first to its
  last statement, so a method is one function of the state. Entities are kept by value: what a
  getter returns is a copy. \<^verbatim>\<open>sort.Slice\<close> may order equal keys in any way; the stable
  \<open>sort_key\<close> of a map's entries gives one such order for each iteration order of the map.
  The contracts of a keyed table and of an append-only log are the locales \<open>keyed_store\<close> and
  \<open>append_log\<close>, interpreted on the tables and logs of this store.
\<close>

section \<open>Keys\<close>

text \<open>The helper \<^verbatim>\<open>itoa\<close>, on 64-bit integers: negation wraps at the least one.\<close>

definition wrap64 :: "int \<Rightarrow> int" where
  "wrap64 x = sint (word_of_int x :: 64 word)"

function itoa_loop :: "int \<Rightarrow> string \<Rightarrow> string" where
  "itoa_loop i b = (if 0 < i then itoa_loop (i div 10) (char_of (48 + nat (i mod 10)) # b) else b)"
  by pat_completeness auto
termination
  by (relation "measure (\<lambda>(i, b). nat i)") auto

declare itoa_loop.simps [simp del]

definition itoa :: "int \<Rightarrow> string" where
  "itoa i =
     (if i = 0 then ''0''
      else let neg = i < 0;
               i = (if neg then wrap64 (- i) else i);
               b = itoa_loop i []
           in if neg then CHR ''-'' # b else b)"

definition memberKey :: "string \<Rightarrow> string \<Rightarrow> string" where
  "memberKey groupID userID = groupID @ ''|'' @ userID"

definition cycleKey :: "string \<Rightarrow> int \<Rightarrow> string" where
  "cycleKey groupID index = groupID @ ''|'' @ itoa index"

definition contribKey :: "string \<Rightarrow> string \<Rightarrow> int \<Rightarrow> string" where
  "contribKey groupID userID cyc = groupID @ ''|'' @ userID @ ''|'' @ itoa cyc"

section \<open>State\<close>

record memory =
  users :: "(string, user) gomap"
  groups :: "(string, group) gomap"
  memberships :: "(string, membership) gomap"
  joinRequests :: "(string, join_request) gomap"
  invitations :: "(string, invitation) gomap"
  cycles :: "(string, cycle) gomap"
  contributions :: "(string, contribution) gomap"
  payouts :: "payout list"
  escrow :: "escrow_entry list"
  reputation :: "(string, reputation_event list) gomap"
  notifications :: "(string, notification list) gomap"
  audit :: "audit_entry list"
  webhooks :: "(string, webhook) gomap"

definition NewMemory :: memory where
  "NewMemory = \<lparr>users = [], groups = [], memberships = [], joinRequests = [], invitations = [],
     cycles = [], contributions = [], payouts = [], escrow = [], reputation = [],
     notifications = [], audit = [], webhooks = []\<rparr>"

definition Health :: "memory \<Rightarrow> err + unit" where
  "Health m = Inr ()"

definition found :: "'a option \<Rightarrow> err + 'a" where
  "found r = (case r of None \<Rightarrow> Inl (sentinel_err ErrNotFound) | Some x \<Rightarrow> Inr x)"

subsection \<open>Pagination\<close>

record page =
  p_Offset :: int
  p_Limit :: int

definition paginate_bounds :: "int \<Rightarrow> page \<Rightarrow> int \<times> int" where
  "paginate_bounds cnt p =
     (let lim = (if p_Limit p \<le> 0 then 50 else p_Limit p);
          start = (if p_Offset p < 0 then 0 else p_Offset p);
          start = (if cnt < start then cnt else start);
          end' = wrap64 (start + lim);
          end' = (if cnt < end' then cnt else end')
      in (start, end'))"

text \<open>
  The slice has room for \<open>end' - start\<close> indices; Go panics when that is negative, which
  \<open>paginate_room\<close> rules out.
\<close>

definition paginate :: "int \<Rightarrow> page \<Rightarrow> int list" where
  "paginate cnt p = (case paginate_bounds cnt p of (start, end') \<Rightarrow> [start..end' - 1])"

text \<open>
  \<^verbatim>\<open>for i := range paginate(len(all), p) { x := all[i] ... }\<close>: with one variable,
  \<^verbatim>\<open>range\<close> over a slice yields the positions 0, 1, ... in it and not the indices it holds.
\<close>

definition pick_page :: "'a list \<Rightarrow> page \<Rightarrow> 'a list" where
  "pick_page xs p = map (\<lambda>i. xs ! i) [0..<length (paginate (int (length xs)) p)]"

section \<open>Operations\<close>

subsection \<open>Users\<close>

definition SaveUser :: "user \<Rightarrow> memory \<Rightarrow> memory" where
  "SaveUser u m = m\<lparr>users := gm_set (u_ID u) u (users m)\<rparr>"

definition GetUser :: "memory \<Rightarrow> string \<Rightarrow> err + user" where
  "GetUser m id' = found (gm_get (users m) id')"

definition GetUserByEmail :: "memory \<Rightarrow> string \<Rightarrow> err + user" where
  "GetUserByEmail m email = found (List.find (\<lambda>u. u_Email u = email) (gm_range (users m)))"

definition ListUsers :: "memory \<Rightarrow> page \<Rightarrow> user list \<times> int" where
  "ListUsers m p =
     (let all = sort_key u_CreatedAt (gm_range (users m)) in (pick_page all p, int (length all)))"

definition ListUsersByKYC :: "memory \<Rightarrow> kyc_status \<Rightarrow> user list" where
  "ListUsersByKYC m status =
     sort_key u_CreatedAt (filter (\<lambda>u. u_KYCStatus u = status) (gm_range (users m)))"

subsection \<open>Groups\<close>

definition SaveGroup :: "group \<Rightarrow> memory \<Rightarrow> memory" where
  "SaveGroup g m = m\<lparr>groups := gm_set (g_ID g) g (groups m)\<rparr>"

definition GetGroup :: "memory \<Rightarrow> string \<Rightarrow> err + group" where
  "GetGroup m id' = found (gm_get (groups m) id')"

definition ListGroups :: "memory \<Rightarrow> page \<Rightarrow> group list \<times> int" where
  "ListGroups m p =
     (let all = sort_key g_CreatedAt (gm_range (groups m)) in (pick_page all p, int (length all)))"

subsection \<open>Memberships\<close>

definition SaveMembership :: "membership \<Rightarrow> memory \<Rightarrow> memory" where
  "SaveMembership mem m =
     m\<lparr>memberships := gm_set (memberKey (m_GroupID mem) (m_UserID mem)) mem (memberships m)\<rparr>"

definition GetMembership :: "memory \<Rightarrow> string \<Rightarrow> string \<Rightarrow> err + membership" where
  "GetMembership m groupID userID = found (gm_get (memberships m) (memberKey groupID userID))"

definition ListMembershipsByGroup :: "memory \<Rightarrow> string \<Rightarrow> membership list" where
  "ListMembershipsByGroup m groupID =
     sort_key m_JoinedAt (filter (\<lambda>mem. m_GroupID mem = groupID) (gm_range (memberships m)))"

definition ListMembershipsByUser :: "memory \<Rightarrow> string \<Rightarrow> membership list" where
  "ListMembershipsByUser m userID = filter (\<lambda>mem. m_UserID mem = userID) (gm_range (memberships m))"

subsection \<open>Join requests and invitations\<close>

definition SaveJoinRequest :: "join_request \<Rightarrow> memory \<Rightarrow> memory" where
  "SaveJoinRequest j m = m\<lparr>joinRequests := gm_set (j_ID j) j (joinRequests m)\<rparr>"

definition GetJoinRequest :: "memory \<Rightarrow> string \<Rightarrow> err + join_request" where
  "GetJoinRequest m id' = found (gm_get (joinRequests m) id')"

definition ListJoinRequestsByGroup :: "memory \<Rightarrow> string \<Rightarrow> join_request list" where
  "ListJoinRequestsByGroup m groupID =
     sort_key j_CreatedAt (filter (\<lambda>j. j_GroupID j = groupID) (gm_range (joinRequests m)))"

definition SaveInvitation :: "invitation \<Rightarrow> memory \<Rightarrow> memory" where
  "SaveInvitation i m = m\<lparr>invitations := gm_set (i_ID i) i (invitations m)\<rparr>"

definition GetInvitation :: "memory \<Rightarrow> string \<Rightarrow> err + invitation" where
  "GetInvitation m id' = found (gm_get (invitations m) id')"

definition ListInvitationsByUser :: "memory \<Rightarrow> string \<Rightarrow> invitation list" where
  "ListInvitationsByUser m userID = filter (\<lambda>i. i_UserID i = userID) (gm_range (invitations m))"

subsection \<open>Cycles\<close>

definition SaveCycle :: "cycle \<Rightarrow> memory \<Rightarrow> memory" where
  "SaveCycle c m = m\<lparr>cycles := gm_set (cycleKey (c_GroupID c) (c_Index c)) c (cycles m)\<rparr>"

definition GetCycle :: "memory \<Rightarrow> string \<Rightarrow> int \<Rightarrow> err + cycle" where
  "GetCycle m groupID index = found (gm_get (cycles m) (cycleKey groupID index))"

definition ListCyclesByGroup :: "memory \<Rightarrow> string \<Rightarrow> cycle list" where
  "ListCyclesByGroup m groupID =
     sort_key c_Index (filter (\<lambda>c. c_GroupID c = groupID) (gm_range (cycles m)))"

subsection \<open>Contributions\<close>

definition SaveContribution :: "contribution \<Rightarrow> memory \<Rightarrow> memory" where
  "SaveContribution c m =
     m\<lparr>contributions :=
         gm_set (contribKey (co_GroupID c) (co_UserID c) (co_CycleIndex c)) c (contributions m)\<rparr>"

definition GetContribution :: "memory \<Rightarrow> string \<Rightarrow> string \<Rightarrow> int \<Rightarrow> err + contribution" where
  "GetContribution m groupID userID cyc =
     found (gm_get (contributions m) (contribKey groupID userID cyc))"

definition ListContributionsByCycle :: "memory \<Rightarrow> string \<Rightarrow> int \<Rightarrow> contribution list" where
  "ListContributionsByCycle m groupID cyc =
     filter (\<lambda>c. co_GroupID c = groupID \<and> co_CycleIndex c = cyc) (gm_range (contributions m))"

subsection \<open>Payouts, escrow, reputation\<close>

definition SavePayout :: "payout \<Rightarrow> memory \<Rightarrow> memory" where
  "SavePayout p m = m\<lparr>payouts := payouts m @ [p]\<rparr>"

definition ListPayoutsByGroup :: "memory \<Rightarrow> string \<Rightarrow> payout list" where
  "ListPayoutsByGroup m groupID = filter (\<lambda>p. po_GroupID p = groupID) (payouts m)"

definition AppendEscrowEntry :: "escrow_entry \<Rightarrow> memory \<Rightarrow> memory" where
  "AppendEscrowEntry e m = m\<lparr>escrow := escrow m @ [e]\<rparr>"

definition ListEscrowByGroup :: "memory \<Rightarrow> string \<Rightarrow> escrow_entry list" where
  "ListEscrowByGroup m groupID = filter (\<lambda>e. e_GroupID e = groupID) (escrow m)"

text \<open>An absent key reads as the empty slice.\<close>

definition slice_at :: "('k, 'v list) gomap \<Rightarrow> 'k \<Rightarrow> 'v list" where
  "slice_at m k = (case gm_get m k of None \<Rightarrow> [] | Some vs \<Rightarrow> vs)"

definition AppendReputationEvent :: "reputation_event \<Rightarrow> memory \<Rightarrow> memory" where
  "AppendReputationEvent e m =
     m\<lparr>reputation := gm_set (r_UserID e) (slice_at (reputation m) (r_UserID e) @ [e]) (reputation m)\<rparr>"

definition ReputationEvents :: "memory \<Rightarrow> string \<Rightarrow> reputation_event list" where
  "ReputationEvents m userID = slice_at (reputation m) userID"

definition AllReputationEvents :: "memory \<Rightarrow> page \<Rightarrow> reputation_event list \<times> int" where
  "AllReputationEvents m p =
     (let all = sort_key (\<lambda>e. - r_Timestamp e) (concat (gm_range (reputation m)))
      in (pick_page all p, int (length all)))"

subsection \<open>Webhooks, notifications, audit\<close>

definition SaveWebhook :: "webhook \<Rightarrow> memory \<Rightarrow> memory" where
  "SaveWebhook w m = m\<lparr>webhooks := gm_set (w_ID w) w (webhooks m)\<rparr>"

definition GetWebhook :: "memory \<Rightarrow> string \<Rightarrow> err + webhook" where
  "GetWebhook m id' = found (gm_get (webhooks m) id')"

definition ListWebhooks :: "memory \<Rightarrow> webhook list" where
  "ListWebhooks m = sort_key w_CreatedAt (gm_range (webhooks m))"

definition DeleteWebhook :: "string \<Rightarrow> memory \<Rightarrow> memory" where
  "DeleteWebhook id' m = m\<lparr>webhooks := gm_delete id' (webhooks m)\<rparr>"

definition SaveNotification :: "notification \<Rightarrow> memory \<Rightarrow> memory" where
  "SaveNotification n m =
     m\<lparr>notifications :=
         gm_set (n_UserID n) (slice_at (notifications m) (n_UserID n) @ [n]) (notifications m)\<rparr>"

definition ListNotificationsByUser :: "memory \<Rightarrow> string \<Rightarrow> notification list" where
  "ListNotificationsByUser m userID = slice_at (notifications m) userID"

definition AppendAudit :: "audit_entry \<Rightarrow> memory \<Rightarrow> memory" where
  "AppendAudit a m = m\<lparr>audit := audit m @ [a]\<rparr>"

definition ListAudit :: "memory \<Rightarrow> page \<Rightarrow> audit_entry list \<times> int" where
  "ListAudit m p =
     (let all = sort_key (\<lambda>a. - a_CreatedAt a) (audit m) in (pick_page all p, int (length all)))"

section \<open>The store provides the contracts\<close>

lemma found_cases: "found r = (case r of None \<Rightarrow> Inl (sentinel_err ErrNotFound) | Some x \<Rightarrow> Inr x)"
  by (rule found_def)

lemma found_simps [simp]:
  "found None = Inl (sentinel_err ErrNotFound)" "found (Some x) = Inr x"
  "found r = Inr x \<longleftrightarrow> r = Some x"
  "found r = Inl e \<longleftrightarrow> r = None \<and> e = sentinel_err ErrNotFound"
  by (auto simp: found_def split: option.splits)

interpretation user_table: keyed_store "\<lambda>k. k" u_ID SaveUser GetUser
  by unfold_locales (simp add: SaveUser_def GetUser_def gm_get_set)

interpretation group_table: keyed_store "\<lambda>k. k" g_ID SaveGroup GetGroup
  by unfold_locales (simp add: SaveGroup_def GetGroup_def gm_get_set)

interpretation membership_table: keyed_store "\<lambda>(g, u). memberKey g u" "\<lambda>m. (m_GroupID m, m_UserID m)"
    SaveMembership "\<lambda>m (g, u). GetMembership m g u"
  by unfold_locales (auto simp: SaveMembership_def GetMembership_def gm_get_set)

interpretation join_request_table: keyed_store "\<lambda>k. k" j_ID SaveJoinRequest GetJoinRequest
  by unfold_locales (simp add: SaveJoinRequest_def GetJoinRequest_def gm_get_set)

interpretation invitation_table: keyed_store "\<lambda>k. k" i_ID SaveInvitation GetInvitation
  by unfold_locales (simp add: SaveInvitation_def GetInvitation_def gm_get_set)

interpretation cycle_table: keyed_store "\<lambda>(g, i). cycleKey g i" "\<lambda>c. (c_GroupID c, c_Index c)"
    SaveCycle "\<lambda>m (g, i). GetCycle m g i"
  by unfold_locales (auto simp: SaveCycle_def GetCycle_def gm_get_set)

interpretation contribution_table: keyed_store "\<lambda>(g, u, i). contribKey g u i"
    "\<lambda>c. (co_GroupID c, co_UserID c, co_CycleIndex c)" SaveContribution "\<lambda>m (g, u, i). GetContribution m g u i"
  by unfold_locales (auto simp: SaveContribution_def GetContribution_def gm_get_set)

interpretation webhook_table: keyed_store "\<lambda>k. k" w_ID SaveWebhook GetWebhook
  by unfold_locales (simp add: SaveWebhook_def GetWebhook_def gm_get_set)

interpretation payout_log: append_log po_GroupID SavePayout ListPayoutsByGroup
  by unfold_locales (simp add: SavePayout_def ListPayoutsByGroup_def)

interpretation escrow_log: escrow_ledger AppendEscrowEntry ListEscrowByGroup
  by unfold_locales (simp add: AppendEscrowEntry_def ListEscrowByGroup_def)

interpretation reputation_log: append_log r_UserID AppendReputationEvent ReputationEvents
  by unfold_locales (simp add: AppendReputationEvent_def ReputationEvents_def slice_at_def gm_get_set)

interpretation notification_log: append_log n_UserID SaveNotification ListNotificationsByUser
  by unfold_locales (simp add: SaveNotification_def ListNotificationsByUser_def slice_at_def gm_get_set)

end
