(* ===== verification/Store_Facts.thy ===== *)
theory Store_Facts
  imports Memory_Store
begin

text \<open>
  Properties of the in-memory store: its keys, its well-formedness and what keeps it, what its
  listings return whatever order the maps are iterated in, and the bounds of a page.
\<close>

section \<open>Keys\<close>

lemma itoa_loop_digits: "0 < i \<Longrightarrow> itoa_loop i b = nat_digits (nat i) @ b"
proof (induction i b rule: itoa_loop.induct)
  case (1 i b)
  have pos: "itoa_loop i b = itoa_loop (i div 10) (char_of (48 + nat (i mod 10)) # b)"
    using "1.prems" by (subst itoa_loop.simps) simp
  show ?case
  proof (cases "i < 10")
    case True
    with "1.prems" have "itoa_loop (i div 10) bs = bs" for bs
      by (subst itoa_loop.simps) simp
    with True "1.prems" show ?thesis
      by (simp add: pos nat_digits.simps [of "nat i"])
  next
    case False
    then have "nat_digits (nat i) = nat_digits (nat i div 10) @ [char_of (48 + nat i mod 10)]"
      by (subst nat_digits.simps) simp
    moreover have "nat (i div 10) = nat i div 10" "nat (i mod 10) = nat i mod 10"
      using "1.prems" by (simp_all add: nat_div_distrib nat_mod_distrib)
    ultimately show ?thesis
      using 1 False by (simp add: pos)
  qed
qed

lemma wrap64_id: "- (2 ^ 63) \<le> x \<Longrightarrow> x < 2 ^ 63 \<Longrightarrow> wrap64 x = x"
  unfolding wrap64_def by (rule sint64_word_of_int)

lemma itoa_decimal:
  assumes "- (2 ^ 63) < i" and "i < 2 ^ 63"
  shows "itoa i = decimal i"
proof (cases "i = 0")
  case True
  moreover have "char_of (48 :: nat) = CHR ''0''"
    using char_of_char [of "CHR ''0''", where 'a = nat] by simp
  ultimately show ?thesis
    by (simp add: itoa_def decimal_def nat_digits.simps)
next
  case False
  with assms show ?thesis
    by (auto simp: itoa_def decimal_def wrap64_id itoa_loop_digits)
qed

lemma itoa_least: "itoa (- (2 ^ 63)) = ''-''"
  by (simp add: itoa_def wrap64_def itoa_loop.simps)

lemma itoa_no_bar: "CHR ''|'' \<notin> set (itoa i)"
proof -
  have *: "CHR ''|'' \<notin> set (itoa_loop j [])" for j
  proof (cases "0 < j")
    case True
    then show ?thesis
      using nat_digits_is_digit [of "CHR ''|''" "nat j"] by (auto simp: itoa_loop_digits)
  next
    case False
    then show ?thesis by (subst itoa_loop.simps) simp
  qed
  then show ?thesis
    by (simp add: itoa_def Let_def)
qed

lemma itoa_inject:
  "- (2 ^ 63) < i \<Longrightarrow> i < 2 ^ 63 \<Longrightarrow> - (2 ^ 63) < j \<Longrightarrow> j < 2 ^ 63 \<Longrightarrow> itoa i = itoa j \<longleftrightarrow> i = j"
  by (simp add: itoa_decimal)

lemma cycleKey_inject:
  "- (2 ^ 63) < i \<Longrightarrow> i < 2 ^ 63 \<Longrightarrow> - (2 ^ 63) < j \<Longrightarrow> j < 2 ^ 63 \<Longrightarrow>
   cycleKey g i = cycleKey h j \<longleftrightarrow> g = h \<and> i = j"
  by (simp add: cycleKey_def split_last_sep itoa_no_bar itoa_inject)

lemma memberKey_inject:
  "CHR ''|'' \<notin> set g \<Longrightarrow> CHR ''|'' \<notin> set h \<Longrightarrow> memberKey g u = memberKey h v \<longleftrightarrow> g = h \<and> u = v"
  by (simp add: memberKey_def split_first_sep)

lemma contribKey_inject:
  assumes "CHR ''|'' \<notin> set g" "CHR ''|'' \<notin> set h"
    and "- (2 ^ 63) < i" "i < 2 ^ 63" "- (2 ^ 63) < j" "j < 2 ^ 63"
  shows "contribKey g u i = contribKey h v j \<longleftrightarrow> g = h \<and> u = v \<and> i = j"
  using assms by (auto simp: contribKey_def split_first_sep split_last_sep itoa_no_bar itoa_inject)

section \<open>Well-formedness\<close>

text \<open>Every map holds each key once, and every entity under its own key.\<close>

definition kept_under :: "('v \<Rightarrow> 'k) \<Rightarrow> ('k, 'v) gomap \<Rightarrow> bool" where
  "kept_under key m \<longleftrightarrow> gm_ok m \<and> gm_all (\<lambda>k v. k = key v) m"

lemma kept_under_set: "kept_under key m \<Longrightarrow> k = key v \<Longrightarrow> kept_under key (gm_set k v m)"
  by (simp add: kept_under_def gm_ok_set gm_all_set)

lemma kept_under_empty [simp]: "kept_under key []"
  by (simp add: kept_under_def)

lemma kept_under_delete: "kept_under key m \<Longrightarrow> kept_under key (gm_delete k m)"
  by (auto simp: kept_under_def gm_ok_delete gm_all_def gm_get_delete split: if_splits)

lemma kept_under_range:
  "kept_under key m \<Longrightarrow> v \<in> set (gm_range m) \<longleftrightarrow> gm_get m (key v) = Some v"
  by (auto simp: kept_under_def gm_range_get gm_all_def)

lemma kept_under_distinct: "kept_under key m \<Longrightarrow> distinct (map key (gm_range m))"
proof -
  assume k: "kept_under key m"
  have "map key (gm_range m) = map fst m"
    unfolding gm_range_def map_map
  proof (rule map_cong [OF refl])
    fix e assume "e \<in> set m"
    then have "gm_get m (fst e) = Some (snd e)"
      using k by (simp add: kept_under_def gm_ok_def gm_get_def)
    then show "(key \<circ> snd) e = fst e"
      using k by (auto simp: kept_under_def dest: gm_allD)
  qed
  with k show ?thesis
    by (simp add: kept_under_def gm_ok_def)
qed

definition memory_ok :: "memory \<Rightarrow> bool" where
  "memory_ok m \<longleftrightarrow>
     kept_under u_ID (users m) \<and> kept_under g_ID (groups m)
     \<and> kept_under (\<lambda>x. memberKey (m_GroupID x) (m_UserID x)) (memberships m)
     \<and> kept_under j_ID (joinRequests m) \<and> kept_under i_ID (invitations m)
     \<and> kept_under (\<lambda>c. cycleKey (c_GroupID c) (c_Index c)) (cycles m)
     \<and> kept_under (\<lambda>c. contribKey (co_GroupID c) (co_UserID c) (co_CycleIndex c)) (contributions m)
     \<and> gm_ok (reputation m) \<and> gm_all (\<lambda>u es. \<forall>e \<in> set es. r_UserID e = u) (reputation m)
     \<and> gm_ok (notifications m) \<and> gm_all (\<lambda>u ns. \<forall>n \<in> set ns. n_UserID n = u) (notifications m)
     \<and> kept_under w_ID (webhooks m)"

lemmas memory_ops =
  SaveUser_def SaveGroup_def SaveMembership_def SaveJoinRequest_def SaveInvitation_def SaveCycle_def
  SaveContribution_def SavePayout_def AppendEscrowEntry_def AppendReputationEvent_def SaveWebhook_def
  DeleteWebhook_def SaveNotification_def AppendAudit_def

lemma memory_ok_New: "memory_ok NewMemory"
  by (simp add: memory_ok_def NewMemory_def)

lemma slice_at_all: "gm_all (\<lambda>k vs. \<forall>v \<in> set vs. P k v) m \<Longrightarrow> v \<in> set (slice_at m k) \<Longrightarrow> P k v"
  by (cases "gm_get m k") (simp_all add: slice_at_def gm_all_def)

lemma memory_ok_append_reputation: "memory_ok m \<Longrightarrow> memory_ok (AppendReputationEvent e m)"
  by (auto simp: memory_ok_def AppendReputationEvent_def gm_ok_set intro!: gm_all_set dest: slice_at_all)

lemma memory_ok_notification: "memory_ok m \<Longrightarrow> memory_ok (SaveNotification n m)"
  by (auto simp: memory_ok_def SaveNotification_def gm_ok_set intro!: gm_all_set dest: slice_at_all)

lemma memory_ok_ops [intro]:
  assumes "memory_ok m"
  shows "memory_ok (SaveUser u m)" "memory_ok (SaveGroup g m)" "memory_ok (SaveMembership mem m)"
    "memory_ok (SaveJoinRequest j m)" "memory_ok (SaveInvitation i m)" "memory_ok (SaveCycle c m)"
    "memory_ok (SaveContribution co m)" "memory_ok (SavePayout p m)" "memory_ok (AppendEscrowEntry e m)"
    "memory_ok (AppendReputationEvent r m)" "memory_ok (SaveWebhook w m)" "memory_ok (DeleteWebhook wid m)"
    "memory_ok (SaveNotification n m)" "memory_ok (AppendAudit a m)"
  using assms memory_ok_append_reputation memory_ok_notification
  by (simp_all add: memory_ok_def SaveUser_def SaveGroup_def SaveMembership_def SaveJoinRequest_def
      SaveInvitation_def SaveCycle_def SaveContribution_def SavePayout_def AppendEscrowEntry_def
      SaveWebhook_def DeleteWebhook_def AppendAudit_def kept_under_set kept_under_delete)

section \<open>Listings\<close>

text \<open>Entities kept under their keys are listed once, and two with the same key are one.\<close>

lemma kept_under_inj: "kept_under key m \<Longrightarrow> inj_on key (set (gm_range m))"
  using kept_under_distinct [of key m] by (simp add: distinct_map)

lemma kept_under_distinct_range: "kept_under key m \<Longrightarrow> distinct (gm_range m)"
  using kept_under_distinct [of key m] by (simp add: distinct_map)

lemma memory_ok_cycles: "memory_ok m \<Longrightarrow> kept_under (\<lambda>c. cycleKey (c_GroupID c) (c_Index c)) (cycles m)"
  by (simp add: memory_ok_def)

lemma cycles_of_group_inj:
  assumes "memory_ok m"
  shows "inj_on c_Index (set (filter (\<lambda>c. c_GroupID c = g) (gm_range (cycles m))))"
  using kept_under_inj [OF memory_ok_cycles [OF assms]] by (auto simp: inj_on_def)

lemma ListCyclesByGroup_set:
  "memory_ok m \<Longrightarrow> c \<in> set (ListCyclesByGroup m g) \<longleftrightarrow> c_GroupID c = g \<and> GetCycle m g (c_Index c) = Inr c"
  by (auto simp: ListCyclesByGroup_def GetCycle_def kept_under_range [OF memory_ok_cycles])

lemma ListCyclesByGroup_sorted:
  assumes "memory_ok m"
  shows "sorted_wrt (<) (map c_Index (ListCyclesByGroup m g))"
proof -
  let ?xs = "filter (\<lambda>c. c_GroupID c = g) (gm_range (cycles m))"
  have "distinct ?xs"
    using kept_under_distinct_range [OF memory_ok_cycles [OF assms]] by simp
  then have "distinct (map c_Index (sort_key c_Index ?xs))"
    using cycles_of_group_inj [OF assms, of g] by (simp only: distinct_map distinct_sort set_sort)
  then show ?thesis
    by (simp add: ListCyclesByGroup_def strict_sorted_iff)
qed

section \<open>Pages\<close>

lemma paginate_bounds_ok:
  assumes "0 \<le> n" "n < 2 ^ 62" "p_Limit p < 2 ^ 62"
  shows "\<exists>s e. paginate_bounds n p = (s, e) \<and> 0 \<le> s \<and> s \<le> e \<and> e \<le> n
     \<and> s = min n (max 0 (p_Offset p)) \<and> e = min n (s + (if p_Limit p \<le> 0 then 50 else p_Limit p))"
proof -
  define l where "l = (if p_Limit p \<le> 0 then 50 else p_Limit p)"
  define s where "s = min n (max 0 (p_Offset p))"
  have l: "0 < l" "l < 4611686018427387904"
    using assms(3) by (simp_all add: l_def)
  have s: "0 \<le> s" "s \<le> n"
    using assms(1) by (simp_all add: s_def)
  have w: "wrap64 (s + l) = s + l"
    using assms(2) l s by (intro wrap64_id) simp_all
  have "(if n < (if p_Offset p < 0 then 0 else p_Offset p) then n else (if p_Offset p < 0 then 0 else p_Offset p)) = s"
    using assms(1) by (simp add: s_def min_def max_def)
  then have "paginate_bounds n p = (s, min n (s + l))"
    by (simp only: paginate_bounds_def Let_def l_def [symmetric] w) (simp add: min_def)
  then show ?thesis
    unfolding l_def [symmetric] s_def [symmetric] using l s by (intro exI conjI) simp_all
qed

text \<open>The number of indices is at most the number of rows, so a page is a front part of the listing.\<close>

lemma paginate_room: "0 \<le> n \<Longrightarrow> length (paginate n p) \<le> nat n"
  by (auto simp: paginate_def paginate_bounds_def Let_def split: if_splits)

lemma pick_page_take: "pick_page xs p = take (length (paginate (int (length xs)) p)) xs"
  using paginate_room [of "int (length xs)" p] by (intro nth_equalityI) (simp_all add: pick_page_def)

lemma pick_page_set: "set (pick_page xs p) \<subseteq> set xs"
  by (simp add: pick_page_take set_take_subset)

lemma pick_page_distinct: "distinct (map f xs) \<Longrightarrow> distinct (map f (pick_page xs p))"
  by (simp add: pick_page_take flip: take_map)

lemma pick_page_length:
  assumes "int (length xs) < 2 ^ 62" and "p_Limit p < 2 ^ 62"
  shows "length (paginate (int (length xs)) p)
    = min (if p_Limit p \<le> 0 then 50 else nat (p_Limit p)) (length xs - nat (p_Offset p))"
proof -
  let ?n = "int (length xs)"
  obtain s e where b: "paginate_bounds ?n p = (s, e)" and se: "0 \<le> s" "s \<le> e" "e \<le> ?n"
    and s: "s = min ?n (max 0 (p_Offset p))"
    and e: "e = min ?n (s + (if p_Limit p \<le> 0 then 50 else p_Limit p))"
    using paginate_bounds_ok [of ?n p] assms by auto
  define l where "l = (if p_Limit p \<le> 0 then 50 else p_Limit p)"
  have room: "nat (?n - s) = length xs - nat (p_Offset p)"
    unfolding s by (cases "p_Offset p \<le> ?n"; cases "0 \<le> p_Offset p") simp_all
  have "e - s = min (?n - s) l"
    unfolding e l_def [symmetric] by (simp add: min_def)
  then have "length (paginate ?n p) = min (nat l) (nat (?n - s))"
    by (simp add: paginate_def b min_def) (auto dest: nat_mono)
  then show ?thesis
    unfolding room by (simp add: l_def)
qed

text \<open>
  C34: a page of the in-memory store has as many rows as the offset and the limit ask for (50 when
  the limit is not positive), but they are always the first rows of the listing: the offset only
  shortens the page. A listing of more than one page can never be read past its front part. The
  bound on the limit is satisfied by every caller: \<open>pageFrom\<close> caps it at 200, the service asks for
  at most 100000.
\<close>

theorem pick_page_ignores_offset:
  assumes "int (length xs) < 2 ^ 62" and "p_Limit p < 2 ^ 62"
  shows "pick_page xs p
    = take (min (if p_Limit p \<le> 0 then 50 else nat (p_Limit p)) (length xs - nat (p_Offset p))) xs"
  by (simp only: pick_page_take pick_page_length [OF assms])

theorem pick_page_ignores_offset_witness:
  "pick_page [10, 20, 30, 40 :: int] \<lparr>p_Offset = 2, p_Limit = 2\<rparr> = [10, 20]"
proof -
  have "int (length [10, 20, 30, 40 :: int]) < 2 ^ 62"
    "p_Limit \<lparr>p_Offset = 2, p_Limit = 2\<rparr> < 2 ^ 62"
    by simp_all
  from pick_page_ignores_offset [OF this] show ?thesis
    by simp
qed

section \<open>Properties\<close>

text \<open>
  The keys of the store's maps tell entities apart: for cycle numbers in the range of a 64-bit
  integer (all but the least one, which \<open>itoa\<close> prints as a lone minus sign) and identifiers made by
  \<open>NewID\<close>, equal keys mean equal cycles, memberships and contributions.
\<close>

lemma store_keys_injective:
  assumes "- (2 ^ 63) < i" "i < 2 ^ 63" "- (2 ^ 63) < j" "j < 2 ^ 63"
  shows "(cycleKey (NewID a) i = cycleKey (NewID b) j \<longleftrightarrow> a = b \<and> i = j)
    \<and> (memberKey (NewID a) u = memberKey (NewID b) v \<longleftrightarrow> a = b \<and> u = v)
    \<and> (contribKey (NewID a) u i = contribKey (NewID b) v j \<longleftrightarrow> a = b \<and> u = v \<and> i = j)"
  using assms
  by (auto simp: cycleKey_inject memberKey_inject contribKey_inject NewID_plain)

text \<open>
  \<open>itoa\<close> prints every 64-bit integer but the least as its decimal numeral, from which the
  number can be read back, and never writes more than the 20 bytes of its buffer.
\<close>

lemma itoa_roundtrip:
  assumes "- (2 ^ 63) < i" and "i < 2 ^ 63"
  shows "parse_decimal (itoa i) = i \<and> length (itoa i) \<le> 20"
proof -
  have "\<bar>i\<bar> < 10 ^ 19"
    using assms by simp
  then have "length (nat_digits (nat \<bar>i\<bar>)) \<le> 19"
    by (intro nat_digits_length) (simp_all add: nat_less_iff)
  then have "length (decimal i) \<le> 20"
    by (auto simp: decimal_def abs_if split: if_splits)
  then show ?thesis
    using assms by (simp add: itoa_decimal parse_decimal_decimal)
qed

lemma itoa_roundtrip_witness: "parse_decimal (itoa (-45)) = - 45 \<and> length (itoa (-45)) \<le> 20"
  using itoa_roundtrip [of "-45"] by simp

text \<open>
  The cycles of a group are listed by strictly increasing index, exactly those stored for the
  group, and the listing is the same in whatever order the map of cycles is iterated.
\<close>

lemma ListCyclesByGroup_exact:
  assumes "memory_ok m" and "memory_ok m'" and "mset (cycles m) = mset (cycles m')"
  shows "sorted_wrt (<) (map c_Index (ListCyclesByGroup m g))
    \<and> set (ListCyclesByGroup m g) = {c. c_GroupID c = g \<and> GetCycle m g (c_Index c) = Inr c}
    \<and> ListCyclesByGroup m g = ListCyclesByGroup m' g"
proof -
  have "mset (filter (\<lambda>c. c_GroupID c = g) (gm_range (cycles m)))
      = mset (filter (\<lambda>c. c_GroupID c = g) (gm_range (cycles m')))"
    using assms(3) by (simp add: gm_range_def)
  then have "ListCyclesByGroup m g = ListCyclesByGroup m' g"
    unfolding ListCyclesByGroup_def
    using cycles_of_group_inj [OF assms(1)] by (intro sort_key_inj_key_eq) simp_all
  then show ?thesis
    using ListCyclesByGroup_sorted [OF assms(1), of g] ListCyclesByGroup_set [OF assms(1), of _ g]
    by blast
qed

end
