(* ===== verification/Truth_Chain.thy ===== *)
theory Truth_Chain
  imports Domain_Ledger
begin

text \<open>
  \<^verbatim>\<open>internal/chain\<close>: the interface of the truth layer (\<^verbatim>\<open>chain.go\<close>) with its
  two implementations, the in-memory chain (\<^verbatim>\<open>memchain.go\<close>) and the EVM client
  (\<^verbatim>\<open>evm/evm.go\<close>, \<^verbatim>\<open>evm/abi.go\<close>). The go-ethereum library is an argument:
  the transaction call, the ABI decoder, the address and hex codecs and the blocks of the node.
  How events reach a subscriber is the locale \<open>event_channel\<close>, interpreted on
  \<open>emit\<close>.
\<close>

section \<open>Events (chain.go)\<close>

record default_event =
  d_GroupID :: string
  d_UserAddress :: string
  d_CycleIndex :: int
  d_MissedAmount :: money
  d_ProofHash :: string

record payout_event =
  pe_GroupID :: string
  pe_PayeeUserID :: string
  pe_CycleIndex :: int
  pe_Amount :: money

section \<open>A channel with room for a number of events\<close>

locale event_channel =
  fixes publish :: "'e \<Rightarrow> 'c \<Rightarrow> 'c"
    and live :: "'c \<Rightarrow> nat \<Rightarrow> bool"
    and pending :: "'c \<Rightarrow> nat \<Rightarrow> 'e list"
    and capacity :: nat
  assumes live_publish: "live (publish e c) k = live c k"
    and pending_publish: "live c k \<Longrightarrow> pending (publish e c) k
       = (if length (pending c k) < capacity then pending c k @ [e] else pending c k)"
begin

text \<open>Without a reader, a burst of events is kept up to the capacity and the rest is lost.\<close>

lemma pending_publishes:
  "live c k \<Longrightarrow> pending (fold publish es c) k = pending c k @ take (capacity - length (pending c k)) es"
proof (induction es arbitrary: c)
  case (Cons e es)
  then have "pending (fold publish (e # es) c) k
    = pending (publish e c) k @ take (capacity - length (pending (publish e c) k)) es"
    by (simp add: live_publish)
  then show ?case
    using Cons.prems by (cases "length (pending c k) < capacity") (auto simp: pending_publish take_Cons')
qed simp

lemma no_loss:
  "live c k \<Longrightarrow> length (pending c k) + length es \<le> capacity \<Longrightarrow> pending (fold publish es c) k = pending c k @ es"
  by (simp add: pending_publishes)

end

section \<open>The in-memory chain (memchain.go)\<close>

text \<open>
  A subscriber is a channel with a buffer of 64 events; channels are told apart by identity,
  here a number given at creation.
\<close>

record memchain =
  subscribers :: "(nat \<times> reputation_event list) list"
  next_chan :: nat

definition chan_capacity :: nat where
  "chan_capacity = 64"

definition NewMemChain :: memchain where
  "NewMemChain = \<lparr>subscribers = [], next_chan = 0\<rparr>"

definition txHash :: "(string \<Rightarrow> string) \<Rightarrow> string \<Rightarrow> string \<Rightarrow> string" where
  "txHash sha kind seed = Hash sha [''tx'', kind, seed]"

text \<open>\<^verbatim>\<open>select { case sub <- ev: default: }\<close>\<close>

definition offer :: "reputation_event \<Rightarrow> reputation_event list \<Rightarrow> reputation_event list" where
  "offer ev buf = (if length buf < chan_capacity then buf @ [ev] else buf)"

definition emit :: "reputation_event \<Rightarrow> memchain \<Rightarrow> memchain" where
  "emit ev m = m\<lparr>subscribers := map (\<lambda>(k, buf). (k, offer ev buf)) (subscribers m)\<rparr>"

definition mem_RegisterIdentity :: "(string \<Rightarrow> string) \<Rightarrow> string \<Rightarrow> err + string" where
  "mem_RegisterIdentity sha commitment = Inr (txHash sha ''identity'' commitment)"

definition mem_DeployGroup :: "(string \<Rightarrow> string) \<Rightarrow> group \<Rightarrow> err + string" where
  "mem_DeployGroup sha g =
     (let h = Hash sha [''group-contract'', g_ID g] in Inr (''0x'' @ take 40 (drop 2 h)))"

definition mem_ActivateGroup :: "(string \<Rightarrow> string) \<Rightarrow> string \<Rightarrow> err + string" where
  "mem_ActivateGroup sha contractAddress = Inr (txHash sha ''activate'' contractAddress)"

text \<open>\<open>evid\<close> is the event's \<open>NewID\<close> and \<open>now\<close> its \<^verbatim>\<open>time.Now().UTC()\<close>.\<close>

definition contribution_event ::
  "(string \<Rightarrow> string) \<Rightarrow> string \<Rightarrow> time \<Rightarrow> contribution \<Rightarrow> reputation_event" where
  "contribution_event sha evid now c =
     \<lparr>r_ID = evid, r_UserID = co_UserID c, r_GroupID = co_GroupID c, r_CycleIndex = co_CycleIndex c,
      r_Type = EventContributionMade, r_Amount = co_Amount c,
      r_ProofHash = txHash sha ''contribution'' (co_Commitment c), r_Timestamp = now\<rparr>"

definition mem_SubmitContribution ::
  "(string \<Rightarrow> string) \<Rightarrow> string \<Rightarrow> time \<Rightarrow> contribution \<Rightarrow> (memchain, string) act" where
  "mem_SubmitContribution sha evid now c m =
     (Inr (txHash sha ''contribution'' (co_Commitment c)), emit (contribution_event sha evid now c) m)"

definition missed_event ::
  "(string \<Rightarrow> string) \<Rightarrow> string \<Rightarrow> time \<Rightarrow> default_event \<Rightarrow> reputation_event" where
  "missed_event sha evid now ev =
     \<lparr>r_ID = evid, r_UserID = d_UserAddress ev, r_GroupID = d_GroupID ev, r_CycleIndex = d_CycleIndex ev,
      r_Type = EventContributionMissed, r_Amount = d_MissedAmount ev,
      r_ProofHash = txHash sha ''default'' (d_ProofHash ev), r_Timestamp = now\<rparr>"

definition mem_RecordDefault ::
  "(string \<Rightarrow> string) \<Rightarrow> string \<Rightarrow> time \<Rightarrow> default_event \<Rightarrow> (memchain, string) act" where
  "mem_RecordDefault sha evid now ev m =
     (Inr (txHash sha ''default'' (d_ProofHash ev)), emit (missed_event sha evid now ev) m)"

definition received_event ::
  "(string \<Rightarrow> string) \<Rightarrow> string \<Rightarrow> time \<Rightarrow> payout_event \<Rightarrow> reputation_event" where
  "received_event sha evid now ev =
     \<lparr>r_ID = evid, r_UserID = pe_PayeeUserID ev, r_GroupID = pe_GroupID ev, r_CycleIndex = pe_CycleIndex ev,
      r_Type = EventPayoutReceived, r_Amount = pe_Amount ev,
      r_ProofHash = txHash sha ''payout'' (pe_PayeeUserID ev), r_Timestamp = now\<rparr>"

definition mem_RecordPayout ::
  "(string \<Rightarrow> string) \<Rightarrow> string \<Rightarrow> time \<Rightarrow> payout_event \<Rightarrow> (memchain, string) act" where
  "mem_RecordPayout sha evid now ev m =
     (Inr (txHash sha ''payout'' (pe_PayeeUserID ev)), emit (received_event sha evid now ev) m)"

text \<open>\<^verbatim>\<open>Subscribe\<close>, and what its goroutine does when the context is cancelled.\<close>

definition mem_Subscribe :: "memchain \<Rightarrow> nat \<times> memchain" where
  "mem_Subscribe m =
     (next_chan m, m\<lparr>subscribers := subscribers m @ [(next_chan m, [])], next_chan := Suc (next_chan m)\<rparr>)"

fun remove_chan :: "nat \<Rightarrow> (nat \<times> reputation_event list) list \<Rightarrow> (nat \<times> reputation_event list) list" where
  "remove_chan ch [] = []"
| "remove_chan ch ((k, buf) # subs) = (if k = ch then subs else (k, buf) # remove_chan ch subs)"

definition mem_unsubscribe :: "nat \<Rightarrow> memchain \<Rightarrow> memchain" where
  "mem_unsubscribe ch m = m\<lparr>subscribers := remove_chan ch (subscribers m)\<rparr>"

text \<open>A receive from channel \<open>ch\<close>: the oldest buffered event, if any.\<close>

definition mem_receive :: "nat \<Rightarrow> memchain \<Rightarrow> reputation_event option \<times> memchain" where
  "mem_receive ch m =
     (case map_of (subscribers m) ch of
        Some (ev # buf) \<Rightarrow> (Some ev, m\<lparr>subscribers := AList.update ch buf (subscribers m)\<rparr>)
      | _ \<Rightarrow> (None, m))"

definition chan_live :: "memchain \<Rightarrow> nat \<Rightarrow> bool" where
  "chan_live m k \<longleftrightarrow> map_of (subscribers m) k \<noteq> None"

definition chan_pending :: "memchain \<Rightarrow> nat \<Rightarrow> reputation_event list" where
  "chan_pending m k = (case map_of (subscribers m) k of None \<Rightarrow> [] | Some buf \<Rightarrow> buf)"

lemma map_of_map_snd: "map_of (map (\<lambda>(k, v). (k, f v)) xs) k = map_option f (map_of xs k)"
  by (induction xs) auto

interpretation mem_channel: event_channel emit chan_live chan_pending chan_capacity
  by unfold_locales
    (auto simp: chan_live_def chan_pending_def emit_def offer_def map_of_map_snd split: option.splits)

section \<open>The EVM client (evm/evm.go, evm/abi.go)\<close>

text \<open>Of the client's state the code looks at whether a signer is configured; calls are numbered.\<close>

record evm_chain =
  ev_signer :: bool
  ev_calls :: nat

text \<open>\<^verbatim>\<open>var h [32]byte; copy(h[:], b)\<close>\<close>

definition to_bytes32 :: "string \<Rightarrow> string" where
  "to_bytes32 b = take 32 b @ replicate (32 - length b) (CHR 0x00)"

definition evm_RegisterIdentity ::
  "(nat \<Rightarrow> string \<Rightarrow> err + string) \<Rightarrow> (string \<Rightarrow> string) \<Rightarrow> string \<Rightarrow> (evm_chain, string) act" where
  "evm_RegisterIdentity transact from_hex commitment c =
     (if \<not> ev_signer c
      then (Inl (Errorf ErrOther ''evm: no signer configured (set ROTA_CHAIN_PRIVATE_KEY)'' []), c)
      else case transact (ev_calls c) (to_bytes32 (from_hex commitment)) of
             Inl e \<Rightarrow> (Inl (Wrapf ''register identity'' e), c\<lparr>ev_calls := Suc (ev_calls c)\<rparr>)
           | Inr tx \<Rightarrow> (Inr tx, c\<lparr>ev_calls := Suc (ev_calls c)\<rparr>))"

definition evm_DeployGroup :: "group \<Rightarrow> err + string" where
  "evm_DeployGroup g = Inl (Errorf ErrNotWired ''DeployGroup needs compiled group bytecode'' [])"

definition evm_ActivateGroup :: "string \<Rightarrow> err + string" where
  "evm_ActivateGroup addr = Inl (Errorf ErrNotWired ''ActivateGroup needs payout-order addresses'' [])"

definition evm_SubmitContribution :: "contribution \<Rightarrow> err + string" where
  "evm_SubmitContribution c =
     Inl (Errorf ErrNotWired ''SubmitContribution needs group address + keccak commitment'' [])"

definition evm_RecordDefault :: "default_event \<Rightarrow> err + string" where
  "evm_RecordDefault ev = Inl (Errorf ErrNotWired ''defaults are emitted by RotasavingsGroup.settle()'' [])"

definition evm_RecordPayout :: "payout_event \<Rightarrow> err + string" where
  "evm_RecordPayout ev = Inl (Errorf ErrNotWired ''payouts are emitted by RotasavingsGroup.settle()'' [])"

subsection \<open>Decoding and polling the event log\<close>

record evm_log =
  lg_Topics :: "string list"
  lg_Data :: string
  lg_TxHash :: string
  lg_Index :: nat

record rep_event_data =
  rd_CycleIndex :: int
  rd_EventType :: nat
  rd_Amount :: int
  rd_Timestamp :: nat

definition reputationEventOrdinal :: "event_type list" where
  "reputationEventOrdinal =
     [EventContributionMade, EventContributionMissed, EventPayoutReceived, EventGroupExit,
      EventGroupExpulsion]"

text \<open>
  \<open>unpack\<close> is the ABI decoder (\<open>None\<close>: an error) and \<open>address_hex\<close> the rendering of
  the address in a topic. \<^verbatim>\<open>big.Int.Int64\<close> keeps the low 64 bits, and
  \<^verbatim>\<open>int64(d.Timestamp)\<close> reads them as signed.
\<close>

definition decodeReputation ::
  "(string \<Rightarrow> rep_event_data option) \<Rightarrow> (string \<Rightarrow> string) \<Rightarrow> evm_log \<Rightarrow> reputation_event option" where
  "decodeReputation unpack address_hex lg =
     (if length (lg_Topics lg) < 3 then None
      else case unpack (lg_Data lg) of
          None \<Rightarrow> None
        | Some d \<Rightarrow>
            if length reputationEventOrdinal \<le> rd_EventType d then None
            else Some
              \<lparr>r_ID = lg_TxHash lg @ '':'' @ decimal (int (lg_Index lg)),
               r_UserID = address_hex (lg_Topics lg ! 1),
               r_GroupID = address_hex (lg_Topics lg ! 2),
               r_CycleIndex = sint (word_of_int (rd_CycleIndex d) :: 64 word),
               r_Type = reputationEventOrdinal ! rd_EventType d,
               r_Amount = word_of_int (rd_Amount d),
               r_ProofHash = lg_TxHash lg,
               r_Timestamp = sint (of_nat (rd_Timestamp d) :: 64 word) * 1000000000\<rparr>)"

text \<open>
  One tick of the polling goroutine, by what the node answers: no block number, a block number
  but no logs, or both. \<open>block_logs\<close> are the matching logs of each block, and
  \<^verbatim>\<open>FilterLogs\<close> of a range returns those of its blocks in order.
\<close>

datatype node_answer = NodeDown | FilterFails nat | NodeHead nat

definition FilterLogs :: "(nat \<Rightarrow> evm_log list) \<Rightarrow> nat \<Rightarrow> nat \<Rightarrow> evm_log list" where
  "FilterLogs block_logs from' to' = concat (map block_logs [from'..<Suc to'])"

definition evm_poll ::
  "(evm_log \<Rightarrow> reputation_event option) \<Rightarrow> (nat \<Rightarrow> evm_log list) \<Rightarrow> node_answer
   \<Rightarrow> nat \<times> reputation_event list \<Rightarrow> nat \<times> reputation_event list" where
  "evm_poll decode block_logs answer st =
     (case st of (from', out) \<Rightarrow>
       (case answer of
          NodeDown \<Rightarrow> (from', out)
        | FilterFails head \<Rightarrow> (from', out)
        | NodeHead head \<Rightarrow>
            if head < from' then (from', out)
            else (Suc head, out @ List.map_filter decode (FilterLogs block_logs from' head))))"

definition evm_polls ::
  "(evm_log \<Rightarrow> reputation_event option) \<Rightarrow> (nat \<Rightarrow> evm_log list) \<Rightarrow> nat \<Rightarrow> node_answer list
   \<Rightarrow> nat \<times> reputation_event list" where
  "evm_polls decode block_logs start answers =
     fold (evm_poll decode block_logs) answers (start, [])"

section \<open>The interface value\<close>

text \<open>A \<^verbatim>\<open>chain.TruthLayer\<close> is one of the two implementations.\<close>

datatype truth_layer = MemT memchain | EvmT evm_chain

section \<open>Properties\<close>

lemma map_filter_append [simp]: "List.map_filter f (xs @ ys) = List.map_filter f xs @ List.map_filter f ys"
  by (simp add: map_filter_def)

lemma evm_poll_range:
  assumes "start \<le> from'" and "out = List.map_filter decode (concat (map block_logs [start..<from']))"
    and "evm_poll decode block_logs a (from', out) = (next', out')"
  shows "from' \<le> next' \<and> out' = List.map_filter decode (concat (map block_logs [start..<next']))"
proof (cases a)
  case (NodeHead head)
  show ?thesis
  proof (cases "head < from'")
    case False
    then have "[start..<Suc head] = [start..<from'] @ [from'..<Suc head]"
      using assms(1) upt_add_eq_append [of start from' "Suc head - from'"] by simp
    then show ?thesis
      using assms False NodeHead by (auto simp: evm_poll_def FilterLogs_def)
  qed (use assms NodeHead in \<open>auto simp: evm_poll_def\<close>)
qed (use assms in \<open>auto simp: evm_poll_def\<close>)

lemma evm_polls_range:
  assumes "start \<le> from'" and "out = List.map_filter decode (concat (map block_logs [start..<from']))"
    and "fold (evm_poll decode block_logs) answers (from', out) = (next', out')"
  shows "from' \<le> next' \<and> out' = List.map_filter decode (concat (map block_logs [start..<next']))"
  using assms
proof (induction answers arbitrary: from' out)
  case (Cons a as)
  obtain mid outm where m: "evm_poll decode block_logs a (from', out) = (mid, outm)"
    by fastforce
  from evm_poll_range [OF Cons.prems(1,2) m] have *: "from' \<le> mid"
    "outm = List.map_filter decode (concat (map block_logs [start..<mid]))"
    by auto
  show ?case
    using Cons.IH [OF _ *(2)] Cons.prems *(1) m by auto
qed simp

text \<open>
  C39: polling an EVM node delivers the decodable logs of every block from the start block up to the
  last one covered exactly once and in order, whatever sequence of node failures, filter failures
  and heads that stand still or go back the polls meet. The logs of a block are fixed (\<open>block_logs\<close>): a
  reorganisation that replaces them is outside.
\<close>

theorem evm_polls_exactly_once:
  "snd (evm_polls decode block_logs start answers)
     = List.map_filter decode (concat (map block_logs [start..<fst (evm_polls decode block_logs start answers)]))"
proof -
  obtain n out where p: "evm_polls decode block_logs start answers = (n, out)"
    by fastforce
  then show ?thesis
    using evm_polls_range [of start start "[]" decode block_logs answers n out]
    by (simp add: evm_polls_def map_filter_def)
qed

text \<open>
  A burst of events the indexer does not drain reaches it up to the 64 the channel holds, in
  order, and every later one is dropped: reputation events can be lost.
\<close>

lemma emit_keeps_64:
  assumes "chan_live m k" and "chan_pending m k = []"
  shows "chan_pending (fold emit evs m) k = take 64 evs"
  using mem_channel.pending_publishes [OF assms(1), of evs] assms(2) by (simp add: chan_capacity_def)

end
