(* ===== verification/Payments.thy ===== *)
theory Payments
  imports Domain_Ledger
begin

text \<open>
  \<^verbatim>\<open>internal/payments\<close>: the interface of a payment rail (\<^verbatim>\<open>payments.go\<close>) and the
  development rail (\<^verbatim>\<open>mock.go\<close>). A rail is a remote service: its answer may depend on the
  number of the call. The locale \<open>reliable_rail\<close> is the contract of one that accepts every
  call, interpreted on the mock.
\<close>

record charge_request =
  ch_GroupID :: string
  ch_UserID :: string
  ch_CycleIndex :: int
  ch_Amount :: money
  ch_Source :: string

record disburse_request =
  di_GroupID :: string
  di_CycleIndex :: int
  di_PayeeUserID :: string
  di_Amount :: money
  di_Destination :: string

record rail_result =
  rr_Reference :: string
  rr_Success :: bool
  rr_Message :: string

text \<open>\<^verbatim>\<open>(Result, error)\<close>\<close>

type_synonym rail_answer = "rail_result \<times> err option"

record rail_provider =
  Charge :: "nat \<Rightarrow> charge_request \<Rightarrow> rail_answer"
  Disburse :: "nat \<Rightarrow> disburse_request \<Rightarrow> rail_answer"

text \<open>The test of both callers, \<^verbatim>\<open>err != nil || !res.Success\<close>, negated.\<close>

definition accepted :: "rail_answer \<Rightarrow> bool" where
  "accepted a \<longleftrightarrow> snd a = None \<and> rr_Success (fst a)"

definition errOr :: "err option \<Rightarrow> string \<Rightarrow> err" where
  "errOr e msg = (case e of Some e' \<Rightarrow> e' | None \<Rightarrow> Errorf ErrOther msg [])"

definition MockProvider_Charge :: "(string \<Rightarrow> string) \<Rightarrow> charge_request \<Rightarrow> rail_answer" where
  "MockProvider_Charge sha req =
     (\<lparr>rr_Reference = Hash sha [''charge'', ch_GroupID req, ch_UserID req, ch_Source req],
       rr_Success = True, rr_Message = ''charged (mock)''\<rparr>, None)"

definition MockProvider_Disburse :: "(string \<Rightarrow> string) \<Rightarrow> disburse_request \<Rightarrow> rail_answer" where
  "MockProvider_Disburse sha req =
     (\<lparr>rr_Reference = Hash sha [''disburse'', di_GroupID req, di_PayeeUserID req, di_Destination req],
       rr_Success = True, rr_Message = ''disbursed (mock)''\<rparr>, None)"

definition NewMockProvider :: "(string \<Rightarrow> string) \<Rightarrow> rail_provider" where
  "NewMockProvider sha = \<lparr>Charge = (\<lambda>_. MockProvider_Charge sha), Disburse = (\<lambda>_. MockProvider_Disburse sha)\<rparr>"

text \<open>The movements of money a rail has been asked for, with its answers.\<close>

datatype rail_call =
    ChargeCall charge_request rail_answer
  | DisburseCall disburse_request rail_answer

text \<open>What the accepted calls moved into the escrow of a group, less what they moved out.\<close>

fun call_amount :: "string \<Rightarrow> rail_call \<Rightarrow> money" where
  "call_amount g (ChargeCall r a) = (if accepted a \<and> ch_GroupID r = g then ch_Amount r else 0)"
| "call_amount g (DisburseCall r a) = (if accepted a \<and> di_GroupID r = g then - di_Amount r else 0)"

definition rail_balance :: "rail_call list \<Rightarrow> string \<Rightarrow> money" where
  "rail_balance cs g = sum_list (map (call_amount g) cs)"

lemma rail_balance_Nil [simp]: "rail_balance [] g = 0"
  by (simp add: rail_balance_def)

lemma rail_balance_snoc [simp]: "rail_balance (cs @ [c]) g = rail_balance cs g + call_amount g c"
  by (simp add: rail_balance_def)

locale reliable_rail =
  fixes rail :: rail_provider
  assumes charge_accepted: "accepted (Charge rail n creq)"
    and disburse_accepted: "accepted (Disburse rail n dreq)"
begin

lemma charge_split: "\<exists>res. Charge rail n creq = (res, None) \<and> rr_Success res"
  using charge_accepted [of n creq] by (cases "Charge rail n creq") (simp add: accepted_def)

lemma disburse_split: "\<exists>res. Disburse rail n dreq = (res, None) \<and> rr_Success res"
  using disburse_accepted [of n dreq] by (cases "Disburse rail n dreq") (simp add: accepted_def)

end

interpretation mock: reliable_rail "NewMockProvider sha" for sha
  by unfold_locales
    (simp_all add: accepted_def NewMockProvider_def MockProvider_Charge_def MockProvider_Disburse_def)

end
