(* ===== verification/Encodings.thy ===== *)
theory Encodings
  imports Rota_Prelude
begin

text \<open>
  The text encodings the authentication code takes from Go's library: \<^verbatim>\<open>strings.Split\<close>,
  unpadded base64 in the standard and in the URL alphabet (\<^verbatim>\<open>encoding/base64\<close>), and the
  \<open>%d\<close> of \<^verbatim>\<open>fmt.Sscanf\<close>; with the round trips their users need.
\<close>

section \<open>strings.Split with a one-byte separator\<close>

fun split_on :: "char \<Rightarrow> string \<Rightarrow> string list" where
  "split_on sep [] = [[]]"
| "split_on sep (c # cs) =
     (if c = sep then [] # split_on sep cs
      else case split_on sep cs of [] \<Rightarrow> [[c]] | p # ps \<Rightarrow> (c # p) # ps)"

lemma split_on_neq_Nil [simp]: "split_on sep s \<noteq> []"
  by (induction s) (auto split: list.split)

lemma split_on_plain: "sep \<notin> set p \<Longrightarrow> split_on sep p = [p]"
  by (induction p) auto

lemma split_on_append_sep: "sep \<notin> set p \<Longrightarrow> split_on sep (p @ sep # r) = p # split_on sep r"
  by (induction p) auto

lemma split_on_join:
  "parts \<noteq> [] \<Longrightarrow> \<forall>p \<in> set parts. sep \<notin> set p \<Longrightarrow> split_on sep (join sep parts) = parts"
  by (induction sep parts rule: join.induct) (simp_all add: split_on_plain split_on_append_sep)

lemma join_split_on: "join sep (split_on sep s) = s"
proof (induction s)
  case (Cons c s)
  obtain p ps where "split_on sep s = p # ps"
    by (cases "split_on sep s") auto
  with Cons show ?case
    by (cases ps) auto
qed simp

section \<open>Unpadded base64\<close>

definition b64_std :: string where
  "b64_std = ''ABCDEFGHIJKLMNOPQRSTUVWXYZabcdefghijklmnopqrstuvwxyz0123456789+/''"

definition b64_url :: string where
  "b64_url = ''ABCDEFGHIJKLMNOPQRSTUVWXYZabcdefghijklmnopqrstuvwxyz0123456789-_''"

fun b64_sextets :: "nat list \<Rightarrow> nat list" where
  "b64_sextets [] = []"
| "b64_sextets [a] = [a div 4, a mod 4 * 16]"
| "b64_sextets [a, b] = [a div 4, a mod 4 * 16 + b div 16, b mod 16 * 4]"
| "b64_sextets (a # b # c # r) =
     [a div 4, a mod 4 * 16 + b div 16, b mod 16 * 4 + c div 64, c mod 64] @ b64_sextets r"

definition b64_encode :: "string \<Rightarrow> string \<Rightarrow> string" where
  "b64_encode alpha bs = map (\<lambda>n. alpha ! n) (b64_sextets (map of_char bs))"

text \<open>
  Decoding skips carriage returns and line feeds, refuses a byte outside the alphabet and a last
  group of one sextet, and drops the unused low bits of a short last group.
\<close>

fun b64_index :: "string \<Rightarrow> char \<Rightarrow> nat option" where
  "b64_index [] c = None"
| "b64_index (a # alpha) c = (if a = c then Some 0 else map_option Suc (b64_index alpha c))"

fun b64_lookup :: "string \<Rightarrow> string \<Rightarrow> nat list option" where
  "b64_lookup alpha [] = Some []"
| "b64_lookup alpha (c # cs) =
     (if c = CHR 0x0A \<or> c = CHR 0x0D then b64_lookup alpha cs
      else case (b64_index alpha c, b64_lookup alpha cs) of
             (Some n, Some ns) \<Rightarrow> Some (n # ns)
           | _ \<Rightarrow> None)"

fun b64_octets :: "nat list \<Rightarrow> nat list option" where
  "b64_octets [] = Some []"
| "b64_octets [w] = None"
| "b64_octets [w, x] = Some [w * 4 + x div 16]"
| "b64_octets [w, x, y] = Some [w * 4 + x div 16, x mod 16 * 16 + y div 4]"
| "b64_octets (w # x # y # z # r) =
     map_option (\<lambda>bs. [w * 4 + x div 16, x mod 16 * 16 + y div 4, y mod 4 * 64 + z] @ bs) (b64_octets r)"

definition b64_decode :: "string \<Rightarrow> string \<Rightarrow> string option" where
  "b64_decode alpha s = Option.bind (b64_lookup alpha s) (\<lambda>ns. map_option (map char_of) (b64_octets ns))"

lemma sextets_less: "\<forall>b \<in> set bs. b < 256 \<Longrightarrow> n \<in> set (b64_sextets bs) \<Longrightarrow> n < 64"
  by (induction bs rule: b64_sextets.induct) (auto simp: less_mult_imp_div_less)

lemma digit_pair: "y < k \<Longrightarrow> (x * k + y) div k = x" "y < k \<Longrightarrow> (x * k + y) mod k = y" for k :: nat
  by simp_all

lemma octets_sextets: "\<forall>b \<in> set bs. b < 256 \<Longrightarrow> b64_octets (b64_sextets bs) = Some bs"
proof (induction bs rule: b64_sextets.induct)
  case (4 a b c r)
  then have "b div 16 < 16" "c div 64 < 4"
    by (simp_all add: less_mult_imp_div_less)
  with 4 show ?case
    by (simp add: digit_pair del: div_mult_self3 div_mult_self4 mod_mult_self3 mod_mult_self4)
next
  case (3 a b)
  then have "b div 16 < 16"
    by (simp add: less_mult_imp_div_less)
  then show ?case
    by (simp add: digit_pair del: div_mult_self3 div_mult_self4 mod_mult_self3 mod_mult_self4)
qed simp_all

text \<open>An alphabet of 64 different bytes, none of them a line break.\<close>

definition b64_alphabet :: "string \<Rightarrow> bool" where
  "b64_alphabet alpha \<longleftrightarrow>
     length alpha = 64 \<and> distinct alpha \<and> CHR 0x0A \<notin> set alpha \<and> CHR 0x0D \<notin> set alpha"

lemma b64_alphabets: "b64_alphabet b64_std" "b64_alphabet b64_url"
  by (simp_all add: b64_alphabet_def b64_std_def b64_url_def)

lemma b64_index_nth: "distinct alpha \<Longrightarrow> n < length alpha \<Longrightarrow> b64_index alpha (alpha ! n) = Some n"
  by (induction alpha arbitrary: n) (auto simp: nth_Cons split: nat.split)

lemma b64_lookup_nths:
  "b64_alphabet alpha \<Longrightarrow> \<forall>n \<in> set ns. n < 64 \<Longrightarrow> b64_lookup alpha (map (\<lambda>n. alpha ! n) ns) = Some ns"
proof (induction ns)
  case (Cons n ns)
  then have "alpha ! n \<in> set alpha" and i: "b64_index alpha (alpha ! n) = Some n"
    by (simp_all add: b64_alphabet_def b64_index_nth)
  with Cons.prems have "alpha ! n \<noteq> CHR 0x0A" "alpha ! n \<noteq> CHR 0x0D"
    by (metis b64_alphabet_def)+
  with Cons i show ?case
    by simp
qed simp

lemma of_char_256: "(of_char c :: nat) < 256"
  using nat_of_char_less_256 by simp

lemma b64_decode_encode:
  assumes "b64_alphabet alpha"
  shows "b64_decode alpha (b64_encode alpha bs) = Some bs"
proof -
  let ?ns = "map of_char bs :: nat list"
  have lt: "\<forall>b \<in> set ?ns. b < 256"
    by (auto simp: of_char_256)
  have "b64_lookup alpha (b64_encode alpha bs) = Some (b64_sextets ?ns)"
    unfolding b64_encode_def using assms sextets_less [OF lt] by (intro b64_lookup_nths) auto
  with octets_sextets [OF lt] show ?thesis
    by (simp add: b64_decode_def comp_def)
qed

lemma b64_encode_chars:
  assumes "b64_alphabet alpha" and "c \<in> set (b64_encode alpha bs)"
  shows "c \<in> set alpha"
proof -
  obtain n where "n \<in> set (b64_sextets (map of_char bs))" and "c = alpha ! n"
    using assms(2) by (auto simp: b64_encode_def)
  moreover have "\<forall>b \<in> set (map of_char bs :: nat list). b < 256"
    by (auto simp: of_char_256)
  ultimately show ?thesis
    using assms(1) sextets_less [of "map of_char bs" n] by (simp add: b64_alphabet_def)
qed

section \<open>Sscanf with the verb d\<close>

definition scan_space :: "char \<Rightarrow> bool" where
  "scan_space c \<longleftrightarrow> c = CHR '' '' \<or> c = CHR 0x09 \<or> c = CHR 0x0B \<or> c = CHR 0x0C \<or> c = CHR 0x0D"

definition digit_value :: "char \<Rightarrow> nat option" where
  "digit_value c = (let n = of_char c in if 48 \<le> n \<and> n \<le> 57 then Some (n - 48) else None)"

fun scan_digits :: "nat \<Rightarrow> string \<Rightarrow> nat" where
  "scan_digits v [] = v"
| "scan_digits v (c # cs) = (case digit_value c of None \<Rightarrow> v | Some d \<Rightarrow> scan_digits (10 * v + d) cs)"

text \<open>
  Leading blanks, a sign, digits; what follows the digits is not looked at. No digit, or a value
  outside 64 bits, is an error.
\<close>

definition sscanf_d :: "string \<Rightarrow> int option" where
  "sscanf_d s =
     (let s = dropWhile scan_space s;
          (neg, t) = (case s of [] \<Rightarrow> (False, [])
                      | c # cs \<Rightarrow> if c = CHR ''-'' then (True, cs)
                                  else if c = CHR ''+'' then (False, cs) else (False, s));
          i = (if neg then - int (scan_digits 0 t) else int (scan_digits 0 t))
      in if t = [] \<or> digit_value (hd t) = None then None
         else if i < - (2 ^ 63) \<or> 2 ^ 63 \<le> i then None
         else Some i)"

end
