(* ===== verification/Error_Text.thy ===== *)
theory Error_Text
  imports Rota_Prelude
begin

text \<open>
  The text of an error, \<^verbatim>\<open>err.Error()\<close>, as \<^verbatim>\<open>fmt.Errorf\<close> builds it from the
  sentinel, the format and its arguments. The arguments are kept already printed, so a verb
  stands for its argument, except that \<open>%q\<close> quotes it; bytes from 0x80 up are taken to be
  parts of printable UTF-8 and are kept.
\<close>

definition escape_char :: "char \<Rightarrow> string" where
  "escape_char c =
     (let n = of_char c :: nat
      in if n = 34 then [CHR 0x5C, CHR 0x22]
         else if n = 92 then [CHR 0x5C, CHR 0x5C]
         else if n = 7 then [CHR 0x5C, CHR ''a''] else if n = 8 then [CHR 0x5C, CHR ''b'']
         else if n = 9 then [CHR 0x5C, CHR ''t''] else if n = 10 then [CHR 0x5C, CHR ''n'']
         else if n = 11 then [CHR 0x5C, CHR ''v''] else if n = 12 then [CHR 0x5C, CHR ''f'']
         else if n = 13 then [CHR 0x5C, CHR ''r'']
         else if n < 32 \<or> n = 127
         then [CHR 0x5C, CHR ''x'', ''0123456789abcdef'' ! (n div 16), ''0123456789abcdef'' ! (n mod 16)]
         else [c])"

definition quote_string :: "string \<Rightarrow> string" where
  "quote_string s = CHR 0x22 # concat (map escape_char s) @ [CHR 0x22]"

fun sprintf :: "string \<Rightarrow> string list \<Rightarrow> string" where
  "sprintf (CHR ''%'' # v # f) (a # args) = (if v = CHR ''q'' then quote_string a else a) @ sprintf f args"
| "sprintf (c # f) args = c # sprintf f args"
| "sprintf [] args = []"

fun sentinel_text :: "sentinel \<Rightarrow> string" where
  "sentinel_text ErrNotFound = ''not found''"
| "sentinel_text ErrInvalidTransition = ''invalid lifecycle transition''"
| "sentinel_text ErrValidation = ''validation error''"
| "sentinel_text ErrUnauthorized = ''unauthorized''"
| "sentinel_text ErrForbidden = ''forbidden''"
| "sentinel_text ErrConflict = ''conflict''"
| "sentinel_text ErrNotWired = ''evm: operation requires interface/commitment reconciliation (see package doc)''"
| "sentinel_text ErrInvalidToken = ''invalid token''"
| "sentinel_text ErrOther = ''''"

fun err_Error :: "err \<Rightarrow> string" where
  "err_Error (Errorf k f args) =
     (if k = ErrOther then sprintf f args
      else if f = '''' then sentinel_text k
      else sentinel_text k @ '': '' @ sprintf f args)"
| "err_Error (Wrapf p e) = p @ '': '' @ err_Error e"

text \<open>A text without arguments is printed as it stands.\<close>

lemma sprintf_no_args [simp]: "sprintf f [] = f"
  by (induction f) auto

lemma errors_Is_Wrapf [simp]: "errors_Is (Wrapf p e) = errors_Is e"
  by (simp add: fun_eq_iff)

end
