(* ===== verification/Auth_Password.thy ===== *)
theory Auth_Password
  imports Encodings Error_Text
begin

text \<open>
  \<^verbatim>\<open>internal/auth/password.go\<close>. The key derivation \<^verbatim>\<open>crypto/pbkdf2\<close> over SHA-256 is an
  argument: password, salt, iterations and key length give a key or an error.
\<close>

type_synonym key_derivation = "string \<Rightarrow> string \<Rightarrow> int \<Rightarrow> nat \<Rightarrow> err + string"

definition pbkdfIterations :: int where
  "pbkdfIterations = 120000"

definition pbkdfKeyLen :: nat where
  "pbkdfKeyLen = 32"

text \<open>\<open>salt\<close> is what the random source fills the salt with.\<close>

definition HashPassword :: "key_derivation \<Rightarrow> string \<Rightarrow> string \<Rightarrow> err + string" where
  "HashPassword pbkdf2 salt password =
     (if length password < 8
      then Inl (Errorf ErrOther ''password must be at least 8 characters'' [])
      else case pbkdf2 password salt pbkdfIterations pbkdfKeyLen of
             Inl e \<Rightarrow> Inl e
           | Inr dk \<Rightarrow> Inr (''pbkdf2$'' @ decimal pbkdfIterations @ ''$'' @ b64_encode b64_std salt
                             @ ''$'' @ b64_encode b64_std dk))"

definition VerifyPassword :: "key_derivation \<Rightarrow> string \<Rightarrow> string \<Rightarrow> bool" where
  "VerifyPassword pbkdf2 encoded password =
     (let parts = split_on (CHR ''$'') encoded
      in if length parts \<noteq> 4 \<or> parts ! 0 \<noteq> ''pbkdf2'' then False
         else case sscanf_d (parts ! 1) of None \<Rightarrow> False
         | Some iter \<Rightarrow> (case b64_decode b64_std (parts ! 2) of None \<Rightarrow> False
         | Some salt \<Rightarrow> (case b64_decode b64_std (parts ! 3) of None \<Rightarrow> False
         | Some want \<Rightarrow> (case pbkdf2 password salt iter (length want) of
                            Inl e \<Rightarrow> False
                          | Inr got \<Rightarrow> got = want))))"

lemma b64_std_no_dollar: "CHR ''$'' \<notin> set (b64_encode b64_std bs)"
proof
  assume "CHR ''$'' \<in> set (b64_encode b64_std bs)"
  then have "CHR ''$'' \<in> set b64_std"
    by (rule b64_encode_chars [OF b64_alphabets(1)])
  then show False
    by (simp add: b64_std_def)
qed

lemma decimal_120000: "decimal 120000 = ''120000''"
  by (simp add: decimal_def nat_digits.simps char_of_def bit_Suc_0_iff)

lemma split_encoded:
  "split_on (CHR ''$'') (''pbkdf2$'' @ decimal pbkdfIterations @ ''$'' @ b64_encode b64_std salt
       @ ''$'' @ b64_encode b64_std dk)
   = [''pbkdf2'', ''120000'', b64_encode b64_std salt, b64_encode b64_std dk]"
  using split_on_join [of "[''pbkdf2'', ''120000'', b64_encode b64_std salt, b64_encode b64_std dk]" "CHR ''$''"]
  by (simp add: pbkdfIterations_def decimal_120000 b64_std_no_dollar)

lemma sscanf_120000: "sscanf_d ''120000'' = Some 120000"
  by (simp add: sscanf_d_def scan_space_def digit_value_def)

section \<open>Properties\<close>

text \<open>
  C40: what \<open>HashPassword\<close> returns is accepted by \<open>VerifyPassword\<close> for exactly the passwords
  from which the key derivation makes the same key with the same salt: the original one, and no
  other unless the derivation collides.
\<close>

theorem password_roundtrip:
  assumes "HashPassword pbkdf2 salt password = Inr encoded"
    and "\<And>pw s it n dk. pbkdf2 pw s it n = Inr dk \<Longrightarrow> length dk = n"
  shows "VerifyPassword pbkdf2 encoded given
    \<longleftrightarrow> pbkdf2 given salt pbkdfIterations pbkdfKeyLen = pbkdf2 password salt pbkdfIterations pbkdfKeyLen"
proof -
  obtain dk where dk: "pbkdf2 password salt pbkdfIterations pbkdfKeyLen = Inr dk"
    and enc: "encoded = ''pbkdf2$'' @ decimal pbkdfIterations @ ''$'' @ b64_encode b64_std salt
       @ ''$'' @ b64_encode b64_std dk"
    using assms(1) by (auto simp: HashPassword_def split: if_splits sum.splits)
  have "length dk = pbkdfKeyLen"
    using assms(2) dk .
  then show ?thesis
    unfolding enc VerifyPassword_def split_encoded Let_def
    using dk by (auto simp: sscanf_120000 b64_decode_encode b64_alphabets pbkdfIterations_def split: sum.split)
qed

theorem password_roundtrip_witness:
  "\<exists>encoded. HashPassword (\<lambda>pw s it n. Inr (take n (pw @ replicate n (CHR ''x'')))) ''salt'' ''password1'' = Inr encoded
     \<and> VerifyPassword (\<lambda>pw s it n. Inr (take n (pw @ replicate n (CHR ''x'')))) encoded ''password1''
     \<and> \<not> VerifyPassword (\<lambda>pw s it n. Inr (take n (pw @ replicate n (CHR ''x'')))) encoded ''password2''"
proof -
  let ?kdf = "\<lambda>pw s it n. Inr (take n (pw @ replicate n (CHR ''x'')))"
  obtain encoded where e: "HashPassword ?kdf ''salt'' ''password1'' = Inr encoded"
    by (simp add: HashPassword_def)
  have len: "length dk = n" if "(?kdf pw s it n :: err + string) = Inr dk" for pw s it n dk
    using that by auto
  show ?thesis
    using password_roundtrip [OF e len, where given = "''password1''"]
      password_roundtrip [OF e len, where given = "''password2''"] e
    by (simp add: pbkdfKeyLen_def)
qed

end
