(* ===== verification/Service.thy ===== *)
theory Service
  imports Store_Facts Truth_Chain Payments Auth_Password
begin

text \<open>
  \<^verbatim>\<open>internal/app/service.go\<close>: what the orchestration service holds and its two helpers, with
  \<^verbatim>\<open>webhooks.Dispatch\<close>, \<^verbatim>\<open>notify.LogNotifier\<close> and the indexer's step, which act on
  the same state. The environment \<open>env\<close> is what a run of the program meets: the random bytes
  of the n-th draw (an identifier or a password salt), the n-th reading of the clock, SHA-256 and
  PBKDF2, the lower-casing of an e-mail address that is not ASCII, the payment rail and the EVM
  node. The world is everything the service changes.
\<close>

section \<open>Environment and world\<close>

record env =
  env_rand :: "nat \<Rightarrow> string"
  env_salt :: "nat \<Rightarrow> string"
  env_pbkdf2 :: key_derivation
  env_unicode_email :: "string \<Rightarrow> string"
  env_clock :: "nat \<Rightarrow> time"
  env_sha :: "string \<Rightarrow> string"
  env_rail :: rail_provider
  env_transact :: "nat \<Rightarrow> string \<Rightarrow> err + string"
  env_from_hex :: "string \<Rightarrow> string"
  env_hooks :: bool

record world =
  store :: memory
  truth :: truth_layer
  rail :: "rail_call list"
  delivered :: "notification list"
  outbox :: "(webhook \<times> webhook_event) list"
  idseq :: nat
  ticks :: nat

section \<open>Primitive operations\<close>

definition newID :: "env \<Rightarrow> (world, string) act" where
  "newID E = (\<lambda>w. (Inr (NewID (env_rand E (idseq w))), w\<lparr>idseq := Suc (idseq w)\<rparr>))"

definition nowUTC :: "env \<Rightarrow> (world, time) act" where
  "nowUTC E = (\<lambda>w. (Inr (env_clock E (ticks w)), w\<lparr>ticks := Suc (ticks w)\<rparr>))"

definition reads :: "(memory \<Rightarrow> err + 'a) \<Rightarrow> (world, 'a) act" where
  "reads f = (\<lambda>w. (f (store w), w))"

definition lists :: "(memory \<Rightarrow> 'a) \<Rightarrow> (world, 'a) act" where
  "lists f = (\<lambda>w. (Inr (f (store w)), w))"

definition writes :: "(memory \<Rightarrow> memory) \<Rightarrow> (world, unit) act" where
  "writes f = (\<lambda>w. (Inr (), w\<lparr>store := f (store w)\<rparr>))"

subsection \<open>Calls of the truth layer, dispatched on the implementation\<close>

definition chain_RegisterIdentity :: "env \<Rightarrow> string \<Rightarrow> (world, string) act" where
  "chain_RegisterIdentity E commitment = (\<lambda>w. case truth w of
       MemT m \<Rightarrow> (mem_RegisterIdentity (env_sha E) commitment, w)
     | EvmT c \<Rightarrow> (case evm_RegisterIdentity (env_transact E) (env_from_hex E) commitment c of
                    (r, c') \<Rightarrow> (r, w\<lparr>truth := EvmT c'\<rparr>)))"

definition chain_DeployGroup :: "env \<Rightarrow> group \<Rightarrow> (world, string) act" where
  "chain_DeployGroup E g = (\<lambda>w. case truth w of
       MemT m \<Rightarrow> (mem_DeployGroup (env_sha E) g, w) | EvmT c \<Rightarrow> (evm_DeployGroup g, w))"

definition chain_ActivateGroup :: "env \<Rightarrow> string \<Rightarrow> (world, string) act" where
  "chain_ActivateGroup E addr = (\<lambda>w. case truth w of
       MemT m \<Rightarrow> (mem_ActivateGroup (env_sha E) addr, w) | EvmT c \<Rightarrow> (evm_ActivateGroup addr, w))"

text \<open>A call of the in-memory chain that emits an event takes an identifier and a time for it.\<close>

definition on_memchain ::
  "env \<Rightarrow> (string \<Rightarrow> time \<Rightarrow> (memchain, string) act) \<Rightarrow> (err + string) \<Rightarrow> (world, string) act" where
  "on_memchain E call evm = (\<lambda>w. case truth w of
       MemT m \<Rightarrow>
         (case call (NewID (env_rand E (idseq w))) (env_clock E (ticks w)) m of
            (r, m') \<Rightarrow> (r, w\<lparr>truth := MemT m', idseq := Suc (idseq w), ticks := Suc (ticks w)\<rparr>))
     | EvmT c \<Rightarrow> (evm, w))"

definition chain_SubmitContribution :: "env \<Rightarrow> contribution \<Rightarrow> (world, string) act" where
  "chain_SubmitContribution E c =
     on_memchain E (\<lambda>evid now. mem_SubmitContribution (env_sha E) evid now c) (evm_SubmitContribution c)"

definition chain_RecordDefault :: "env \<Rightarrow> default_event \<Rightarrow> (world, string) act" where
  "chain_RecordDefault E ev =
     on_memchain E (\<lambda>evid now. mem_RecordDefault (env_sha E) evid now ev) (evm_RecordDefault ev)"

definition chain_RecordPayout :: "env \<Rightarrow> payout_event \<Rightarrow> (world, string) act" where
  "chain_RecordPayout E ev =
     on_memchain E (\<lambda>evid now. mem_RecordPayout (env_sha E) evid now ev) (evm_RecordPayout ev)"

subsection \<open>Calls of the payment rail\<close>

definition rail_Charge :: "env \<Rightarrow> charge_request \<Rightarrow> (world, rail_answer) act" where
  "rail_Charge E req = (\<lambda>w.
     let a = Charge (env_rail E) (length (rail w)) req
     in (Inr a, w\<lparr>rail := rail w @ [ChargeCall req a]\<rparr>))"

definition rail_Disburse :: "env \<Rightarrow> disburse_request \<Rightarrow> (world, rail_answer) act" where
  "rail_Disburse E req = (\<lambda>w.
     let a = Disburse (env_rail E) (length (rail w)) req
     in (Inr a, w\<lparr>rail := rail w @ [DisburseCall req a]\<rparr>))"

section \<open>Notifications, webhooks, audit\<close>

text \<open>\<^verbatim>\<open>LogNotifier.Notify\<close>: one log line per notification, never an error.\<close>

definition Notify :: "notification \<Rightarrow> (world, unit) act" where
  "Notify n = (\<lambda>w. (Inr (), w\<lparr>delivered := delivered w @ [n]\<rparr>))"

text \<open>\<^verbatim>\<open>Dispatcher.Dispatch\<close>: one delivery is started per active webhook.\<close>

definition Dispatch :: "webhook_event \<Rightarrow> (world, unit) act" where
  "Dispatch evt = (\<lambda>w.
     let hooks = ListWebhooks (store w)
     in if hooks = [] then (Inr (), w)
        else (Inr (), w\<lparr>outbox := outbox w @ map (\<lambda>h. (h, evt)) (filter w_Active hooks)\<rparr>))"

definition notifyUser ::
  "env \<Rightarrow> string \<Rightarrow> notification_kind \<Rightarrow> string \<Rightarrow> string \<Rightarrow> (world, unit) act" where
  "notifyUser E userID kind title body =
     andThen (newID E) (\<lambda>nid.
     andThen (nowUTC E) (\<lambda>now.
     let n = \<lparr>n_ID = nid, n_UserID = userID, n_Kind = kind, n_Title = title, n_Body = body,
              n_Read = False, n_CreatedAt = now\<rparr>
     in andThen (ignoring (writes (SaveNotification n))) (\<lambda>_.
        andThen (ignoring (Notify n)) (\<lambda>_.
        if env_hooks E
        then Dispatch \<lparr>we_ID = n_ID n, we_Type = notification_kind_string kind, we_UserID = userID,
               we_Data = [(''title'', title), (''body'', body)], we_Timestamp = n_CreatedAt n\<rparr>
        else ret ()))))"

definition audit_log :: "env \<Rightarrow> string \<Rightarrow> string \<Rightarrow> string \<Rightarrow> string \<Rightarrow> (world, unit) act" where
  "audit_log E actorID action target detail =
     andThen (newID E) (\<lambda>aid.
     andThen (nowUTC E) (\<lambda>now.
     ignoring (writes (AppendAudit
       \<lparr>a_ID = aid, a_ActorID = actorID, a_Action = action, a_Target = target, a_Detail = detail,
        a_CreatedAt = now\<rparr>))))"

section \<open>The indexer (internal/indexer/indexer.go)\<close>

text \<open>One turn of \<^verbatim>\<open>Run\<close>'s loop on the in-memory chain: receive from the channel, append.\<close>

definition indexer_turn :: "nat \<Rightarrow> world \<Rightarrow> world" where
  "indexer_turn ch w = (case truth w of
       MemT m \<Rightarrow> (case mem_receive ch m of
           (Some ev, m') \<Rightarrow> w\<lparr>truth := MemT m', store := AppendReputationEvent ev (store w)\<rparr>
         | (None, m') \<Rightarrow> w)
     | EvmT c \<Rightarrow> w)"

section \<open>Symbolic execution of the primitives\<close>

lemma newID_apply [exec]: "newID E w = (Inr (NewID (env_rand E (idseq w))), w\<lparr>idseq := Suc (idseq w)\<rparr>)"
  by (simp add: newID_def)

lemma nowUTC_apply [exec]: "nowUTC E w = (Inr (env_clock E (ticks w)), w\<lparr>ticks := Suc (ticks w)\<rparr>)"
  by (simp add: nowUTC_def)

lemma reads_apply [exec]: "reads f w = (f (store w), w)"
  by (simp add: reads_def)

lemma lists_apply [exec]: "lists f w = (Inr (f (store w)), w)"
  by (simp add: lists_def)

lemma writes_apply [exec]: "writes f w = (Inr (), w\<lparr>store := f (store w)\<rparr>)"
  by (simp add: writes_def)

text \<open>
  A notification always succeeds and touches only the notification feed, the deliveries and the
  two counters: \<open>notified\<close> is the world it leaves. Likewise \<open>audited\<close> and, for the calls of the
  chain, \<open>chained\<close>.
\<close>

definition notified ::
  "env \<Rightarrow> string \<Rightarrow> notification_kind \<Rightarrow> string \<Rightarrow> string \<Rightarrow> world \<Rightarrow> world" where
  "notified E userID kind title body w = snd (notifyUser E userID kind title body w)"

lemma notifyUser_apply [exec]:
  "notifyUser E userID kind title body w = (Inr (), notified E userID kind title body w)"
  by (simp add: notified_def notifyUser_def exec Let_def Notify_def Dispatch_def)

definition audited :: "env \<Rightarrow> string \<Rightarrow> string \<Rightarrow> string \<Rightarrow> string \<Rightarrow> world \<Rightarrow> world" where
  "audited E actorID action target detail w = snd (audit_log E actorID action target detail w)"

lemma audit_log_apply [exec]:
  "audit_log E actorID action target detail w = (Inr (), audited E actorID action target detail w)"
  by (simp add: audited_def audit_log_def exec)

lemmas notified_unfold = notified_def notifyUser_def Let_def Notify_def Dispatch_def SaveNotification_def

lemma notified_frame [simp]:
  "users (store (notified E u k t b w)) = users (store w)"
  "groups (store (notified E u k t b w)) = groups (store w)"
  "memberships (store (notified E u k t b w)) = memberships (store w)"
  "joinRequests (store (notified E u k t b w)) = joinRequests (store w)"
  "invitations (store (notified E u k t b w)) = invitations (store w)"
  "cycles (store (notified E u k t b w)) = cycles (store w)"
  "contributions (store (notified E u k t b w)) = contributions (store w)"
  "payouts (store (notified E u k t b w)) = payouts (store w)"
  "escrow (store (notified E u k t b w)) = escrow (store w)"
  "reputation (store (notified E u k t b w)) = reputation (store w)"
  "audit (store (notified E u k t b w)) = audit (store w)"
  "webhooks (store (notified E u k t b w)) = webhooks (store w)"
  "truth (notified E u k t b w) = truth w"
  "rail (notified E u k t b w) = rail w"
  "idseq (notified E u k t b w) = Suc (idseq w)"
  by (simp_all add: notified_unfold exec)

lemma notified_store: "\<exists>n. store (notified E u k t b w) = SaveNotification n (store w)"
  by (auto simp: notified_def notifyUser_def Let_def Notify_def Dispatch_def exec)

lemma notified_memory_ok [simp]: "memory_ok (store w) \<Longrightarrow> memory_ok (store (notified E u k t b w))"
  using notified_store [of E u k t b w] by auto

lemma audited_frame [simp]:
  "users (store (audited E a act t d w)) = users (store w)"
  "groups (store (audited E a act t d w)) = groups (store w)"
  "memberships (store (audited E a act t d w)) = memberships (store w)"
  "joinRequests (store (audited E a act t d w)) = joinRequests (store w)"
  "invitations (store (audited E a act t d w)) = invitations (store w)"
  "cycles (store (audited E a act t d w)) = cycles (store w)"
  "contributions (store (audited E a act t d w)) = contributions (store w)"
  "payouts (store (audited E a act t d w)) = payouts (store w)"
  "escrow (store (audited E a act t d w)) = escrow (store w)"
  "reputation (store (audited E a act t d w)) = reputation (store w)"
  "notifications (store (audited E a act t d w)) = notifications (store w)"
  "webhooks (store (audited E a act t d w)) = webhooks (store w)"
  "truth (audited E a act t d w) = truth w"
  "rail (audited E a act t d w) = rail w"
  "idseq (audited E a act t d w) = Suc (idseq w)"
  by (simp_all add: audited_def audit_log_def exec AppendAudit_def)

lemma audited_store: "\<exists>e. store (audited E a act t d w) = AppendAudit e (store w)"
  by (auto simp: audited_def audit_log_def exec)

lemma audited_memory_ok [simp]: "memory_ok (store w) \<Longrightarrow> memory_ok (store (audited E a act t d w))"
  using audited_store [of E a act t d w] by auto

text \<open>
  A call of the truth layer or of the rail, as its answer and the world after it; it leaves the
  store alone, and a call of the truth layer leaves the rail alone.
\<close>

definition answer :: "('s, 'a) act \<Rightarrow> 's \<Rightarrow> err + 'a" where
  "answer m w = fst (m w)"

definition after :: "('s, 'a) act \<Rightarrow> 's \<Rightarrow> 's" where
  "after m w = snd (m w)"

lemma chain_calls_apply [exec]:
  "chain_RegisterIdentity E cm w = (answer (chain_RegisterIdentity E cm) w, after (chain_RegisterIdentity E cm) w)"
  "chain_DeployGroup E g w = (answer (chain_DeployGroup E g) w, after (chain_DeployGroup E g) w)"
  "chain_ActivateGroup E ad w = (answer (chain_ActivateGroup E ad) w, after (chain_ActivateGroup E ad) w)"
  "chain_SubmitContribution E c w = (answer (chain_SubmitContribution E c) w, after (chain_SubmitContribution E c) w)"
  "chain_RecordDefault E d w = (answer (chain_RecordDefault E d) w, after (chain_RecordDefault E d) w)"
  "chain_RecordPayout E p w = (answer (chain_RecordPayout E p) w, after (chain_RecordPayout E p) w)"
  by (simp_all add: answer_def after_def)

lemmas chain_ops = chain_RegisterIdentity_def chain_DeployGroup_def chain_ActivateGroup_def
  chain_SubmitContribution_def chain_RecordDefault_def chain_RecordPayout_def on_memchain_def

lemma chain_calls_frame [simp]:
  "store (after (chain_RegisterIdentity E cm) w) = store w"
  "store (after (chain_DeployGroup E g) w) = store w"
  "store (after (chain_ActivateGroup E ad) w) = store w"
  "store (after (chain_SubmitContribution E c) w) = store w"
  "store (after (chain_RecordDefault E d) w) = store w"
  "store (after (chain_RecordPayout E p) w) = store w"
  "rail (after (chain_RegisterIdentity E cm) w) = rail w"
  "rail (after (chain_DeployGroup E g) w) = rail w"
  "rail (after (chain_ActivateGroup E ad) w) = rail w"
  "rail (after (chain_SubmitContribution E c) w) = rail w"
  "rail (after (chain_RecordDefault E d) w) = rail w"
  "rail (after (chain_RecordPayout E p) w) = rail w"
  by (simp_all add: after_def chain_ops split: truth_layer.split prod.split)

lemma chain_calls_idseq [simp]:
  "idseq w \<le> idseq (after (chain_RegisterIdentity E cm) w)"
  "idseq (after (chain_DeployGroup E g) w) = idseq w"
  "idseq (after (chain_ActivateGroup E ad) w) = idseq w"
  "idseq w \<le> idseq (after (chain_SubmitContribution E c) w)"
  "idseq w \<le> idseq (after (chain_RecordDefault E d) w)"
  "idseq w \<le> idseq (after (chain_RecordPayout E p) w)"
  by (simp_all add: after_def chain_ops split: truth_layer.split prod.split)

text \<open>Which implementation is behind the interface never changes, and the in-memory one never fails.\<close>

definition on_mem :: "world \<Rightarrow> bool" where
  "on_mem w \<longleftrightarrow> (\<exists>m. truth w = MemT m)"

lemma chain_calls_on_mem [simp]:
  "on_mem (after (chain_RegisterIdentity E cm) w) = on_mem w"
  "on_mem (after (chain_DeployGroup E g) w) = on_mem w"
  "on_mem (after (chain_ActivateGroup E ad) w) = on_mem w"
  "on_mem (after (chain_SubmitContribution E c) w) = on_mem w"
  "on_mem (after (chain_RecordDefault E d) w) = on_mem w"
  "on_mem (after (chain_RecordPayout E p) w) = on_mem w"
  by (auto simp: on_mem_def after_def chain_ops split: truth_layer.splits prod.splits)

lemma chain_answers_on_mem:
  assumes "on_mem w"
  shows "\<exists>tx. answer (chain_RegisterIdentity E cm) w = Inr tx"
    "\<exists>tx. answer (chain_DeployGroup E g) w = Inr tx"
    "\<exists>tx. answer (chain_ActivateGroup E ad) w = Inr tx"
    "\<exists>tx. answer (chain_SubmitContribution E c) w = Inr tx"
    "\<exists>tx. answer (chain_RecordDefault E d) w = Inr tx"
    "\<exists>tx. answer (chain_RecordPayout E p) w = Inr tx"
  using assms
  by (auto simp: on_mem_def answer_def chain_ops mem_RegisterIdentity_def mem_DeployGroup_def
      mem_ActivateGroup_def mem_SubmitContribution_def mem_RecordDefault_def mem_RecordPayout_def Let_def)

lemma on_mem_frame [simp]:
  "on_mem (notified E u k t b w) = on_mem w"
  "on_mem (audited E u s t d w) = on_mem w"
  "on_mem (w\<lparr>store := m\<rparr>) = on_mem w"
  "on_mem (w\<lparr>rail := rs\<rparr>) = on_mem w"
  "on_mem (w\<lparr>idseq := n\<rparr>) = on_mem w"
  "on_mem (w\<lparr>ticks := n\<rparr>) = on_mem w"
  by (simp_all add: on_mem_def)

lemma rail_Charge_apply [exec]:
  "rail_Charge E req w =
     (Inr (Charge (env_rail E) (length (rail w)) req),
      w\<lparr>rail := rail w @ [ChargeCall req (Charge (env_rail E) (length (rail w)) req)]\<rparr>)"
  by (simp add: rail_Charge_def Let_def)

lemma rail_Disburse_apply [exec]:
  "rail_Disburse E req w =
     (Inr (Disburse (env_rail E) (length (rail w)) req),
      w\<lparr>rail := rail w @ [DisburseCall req (Disburse (env_rail E) (length (rail w)) req)]\<rparr>)"
  by (simp add: rail_Disburse_def Let_def)

end
