(* ===== verification/App_Groups.thy ===== *)
theory App_Groups
  imports Service
begin

text \<open>
  \<^verbatim>\<open>internal/app/groups.go\<close>: creation of a group, join requests, invitations, leaving and
  removal. Every operation is its Go method from the first store call to the last, so what it
  leaves behind when it fails halfway is part of the model. Method names that the store uses too
  carry the prefix \<open>Service_\<close>.
\<close>

record create_group_input =
  cg_Name :: string
  cg_ContributionAmount :: money
  cg_CycleLength :: duration
  cg_MaxMembers :: int

section \<open>Creation\<close>

definition CreateGroup :: "env \<Rightarrow> string \<Rightarrow> create_group_input \<Rightarrow> (world, group) act" where
  "CreateGroup E creatorID inp =
     andThen (reads (\<lambda>m. GetUser m creatorID)) (\<lambda>creator.
     andThen (lift (CanParticipate creator)) (\<lambda>_.
     andThen (nowUTC E) (\<lambda>now.
     andThen (newID E) (\<lambda>gid.
     let g = \<lparr>g_ID = gid, g_ContractAddress = '''', g_Name = cg_Name inp, g_OrganizerID = creatorID,
              g_ContributionAmount = cg_ContributionAmount inp, g_CycleLength = cg_CycleLength inp,
              g_MaxMembers = cg_MaxMembers inp, g_TotalCycles = 0, g_Members = [creatorID],
              g_PayoutOrder = [], g_State = GroupCreated, g_CreatedAt = now, g_ActivatedAt = None\<rparr>
     in andThen (lift (ValidateConfig g)) (\<lambda>_.
        andThen (wrapErr ''deploy group contract'' (chain_DeployGroup E g)) (\<lambda>addr.
        let g = g\<lparr>g_ContractAddress := addr\<rparr>
        in andThen (writes (SaveGroup g)) (\<lambda>_.
           andThen (newID E) (\<lambda>mid.
           andThen (writes (SaveMembership
             \<lparr>m_ID = mid, m_GroupID = g_ID g, m_UserID = creatorID, m_Organizer = True,
              m_Status = MembershipActive, m_JoinedAt = now\<rparr>)) (\<lambda>_.
           ret g)))))))))"

section \<open>Queries\<close>

definition Service_GetGroup :: "string \<Rightarrow> (world, group) act" where
  "Service_GetGroup id' = reads (\<lambda>m. GetGroup m id')"

record my_group_membership =
  mg_Group :: group
  mg_Organizer :: bool
  mg_Status :: membership_status

text \<open>A membership whose group is not found is skipped.\<close>

fun my_groups :: "memory \<Rightarrow> membership list \<Rightarrow> my_group_membership list" where
  "my_groups m [] = []"
| "my_groups m (mem # mems) =
     (case GetGroup m (m_GroupID mem) of
        Inl _ \<Rightarrow> my_groups m mems
      | Inr g \<Rightarrow> \<lparr>mg_Group = g, mg_Organizer = m_Organizer mem, mg_Status = m_Status mem\<rparr> # my_groups m mems)"

definition MyGroups :: "string \<Rightarrow> (world, my_group_membership list) act" where
  "MyGroups userID = lists (\<lambda>m. my_groups m (ListMembershipsByUser m userID))"

definition Service_ListGroups :: "page \<Rightarrow> (world, group list \<times> int) act" where
  "Service_ListGroups p = lists (\<lambda>m. ListGroups m p)"

definition ListMembers :: "string \<Rightarrow> (world, membership list) act" where
  "ListMembers groupID =
     andThen (reads (\<lambda>m. GetGroup m groupID)) (\<lambda>_. lists (\<lambda>m. ListMembershipsByGroup m groupID))"

definition ListJoinRequests :: "string \<Rightarrow> string \<Rightarrow> (world, join_request list) act" where
  "ListJoinRequests actorID groupID =
     andThen (reads (\<lambda>m. GetGroup m groupID)) (\<lambda>g.
     andThen (guardE (g_OrganizerID g \<noteq> actorID)
       (Errorf ErrForbidden ''only the organizer can view join requests'' [])) (\<lambda>_.
     lists (\<lambda>m. ListJoinRequestsByGroup m groupID)))"

definition MyInvitations :: "string \<Rightarrow> (world, invitation list) act" where
  "MyInvitations userID = lists (\<lambda>m. ListInvitationsByUser m userID)"

section \<open>The two writers of a group's members\<close>

definition addMember :: "env \<Rightarrow> group \<Rightarrow> string \<Rightarrow> time \<Rightarrow> (world, unit) act" where
  "addMember E g userID now =
     (let g = g\<lparr>g_Members := g_Members g @ [userID]\<rparr>
      in andThen (writes (SaveGroup g)) (\<lambda>_.
         andThen (newID E) (\<lambda>mid.
         writes (SaveMembership
           \<lparr>m_ID = mid, m_GroupID = g_ID g, m_UserID = userID, m_Organizer = False,
            m_Status = MembershipActive, m_JoinedAt = now\<rparr>))))"

definition dropMember :: "group \<Rightarrow> string \<Rightarrow> membership_status \<Rightarrow> (world, unit) act" where
  "dropMember g userID status =
     andThen (reads (\<lambda>m. GetMembership m (g_ID g) userID)) (\<lambda>mem.
     let g = g\<lparr>g_Members := filter (\<lambda>u. u \<noteq> userID) (g_Members g)\<rparr>
     in andThen (writes (SaveGroup g)) (\<lambda>_.
        writes (SaveMembership (mem\<lparr>m_Status := status\<rparr>))))"

section \<open>Join requests\<close>

definition RequestToJoin :: "env \<Rightarrow> string \<Rightarrow> string \<Rightarrow> (world, join_request) act" where
  "RequestToJoin E userID groupID =
     andThen (reads (\<lambda>m. GetUser m userID)) (\<lambda>u.
     andThen (lift (CanParticipate u)) (\<lambda>_.
     andThen (reads (\<lambda>m. GetGroup m groupID)) (\<lambda>g.
     andThen (guardE (g_State g \<noteq> GroupCreated)
       (Errorf ErrConflict ''group is %s, can only join while CREATED'' [group_state_string (g_State g)])) (\<lambda>_.
     andThen (guardE (HasMember g userID) (Errorf ErrConflict ''already a member'' [])) (\<lambda>_.
     andThen (guardE (int (length (g_Members g)) \<ge> g_MaxMembers g)
       (Errorf ErrConflict ''group is full'' [])) (\<lambda>_.
     andThen (nowUTC E) (\<lambda>now.
     andThen (newID E) (\<lambda>jid.
     let jr = \<lparr>j_ID = jid, j_GroupID = groupID, j_UserID = userID, j_Status = JoinPending,
               j_CreatedAt = now, j_DecidedAt = None, j_DecidedBy = ''''\<rparr>
     in andThen (writes (SaveJoinRequest jr)) (\<lambda>_.
        andThen (notifyUser E (g_OrganizerID g) NotifyJoinRequest ''New join request''
          (u_DisplayName u @ '' wants to join '' @ g_Name g)) (\<lambda>_.
        ret jr))))))))))"

text \<open>
  The request's decision time and decider are set on the caller's copy before the guards of an
  approval; a refused approval saves nothing.
\<close>

definition DecideJoinRequest :: "env \<Rightarrow> string \<Rightarrow> string \<Rightarrow> bool \<Rightarrow> (world, join_request) act" where
  "DecideJoinRequest E actorID requestID approve =
     andThen (reads (\<lambda>m. GetJoinRequest m requestID)) (\<lambda>jr.
     andThen (reads (\<lambda>m. GetGroup m (j_GroupID jr))) (\<lambda>g.
     andThen (guardE (g_OrganizerID g \<noteq> actorID)
       (Errorf ErrForbidden ''only the organizer can decide join requests'' [])) (\<lambda>_.
     andThen (guardE (j_Status jr \<noteq> JoinPending)
       (Errorf ErrConflict ''request already %s'' [join_request_status_string (j_Status jr)])) (\<lambda>_.
     andThen (nowUTC E) (\<lambda>now.
     let jr = jr\<lparr>j_DecidedAt := Some now, j_DecidedBy := actorID\<rparr>
     in andThen
          (if approve then
             andThen (guardE (g_State g \<noteq> GroupCreated)
               (Errorf ErrConflict ''group no longer accepting members'' [])) (\<lambda>_.
             andThen (guardE (int (length (g_Members g)) \<ge> g_MaxMembers g)
               (Errorf ErrConflict ''group is full'' [])) (\<lambda>_.
             andThen (addMember E g (j_UserID jr) now) (\<lambda>_.
             ret (jr\<lparr>j_Status := JoinApproved\<rparr>))))
           else ret (jr\<lparr>j_Status := JoinRejected\<rparr>)) (\<lambda>jr.
        andThen (writes (SaveJoinRequest jr)) (\<lambda>_.
        andThen (notifyUser E (j_UserID jr) NotifyJoinDecision
          (''Join request '' @ join_request_status_string (j_Status jr))
          (''Your request to join '' @ g_Name g @ '' was '' @ join_request_status_string (j_Status jr))) (\<lambda>_.
        ret jr))))))))"

section \<open>Invitations\<close>

definition Invite :: "env \<Rightarrow> string \<Rightarrow> string \<Rightarrow> string \<Rightarrow> (world, invitation) act" where
  "Invite E actorID groupID inviteeID =
     andThen (reads (\<lambda>m. GetGroup m groupID)) (\<lambda>g.
     andThen (guardE (g_OrganizerID g \<noteq> actorID)
       (Errorf ErrForbidden ''only the organizer can invite'' [])) (\<lambda>_.
     andThen (guardE (g_State g \<noteq> GroupCreated)
       (Errorf ErrConflict ''group is %s'' [group_state_string (g_State g)])) (\<lambda>_.
     andThen (reads (\<lambda>m. GetUser m inviteeID)) (\<lambda>_.
     andThen (guardE (HasMember g inviteeID) (Errorf ErrConflict ''already a member'' [])) (\<lambda>_.
     andThen (nowUTC E) (\<lambda>now.
     andThen (newID E) (\<lambda>iid.
     let inv = \<lparr>i_ID = iid, i_GroupID = groupID, i_UserID = inviteeID, i_InvitedBy = actorID,
                i_Status = InvitePending, i_CreatedAt = now\<rparr>
     in andThen (writes (SaveInvitation inv)) (\<lambda>_.
        andThen (notifyUser E inviteeID NotifyInvitation ''Group invitation''
          (''You were invited to join '' @ g_Name g)) (\<lambda>_.
        ret inv)))))))))"

definition RespondInvitation :: "env \<Rightarrow> string \<Rightarrow> string \<Rightarrow> bool \<Rightarrow> (world, invitation) act" where
  "RespondInvitation E userID inviteID accept =
     andThen (reads (\<lambda>m. GetInvitation m inviteID)) (\<lambda>inv.
     andThen (guardE (i_UserID inv \<noteq> userID) (Errorf ErrForbidden ''not your invitation'' [])) (\<lambda>_.
     andThen (guardE (i_Status inv \<noteq> InvitePending)
       (Errorf ErrConflict ''invitation already %s'' [invitation_status_string (i_Status inv)])) (\<lambda>_.
     andThen (reads (\<lambda>m. GetGroup m (i_GroupID inv))) (\<lambda>g.
     andThen (nowUTC E) (\<lambda>now.
     andThen
       (if accept then
          andThen (reads (\<lambda>m. GetUser m userID)) (\<lambda>u.
          andThen (lift (CanParticipate u)) (\<lambda>_.
          andThen (guardE (g_State g \<noteq> GroupCreated)
            (Errorf ErrConflict ''group no longer accepting members'' [])) (\<lambda>_.
          andThen (guardE (int (length (g_Members g)) \<ge> g_MaxMembers g)
            (Errorf ErrConflict ''group is full'' [])) (\<lambda>_.
          andThen (addMember E g userID now) (\<lambda>_.
          ret (inv\<lparr>i_Status := InviteAccepted\<rparr>))))))
        else ret (inv\<lparr>i_Status := InviteDeclined\<rparr>)) (\<lambda>inv.
     andThen (writes (SaveInvitation inv)) (\<lambda>_.
     ret inv)))))))"

section \<open>Leaving and removal\<close>

definition LeaveGroup :: "string \<Rightarrow> string \<Rightarrow> (world, unit) act" where
  "LeaveGroup userID groupID =
     andThen (reads (\<lambda>m. GetGroup m groupID)) (\<lambda>g.
     andThen (guardE (g_State g \<noteq> GroupCreated)
       (Errorf ErrConflict ''cannot leave a %s group mid-rotation'' [group_state_string (g_State g)])) (\<lambda>_.
     andThen (guardE (g_OrganizerID g = userID)
       (Errorf ErrForbidden ''the organizer cannot leave their own group'' [])) (\<lambda>_.
     dropMember g userID MembershipLeft)))"

definition RemoveMember :: "string \<Rightarrow> string \<Rightarrow> string \<Rightarrow> (world, unit) act" where
  "RemoveMember actorID groupID userID =
     andThen (reads (\<lambda>m. GetGroup m groupID)) (\<lambda>g.
     andThen (guardE (g_OrganizerID g \<noteq> actorID)
       (Errorf ErrForbidden ''only the organizer can remove members'' [])) (\<lambda>_.
     andThen (guardE (g_State g \<noteq> GroupCreated)
       (Errorf ErrConflict ''cannot remove from a %s group'' [group_state_string (g_State g)])) (\<lambda>_.
     andThen (guardE (userID = g_OrganizerID g)
       (Errorf ErrForbidden ''cannot remove the organizer'' [])) (\<lambda>_.
     dropMember g userID MembershipRemoved))))"

end
