(* ===== verification/App_Cycles.thy ===== *)
theory App_Cycles
  imports App_Groups Error_Text
begin

text \<open>
  \<^verbatim>\<open>internal/app/cycles.go\<close>, \<^verbatim>\<open>settlement.go\<close> and \<^verbatim>\<open>deadlines.go\<close>: activation,
  contributions, settlement and the scheduler's enforcement of deadlines.
\<close>

section \<open>Activation (cycles.go)\<close>

definition em_dash :: string where
  "em_dash = [CHR 0xE2, CHR 0x80, CHR 0x94]"

definition ActivateGroup :: "env \<Rightarrow> string \<Rightarrow> string \<Rightarrow> string list \<Rightarrow> (world, group) act" where
  "ActivateGroup E actorID groupID payoutOrder =
     andThen (reads (\<lambda>m. GetGroup m groupID)) (\<lambda>g.
     andThen (guardE (g_OrganizerID g \<noteq> actorID)
       (Errorf ErrForbidden ''only the organizer can activate the group'' [])) (\<lambda>_.
     andThen (guardE (\<not> CanTransition g GroupActive)
       (Errorf ErrInvalidTransition ''%s -> ACTIVE'' [group_state_string (g_State g)])) (\<lambda>_.
     let payoutOrder = (if payoutOrder = [] then g_Members g else payoutOrder);
         g = g\<lparr>g_PayoutOrder := payoutOrder, g_TotalCycles := int (length payoutOrder)\<rparr>
     in andThen (lift (Validate g)) (\<lambda>_.
        andThen (wrapErr ''activate group on-chain'' (chain_ActivateGroup E (g_ContractAddress g))) (\<lambda>_.
        andThen (nowUTC E) (\<lambda>now.
        andThen (lift (Transition (g\<lparr>g_ActivatedAt := Some now\<rparr>) GroupActive)) (\<lambda>g.
        andThen (writes (SaveGroup g)) (\<lambda>_.
        andThen (forEach (Cycles g now) (\<lambda>c. writes (SaveCycle c))) (\<lambda>_.
        andThen (forEach (g_Members g) (\<lambda>uid.
          notifyUser E uid NotifyGroupActivated ''Group activated''
            (g_Name g @ '' is now active '' @ em_dash @ '' contributions begin''))) (\<lambda>_.
        ret g))))))))))"

section \<open>Queries (cycles.go)\<close>

definition ListCycles :: "string \<Rightarrow> (world, cycle list) act" where
  "ListCycles groupID =
     andThen (reads (\<lambda>m. GetGroup m groupID)) (\<lambda>_. lists (\<lambda>m. ListCyclesByGroup m groupID))"

definition current_cycle :: "memory \<Rightarrow> string \<Rightarrow> err + cycle" where
  "current_cycle m groupID = found (List.find (\<lambda>c. \<not> c_Settled c) (ListCyclesByGroup m groupID))"

definition CurrentCycle :: "string \<Rightarrow> (world, cycle) act" where
  "CurrentCycle groupID = reads (\<lambda>m. current_cycle m groupID)"

record cycle_member_status =
  ms_UserID :: string
  ms_Paid :: bool

record cycle_status =
  cs_Cycle :: cycle
  cs_Members :: "cycle_member_status list"
  cs_Collected :: money
  cs_Expected :: money

definition paid_users :: "contribution list \<Rightarrow> string set" where
  "paid_users contribs = set (map co_UserID contribs)"

definition total_amount :: "contribution list \<Rightarrow> money" where
  "total_amount contribs = foldl (\<lambda>s c. s + co_Amount c) 0 contribs"

definition expected_amount :: "group \<Rightarrow> money" where
  "expected_amount g = g_ContributionAmount g * of_nat (length (g_Members g))"

definition CycleStatus :: "string \<Rightarrow> int \<Rightarrow> (world, cycle_status) act" where
  "CycleStatus groupID index =
     andThen (reads (\<lambda>m. GetGroup m groupID)) (\<lambda>g.
     andThen (reads (\<lambda>m. GetCycle m groupID index)) (\<lambda>cycle.
     andThen (lists (\<lambda>m. ListContributionsByCycle m groupID index)) (\<lambda>contribs.
     ret \<lparr>cs_Cycle = cycle,
          cs_Members = map (\<lambda>uid. \<lparr>ms_UserID = uid, ms_Paid = uid \<in> paid_users contribs\<rparr>) (g_Members g),
          cs_Collected = total_amount contribs, cs_Expected = expected_amount g\<rparr>)))"

section \<open>Settlement (settlement.go)\<close>

text \<open>\<open>_ = g.Transition(s)\<close>: a refused transition leaves the group as it is.\<close>

definition try_transition :: "group \<Rightarrow> group_state \<Rightarrow> group" where
  "try_transition g s = (case Transition g s of Inl _ \<Rightarrow> g | Inr g' \<Rightarrow> g')"

definition settleCycle :: "env \<Rightarrow> group \<Rightarrow> cycle \<Rightarrow> (world, payout) act" where
  "settleCycle E g cycle =
     andThen (guardE (c_Settled cycle)
       (Errorf ErrConflict ''cycle %d already settled'' [decimal (c_Index cycle)])) (\<lambda>_.
     andThen (lists (\<lambda>m. ListContributionsByCycle m (g_ID g) (c_Index cycle))) (\<lambda>contribs.
     let gross = total_amount contribs;
         expected = expected_amount g
     in andThen (reads (\<lambda>m. GetUser m (c_PayoutUser cycle))) (\<lambda>payee.
        andThen (rail_Disburse E \<lparr>di_GroupID = g_ID g, di_CycleIndex = c_Index cycle,
          di_PayeeUserID = u_ID payee, di_Amount = gross, di_Destination = u_WalletAddress payee\<rparr>) (\<lambda>res.
        andThen (guardE (\<not> accepted res)
          (Wrapf ''disburse payout'' (errOr (snd res) (rr_Message (fst res))))) (\<lambda>_.
        andThen (wrapErr ''record payout on-chain'' (chain_RecordPayout E
          \<lparr>pe_GroupID = g_ID g, pe_PayeeUserID = u_ID payee, pe_CycleIndex = c_Index cycle,
           pe_Amount = gross\<rparr>)) (\<lambda>_.
        andThen (nowUTC E) (\<lambda>now.
        andThen (newID E) (\<lambda>eid.
        andThen (ignoring (writes (AppendEscrowEntry
          \<lparr>e_ID = eid, e_GroupID = g_ID g, e_CycleIndex = c_Index cycle, e_UserID = u_ID payee,
           e_Direction = LedgerDebit, e_Amount = gross, e_Reference = rr_Reference (fst res),
           e_Memo = ''payout'', e_CreatedAt = now\<rparr>))) (\<lambda>_.
        andThen (newID E) (\<lambda>pid.
        let payout = \<lparr>po_ID = pid, po_GroupID = g_ID g, po_CycleIndex = c_Index cycle,
              po_PayeeUserID = u_ID payee, po_GrossAmount = gross, po_ExpectedAmount = expected,
              po_Shortfall = expected - gross, po_DisbursementRef = rr_Reference (fst res),
              po_SettledAt = now\<rparr>
        in andThen (writes (SavePayout payout)) (\<lambda>_.
           andThen (writes (SaveCycle (cycle\<lparr>c_Settled := True\<rparr>))) (\<lambda>_.
           andThen (notifyUser E (u_ID payee) NotifyPayoutSent ''Payout sent''
             (''You received the cycle '' @ decimal (c_Index cycle) @ '' payout for '' @ g_Name g)) (\<lambda>_.
           andThen (if c_Index cycle = g_TotalCycles g - 1
                    then writes (SaveGroup (try_transition (try_transition g GroupSettlement) GroupClosed))
                    else ret ()) (\<lambda>_.
           ret payout))))))))))))))"

definition SettleCycle :: "env \<Rightarrow> string \<Rightarrow> string \<Rightarrow> int \<Rightarrow> (world, payout) act" where
  "SettleCycle E actorID groupID index =
     andThen (reads (\<lambda>m. GetGroup m groupID)) (\<lambda>g.
     andThen (guardE (g_OrganizerID g \<noteq> actorID)
       (Errorf ErrForbidden ''only the organizer can settle a cycle'' [])) (\<lambda>_.
     andThen (reads (\<lambda>m. GetCycle m groupID index)) (\<lambda>cycle.
     settleCycle E g cycle)))"

definition recordDefault :: "env \<Rightarrow> group \<Rightarrow> cycle \<Rightarrow> string \<Rightarrow> (world, unit) act" where
  "recordDefault E g cycle userID =
     (let proof' = Hash (env_sha E) [''default'', g_ID g, userID, c_GroupID cycle]
      in andThen (chain_RecordDefault E
           \<lparr>d_GroupID = g_ID g, d_UserAddress = userID, d_CycleIndex = c_Index cycle,
            d_MissedAmount = g_ContributionAmount g, d_ProofHash = proof'\<rparr>) (\<lambda>_.
         notifyUser E userID NotifyDefaultRecorded ''Missed contribution''
           (''You missed cycle '' @ decimal (c_Index cycle) @ '' of '' @ g_Name g)))"

section \<open>Contributions (cycles.go)\<close>

definition allContributed :: "memory \<Rightarrow> group \<Rightarrow> int \<Rightarrow> bool" where
  "allContributed m g cycleIdx \<longleftrightarrow>
     length (ListContributionsByCycle m (g_ID g) cycleIdx) \<ge> length (g_Members g)"

definition SubmitContribution ::
  "env \<Rightarrow> string \<Rightarrow> string \<Rightarrow> int \<Rightarrow> string \<Rightarrow> (world, contribution) act" where
  "SubmitContribution E userID groupID cycleIdx source =
     andThen (reads (\<lambda>m. GetGroup m groupID)) (\<lambda>g.
     andThen (guardE (g_State g \<noteq> GroupActive)
       (Errorf ErrConflict ''group is %s, not ACTIVE'' [group_state_string (g_State g)])) (\<lambda>_.
     andThen (guardE (\<not> HasMember g userID)
       (Errorf ErrForbidden ''not a member of this group'' [])) (\<lambda>_.
     andThen (reads (\<lambda>m. GetCycle m groupID cycleIdx)) (\<lambda>cycle.
     andThen (guardE (c_Settled cycle)
       (Errorf ErrConflict ''cycle %d already settled'' [decimal cycleIdx])) (\<lambda>_.
     andThen (attempt (reads (\<lambda>m. GetContribution m groupID userID cycleIdx))) (\<lambda>prior.
     andThen (guardE (\<not> isl prior)
       (Errorf ErrConflict ''already contributed to cycle %d'' [decimal cycleIdx])) (\<lambda>_.
     andThen (rail_Charge E \<lparr>ch_GroupID = groupID, ch_UserID = userID, ch_CycleIndex = cycleIdx,
       ch_Amount = g_ContributionAmount g, ch_Source = source\<rparr>) (\<lambda>res.
     andThen (guardE (\<not> accepted res)
       (Wrapf ''charge contribution'' (errOr (snd res) (rr_Message (fst res))))) (\<lambda>_.
     andThen (newID E) (\<lambda>cid.
     let c = \<lparr>co_ID = cid, co_GroupID = groupID, co_UserID = userID, co_CycleIndex = cycleIdx,
              co_Amount = g_ContributionAmount g,
              co_Commitment = ComputeContributionCommitment (env_sha E) userID groupID cycleIdx
                                (g_ContributionAmount g),
              co_Revealed = False, co_PaidAt = None\<rparr>
     in andThen (wrapErr ''submit contribution on-chain'' (chain_SubmitContribution E c)) (\<lambda>_.
        andThen (nowUTC E) (\<lambda>now.
        let c = c\<lparr>co_Revealed := True, co_PaidAt := Some now\<rparr>
        in andThen (writes (SaveContribution c)) (\<lambda>_.
           andThen (newID E) (\<lambda>eid.
           andThen (ignoring (writes (AppendEscrowEntry
             \<lparr>e_ID = eid, e_GroupID = groupID, e_CycleIndex = cycleIdx, e_UserID = userID,
              e_Direction = LedgerCredit, e_Amount = g_ContributionAmount g,
              e_Reference = rr_Reference (fst res), e_Memo = ''contribution'', e_CreatedAt = now\<rparr>))) (\<lambda>_.
           andThen (notifyUser E userID NotifyContributionMade ''Contribution received''
             (''Your contribution to '' @ g_Name g @ '' (cycle '' @ decimal cycleIdx @ '') was recorded'')) (\<lambda>_.
           andThen (lists (\<lambda>m. allContributed m g cycleIdx)) (\<lambda>everyone.
           andThen
             (if everyone then
                andThen (attempt (settleCycle E g cycle)) (\<lambda>r.
                case r of
                  Inl e \<Rightarrow> notifyUser E (g_OrganizerID g) NotifyRiskWarning ''Settlement deferred''
                             (''cycle '' @ decimal cycleIdx @ '' could not auto-settle: '' @ err_Error e)
                | Inr _ \<Rightarrow> ret ())
              else ret ()) (\<lambda>_.
           ret c))))))))))))))))))"

section \<open>Deadlines (deadlines.go)\<close>

definition settleOverdueCycle :: "env \<Rightarrow> group \<Rightarrow> cycle \<Rightarrow> (world, unit) act" where
  "settleOverdueCycle E g cycle =
     andThen (lists (\<lambda>m. ListContributionsByCycle m (g_ID g) (c_Index cycle))) (\<lambda>contribs.
     andThen (forEach (g_Members g) (\<lambda>uid.
       if uid \<notin> paid_users contribs then recordDefault E g cycle uid else ret ())) (\<lambda>_.
     andThen (settleCycle E g cycle) (\<lambda>_.
     ret ())))"

text \<open>
  The inner loop for one group, from iteration \<open>guard\<close> on, with the count of settled cycles.
  The bound is read from the group as reloaded, so that the loop ends is something to prove:
  \<open>None\<close> is a loop that does not.
\<close>

partial_function (option) drain_group ::
  "env \<Rightarrow> time \<Rightarrow> int \<Rightarrow> group \<Rightarrow> int \<Rightarrow> world \<Rightarrow> (int \<times> world) option" where
  "drain_group E now guard g settled w =
     (if guard > g_TotalCycles g then Some (settled, w)
      else case CurrentCycle (g_ID g) w of
        (Inl _, w) \<Rightarrow> Some (settled, w)
      | (Inr cycle, w) \<Rightarrow>
          if \<not> IsOverdue cycle now then Some (settled, w)
          else case settleOverdueCycle E g cycle w of
            (Inl _, w) \<Rightarrow> Some (settled, w)
          | (Inr _, w) \<Rightarrow>
              (case GetGroup (store w) (g_ID g) of
                 Inl _ \<Rightarrow> Some (settled + 1, w)
               | Inr g' \<Rightarrow> if g_State g' \<noteq> GroupActive then Some (settled + 1, w)
                           else drain_group E now (guard + 1) g' (settled + 1) w))"

fun drain_groups :: "env \<Rightarrow> time \<Rightarrow> group list \<Rightarrow> int \<Rightarrow> world \<Rightarrow> (int \<times> world) option" where
  "drain_groups E now [] settled w = Some (settled, w)"
| "drain_groups E now (g # gs) settled w =
     (if g_State g \<noteq> GroupActive then drain_groups E now gs settled w
      else case drain_group E now 0 g settled w of
             None \<Rightarrow> None
           | Some (settled', w') \<Rightarrow> drain_groups E now gs settled' w')"

definition ProcessDeadlines :: "env \<Rightarrow> time \<Rightarrow> world \<Rightarrow> (int \<times> world) option" where
  "ProcessDeadlines E now w =
     drain_groups E now (fst (ListGroups (store w) \<lparr>p_Offset = 0, p_Limit = 100000\<rparr>)) 0 w"

end
