(* ===== verification/App_Accounts.thy ===== *)
theory App_Accounts
  imports App_Cycles
begin

text \<open>
  \<^verbatim>\<open>internal/app/auth.go\<close> (accounts; the two token operations are with the tokens) and
  \<^verbatim>\<open>admin.go\<close> (the operator's operations): registration, profile, KYC decision, role and
  status, webhooks, forced settlement, the seeded administrator and the dashboards.
\<close>

section \<open>Registration (auth.go)\<close>

record register_input =
  ri_Email :: string
  ri_Password :: string
  ri_DisplayName :: string
  ri_WalletAddress :: string
  ri_KYCProvider :: string
  ri_KYCSignature :: string

definition is_ascii :: "char \<Rightarrow> bool" where
  "is_ascii c \<longleftrightarrow> of_char c < (128 :: nat)"

definition ascii_space :: "char \<Rightarrow> bool" where
  "ascii_space c \<longleftrightarrow> c = CHR '' '' \<or> (9 \<le> (of_char c :: nat) \<and> of_char c \<le> (13 :: nat))"

definition ascii_lower :: "char \<Rightarrow> char" where
  "ascii_lower c = (let n = of_char c :: nat in if 65 \<le> n \<and> n \<le> 90 then char_of (n + 32) else c)"

definition ascii_trim :: "string \<Rightarrow> string" where
  "ascii_trim s = rev (dropWhile ascii_space (rev (dropWhile ascii_space s)))"

text \<open>\<^verbatim>\<open>strings.ToLower(strings.TrimSpace(s))\<close>; beyond ASCII it is the library's Unicode tables.\<close>

definition normal_email :: "env \<Rightarrow> string \<Rightarrow> string" where
  "normal_email E s =
     (if list_all is_ascii s then map ascii_lower (ascii_trim s) else env_unicode_email E s)"

text \<open>A password that is long enough draws a salt.\<close>

definition hash_password :: "env \<Rightarrow> string \<Rightarrow> (world, string) act" where
  "hash_password E password = (\<lambda>w.
     (HashPassword (env_pbkdf2 E) (env_salt E (idseq w)) password,
      if length password < 8 then w else w\<lparr>idseq := Suc (idseq w)\<rparr>))"

definition Register :: "env \<Rightarrow> register_input \<Rightarrow> (world, user) act" where
  "Register E inp =
     (let inp = inp\<lparr>ri_Email := normal_email E (ri_Email inp)\<rparr>
      in andThen (guardE (ri_Email inp = '''' \<or> ri_DisplayName inp = '''' \<or> ri_WalletAddress inp = '''')
           (Errorf ErrValidation ''email, display_name and wallet_address are required'' [])) (\<lambda>_.
         andThen (attempt (reads (\<lambda>m. GetUserByEmail m (ri_Email inp)))) (\<lambda>prior.
         andThen (guardE (\<not> isl prior) (Errorf ErrConflict ''email already registered'' [])) (\<lambda>_.
         andThen (attempt (hash_password E (ri_Password inp))) (\<lambda>hashed.
         andThen (case hashed of Inl e \<Rightarrow> fail (Errorf ErrValidation ''%s'' [err_Error e]) | Inr h \<Rightarrow> ret h) (\<lambda>hash.
         andThen (nowUTC E) (\<lambda>now.
         andThen (newID E) (\<lambda>uid.
         let commitment = ComputeIdentityCommitment (env_sha E) uid (ri_KYCSignature inp) now
         in andThen (wrapErr ''anchor identity on-chain'' (chain_RegisterIdentity E commitment)) (\<lambda>_.
            let u = \<lparr>u_ID = uid, u_Email = ri_Email inp, u_DisplayName = ri_DisplayName inp,
                     u_WalletAddress = ri_WalletAddress inp, u_IdentityCommitment = commitment,
                     u_KYCProvider = ri_KYCProvider inp, u_KYCStatus = KYCPending, u_Role = RoleMember,
                     u_Status = UserActive, u_PasswordHash = hash, u_CreatedAt = now, u_UpdatedAt = now\<rparr>
            in andThen (writes (SaveUser u)) (\<lambda>_.
               ret u))))))))))"

section \<open>Accounts (auth.go)\<close>

definition Service_GetUser :: "string \<Rightarrow> (world, user) act" where
  "Service_GetUser id' = reads (\<lambda>m. GetUser m id')"

definition UpdateProfile :: "env \<Rightarrow> string \<Rightarrow> string \<Rightarrow> (world, user) act" where
  "UpdateProfile E userID displayName =
     andThen (reads (\<lambda>m. GetUser m userID)) (\<lambda>u.
     let u = (if displayName \<noteq> '''' then u\<lparr>u_DisplayName := displayName\<rparr> else u)
     in andThen (nowUTC E) (\<lambda>now.
        let u = u\<lparr>u_UpdatedAt := now\<rparr>
        in andThen (writes (SaveUser u)) (\<lambda>_.
           ret u)))"

definition Reputation :: "string \<Rightarrow> (world, reputation_summary) act" where
  "Reputation userID = lists (\<lambda>m. SummariseReputation userID (ReputationEvents m userID))"

definition Notifications :: "string \<Rightarrow> (world, notification list) act" where
  "Notifications userID = lists (\<lambda>m. ListNotificationsByUser m userID)"

text \<open>The swaps \<^verbatim>\<open>events[i], events[j] = events[j], events[i]\<close> from both ends inwards.\<close>

function swap_inwards :: "'a list \<Rightarrow> nat \<Rightarrow> nat \<Rightarrow> 'a list" where
  "swap_inwards xs i j =
     (if i < j then swap_inwards (xs[i := xs ! j, j := xs ! i]) (i + 1) (j - 1) else xs)"
  by pat_completeness auto
termination
  by (relation "measure (\<lambda>(xs, i, j). j - i)") auto

declare swap_inwards.simps [simp del]

definition Transactions :: "string \<Rightarrow> (world, reputation_event list) act" where
  "Transactions userID =
     andThen (lists (\<lambda>m. ReputationEvents m userID)) (\<lambda>events.
     ret (swap_inwards events 0 (length events - 1)))"

section \<open>The operator (admin.go)\<close>

record platform_overview =
  ov_Users :: int
  ov_GroupsByState :: "(group_state, int) gomap"
  ov_TotalGroups :: int
  ov_PendingKYC :: int
  ov_TotalEscrow :: money
  ov_TotalPayouts :: int

definition overview_step :: "memory \<Rightarrow> platform_overview \<Rightarrow> group \<Rightarrow> platform_overview" where
  "overview_step m ov g =
     (let n = (case gm_get (ov_GroupsByState ov) (g_State g) of None \<Rightarrow> 0 | Some n \<Rightarrow> n)
      in ov\<lparr>ov_GroupsByState := gm_set (g_State g) (n + 1) (ov_GroupsByState ov),
            ov_TotalEscrow := ov_TotalEscrow ov + EscrowBalance (ListEscrowByGroup m (g_ID g)),
            ov_TotalPayouts := ov_TotalPayouts ov + int (length (ListPayoutsByGroup m (g_ID g)))\<rparr>)"

definition Overview :: "(world, platform_overview) act" where
  "Overview = lists (\<lambda>m.
     let userCount = snd (ListUsers m \<lparr>p_Offset = 0, p_Limit = 1\<rparr>);
         (gs, groupCount) = ListGroups m \<lparr>p_Offset = 0, p_Limit = 100000\<rparr>;
         ov = foldl (overview_step m)
                \<lparr>ov_Users = userCount, ov_GroupsByState = [], ov_TotalGroups = groupCount,
                 ov_PendingKYC = 0, ov_TotalEscrow = 0, ov_TotalPayouts = 0\<rparr> gs
     in ov\<lparr>ov_PendingKYC := int (length (ListUsersByKYC m KYCPending))\<rparr>)"

definition Service_ListUsers :: "page \<Rightarrow> (world, user list \<times> int) act" where
  "Service_ListUsers p = lists (\<lambda>m. ListUsers m p)"

definition PendingKYC :: "(world, user list) act" where
  "PendingKYC = lists (\<lambda>m. ListUsersByKYC m KYCPending)"

definition DecideKYC :: "env \<Rightarrow> string \<Rightarrow> string \<Rightarrow> bool \<Rightarrow> (world, user) act" where
  "DecideKYC E actorID userID approve =
     andThen (reads (\<lambda>m. GetUser m userID)) (\<lambda>u.
     andThen (guardE (u_KYCStatus u \<noteq> KYCPending)
       (Errorf ErrConflict ''KYC already %s'' [kyc_status_string (u_KYCStatus u)])) (\<lambda>_.
     let status = (if approve then KYCApproved else KYCRejected)
     in andThen (nowUTC E) (\<lambda>now.
        let u = u\<lparr>u_KYCStatus := status, u_UpdatedAt := now\<rparr>
        in andThen (writes (SaveUser u)) (\<lambda>_.
           andThen (audit_log E actorID (''kyc.'' @ kyc_status_string status) userID '''') (\<lambda>_.
           andThen (notifyUser E userID NotifyJoinDecision (''KYC '' @ kyc_status_string status)
             (''Your identity verification was '' @ kyc_status_string status)) (\<lambda>_.
           ret u))))))"

definition SetUserRole :: "env \<Rightarrow> string \<Rightarrow> string \<Rightarrow> role \<Rightarrow> (world, user) act" where
  "SetUserRole E actorID userID role =
     andThen (guardE (role \<noteq> RoleMember \<and> role \<noteq> RoleAdmin) (Errorf ErrValidation ''invalid role'' [])) (\<lambda>_.
     andThen (reads (\<lambda>m. GetUser m userID)) (\<lambda>u.
     andThen (nowUTC E) (\<lambda>now.
     let u = u\<lparr>u_Role := role, u_UpdatedAt := now\<rparr>
     in andThen (writes (SaveUser u)) (\<lambda>_.
        andThen (audit_log E actorID (''user.role.'' @ role_string role) userID '''') (\<lambda>_.
        ret u)))))"

definition SetUserStatus :: "env \<Rightarrow> string \<Rightarrow> string \<Rightarrow> user_status \<Rightarrow> (world, user) act" where
  "SetUserStatus E actorID userID status =
     andThen (reads (\<lambda>m. GetUser m userID)) (\<lambda>u.
     andThen (nowUTC E) (\<lambda>now.
     let u = u\<lparr>u_Status := status, u_UpdatedAt := now\<rparr>
     in andThen (writes (SaveUser u)) (\<lambda>_.
        andThen (audit_log E actorID (''user.'' @ user_status_string status) userID '''') (\<lambda>_.
        ret u))))"

record admin_user_detail =
  ad_User :: user
  ad_Groups :: "my_group_membership list"
  ad_Reputation :: reputation_summary

definition UserDetail :: "string \<Rightarrow> (world, admin_user_detail) act" where
  "UserDetail userID =
     andThen (reads (\<lambda>m. GetUser m userID)) (\<lambda>u.
     andThen (MyGroups userID) (\<lambda>gs.
     andThen (Reputation userID) (\<lambda>rep.
     ret \<lparr>ad_User = u, ad_Groups = gs, ad_Reputation = rep\<rparr>)))"

definition AllGroups :: "page \<Rightarrow> (world, group list \<times> int) act" where
  "AllGroups p = lists (\<lambda>m. ListGroups m p)"

definition AllTransactions :: "page \<Rightarrow> (world, reputation_event list \<times> int) act" where
  "AllTransactions p = lists (\<lambda>m. AllReputationEvents m p)"

definition AuditLog :: "page \<Rightarrow> (world, audit_entry list \<times> int) act" where
  "AuditLog p = lists (\<lambda>m. ListAudit m p)"

definition AdminSettleCycle :: "env \<Rightarrow> string \<Rightarrow> string \<Rightarrow> int \<Rightarrow> (world, payout) act" where
  "AdminSettleCycle E actorID groupID index =
     andThen (reads (\<lambda>m. GetGroup m groupID)) (\<lambda>g.
     andThen (reads (\<lambda>m. GetCycle m groupID index)) (\<lambda>cycle.
     andThen (settleCycle E g cycle) (\<lambda>p.
     andThen (audit_log E actorID ''group.force_settle'' groupID (''cycle '' @ decimal index)) (\<lambda>_.
     ret p))))"

subsection \<open>Webhooks\<close>

definition CreateWebhook :: "env \<Rightarrow> string \<Rightarrow> string \<Rightarrow> string \<Rightarrow> (world, webhook) act" where
  "CreateWebhook E actorID url secret =
     andThen (guardE (url = '''') (Errorf ErrValidation ''url is required'' [])) (\<lambda>_.
     andThen (newID E) (\<lambda>wid.
     andThen (nowUTC E) (\<lambda>now.
     let w = \<lparr>w_ID = wid, w_URL = url, w_Secret = secret, w_Active = True, w_CreatedBy = actorID,
              w_CreatedAt = now\<rparr>
     in andThen (writes (SaveWebhook w)) (\<lambda>_.
        andThen (audit_log E actorID ''webhook.create'' wid url) (\<lambda>_.
        ret w)))))"

definition Service_ListWebhooks :: "(world, webhook list) act" where
  "Service_ListWebhooks = lists ListWebhooks"

definition Service_DeleteWebhook :: "env \<Rightarrow> string \<Rightarrow> string \<Rightarrow> (world, unit) act" where
  "Service_DeleteWebhook E actorID id' =
     andThen (writes (DeleteWebhook id')) (\<lambda>_.
     audit_log E actorID ''webhook.delete'' id' '''')"

subsection \<open>The administrator of a new installation\<close>

definition SeedAdmin :: "env \<Rightarrow> string \<Rightarrow> string \<Rightarrow> string \<Rightarrow> (world, unit) act" where
  "SeedAdmin E email password displayName =
     andThen (attempt (reads (\<lambda>m. GetUserByEmail m email))) (\<lambda>prior.
     if \<not> isl prior then ret ()
     else
       andThen (Register E \<lparr>ri_Email = email, ri_Password = password, ri_DisplayName = displayName,
         ri_WalletAddress = ''0xADMIN'', ri_KYCProvider = ''platform'', ri_KYCSignature = ''seed''\<rparr>) (\<lambda>u.
       andThen (nowUTC E) (\<lambda>now.
       writes (SaveUser (u\<lparr>u_Role := RoleAdmin, u_KYCStatus := KYCApproved, u_UpdatedAt := now\<rparr>)))))"

end
