(* ===== verification/Books.thy ===== *)
theory Books
  imports App_Accounts
begin

text \<open>
  The abstract specification of the service: its books (the tables of users, groups, memberships,
  requests, invitations, cycles and contributions, the two ledgers, and the movements the payment
  rail was asked for) and the steps that may change them, each with the conditions under which it
  may. No clock, no identifier source, no notification, no control flow: every operation of
  \<^verbatim>\<open>internal/app\<close> is shown to be a run of these steps, so what the steps keep holds of
  every state the service reaches.
\<close>

section \<open>The books\<close>

record books =
  ledger :: memory
  movements :: "rail_call list"
  drawn :: nat

definition feeds_cleared :: "memory \<Rightarrow> memory" where
  "feeds_cleared m = m\<lparr>reputation := [], notifications := [], audit := [], webhooks := []\<rparr>"

definition books_of :: "world \<Rightarrow> books" where
  "books_of w = \<lparr>ledger = feeds_cleared (store w), movements = rail w, drawn = idseq w\<rparr>"

section \<open>The steps\<close>

text \<open>The identifier is one of those drawn between the two counters.\<close>

definition drawn_id :: "env \<Rightarrow> nat \<Rightarrow> nat \<Rightarrow> string \<Rightarrow> bool" where
  "drawn_id E k n x \<longleftrightarrow> (\<exists>i. k \<le> i \<and> i < n \<and> x = NewID (env_rand E i))"

definition advanced :: "group \<Rightarrow> int \<Rightarrow> group" where
  "advanced g i =
     (if i = g_TotalCycles g - 1 then try_transition (try_transition g GroupSettlement) GroupClosed else g)"

definition with_order :: "group \<Rightarrow> string list \<Rightarrow> group" where
  "with_order g order = g\<lparr>g_PayoutOrder := order, g_TotalCycles := int (length order)\<rparr>"

text \<open>The records of one movement of money agree with each other.\<close>

definition charge_for :: "contribution \<Rightarrow> charge_request \<Rightarrow> bool" where
  "charge_for x req \<longleftrightarrow> ch_GroupID req = co_GroupID x \<and> ch_UserID req = co_UserID x
     \<and> ch_CycleIndex req = co_CycleIndex x \<and> ch_Amount req = co_Amount x"

definition credit_for :: "contribution \<Rightarrow> escrow_entry \<Rightarrow> bool" where
  "credit_for x y \<longleftrightarrow> e_GroupID y = co_GroupID x \<and> e_CycleIndex y = co_CycleIndex x
     \<and> e_UserID y = co_UserID x \<and> e_Direction y = LedgerCredit \<and> e_Amount y = co_Amount x"

definition payout_for :: "group \<Rightarrow> cycle \<Rightarrow> user \<Rightarrow> money \<Rightarrow> payout \<Rightarrow> bool" where
  "payout_for g c u gross p \<longleftrightarrow> po_GroupID p = c_GroupID c \<and> po_CycleIndex p = c_Index c
     \<and> po_PayeeUserID p = u_ID u \<and> po_GrossAmount p = gross \<and> po_ExpectedAmount p = expected_amount g
     \<and> po_Shortfall p = expected_amount g - gross"

definition disburse_for :: "payout \<Rightarrow> disburse_request \<Rightarrow> bool" where
  "disburse_for p req \<longleftrightarrow> di_GroupID req = po_GroupID p \<and> di_CycleIndex req = po_CycleIndex p
     \<and> di_PayeeUserID req = po_PayeeUserID p \<and> di_Amount req = po_GrossAmount p"

definition debit_for :: "payout \<Rightarrow> escrow_entry \<Rightarrow> bool" where
  "debit_for p y \<longleftrightarrow> e_GroupID y = po_GroupID p \<and> e_CycleIndex y = po_CycleIndex p
     \<and> e_UserID y = po_PayeeUserID p \<and> e_Direction y = LedgerDebit \<and> e_Amount y = po_GrossAmount p"

text \<open>Whoever is named as a member, an applicant or an invitee has an account.\<close>

definition known :: "memory \<Rightarrow> string \<Rightarrow> bool" where
  "known m uid \<longleftrightarrow> (\<exists>u. GetUser m uid = Inr u)"

definition parties_known :: "memory \<Rightarrow> bool" where
  "parties_known m \<longleftrightarrow>
     (\<forall>gid g. GetGroup m gid = Inr g \<longrightarrow> known m (g_OrganizerID g) \<and> (\<forall>uid \<in> set (g_Members g). known m uid))
     \<and> (\<forall>k j. GetJoinRequest m k = Inr j \<longrightarrow> known m (j_UserID j))
     \<and> (\<forall>k i. GetInvitation m k = Inr i \<longrightarrow> known m (i_UserID i))"

text \<open>\<open>mem\<close> tells that the truth layer is the in-memory chain, which never refuses.\<close>

inductive book_step :: "env \<Rightarrow> bool \<Rightarrow> books \<Rightarrow> books \<Rightarrow> bool" for E mem where
  idle: "drawn b \<le> n \<Longrightarrow> book_step E mem b (b\<lparr>drawn := n\<rparr>)"
| registered:
    "drawn_id E (drawn b) n (u_ID u) \<Longrightarrow> \<forall>v \<in> set (gm_range (users (ledger b))). u_Email v \<noteq> u_Email u \<Longrightarrow>
     u_KYCStatus u = KYCPending \<Longrightarrow>
     book_step E mem b (b\<lparr>ledger := SaveUser u (ledger b), drawn := n\<rparr>)"
| user_changed:
    "GetUser (ledger b) (u_ID u) = Inr v \<Longrightarrow> u_Email u = u_Email v \<Longrightarrow> drawn b \<le> n \<Longrightarrow>
     book_step E mem b (b\<lparr>ledger := SaveUser u (ledger b), drawn := n\<rparr>)"
| group_opened:
    "GetUser (ledger b) (g_OrganizerID g) = Inr u \<Longrightarrow> CanParticipate u = Inr () \<Longrightarrow>
     drawn_id E (drawn b) n (g_ID g) \<Longrightarrow> ValidateConfig g = Inr () \<Longrightarrow> g_State g = GroupCreated \<Longrightarrow>
     g_Members g = [g_OrganizerID g] \<Longrightarrow> g_PayoutOrder g = [] \<Longrightarrow> g_TotalCycles g = 0 \<Longrightarrow>
     m_GroupID x = g_ID g \<Longrightarrow> m_UserID x = g_OrganizerID g \<Longrightarrow> m_Status x = MembershipActive \<Longrightarrow>
     m_Organizer x \<Longrightarrow>
     book_step E mem b (b\<lparr>ledger := SaveMembership x (SaveGroup g (ledger b)), drawn := n\<rparr>)"
| request_saved:
    "known (ledger b) (j_UserID j) \<Longrightarrow> drawn b \<le> n \<Longrightarrow>
     book_step E mem b (b\<lparr>ledger := SaveJoinRequest j (ledger b), drawn := n\<rparr>)"
| invitation_saved:
    "known (ledger b) (i_UserID i) \<Longrightarrow> drawn b \<le> n \<Longrightarrow>
     book_step E mem b (b\<lparr>ledger := SaveInvitation i (ledger b), drawn := n\<rparr>)"
| member_added:
    "GetGroup (ledger b) (g_ID g) = Inr g \<Longrightarrow> g_State g = GroupCreated \<Longrightarrow>
     int (length (g_Members g)) < g_MaxMembers g \<Longrightarrow> known (ledger b) (m_UserID x) \<Longrightarrow>
     m_GroupID x = g_ID g \<Longrightarrow> m_Status x = MembershipActive \<Longrightarrow> drawn b \<le> n \<Longrightarrow>
     book_step E mem b (b\<lparr>ledger := SaveMembership x
                           (SaveGroup (g\<lparr>g_Members := g_Members g @ [m_UserID x]\<rparr>) (ledger b)),
                         drawn := n\<rparr>)"
| member_dropped:
    "GetGroup (ledger b) (g_ID g) = Inr g \<Longrightarrow> g_State g = GroupCreated \<Longrightarrow> uid \<noteq> g_OrganizerID g \<Longrightarrow>
     GetMembership (ledger b) (g_ID g) uid = Inr x \<Longrightarrow> s \<noteq> MembershipActive \<Longrightarrow>
     book_step E mem b (b\<lparr>ledger := SaveMembership (x\<lparr>m_Status := s\<rparr>)
                          (SaveGroup (g\<lparr>g_Members := filter (\<lambda>v. v \<noteq> uid) (g_Members g)\<rparr>) (ledger b))\<rparr>)"
| activated:
    "GetGroup (ledger b) (g_ID g) = Inr g \<Longrightarrow> g_State g = GroupCreated \<Longrightarrow>
     Validate (with_order g order) = Inr () \<Longrightarrow> drawn b \<le> n \<Longrightarrow>
     book_step E mem b (b\<lparr>ledger := fold SaveCycle (Cycles (with_order g order) now)
                           (SaveGroup (with_order g order\<lparr>g_ActivatedAt := Some now, g_State := GroupActive\<rparr>) (ledger b)),
                         drawn := n\<rparr>)"
| contributed:
    "GetGroup (ledger b) (co_GroupID x) = Inr g \<Longrightarrow> g_State g = GroupActive \<Longrightarrow>
     co_UserID x \<in> set (g_Members g) \<Longrightarrow>
     GetCycle (ledger b) (co_GroupID x) (co_CycleIndex x) = Inr c \<Longrightarrow> \<not> c_Settled c \<Longrightarrow>
     GetContribution (ledger b) (co_GroupID x) (co_UserID x) (co_CycleIndex x) = Inl e \<Longrightarrow>
     accepted a \<Longrightarrow> charge_for x req \<Longrightarrow> credit_for x y \<Longrightarrow> co_Amount x = g_ContributionAmount g \<Longrightarrow>
     drawn b \<le> n \<Longrightarrow>
     book_step E mem b (b\<lparr>ledger := AppendEscrowEntry y (SaveContribution x (ledger b)),
                         movements := movements b @ [ChargeCall req a], drawn := n\<rparr>)"
| settled:
    "GetGroup (ledger b) (c_GroupID c) = Inr g \<Longrightarrow> GetCycle (ledger b) (c_GroupID c) (c_Index c) = Inr c \<Longrightarrow>
     \<not> c_Settled c \<Longrightarrow> GetUser (ledger b) (c_PayoutUser c) = Inr u \<Longrightarrow> accepted a \<Longrightarrow>
     payout_for g c u (total_amount (ListContributionsByCycle (ledger b) (c_GroupID c) (c_Index c))) p \<Longrightarrow>
     disburse_for p req \<Longrightarrow> debit_for p y \<Longrightarrow> drawn b \<le> n \<Longrightarrow>
     book_step E mem b (b\<lparr>ledger := SaveGroup (advanced g (c_Index c)) (SaveCycle (c\<lparr>c_Settled := True\<rparr>)
                            (SavePayout p (AppendEscrowEntry y (ledger b)))),
                         movements := movements b @ [DisburseCall req a], drawn := n\<rparr>)"
| unrecorded:
    "\<not> mem \<or> (\<forall>gid. call_amount gid call = 0) \<Longrightarrow> drawn b \<le> n \<Longrightarrow>
     book_step E mem b (b\<lparr>movements := movements b @ [call], drawn := n\<rparr>)"

abbreviation book_run :: "env \<Rightarrow> bool \<Rightarrow> books \<Rightarrow> books \<Rightarrow> bool" where
  "book_run E mem \<equiv> (book_step E mem)\<^sup>*\<^sup>*"

end
