(* ===== verification/Simulation.thy ===== *)
theory Simulation
  imports Books
begin

text \<open>
  Every operation of the service is a run of the steps of the books: the simulation, one lemma
  per operation, by symbolic execution of the operation along each of its paths.
\<close>

section \<open>The abstraction of what an operation leaves\<close>

lemma feeds_cleared_tables [simp]:
  "users (feeds_cleared m) = users m" "groups (feeds_cleared m) = groups m"
  "memberships (feeds_cleared m) = memberships m" "joinRequests (feeds_cleared m) = joinRequests m"
  "invitations (feeds_cleared m) = invitations m" "cycles (feeds_cleared m) = cycles m"
  "contributions (feeds_cleared m) = contributions m" "payouts (feeds_cleared m) = payouts m"
  "escrow (feeds_cleared m) = escrow m"
  by (simp_all add: feeds_cleared_def)

lemma feeds_cleared_gets [simp]:
  "GetUser (feeds_cleared m) k = GetUser m k" "GetGroup (feeds_cleared m) k = GetGroup m k"
  "GetUserByEmail (feeds_cleared m) a = GetUserByEmail m a"
  "GetMembership (feeds_cleared m) k u = GetMembership m k u"
  "GetCycle (feeds_cleared m) k i = GetCycle m k i"
  "GetContribution (feeds_cleared m) k u i = GetContribution m k u i"
  "ListContributionsByCycle (feeds_cleared m) k i = ListContributionsByCycle m k i"
  "ListCyclesByGroup (feeds_cleared m) k = ListCyclesByGroup m k"
  "ListEscrowByGroup (feeds_cleared m) k = ListEscrowByGroup m k"
  "ListPayoutsByGroup (feeds_cleared m) k = ListPayoutsByGroup m k"
  by (simp_all add: GetUser_def GetGroup_def GetUserByEmail_def GetMembership_def GetCycle_def
      GetContribution_def ListContributionsByCycle_def ListCyclesByGroup_def ListEscrowByGroup_def
      ListPayoutsByGroup_def)

lemma feeds_cleared_known [simp]: "known (feeds_cleared m) uid = known m uid"
  by (simp add: known_def)

lemma feeds_cleared_ops [simp]:
  "feeds_cleared (SaveUser u m) = SaveUser u (feeds_cleared m)"
  "feeds_cleared (SaveGroup g m) = SaveGroup g (feeds_cleared m)"
  "feeds_cleared (SaveMembership x m) = SaveMembership x (feeds_cleared m)"
  "feeds_cleared (SaveJoinRequest j m) = SaveJoinRequest j (feeds_cleared m)"
  "feeds_cleared (SaveInvitation i m) = SaveInvitation i (feeds_cleared m)"
  "feeds_cleared (SaveCycle c m) = SaveCycle c (feeds_cleared m)"
  "feeds_cleared (SaveContribution k m) = SaveContribution k (feeds_cleared m)"
  "feeds_cleared (SavePayout p m) = SavePayout p (feeds_cleared m)"
  "feeds_cleared (AppendEscrowEntry e m) = AppendEscrowEntry e (feeds_cleared m)"
  "feeds_cleared (AppendReputationEvent r m) = feeds_cleared m"
  "feeds_cleared (SaveWebhook h m) = feeds_cleared m"
  "feeds_cleared (DeleteWebhook hid m) = feeds_cleared m"
  "feeds_cleared (SaveNotification n m) = feeds_cleared m"
  "feeds_cleared (AppendAudit a m) = feeds_cleared m"
  by (simp_all add: feeds_cleared_def memory_ops)

lemma feeds_cleared_SaveCycles [simp]:
  "feeds_cleared (fold SaveCycle cs m) = fold SaveCycle cs (feeds_cleared m)"
  by (induction cs arbitrary: m) simp_all

lemma feeds_cleared_feeds [simp]:
  "feeds_cleared (store (notified E u k t b w)) = feeds_cleared (store w)"
  "feeds_cleared (store (audited E a act t d w)) = feeds_cleared (store w)"
  using notified_store [of E u k t b w] audited_store [of E a act t d w] by auto

lemma books_of_fields [simp]:
  "ledger (books_of w) = feeds_cleared (store w)" "movements (books_of w) = rail w"
  "drawn (books_of w) = idseq w"
  by (simp_all add: books_of_def)

section \<open>The steps by the fields of the books they lead to\<close>


lemma book_step_eq: "book_step E mem b b'' \<Longrightarrow> b' = b'' \<Longrightarrow> book_step E mem b b'"
  by simp


lemma idleI:
  "ledger b' = ledger b \<Longrightarrow> movements b' = movements b \<Longrightarrow> drawn b \<le> drawn b' \<Longrightarrow> book_step E mem b b'"
  by (rule book_step_eq [OF idle]) auto

lemma registeredI:
  "ledger b' = SaveUser u (ledger b) \<Longrightarrow> movements b' = movements b \<Longrightarrow>
   drawn_id E (drawn b) (drawn b') (u_ID u) \<Longrightarrow>
   \<forall>v \<in> set (gm_range (users (ledger b))). u_Email v \<noteq> u_Email u \<Longrightarrow> u_KYCStatus u = KYCPending \<Longrightarrow>
   book_step E mem b b'"
  by (rule book_step_eq [OF registered]) auto

lemma user_changedI:
  "ledger b' = SaveUser u (ledger b) \<Longrightarrow> movements b' = movements b \<Longrightarrow> drawn b \<le> drawn b' \<Longrightarrow>
   GetUser (ledger b) (u_ID u) = Inr v \<Longrightarrow> u_Email u = u_Email v \<Longrightarrow> book_step E mem b b'"
  by (rule book_step_eq [OF user_changed [where u = u and v = v]]) auto

lemma group_openedI:
  "ledger b' = SaveMembership x (SaveGroup g (ledger b)) \<Longrightarrow> movements b' = movements b \<Longrightarrow>
   GetUser (ledger b) (g_OrganizerID g) = Inr u \<Longrightarrow> CanParticipate u = Inr () \<Longrightarrow>
   drawn_id E (drawn b) (drawn b') (g_ID g) \<Longrightarrow> ValidateConfig g = Inr () \<Longrightarrow> g_State g = GroupCreated \<Longrightarrow>
   g_Members g = [g_OrganizerID g] \<Longrightarrow> g_PayoutOrder g = [] \<Longrightarrow> g_TotalCycles g = 0 \<Longrightarrow>
   m_GroupID x = g_ID g \<Longrightarrow> m_UserID x = g_OrganizerID g \<Longrightarrow> m_Status x = MembershipActive \<Longrightarrow>
   m_Organizer x \<Longrightarrow> book_step E mem b b'"
  by (rule book_step_eq [OF group_opened]) auto

lemma request_savedI:
  "ledger b' = SaveJoinRequest j (ledger b) \<Longrightarrow> movements b' = movements b \<Longrightarrow> drawn b \<le> drawn b' \<Longrightarrow>
   known (ledger b) (j_UserID j) \<Longrightarrow> book_step E mem b b'"
  by (rule book_step_eq [OF request_saved]) auto

lemma invitation_savedI:
  "ledger b' = SaveInvitation i (ledger b) \<Longrightarrow> movements b' = movements b \<Longrightarrow> drawn b \<le> drawn b' \<Longrightarrow>
   known (ledger b) (i_UserID i) \<Longrightarrow> book_step E mem b b'"
  by (rule book_step_eq [OF invitation_saved]) auto

lemma member_addedI:
  "ledger b' = SaveMembership x (SaveGroup (g\<lparr>g_Members := g_Members g @ [m_UserID x]\<rparr>) (ledger b)) \<Longrightarrow>
   movements b' = movements b \<Longrightarrow> drawn b \<le> drawn b' \<Longrightarrow>
   GetGroup (ledger b) (g_ID g) = Inr g \<Longrightarrow> g_State g = GroupCreated \<Longrightarrow>
   int (length (g_Members g)) < g_MaxMembers g \<Longrightarrow> known (ledger b) (m_UserID x) \<Longrightarrow>
   m_GroupID x = g_ID g \<Longrightarrow> m_Status x = MembershipActive \<Longrightarrow> book_step E mem b b'"
  by (rule book_step_eq [OF member_added]) auto

lemma member_droppedI:
  "ledger b' = SaveMembership (x\<lparr>m_Status := s\<rparr>)
      (SaveGroup (g\<lparr>g_Members := filter (\<lambda>v. v \<noteq> uid) (g_Members g)\<rparr>) (ledger b)) \<Longrightarrow>
   movements b' = movements b \<Longrightarrow> drawn b' = drawn b \<Longrightarrow>
   GetGroup (ledger b) (g_ID g) = Inr g \<Longrightarrow> g_State g = GroupCreated \<Longrightarrow> uid \<noteq> g_OrganizerID g \<Longrightarrow>
   GetMembership (ledger b) (g_ID g) uid = Inr x \<Longrightarrow> s \<noteq> MembershipActive \<Longrightarrow> book_step E mem b b'"
  by (rule book_step_eq [OF member_dropped]) auto

lemma activatedI:
  "ledger b' = fold SaveCycle (Cycles (with_order g order) now)
      (SaveGroup (with_order g order\<lparr>g_ActivatedAt := Some now, g_State := GroupActive\<rparr>) (ledger b)) \<Longrightarrow>
   movements b' = movements b \<Longrightarrow> drawn b \<le> drawn b' \<Longrightarrow>
   GetGroup (ledger b) (g_ID g) = Inr g \<Longrightarrow> g_State g = GroupCreated \<Longrightarrow>
   Validate (with_order g order) = Inr () \<Longrightarrow> book_step E mem b b'"
  by (rule book_step_eq [OF activated [where g = g and order = order and now = now]]) auto

lemma contributedI:
  "ledger b' = AppendEscrowEntry y (SaveContribution x (ledger b)) \<Longrightarrow>
   movements b' = movements b @ [ChargeCall req a] \<Longrightarrow> drawn b \<le> drawn b' \<Longrightarrow>
   GetGroup (ledger b) (co_GroupID x) = Inr g \<Longrightarrow> g_State g = GroupActive \<Longrightarrow>
   co_UserID x \<in> set (g_Members g) \<Longrightarrow>
   GetCycle (ledger b) (co_GroupID x) (co_CycleIndex x) = Inr c \<Longrightarrow> \<not> c_Settled c \<Longrightarrow>
   GetContribution (ledger b) (co_GroupID x) (co_UserID x) (co_CycleIndex x) = Inl e \<Longrightarrow>
   accepted a \<Longrightarrow> charge_for x req \<Longrightarrow> credit_for x y \<Longrightarrow> co_Amount x = g_ContributionAmount g \<Longrightarrow>
   book_step E mem b b'"
  by (rule book_step_eq [OF contributed]) auto

lemma settledI:
  "ledger b' = SaveGroup (advanced g (c_Index c)) (SaveCycle (c\<lparr>c_Settled := True\<rparr>)
      (SavePayout p (AppendEscrowEntry y (ledger b)))) \<Longrightarrow>
   movements b' = movements b @ [DisburseCall req a] \<Longrightarrow> drawn b \<le> drawn b' \<Longrightarrow>
   GetGroup (ledger b) (c_GroupID c) = Inr g \<Longrightarrow> GetCycle (ledger b) (c_GroupID c) (c_Index c) = Inr c \<Longrightarrow>
   \<not> c_Settled c \<Longrightarrow> GetUser (ledger b) (c_PayoutUser c) = Inr u \<Longrightarrow> accepted a \<Longrightarrow>
   payout_for g c u (total_amount (ListContributionsByCycle (ledger b) (c_GroupID c) (c_Index c))) p \<Longrightarrow>
   disburse_for p req \<Longrightarrow> debit_for p y \<Longrightarrow> book_step E mem b b'"
  by (rule book_step_eq [OF settled]) auto

lemma unrecordedI:
  "ledger b' = ledger b \<Longrightarrow> movements b' = movements b @ [call] \<Longrightarrow> drawn b \<le> drawn b' \<Longrightarrow>
   \<not> mem \<or> (\<forall>gid. call_amount gid call = 0) \<Longrightarrow> book_step E mem b b'"
  by (rule book_step_eq [OF unrecorded]) auto

section \<open>Which truth layer is in use never changes\<close>

abbreviation same_chain :: "bool \<Rightarrow> world \<Rightarrow> bool" where
  "same_chain mem w \<equiv> on_mem w = mem"

lemma same_chain_primitives [keeps]:
  "preserves (same_chain mem) (newID E)" "preserves (same_chain mem) (nowUTC E)"
  "preserves (same_chain mem) (reads f)" "preserves (same_chain mem) (lists h)"
  "preserves (same_chain mem) (writes k)" "preserves (same_chain mem) (notifyUser E u kd t d)"
  "preserves (same_chain mem) (audit_log E u act t d)" "preserves (same_chain mem) (rail_Charge E cr)"
  "preserves (same_chain mem) (rail_Disburse E dr)" "preserves (same_chain mem) (hash_password E pw)"
  "preserves (same_chain mem) (chain_RegisterIdentity E cm)" "preserves (same_chain mem) (chain_DeployGroup E g)"
  "preserves (same_chain mem) (chain_ActivateGroup E ad)" "preserves (same_chain mem) (chain_SubmitContribution E co)"
  "preserves (same_chain mem) (chain_RecordDefault E de)" "preserves (same_chain mem) (chain_RecordPayout E pe)"
  by (auto simp: preserves_def exec hash_password_def)

lemma same_chain_ops:
  "preserves (same_chain mem) (settleCycle E g c)" "preserves (same_chain mem) (recordDefault E g c u)"
  "preserves (same_chain mem) (addMember E g u now)" "preserves (same_chain mem) (dropMember g u s)"
  "preserves (same_chain mem) (Register E ri)"
  unfolding settleCycle_def recordDefault_def addMember_def dropMember_def Register_def Let_def
  by (intro keeps)+

section \<open>What is stored under a key carries the key\<close>

lemma stored_ids:
  assumes "memory_ok m"
  shows "GetUser m k = Inr u \<Longrightarrow> u_ID u = k" "GetGroup m k = Inr g \<Longrightarrow> g_ID g = k"
    "GetJoinRequest m k = Inr j \<Longrightarrow> j_ID j = k" "GetInvitation m k = Inr i \<Longrightarrow> i_ID i = k"
  using assms
  by (auto simp: memory_ok_def kept_under_def GetUser_def GetGroup_def GetJoinRequest_def GetInvitation_def
      dest: gm_allD)

lemma stored_cycle:
  assumes "memory_ok m" and "GetCycle m gid i = Inr c"
  shows "c_GroupID c = gid" and "itoa (c_Index c) = itoa i" and "GetCycle m gid (c_Index c) = Inr c"
proof -
  have "cycleKey gid i = cycleKey (c_GroupID c) (c_Index c)"
    using assms by (auto simp: memory_ok_def kept_under_def GetCycle_def dest: gm_allD)
  then show "c_GroupID c = gid" and i: "itoa (c_Index c) = itoa i"
    by (auto simp: cycleKey_def split_last_sep itoa_no_bar)
  show "GetCycle m gid (c_Index c) = Inr c"
    using assms(2) i by (simp add: GetCycle_def cycleKey_def)
qed

lemma parties_knownD:
  assumes "parties_known m"
  shows "GetGroup m gid = Inr g \<Longrightarrow> known m (g_OrganizerID g)"
    "GetGroup m gid = Inr g \<Longrightarrow> uid \<in> set (g_Members g) \<Longrightarrow> known m uid"
    "GetJoinRequest m k = Inr j \<Longrightarrow> known m (j_UserID j)"
    "GetInvitation m k = Inr i \<Longrightarrow> known m (i_UserID i)"
  using assms unfolding parties_known_def by blast+

lemma gm_set_same: "gm_get m k = Some v \<Longrightarrow> gm_set k v m = m"
  by (induction m) (auto simp: gm_get_def gm_set_def split: if_splits)

lemma SaveGroup_same: "GetGroup m (g_ID g) = Inr g \<Longrightarrow> SaveGroup g m = m"
  by (simp add: GetGroup_def SaveGroup_def gm_set_same)

section \<open>Groups\<close>

lemma idle_run:
  "ledger b' = ledger b \<Longrightarrow> movements b' = movements b \<Longrightarrow> drawn b \<le> drawn b' \<Longrightarrow> book_run E mem b b'"
  by (blast intro: idleI)

lemma CreateGroup_run: "book_run E mem (books_of w) (books_of (snd (CreateGroup E creatorID inp w)))"
  apply (simp add: CreateGroup_def exec Let_def split: sum.split)
  apply (intro conjI impI allI; (rule idle_run; simp; fail)?)
  apply (rule r_into_rtranclp, rule group_openedI, simp)
  apply (auto simp: drawn_id_def ValidateConfig_ok)
  done

lemma RequestToJoin_run: "book_run E mem (books_of w) (books_of (snd (RequestToJoin E uid gid w)))"
  apply (simp add: RequestToJoin_def exec Let_def split: sum.split)
  apply (intro conjI impI allI; (rule idle_run; simp; fail)?)
  apply (rule r_into_rtranclp, rule request_savedI, simp)
  apply (auto simp: known_def)
  done

lemma addMember_run:
  assumes "GetGroup (store w) (g_ID g) = Inr g" "g_State g = GroupCreated"
    "int (length (g_Members g)) < g_MaxMembers g" "known (store w) uid"
  shows "book_run E mem (books_of w) (books_of (snd (addMember E g uid now w)))"
  using assms
    by (intro r_into_rtranclp member_addedI
        [where g = g and x = "\<lparr>m_ID = NewID (env_rand E (idseq w)), m_GroupID = g_ID g,
           m_UserID = uid, m_Organizer = False, m_Status = MembershipActive, m_JoinedAt = now\<rparr>"])
      (simp_all add: addMember_def exec Let_def)

lemma addMember_apply:
  "addMember E g uid now w = (Inr (), after (addMember E g uid now) w)"
  "joinRequests (store (after (addMember E g uid now) w)) = joinRequests (store w)"
  "invitations (store (after (addMember E g uid now) w)) = invitations (store w)"
  "users (store (after (addMember E g uid now) w)) = users (store w)"
  by (simp_all add: after_def addMember_def exec Let_def memory_ops)

lemma DecideJoinRequest_run:
  assumes "memory_ok (store w)" and "parties_known (store w)"
  shows "book_run E mem (books_of w) (books_of (snd (DecideJoinRequest E actor rid approve w)))"
proof (cases "\<exists>j g. GetJoinRequest (store w) rid = Inr j \<and> GetGroup (store w) (j_GroupID j) = Inr g
    \<and> g_OrganizerID g = actor \<and> j_Status j = JoinPending
    \<and> (approve \<longrightarrow> g_State g = GroupCreated \<and> int (length (g_Members g)) < g_MaxMembers g)")
  case False
  then show ?thesis
    by (auto simp: DecideJoinRequest_def exec Let_def intro!: idle_run split: sum.split)
next
  case True
  then obtain j g where jg: "GetJoinRequest (store w) rid = Inr j" "GetGroup (store w) (j_GroupID j) = Inr g"
    "g_OrganizerID g = actor" "j_Status j = JoinPending"
    "approve \<Longrightarrow> g_State g = GroupCreated \<and> int (length (g_Members g)) < g_MaxMembers g"
    by auto
  have u: "known (store w) (j_UserID j)"
    by (rule parties_knownD(3) [OF assms(2) jg(1)])
  show ?thesis
  proof (cases approve)
    case False
    with jg u show ?thesis
      apply (simp add: DecideJoinRequest_def exec Let_def)
      apply (rule r_into_rtranclp, rule request_savedI, simp)
      apply auto
      done
  next
    case True
    let ?w = "w\<lparr>ticks := Suc (ticks w)\<rparr>"
    let ?w1 = "after (addMember E g (j_UserID j) (env_clock E (ticks w))) ?w"
    have "book_run E mem (books_of ?w) (books_of ?w1)"
      unfolding after_def
      by (rule addMember_run) (use jg True u stored_ids [OF assms(1)] in auto)
    moreover have "book_run E mem (books_of ?w1) (books_of (snd (DecideJoinRequest E actor rid approve w)))"
      using jg True u
      apply (simp add: DecideJoinRequest_def exec Let_def addMember_apply)
      apply (rule r_into_rtranclp, rule request_savedI, simp)
      apply (auto simp: known_def GetUser_def addMember_apply)
      done
    moreover have "books_of ?w = books_of w"
      by (simp add: books_of_def)
    ultimately show ?thesis
      by simp
  qed
qed

lemma Invite_run: "book_run E mem (books_of w) (books_of (snd (Invite E actor gid uid w)))"
  apply (simp add: Invite_def exec Let_def split: sum.split)
  apply (intro conjI impI allI; (rule idle_run; simp; fail)?)
  apply (rule r_into_rtranclp, rule invitation_savedI, simp)
  apply (auto simp: known_def)
  done

lemma RespondInvitation_accept:
  assumes "memory_ok (store w)" "GetInvitation (store w) iid = Inr i" "i_Status i = InvitePending"
    "GetGroup (store w) (i_GroupID i) = Inr g" "GetUser (store w) (i_UserID i) = Inr u"
    "CanParticipate u = Inr ()" "g_State g = GroupCreated" "int (length (g_Members g)) < g_MaxMembers g"
  shows "book_run E mem (books_of w) (books_of (snd (RespondInvitation E (i_UserID i) iid True w)))"
proof -
  let ?w = "w\<lparr>ticks := Suc (ticks w)\<rparr>"
  let ?w1 = "after (addMember E g (i_UserID i) (env_clock E (ticks w))) ?w"
  have k: "known (store w) (i_UserID i)"
    using assms(5) by (simp add: known_def)
  have "book_run E mem (books_of ?w) (books_of ?w1)"
    unfolding after_def
    by (rule addMember_run) (use assms k stored_ids(2) [OF assms(1) assms(4)] in simp_all)
  moreover have "book_run E mem (books_of ?w1) (books_of (snd (RespondInvitation E (i_UserID i) iid True w)))"
    using assms k
    apply (simp add: RespondInvitation_def exec Let_def addMember_apply)
    apply (rule r_into_rtranclp, rule invitation_savedI, simp)
    apply (auto simp: known_def GetUser_def addMember_apply)
    done
  moreover have "books_of ?w = books_of w"
    by (simp add: books_of_def)
  ultimately show ?thesis
    by simp
qed

lemma RespondInvitation_run:
  assumes "memory_ok (store w)" and "parties_known (store w)"
  shows "book_run E mem (books_of w) (books_of (snd (RespondInvitation E uid iid accept w)))"
proof (cases "GetInvitation (store w) iid")
  case (Inl e)
  then show ?thesis
    by (auto simp: RespondInvitation_def exec intro!: idle_run)
next
  case (Inr i)
  then have k: "known (store w) (i_UserID i)"
    by (rule parties_knownD(4) [OF assms(2)])
  then obtain u where u: "GetUser (store w) (i_UserID i) = Inr u"
    by (auto simp: known_def)
  show ?thesis
  proof (cases "GetGroup (store w) (i_GroupID i)")
    case (Inl e)
    with \<open>GetInvitation (store w) iid = Inr i\<close> show ?thesis
      by (auto simp: RespondInvitation_def exec intro!: idle_run)
  next
    case g: (Inr g)
    show ?thesis
    proof (cases "accept \<and> uid = i_UserID i \<and> i_Status i = InvitePending \<and> CanParticipate u = Inr ()
        \<and> g_State g = GroupCreated \<and> int (length (g_Members g)) < g_MaxMembers g")
      case True
      with RespondInvitation_accept [OF assms(1) Inr _ g u] show ?thesis
        by simp
    next
      case False
      show ?thesis
      proof (cases "\<not> accept \<and> uid = i_UserID i \<and> i_Status i = InvitePending")
        case True
        with Inr g k show ?thesis
          apply (simp add: RespondInvitation_def exec)
          apply (rule r_into_rtranclp, rule invitation_savedI, simp)
          apply simp_all
          done
      next
        case no: False
        show ?thesis
          apply (rule idle_run)
          using no False Inr g u
          by (auto simp: RespondInvitation_def exec split: sum.split)
      qed
    qed
  qed
qed

lemma dropMember_run:
  assumes "GetGroup (store w) (g_ID g) = Inr g" "g_State g = GroupCreated" "uid \<noteq> g_OrganizerID g"
    "s \<noteq> MembershipActive"
  shows "book_run E mem (books_of w) (books_of (snd (dropMember g uid s w)))"
  using assms
  apply (simp add: dropMember_def exec Let_def split: sum.split)
  apply (intro conjI impI allI; (rule idle_run; simp; fail)?)
  apply (rule r_into_rtranclp, rule member_droppedI [where s = s], simp)
  apply auto
  done

lemma LeaveGroup_run:
  assumes "memory_ok (store w)"
  shows "book_run E mem (books_of w) (books_of (snd (LeaveGroup uid gid w)))"
  using stored_ids [OF assms]
  by (auto simp: LeaveGroup_def exec intro!: dropMember_run split: sum.split)

lemma RemoveMember_run:
  assumes "memory_ok (store w)"
  shows "book_run E mem (books_of w) (books_of (snd (RemoveMember actor gid uid w)))"
  using stored_ids [OF assms]
  by (auto simp: RemoveMember_def exec intro!: dropMember_run split: sum.split)

section \<open>Cycles\<close>

lemma forEach_writes [exec]: "forEach xs (\<lambda>x. writes (f x)) w = (Inr (), w\<lparr>store := fold f xs (store w)\<rparr>)"
  by (induction xs arbitrary: w) (simp_all add: exec)

lemma notify_all:
  "\<exists>w'. forEach us (\<lambda>u. notifyUser E u k t b) w = (Inr (), w')
     \<and> feeds_cleared (store w') = feeds_cleared (store w) \<and> rail w' = rail w \<and> idseq w \<le> idseq w' \<and> truth w' = truth w"
proof (induction us arbitrary: w)
  case (Cons u us)
  show ?case
    using Cons.IH [of "notified E u k t b w"] by (auto simp: exec)
qed (simp add: exec)

lemma Cycles_state [simp]: "Cycles (g\<lparr>g_ActivatedAt := t, g_State := s\<rparr>) now = Cycles g now"
proof -
  have "cycles_from (g\<lparr>g_ActivatedAt := t, g_State := s\<rparr>) now i ps = cycles_from g now i ps" for i ps
    by (induction ps arbitrary: i) (simp_all add: cycle_deadline_def)
  then show ?thesis
    by (simp add: Cycles_def)
qed

lemma CanTransition_GroupActive: "CanTransition g GroupActive \<longleftrightarrow> g_State g = GroupCreated"
  by (cases "g_State g") (auto simp: CanTransition_def allowedTransitions_def)

lemma Transition_activate:
  "g_State g = GroupCreated \<Longrightarrow> Transition g GroupActive = Inr (g\<lparr>g_State := GroupActive\<rparr>)"
  by (simp add: Transition_def CanTransition_GroupActive)

lemma ActivateGroup_ok:
  assumes g: "GetGroup (store w) gid = Inr g" and "g_OrganizerID g = actor" "g_State g = GroupCreated"
    and val: "Validate (with_order g (if order = [] then g_Members g else order)) = Inr ()"
    and tx: "answer (chain_ActivateGroup E (g_ContractAddress g)) w = Inr tx"
  shows "\<exists>now g' w'. ActivateGroup E actor gid order w = (Inr g', w')
    \<and> g' = with_order g (if order = [] then g_Members g else order)\<lparr>g_ActivatedAt := Some now, g_State := GroupActive\<rparr>
    \<and> feeds_cleared (store w') = fold SaveCycle (Cycles (with_order g (if order = [] then g_Members g else order)) now)
         (SaveGroup g' (feeds_cleared (store w)))
    \<and> rail w' = rail w \<and> idseq w \<le> idseq w' \<and> on_mem w' = on_mem w"
proof -
  let ?g = "with_order g (if order = [] then g_Members g else order)"
  define w1 where "w1 = after (chain_ActivateGroup E (g_ContractAddress g)) w"
  define now where "now = env_clock E (ticks w1)"
  define ga where "ga = ?g\<lparr>g_ActivatedAt := Some now, g_State := GroupActive\<rparr>"
  define w2 where "w2 = w1\<lparr>ticks := Suc (ticks w1), store := fold SaveCycle (Cycles ?g now) (SaveGroup ga (store w1))\<rparr>"
  obtain w' where w': "forEach (g_Members g) (\<lambda>u. notifyUser E u NotifyGroupActivated ''Group activated''
      (g_Name g @ '' is now active '' @ em_dash @ '' contributions begin'')) w2 = (Inr (), w')"
    "feeds_cleared (store w') = feeds_cleared (store w2)" "rail w' = rail w2" "idseq w2 \<le> idseq w'" "truth w' = truth w2"
    using notify_all by blast
  have st: "g_State g = GroupCreated"
    using assms by simp
  have "ActivateGroup E actor gid order w = (Inr ga, w')"
    using assms w'(1) unfolding ga_def now_def w1_def w2_def with_order_def
    by (cases "order = []")
      (simp_all add: ActivateGroup_def exec Let_def CanTransition_GroupActive Transition_activate)
  moreover have "on_mem w' = on_mem w1"
    using w'(5) by (simp add: on_mem_def w2_def)
  ultimately show ?thesis
    using w' by (intro exI [of _ now] exI [of _ ga] exI [of _ w']) (simp add: ga_def w2_def w1_def)
qed


lemma ActivateGroup_refused:
  assumes "\<not> (\<exists>g tx. GetGroup (store w) gid = Inr g \<and> g_OrganizerID g = actor \<and> g_State g = GroupCreated
    \<and> Validate (with_order g (if order = [] then g_Members g else order)) = Inr ()
    \<and> answer (chain_ActivateGroup E (g_ContractAddress g)) w = Inr tx)"
  shows "\<exists>e w'. ActivateGroup E actor gid order w = (Inl e, w') \<and> books_of w' = books_of w"
proof (cases "GetGroup (store w) gid")
  case (Inl e)
  then show ?thesis
    by (simp add: ActivateGroup_def exec)
next
  case (Inr g)
  define g' where "g' = with_order g (if order = [] then g_Members g else order)"
  have eq: "(let payoutOrder = (if order = [] then g_Members g else order);
         g = g\<lparr>g_PayoutOrder := payoutOrder, g_TotalCycles := int (length payoutOrder)\<rparr> in f g) = f g'" for f
    by (simp add: g'_def with_order_def Let_def)
  have same: "books_of (after (chain_ActivateGroup E (g_ContractAddress g)) w) = books_of w"
    by (simp add: books_of_def)
  have addr: "g_ContractAddress g' = g_ContractAddress g"
    by (simp add: g'_def with_order_def)
  from Inr assms show ?thesis
    unfolding ActivateGroup_def
    by (auto simp: exec eq g'_def [symmetric] CanTransition_GroupActive same addr split: sum.split)
qed

lemma ActivateGroup_run:
  assumes "memory_ok (store w)"
  shows "book_run E mem (books_of w) (books_of (snd (ActivateGroup E actor gid order w)))"
proof (cases "\<exists>g tx. GetGroup (store w) gid = Inr g \<and> g_OrganizerID g = actor \<and> g_State g = GroupCreated
    \<and> Validate (with_order g (if order = [] then g_Members g else order)) = Inr ()
    \<and> answer (chain_ActivateGroup E (g_ContractAddress g)) w = Inr tx")
  case False
  then show ?thesis
    using ActivateGroup_refused [of w gid actor order E] by fastforce
next
  case True
  then obtain g tx where g: "GetGroup (store w) gid = Inr g" "g_OrganizerID g = actor" "g_State g = GroupCreated"
    "Validate (with_order g (if order = [] then g_Members g else order)) = Inr ()"
    "answer (chain_ActivateGroup E (g_ContractAddress g)) w = Inr tx"
    by blast
  from ActivateGroup_ok [OF this] obtain now g' w' where
    "ActivateGroup E actor gid order w = (Inr g', w')"
    "feeds_cleared (store w') = fold SaveCycle (Cycles (with_order g (if order = [] then g_Members g else order)) now)
       (SaveGroup (with_order g (if order = [] then g_Members g else order)\<lparr>g_ActivatedAt := Some now, g_State := GroupActive\<rparr>)
         (feeds_cleared (store w)))" "rail w' = rail w" "idseq w \<le> idseq w'"
    by blast
  with g stored_ids(2) [OF assms g(1)] show ?thesis
    by (intro r_into_rtranclp activatedI [where g = g and now = now and
          order = "if order = [] then g_Members g else order"]) simp_all
qed

section \<open>Settlement\<close>

definition payout_request :: "world \<Rightarrow> group \<Rightarrow> cycle \<Rightarrow> user \<Rightarrow> disburse_request" where
  "payout_request w g c payee =
     \<lparr>di_GroupID = g_ID g, di_CycleIndex = c_Index c, di_PayeeUserID = u_ID payee,
      di_Amount = total_amount (ListContributionsByCycle (store w) (g_ID g) (c_Index c)),
      di_Destination = u_WalletAddress payee\<rparr>"

definition payout_answer :: "env \<Rightarrow> world \<Rightarrow> group \<Rightarrow> cycle \<Rightarrow> user \<Rightarrow> rail_answer" where
  "payout_answer E w g c payee = Disburse (env_rail E) (length (rail w)) (payout_request w g c payee)"

definition payout_moved :: "env \<Rightarrow> world \<Rightarrow> group \<Rightarrow> cycle \<Rightarrow> user \<Rightarrow> world" where
  "payout_moved E w g c payee =
     w\<lparr>rail := rail w @ [DisburseCall (payout_request w g c payee) (payout_answer E w g c payee)]\<rparr>"

definition payout_record :: "world \<Rightarrow> group \<Rightarrow> cycle \<Rightarrow> user \<Rightarrow> payout_event" where
  "payout_record w g c payee =
     \<lparr>pe_GroupID = g_ID g, pe_PayeeUserID = u_ID payee, pe_CycleIndex = c_Index c,
      pe_Amount = total_amount (ListContributionsByCycle (store w) (g_ID g) (c_Index c))\<rparr>"

lemmas payout_defs = payout_request_def payout_answer_def payout_moved_def payout_record_def

lemma advanced_last: "i = g_TotalCycles g - 1 \<Longrightarrow> advanced g i = try_transition (try_transition g GroupSettlement) GroupClosed"
  by (simp add: advanced_def)

lemma settleCycle_ok:
  assumes g: "GetGroup (store w) (g_ID g) = Inr g" and c: "c_GroupID c = g_ID g" "\<not> c_Settled c"
    and payee: "GetUser (store w) (c_PayoutUser c) = Inr payee"
    and a: "accepted (payout_answer E w g c payee)"
    and tx: "answer (chain_RecordPayout E (payout_record w g c payee)) (payout_moved E w g c payee) = Inr tx"
  shows "\<exists>p y w'. settleCycle E g c w = (Inr p, w')
    \<and> payout_for g c payee (total_amount (ListContributionsByCycle (store w) (g_ID g) (c_Index c))) p
    \<and> debit_for p y
    \<and> feeds_cleared (store w') = SaveGroup (advanced g (c_Index c)) (SaveCycle (c\<lparr>c_Settled := True\<rparr>)
        (SavePayout p (AppendEscrowEntry y (feeds_cleared (store w)))))
    \<and> rail w' = rail (payout_moved E w g c payee) \<and> idseq w \<le> idseq w'"
proof -
  define w1 where "w1 = after (chain_RecordPayout E (payout_record w g c payee)) (payout_moved E w g c payee)"
  define now where "now = env_clock E (ticks w1)"
  let ?gross = "total_amount (ListContributionsByCycle (store w) (g_ID g) (c_Index c))"
  define y where "y = \<lparr>e_ID = NewID (env_rand E (idseq w1)), e_GroupID = g_ID g, e_CycleIndex = c_Index c,
    e_UserID = u_ID payee, e_Direction = LedgerDebit, e_Amount = ?gross,
    e_Reference = rr_Reference (fst (payout_answer E w g c payee)), e_Memo = ''payout'', e_CreatedAt = now\<rparr>"
  define p where "p = \<lparr>po_ID = NewID (env_rand E (Suc (idseq w1))), po_GroupID = g_ID g,
    po_CycleIndex = c_Index c, po_PayeeUserID = u_ID payee, po_GrossAmount = ?gross,
    po_ExpectedAmount = expected_amount g, po_Shortfall = expected_amount g - ?gross,
    po_DisbursementRef = rr_Reference (fst (payout_answer E w g c payee)), po_SettledAt = now\<rparr>"
  define w2 where "w2 = notified E (u_ID payee) NotifyPayoutSent ''Payout sent''
     (''You received the cycle '' @ decimal (c_Index c) @ '' payout for '' @ g_Name g)
     (w1\<lparr>ticks := Suc (ticks w1), idseq := Suc (Suc (idseq w1)),
        store := SaveCycle (c\<lparr>c_Settled := True\<rparr>) (SavePayout p (AppendEscrowEntry y (store w1)))\<rparr>)"
  define w3 where "w3 = (if c_Index c = g_TotalCycles g - 1
    then w2\<lparr>store := SaveGroup (advanced g (c_Index c)) (store w2)\<rparr> else w2)"
  have st: "store w1 = store w"
    by (simp add: w1_def payout_moved_def)
  have run: "settleCycle E g c w = (Inr p, w3)"
    using c payee a tx unfolding w3_def w2_def p_def y_def now_def w1_def
    by (simp add: settleCycle_def exec Let_def payout_defs advanced_last)
  have g2: "GetGroup (feeds_cleared (store w2)) (g_ID g) = Inr g"
    using g by (simp add: w2_def st GetGroup_def memory_ops)
  have f2: "feeds_cleared (store w2) = SaveCycle (c\<lparr>c_Settled := True\<rparr>)
      (SavePayout p (AppendEscrowEntry y (feeds_cleared (store w))))"
    by (simp add: w2_def st)
  have f3: "feeds_cleared (store w3) = SaveGroup (advanced g (c_Index c)) (feeds_cleared (store w2))"
    using SaveGroup_same [OF g2] by (simp add: w3_def advanced_def)
  have "idseq w \<le> idseq w1"
    unfolding w1_def by (rule order_trans [OF _ chain_calls_idseq(6)]) (simp add: payout_moved_def)
  then have "idseq w \<le> idseq w3" "rail w3 = rail (payout_moved E w g c payee)"
    by (simp_all add: w3_def w2_def w1_def)
  with run f2 f3 show ?thesis
    by (intro exI [of _ p] exI [of _ y] exI [of _ w3]) (simp add: payout_for_def debit_for_def p_def y_def c)
qed

lemma settleCycle_failed:
  assumes "\<not> (\<not> c_Settled c \<and> (\<exists>payee tx. GetUser (store w) (c_PayoutUser c) = Inr payee
      \<and> accepted (payout_answer E w g c payee)
      \<and> answer (chain_RecordPayout E (payout_record w g c payee)) (payout_moved E w g c payee) = Inr tx))"
  shows "\<exists>e w'. settleCycle E g c w = (Inl e, w')
    \<and> (books_of w' = books_of w
       \<or> (\<exists>payee. GetUser (store w) (c_PayoutUser c) = Inr payee \<and> \<not> c_Settled c
            \<and> (accepted (payout_answer E w g c payee) \<longrightarrow> \<not> on_mem w)
            \<and> store w' = store w \<and> rail w' = rail (payout_moved E w g c payee) \<and> idseq w \<le> idseq w'))"
proof (cases "\<not> c_Settled c \<and> (\<exists>payee. GetUser (store w) (c_PayoutUser c) = Inr payee)")
  case False
  then show ?thesis
    by (cases "GetUser (store w) (c_PayoutUser c)") (auto simp: settleCycle_def exec Let_def)
next
  case True
  then obtain payee where u: "GetUser (store w) (c_PayoutUser c) = Inr payee" and c: "\<not> c_Settled c"
    by blast
  let ?m = "payout_moved E w g c payee" and ?r = "chain_RecordPayout E (payout_record w g c payee)"
  show ?thesis
  proof (cases "accepted (payout_answer E w g c payee)")
    case False
    with u c have "\<exists>e. settleCycle E g c w = (Inl e, ?m)"
      by (simp add: settleCycle_def exec Let_def payout_defs)
    with False u c show ?thesis
      by (auto simp: payout_moved_def)
  next
    case True
    with assms u c obtain e where e: "answer ?r ?m = Inl e"
      by (cases "answer ?r ?m") auto
    with True u c have "\<exists>e. settleCycle E g c w = (Inl e, after ?r ?m)"
      by (simp add: settleCycle_def exec Let_def payout_defs)
    moreover have "\<not> on_mem w"
      using chain_answers_on_mem(6) [of ?m E "payout_record w g c payee"] e by (auto simp: payout_moved_def)
    moreover have "idseq w \<le> idseq (after ?r ?m)"
      by (rule order_trans [OF _ chain_calls_idseq(6)]) (simp add: payout_moved_def)
    moreover have "store (after ?r ?m) = store w"
      by (simp add: payout_moved_def)
    ultimately show ?thesis
      using u c by (metis chain_calls_frame(12))
  qed
qed

lemma settleCycle_run:
  assumes g: "GetGroup (store w) (g_ID g) = Inr g" and c: "GetCycle (store w) (g_ID g) (c_Index c) = Inr c"
    and gid: "c_GroupID c = g_ID g"
  shows "book_run E (on_mem w) (books_of w) (books_of (snd (settleCycle E g c w)))"
proof (cases "\<not> c_Settled c \<and> (\<exists>payee tx. GetUser (store w) (c_PayoutUser c) = Inr payee
      \<and> accepted (payout_answer E w g c payee)
      \<and> answer (chain_RecordPayout E (payout_record w g c payee)) (payout_moved E w g c payee) = Inr tx)")
  case True
  then obtain payee tx where u: "\<not> c_Settled c" "GetUser (store w) (c_PayoutUser c) = Inr payee"
    "accepted (payout_answer E w g c payee)"
    "answer (chain_RecordPayout E (payout_record w g c payee)) (payout_moved E w g c payee) = Inr tx"
    by blast
  obtain p y w' where r: "settleCycle E g c w = (Inr p, w')"
    "payout_for g c payee (total_amount (ListContributionsByCycle (store w) (g_ID g) (c_Index c))) p" "debit_for p y"
    "feeds_cleared (store w') = SaveGroup (advanced g (c_Index c)) (SaveCycle (c\<lparr>c_Settled := True\<rparr>)
        (SavePayout p (AppendEscrowEntry y (feeds_cleared (store w)))))"
    "rail w' = rail (payout_moved E w g c payee)" "idseq w \<le> idseq w'"
    using settleCycle_ok [OF g gid u] by blast
  show ?thesis
    using r g c u gid
    by (intro r_into_rtranclp settledI [where g = g and c = c and u = payee and p = p and y = y
          and req = "payout_request w g c payee" and a = "payout_answer E w g c payee"])
      (simp_all add: payout_moved_def payout_request_def payout_for_def disburse_for_def)
next
  case False
  from settleCycle_failed [OF this] obtain e w' where r: "settleCycle E g c w = (Inl e, w')"
    and "books_of w' = books_of w \<or> (\<exists>payee. (accepted (payout_answer E w g c payee) \<longrightarrow> \<not> on_mem w)
            \<and> store w' = store w \<and> rail w' = rail (payout_moved E w g c payee) \<and> idseq w \<le> idseq w')"
    by blast
  then show ?thesis
  proof (elim disjE exE)
    fix payee assume p: "(accepted (payout_answer E w g c payee) \<longrightarrow> \<not> on_mem w)
            \<and> store w' = store w \<and> rail w' = rail (payout_moved E w g c payee) \<and> idseq w \<le> idseq w'"
    show ?thesis
      using p r by (intro r_into_rtranclp unrecordedI
          [where call = "DisburseCall (payout_request w g c payee) (payout_answer E w g c payee)"])
        (auto simp: payout_moved_def)
  qed (simp add: r)
qed

section \<open>The maps stay well formed\<close>

abbreviation store_ok :: "world \<Rightarrow> bool" where
  "store_ok w \<equiv> memory_ok (store w)"

lemma store_ok_writes [keeps]:
  "(\<And>m. memory_ok m \<Longrightarrow> memory_ok (f m)) \<Longrightarrow> preserves store_ok (writes f)"
  by (simp add: preserves_def exec)

lemma store_ok_primitives [keeps]:
  "preserves store_ok (newID E)" "preserves store_ok (nowUTC E)" "preserves store_ok (reads f)"
  "preserves store_ok (lists h)" "preserves store_ok (notifyUser E u kd t d)"
  "preserves store_ok (audit_log E u act t d)" "preserves store_ok (rail_Charge E cr)"
  "preserves store_ok (rail_Disburse E dr)" "preserves store_ok (hash_password E pw)"
  "preserves store_ok (chain_RegisterIdentity E cm)" "preserves store_ok (chain_DeployGroup E g)"
  "preserves store_ok (chain_ActivateGroup E ad)" "preserves store_ok (chain_SubmitContribution E co)"
  "preserves store_ok (chain_RecordDefault E de)" "preserves store_ok (chain_RecordPayout E pe)"
  by (simp_all add: preserves_def exec hash_password_def)

lemma settleCycle_keeps [keeps]: "preserves store_ok (settleCycle E g c)"
  unfolding settleCycle_def Let_def by (intro keeps memory_ok_ops)

lemma recordDefault_keeps [keeps]: "preserves store_ok (recordDefault E g c u)"
  unfolding recordDefault_def Let_def by (intro keeps memory_ok_ops)

lemma settleOverdueCycle_keeps [keeps]: "preserves store_ok (settleOverdueCycle E g c)"
  unfolding settleOverdueCycle_def Let_def by (intro keeps memory_ok_ops)

lemma group_ops_keep_store_ok:
  "preserves store_ok (CreateGroup E u inp)" "preserves store_ok (RequestToJoin E u gid)"
  "preserves store_ok (DecideJoinRequest E u rid ap)" "preserves store_ok (Invite E u gid v)"
  "preserves store_ok (RespondInvitation E u iid ac)" "preserves store_ok (LeaveGroup u gid)"
  "preserves store_ok (RemoveMember u gid v)" "preserves store_ok (ActivateGroup E u gid order)"
  "preserves store_ok (SubmitContribution E u gid k src)" "preserves store_ok (SettleCycle E u gid k)"
  unfolding CreateGroup_def RequestToJoin_def DecideJoinRequest_def Invite_def RespondInvitation_def
    LeaveGroup_def RemoveMember_def ActivateGroup_def SubmitContribution_def SettleCycle_def addMember_def
    dropMember_def Let_def
  by (intro keeps memory_ok_ops; assumption)+

lemma Register_keeps_store_ok [keeps]: "preserves store_ok (Register E ri)"
  unfolding Register_def Let_def by (intro keeps memory_ok_ops)

lemma UpdateProfile_keeps: "preserves store_ok (UpdateProfile E u nm)"
  unfolding UpdateProfile_def Let_def by (intro keeps memory_ok_ops)

lemma DecideKYC_keeps: "preserves store_ok (DecideKYC E u v ap)"
  unfolding DecideKYC_def Let_def by (intro keeps memory_ok_ops)

lemma SetUserRole_keeps: "preserves store_ok (SetUserRole E u v rl)"
  unfolding SetUserRole_def Let_def by (intro keeps memory_ok_ops)

lemma SetUserStatus_keeps: "preserves store_ok (SetUserStatus E u v stt)"
  unfolding SetUserStatus_def Let_def by (intro keeps memory_ok_ops)

lemma AdminSettleCycle_keeps: "preserves store_ok (AdminSettleCycle E u gid k)"
  unfolding AdminSettleCycle_def Let_def by (intro keeps memory_ok_ops)

lemma CreateWebhook_keeps: "preserves store_ok (CreateWebhook E u url sec)"
  unfolding CreateWebhook_def Let_def by (intro keeps memory_ok_ops)

lemma Service_DeleteWebhook_keeps: "preserves store_ok (Service_DeleteWebhook E u wid)"
  unfolding Service_DeleteWebhook_def Let_def by (intro keeps memory_ok_ops)

lemma SeedAdmin_keeps: "preserves store_ok (SeedAdmin E em pw nm)"
  unfolding SeedAdmin_def Let_def by (intro keeps memory_ok_ops)

section \<open>Contributions\<close>

lemma SettleCycle_run:
  assumes "memory_ok (store w)"
  shows "book_run E (on_mem w) (books_of w) (books_of (snd (SettleCycle E actor gid i w)))"
proof (cases "\<exists>g c. GetGroup (store w) gid = Inr g \<and> g_OrganizerID g = actor \<and> GetCycle (store w) gid i = Inr c")
  case False
  then show ?thesis
    by (auto simp: SettleCycle_def exec intro!: idle_run split: sum.split)
next
  case True
  then obtain g c where gc: "GetGroup (store w) gid = Inr g" "g_OrganizerID g = actor" "GetCycle (store w) gid i = Inr c"
    by blast
  then have "SettleCycle E actor gid i w = settleCycle E g c w"
    by (simp add: SettleCycle_def exec)
  then show ?thesis
    using settleCycle_run [of w g c E] gc stored_ids(2) [OF assms gc(1)] stored_cycle [OF assms gc(3)]
    by simp
qed

lemma AdminSettleCycle_run:
  assumes "memory_ok (store w)"
  shows "book_run E (on_mem w) (books_of w) (books_of (snd (AdminSettleCycle E actor gid i w)))"
proof (cases "\<exists>g c. GetGroup (store w) gid = Inr g \<and> GetCycle (store w) gid i = Inr c")
  case False
  then show ?thesis
    by (auto simp: AdminSettleCycle_def exec intro!: idle_run split: sum.split)
next
  case True
  then obtain g c where gc: "GetGroup (store w) gid = Inr g" "GetCycle (store w) gid i = Inr c"
    by blast
  obtain r w1 where s: "settleCycle E g c w = (r, w1)"
    by fastforce
  have "book_run E (on_mem w) (books_of w) (books_of w1)"
    using settleCycle_run [of w g c E] gc s stored_ids(2) [OF assms gc(1)] stored_cycle [OF assms gc(2)]
    by simp
  moreover have "book_run E (on_mem w) (books_of w1) (books_of (snd (AdminSettleCycle E actor gid i w)))"
    using gc s by (auto simp: AdminSettleCycle_def exec intro!: idle_run split: sum.split)
  ultimately show ?thesis
    by simp
qed


definition contribution_charge :: "group \<Rightarrow> string \<Rightarrow> string \<Rightarrow> int \<Rightarrow> string \<Rightarrow> charge_request" where
  "contribution_charge g gid uid i src =
     \<lparr>ch_GroupID = gid, ch_UserID = uid, ch_CycleIndex = i, ch_Amount = g_ContributionAmount g, ch_Source = src\<rparr>"

definition charge_answer :: "env \<Rightarrow> world \<Rightarrow> charge_request \<Rightarrow> rail_answer" where
  "charge_answer E w req = Charge (env_rail E) (length (rail w)) req"

text \<open>The contribution as it is sent to the chain, and the world in which it is.\<close>

definition new_contribution :: "env \<Rightarrow> world \<Rightarrow> group \<Rightarrow> string \<Rightarrow> string \<Rightarrow> int \<Rightarrow> contribution" where
  "new_contribution E w g gid uid i =
     \<lparr>co_ID = NewID (env_rand E (idseq w)), co_GroupID = gid, co_UserID = uid, co_CycleIndex = i,
      co_Amount = g_ContributionAmount g,
      co_Commitment = ComputeContributionCommitment (env_sha E) uid gid i (g_ContributionAmount g),
      co_Revealed = False, co_PaidAt = None\<rparr>"

definition contribution_charged :: "env \<Rightarrow> world \<Rightarrow> group \<Rightarrow> string \<Rightarrow> string \<Rightarrow> int \<Rightarrow> string \<Rightarrow> world" where
  "contribution_charged E w g gid uid i src =
     (let req = contribution_charge g gid uid i src
      in w\<lparr>rail := rail w @ [ChargeCall req (charge_answer E w req)], idseq := Suc (idseq w)\<rparr>)"

lemmas contribution_defs = contribution_charge_def charge_answer_def new_contribution_def contribution_charged_def

text \<open>Up to the question whether everyone has paid: the contribution and its credit are recorded.\<close>

lemma SubmitContribution_ok:
  assumes g: "GetGroup (store w) gid = Inr g" "g_State g = GroupActive" "uid \<in> set (g_Members g)"
    and c: "GetCycle (store w) gid i = Inr c" "\<not> c_Settled c"
    and fresh: "GetContribution (store w) gid uid i = Inl e"
    and a: "accepted (charge_answer E w (contribution_charge g gid uid i src))"
    and tx: "answer (chain_SubmitContribution E (new_contribution E w g gid uid i))
               (contribution_charged E w g gid uid i src) = Inr tx"
  shows "\<exists>now y w1 w'. SubmitContribution E uid gid i src w
        = (Inr (new_contribution E w g gid uid i\<lparr>co_Revealed := True, co_PaidAt := Some now\<rparr>), w')
    \<and> credit_for (new_contribution E w g gid uid i) y
    \<and> feeds_cleared (store w1) = AppendEscrowEntry y (SaveContribution
         (new_contribution E w g gid uid i\<lparr>co_Revealed := True, co_PaidAt := Some now\<rparr>) (feeds_cleared (store w)))
    \<and> rail w1 = rail (contribution_charged E w g gid uid i src) \<and> idseq w \<le> idseq w1 \<and> on_mem w1 = on_mem w
    \<and> (if allContributed (store w1) g i
       then let w2 = snd (settleCycle E g c w1)
            in feeds_cleared (store w') = feeds_cleared (store w2) \<and> rail w' = rail w2 \<and> idseq w2 \<le> idseq w'
               \<and> on_mem w' = on_mem w2
       else w' = w1)"
proof -
  let ?n = "new_contribution E w g gid uid i" and ?m = "contribution_charged E w g gid uid i src"
  define w0 where "w0 = after (chain_SubmitContribution E ?n) ?m"
  define now where "now = env_clock E (ticks w0)"
  define x where "x = ?n\<lparr>co_Revealed := True, co_PaidAt := Some now\<rparr>"
  define y where "y = \<lparr>e_ID = NewID (env_rand E (idseq w0)), e_GroupID = gid, e_CycleIndex = i,
    e_UserID = uid, e_Direction = LedgerCredit, e_Amount = g_ContributionAmount g,
    e_Reference = rr_Reference (fst (charge_answer E w (contribution_charge g gid uid i src))),
    e_Memo = ''contribution'', e_CreatedAt = now\<rparr>"
  define w1 where "w1 = notified E uid NotifyContributionMade ''Contribution received''
     (''Your contribution to '' @ g_Name g @ '' (cycle '' @ decimal i @ '') was recorded'')
     (w0\<lparr>ticks := Suc (ticks w0), idseq := Suc (idseq w0),
         store := AppendEscrowEntry y (SaveContribution x (store w0))\<rparr>)"
  define w' where "w' = (if allContributed (store w1) g i
     then case settleCycle E g c w1 of
       (Inl e, w2) \<Rightarrow> notified E (g_OrganizerID g) NotifyRiskWarning ''Settlement deferred''
          (''cycle '' @ decimal i @ '' could not auto-settle: '' @ err_Error e) w2
     | (Inr p, w2) \<Rightarrow> w2 else w1)"
  have st: "store w0 = store w"
    by (simp add: w0_def contribution_charged_def Let_def)
  have "SubmitContribution E uid gid i src w = (Inr x, w')"
    using g c fresh a tx unfolding w'_def w1_def y_def x_def now_def w0_def
    by (simp add: SubmitContribution_def exec Let_def contribution_defs split: sum.split prod.split)
  moreover have "feeds_cleared (store w1) = AppendEscrowEntry y (SaveContribution x (feeds_cleared (store w)))"
    by (simp add: w1_def st)
  moreover have "idseq w \<le> idseq w0"
    unfolding w0_def by (rule order_trans [OF _ chain_calls_idseq(4)]) (simp add: contribution_charged_def Let_def)
  moreover have "rail w1 = rail ?m" "on_mem w1 = on_mem w" "idseq w0 \<le> idseq w1"
    by (simp_all add: w1_def w0_def contribution_charged_def Let_def)
  moreover have "if allContributed (store w1) g i
       then let w2 = snd (settleCycle E g c w1)
            in feeds_cleared (store w') = feeds_cleared (store w2) \<and> rail w' = rail w2 \<and> idseq w2 \<le> idseq w'
               \<and> on_mem w' = on_mem w2
       else w' = w1"
    by (auto simp: w'_def Let_def split: sum.split prod.split)
  moreover have "credit_for ?n y"
    by (simp add: credit_for_def y_def new_contribution_def)
  ultimately show ?thesis
    unfolding x_def by (intro exI [of _ now] exI [of _ y] exI [of _ w1] exI [of _ w']) linarith
qed

definition may_contribute :: "memory \<Rightarrow> string \<Rightarrow> string \<Rightarrow> int \<Rightarrow> group \<Rightarrow> cycle \<Rightarrow> bool" where
  "may_contribute m gid uid i g c \<longleftrightarrow>
     GetGroup m gid = Inr g \<and> g_State g = GroupActive \<and> uid \<in> set (g_Members g)
     \<and> GetCycle m gid i = Inr c \<and> \<not> c_Settled c \<and> isl (GetContribution m gid uid i)"

lemma SubmitContribution_refused:
  assumes "\<not> (\<exists>g c. may_contribute (store w) gid uid i g c)"
  shows "\<exists>e. SubmitContribution E uid gid i src w = (Inl e, w)"
proof (cases "GetGroup (store w) gid")
  case (Inr g)
  note g = Inr
  show ?thesis
  proof (cases "g_State g = GroupActive \<and> uid \<in> set (g_Members g)")
    case True
    note st = True
    show ?thesis
    proof (cases "GetCycle (store w) gid i")
      case (Inr c)
      with g st assms have "c_Settled c \<or> \<not> isl (GetContribution (store w) gid uid i)"
        by (auto simp: may_contribute_def)
      with g st Inr show ?thesis
        by (auto simp: SubmitContribution_def exec)
    qed (use g st in \<open>simp add: SubmitContribution_def exec\<close>)
  qed (use g in \<open>auto simp: SubmitContribution_def exec\<close>)
qed (simp add: SubmitContribution_def exec)

lemma SubmitContribution_failed:
  assumes "may_contribute (store w) gid uid i g c"
    and no: "\<not> (accepted (charge_answer E w (contribution_charge g gid uid i src))
      \<and> (\<exists>tx. answer (chain_SubmitContribution E (new_contribution E w g gid uid i))
               (contribution_charged E w g gid uid i src) = Inr tx))"
  shows "\<exists>e w'. SubmitContribution E uid gid i src w = (Inl e, w')
    \<and> (accepted (charge_answer E w (contribution_charge g gid uid i src)) \<longrightarrow> \<not> on_mem w)
    \<and> store w' = store w \<and> rail w' = rail (contribution_charged E w g gid uid i src) \<and> idseq w \<le> idseq w'"
proof (cases "accepted (charge_answer E w (contribution_charge g gid uid i src))")
  case False
  with assms(1) show ?thesis
    by (simp add: may_contribute_def SubmitContribution_def exec Let_def contribution_defs)
next
  case True
  let ?s = "chain_SubmitContribution E (new_contribution E w g gid uid i)"
  let ?m = "contribution_charged E w g gid uid i src"
  from True no obtain e where e: "answer ?s ?m = Inl e"
    by (cases "answer ?s ?m") auto
  with True assms(1) have "\<exists>e. SubmitContribution E uid gid i src w = (Inl e, after ?s ?m)"
    by (simp add: may_contribute_def SubmitContribution_def exec Let_def contribution_defs)
  moreover have "\<not> on_mem w"
    using chain_answers_on_mem(4) [of ?m E "new_contribution E w g gid uid i"] e
    by (auto simp: contribution_charged_def Let_def)
  moreover have "idseq w \<le> idseq (after ?s ?m)"
    by (rule order_trans [OF _ chain_calls_idseq(4)]) (simp add: contribution_charged_def Let_def)
  moreover have "store (after ?s ?m) = store w"
    by (simp add: contribution_charged_def Let_def)
  ultimately show ?thesis
    by (metis chain_calls_frame(10))
qed

lemma SubmitContribution_run:
  assumes ok: "memory_ok (store w)"
  shows "book_run E (on_mem w) (books_of w) (books_of (snd (SubmitContribution E uid gid i src w)))"
proof (cases "\<exists>g c. may_contribute (store w) gid uid i g c")
  case False
  with SubmitContribution_refused [of w gid uid i E src] show ?thesis
    by auto
next
  case True
  then obtain g c where may: "may_contribute (store w) gid uid i g c"
    by blast
  then have gc: "GetGroup (store w) gid = Inr g" "g_State g = GroupActive" "uid \<in> set (g_Members g)"
    "GetCycle (store w) gid i = Inr c" "\<not> c_Settled c" and "isl (GetContribution (store w) gid uid i)"
    by (auto simp: may_contribute_def)
  then obtain e where e: "GetContribution (store w) gid uid i = Inl e"
    by (cases "GetContribution (store w) gid uid i") auto
  let ?req = "contribution_charge g gid uid i src" and ?n = "new_contribution E w g gid uid i"
  let ?m = "contribution_charged E w g gid uid i src"
  show ?thesis
  proof (cases "accepted (charge_answer E w ?req) \<and> (\<exists>tx. answer (chain_SubmitContribution E ?n) ?m = Inr tx)")
    case False
    from SubmitContribution_failed [OF may this] obtain e' w' where f: "SubmitContribution E uid gid i src w = (Inl e', w')"
      "accepted (charge_answer E w ?req) \<longrightarrow> \<not> on_mem w" "store w' = store w" "rail w' = rail ?m" "idseq w \<le> idseq w'"
      by blast
    then show ?thesis
      by (intro r_into_rtranclp unrecordedI [where call = "ChargeCall ?req (charge_answer E w ?req)"])
        (auto simp: contribution_charged_def Let_def)
  next
    case True
    then obtain tx where a: "accepted (charge_answer E w ?req)" and tx: "answer (chain_SubmitContribution E ?n) ?m = Inr tx"
      by blast
    from SubmitContribution_ok [OF gc e a tx] obtain now y w1 w' where
      r: "snd (SubmitContribution E uid gid i src w) = w'" "credit_for ?n y"
        "feeds_cleared (store w1) = AppendEscrowEntry y (SaveContribution
           (?n\<lparr>co_Revealed := True, co_PaidAt := Some now\<rparr>) (feeds_cleared (store w)))"
        "rail w1 = rail ?m" "idseq w \<le> idseq w1" "on_mem w1 = on_mem w"
      and s: "if allContributed (store w1) g i
       then let w2 = snd (settleCycle E g c w1)
            in feeds_cleared (store w') = feeds_cleared (store w2) \<and> rail w' = rail w2 \<and> idseq w2 \<le> idseq w'
               \<and> on_mem w' = on_mem w2
       else w' = w1"
      by (metis snd_conv)
    have step: "book_run E (on_mem w) (books_of w) (books_of w1)"
      using r a e gc
      by (intro r_into_rtranclp contributedI [where g = g and c = c and y = y and req = ?req
            and a = "charge_answer E w ?req" and x = "?n\<lparr>co_Revealed := True, co_PaidAt := Some now\<rparr>"])
        (simp_all add: contribution_defs Let_def charge_for_def credit_for_def)
    show ?thesis
    proof (cases "allContributed (store w1) g i")
      case False
      with s step r show ?thesis
        by simp
    next
      case True
      let ?l = "AppendEscrowEntry y (SaveContribution (?n\<lparr>co_Revealed := True, co_PaidAt := Some now\<rparr>) (feeds_cleared (store w)))"
      have same: "GetGroup (store w1) k = GetGroup (store w) k" "GetCycle (store w1) k j = GetCycle (store w) k j" for k j
        using feeds_cleared_gets(2) [of "store w1" k] feeds_cleared_gets(5) [of "store w1" k j]
        unfolding r(3) by (simp_all add: GetGroup_def GetCycle_def memory_ops)
      have "book_run E (on_mem w1) (books_of w1) (books_of (snd (settleCycle E g c w1)))"
        by (rule settleCycle_run) (use gc stored_ids(2) [OF ok gc(1)] stored_cycle [OF ok gc(4)] in \<open>simp_all add: same\<close>)
      moreover have "book_run E (on_mem w) (books_of (snd (settleCycle E g c w1))) (books_of w')"
        using s True by (intro idle_run) (simp_all add: Let_def)
      ultimately show ?thesis
        using step r by simp
    qed
  qed
qed
section \<open>Deadlines\<close>

text \<open>Recording defaults touches the chain and the feeds only.\<close>

definition only_feeds :: "world \<Rightarrow> world \<Rightarrow> bool" where
  "only_feeds w w' \<longleftrightarrow> feeds_cleared (store w') = feeds_cleared (store w) \<and> rail w' = rail w
     \<and> idseq w \<le> idseq w' \<and> on_mem w' = on_mem w \<and> (memory_ok (store w) \<longrightarrow> memory_ok (store w'))"

lemma only_feeds_refl [simp]: "only_feeds w w"
  by (simp add: only_feeds_def)

lemma only_feeds_trans: "only_feeds w w1 \<Longrightarrow> only_feeds w1 w2 \<Longrightarrow> only_feeds w w2"
  by (auto simp: only_feeds_def)

lemma recordDefault_feeds: "only_feeds w (snd (recordDefault E g c u w))"
  by (auto simp: recordDefault_def exec Let_def only_feeds_def split: sum.split
      intro: order_trans [OF chain_calls_idseq(5)] le_SucI)

lemma recordDefault_on_mem: "on_mem w \<Longrightarrow> fst (recordDefault E g c u w) = Inr ()"
  using chain_answers_on_mem(5) [of w E "\<lparr>d_GroupID = g_ID g, d_UserAddress = u, d_CycleIndex = c_Index c,
    d_MissedAmount = g_ContributionAmount g,
    d_ProofHash = Hash (env_sha E) [''default'', g_ID g, u, c_GroupID c]\<rparr>"]
  by (auto simp: recordDefault_def exec Let_def)

lemma forEach_defaults:
  "\<exists>r w'. forEach us (\<lambda>u. if P u then recordDefault E g c u else ret ()) w = (r, w') \<and> only_feeds w w'
     \<and> (on_mem w \<longrightarrow> r = Inr ())"
proof (induction us arbitrary: w)
  case (Cons u us)
  show ?case
  proof (cases "P u")
    case True
    obtain r1 w1 where r1: "recordDefault E g c u w = (r1, w1)"
      by fastforce
    then have f1: "only_feeds w w1" and m1: "on_mem w \<Longrightarrow> r1 = Inr ()"
      using recordDefault_feeds [of w E g c u] recordDefault_on_mem [of w E g c u] by simp_all
    show ?thesis
    proof (cases r1)
      case (Inl e)
      with True r1 f1 m1 show ?thesis
        by (auto simp: exec)
    next
      case (Inr x)
      from Cons.IH [of w1] obtain r w' where "forEach us (\<lambda>u. if P u then recordDefault E g c u else ret ()) w1 = (r, w')"
        "only_feeds w1 w'" "on_mem w1 \<longrightarrow> r = Inr ()"
        by blast
      moreover from f1 have "on_mem w1 = on_mem w"
        by (simp add: only_feeds_def)
      ultimately show ?thesis
        using True r1 Inr only_feeds_trans [OF f1] by (auto simp: exec)
    qed
  qed (use Cons.IH [of w] in \<open>simp add: exec\<close>)
qed (simp add: exec)

lemma feeds_same:
  assumes "feeds_cleared m = feeds_cleared m'"
  shows "GetUser m k = GetUser m' k" "GetGroup m k = GetGroup m' k" "GetCycle m k i = GetCycle m' k i"
    "ListContributionsByCycle m k i = ListContributionsByCycle m' k i"
  using assms by (metis feeds_cleared_gets)+

lemma only_feeds_gets:
  assumes "only_feeds w w'"
  shows "GetUser (store w') k = GetUser (store w) k" "GetGroup (store w') k = GetGroup (store w) k"
    "GetCycle (store w') k i = GetCycle (store w) k i"
    "ListContributionsByCycle (store w') k i = ListContributionsByCycle (store w) k i"
  using feeds_same [of "store w'" "store w"] assms by (simp_all add: only_feeds_def)

lemma only_feeds_run: "only_feeds w w' \<Longrightarrow> book_run E mem (books_of w) (books_of w')"
  by (rule idle_run) (auto simp: only_feeds_def)

text \<open>
  What one pass over an overdue cycle does: it settles the cycle or leaves the tables as they are.
\<close>

lemma advanced_ID [simp]: "g_ID (advanced g i) = g_ID g" "g_TotalCycles (advanced g i) = g_TotalCycles g"
    "g_Members (advanced g i) = g_Members g" "g_PayoutOrder (advanced g i) = g_PayoutOrder g"
    "g_OrganizerID (advanced g i) = g_OrganizerID g" "g_ContributionAmount (advanced g i) = g_ContributionAmount g"
    "g_MaxMembers (advanced g i) = g_MaxMembers g" "g_Name (advanced g i) = g_Name g"
    "g_CycleLength (advanced g i) = g_CycleLength g"
  by (simp_all add: advanced_def try_transition_def Transition_def)

definition settled_by :: "world \<Rightarrow> group \<Rightarrow> cycle \<Rightarrow> world \<Rightarrow> bool" where
  "settled_by w g c w' \<longleftrightarrow> (\<exists>p y. feeds_cleared (store w') = SaveGroup (advanced g (c_Index c))
     (SaveCycle (c\<lparr>c_Settled := True\<rparr>) (SavePayout p (AppendEscrowEntry y (feeds_cleared (store w))))))"

lemma settleCycle_result:
  assumes "GetGroup (store w) (g_ID g) = Inr g" and "GetCycle (store w) (g_ID g) (c_Index c) = Inr c"
    and "c_GroupID c = g_ID g"
  shows "\<exists>r w'. settleCycle E g c w = (r, w') \<and> book_run E (on_mem w) (books_of w) (books_of w')
    \<and> (memory_ok (store w) \<longrightarrow> memory_ok (store w')) \<and> on_mem w' = on_mem w
    \<and> (isl r \<longrightarrow> feeds_cleared (store w') = feeds_cleared (store w)) \<and> (\<not> isl r \<longrightarrow> settled_by w g c w')"
proof -
  obtain r w' where r: "settleCycle E g c w = (r, w')"
    by fastforce
  have run: "book_run E (on_mem w) (books_of w) (books_of w')"
    using settleCycle_run [of w g c E, OF assms] r by simp
  have ok: "memory_ok (store w) \<longrightarrow> memory_ok (store w')" and om: "on_mem w' = on_mem w"
    using preservesD [OF settleCycle_keeps, of w E g c]
      preservesD [OF same_chain_ops(1) [of "on_mem w" E g c], of w] r
    by simp_all
  show ?thesis
  proof (cases "\<not> c_Settled c \<and> (\<exists>payee tx. GetUser (store w) (c_PayoutUser c) = Inr payee
      \<and> accepted (payout_answer E w g c payee)
      \<and> answer (chain_RecordPayout E (payout_record w g c payee)) (payout_moved E w g c payee) = Inr tx)")
    case True
    then obtain payee tx where u: "\<not> c_Settled c" "GetUser (store w) (c_PayoutUser c) = Inr payee"
      "accepted (payout_answer E w g c payee)"
      "answer (chain_RecordPayout E (payout_record w g c payee)) (payout_moved E w g c payee) = Inr tx"
      by blast
    from settleCycle_ok [OF assms(1,3) u] r run ok om show ?thesis
      unfolding settled_by_def by auto
  next
    case False
    from settleCycle_failed [OF this] r have "isl r" "feeds_cleared (store w') = feeds_cleared (store w)"
      by (auto simp: books_of_def)
    with r run ok om show ?thesis
      by auto
  qed
qed

lemma settled_by_gets:
  assumes "settled_by w g c w'"
  shows "GetGroup (store w') (g_ID g) = Inr (advanced g (c_Index c))"
    "k \<noteq> g_ID g \<Longrightarrow> GetGroup (store w') k = GetGroup (store w) k"
proof -
  obtain p y where "feeds_cleared (store w') = SaveGroup (advanced g (c_Index c))
     (SaveCycle (c\<lparr>c_Settled := True\<rparr>) (SavePayout p (AppendEscrowEntry y (feeds_cleared (store w)))))"
    using assms by (auto simp: settled_by_def)
  then have "groups (feeds_cleared (store w')) = gm_set (g_ID g) (advanced g (c_Index c)) (groups (store w))"
    by (simp add: memory_ops)
  then show "GetGroup (store w') (g_ID g) = Inr (advanced g (c_Index c))"
    "k \<noteq> g_ID g \<Longrightarrow> GetGroup (store w') k = GetGroup (store w) k"
    by (simp_all add: GetGroup_def gm_get_set)
qed

lemma settleOverdueCycle_result:
  assumes g: "GetGroup (store w) (g_ID g) = Inr g" and c: "GetCycle (store w) (g_ID g) (c_Index c) = Inr c"
    "c_GroupID c = g_ID g"
  shows "\<exists>r w'. settleOverdueCycle E g c w = (r, w') \<and> book_run E (on_mem w) (books_of w) (books_of w')
    \<and> (memory_ok (store w) \<longrightarrow> memory_ok (store w')) \<and> on_mem w' = on_mem w
    \<and> (isl r \<longrightarrow> feeds_cleared (store w') = feeds_cleared (store w)) \<and> (\<not> isl r \<longrightarrow> settled_by w g c w')"
proof -
  let ?paid = "paid_users (ListContributionsByCycle (store w) (g_ID g) (c_Index c))"
  obtain r1 w1 where d: "forEach (g_Members g) (\<lambda>u. if u \<notin> ?paid then recordDefault E g c u else ret ()) w = (r1, w1)"
    and f: "only_feeds w w1"
    using forEach_defaults [of "g_Members g" "\<lambda>u. u \<notin> ?paid" E g c w] by blast
  show ?thesis
  proof (cases r1)
    case (Inl e)
    with d f show ?thesis
      using only_feeds_run [OF f] by (auto simp: settleOverdueCycle_def exec only_feeds_def)
  next
    case (Inr x)
    obtain r w' where s: "settleCycle E g c w1 = (r, w')" "book_run E (on_mem w1) (books_of w1) (books_of w')"
      "memory_ok (store w1) \<longrightarrow> memory_ok (store w')" "on_mem w' = on_mem w1"
      "isl r \<longrightarrow> feeds_cleared (store w') = feeds_cleared (store w1)" "\<not> isl r \<longrightarrow> settled_by w1 g c w'"
      using settleCycle_result [of w1 g c E] g c by (auto simp: only_feeds_gets [OF f])
    have "book_run E (on_mem w) (books_of w) (books_of w')"
      using only_feeds_run [OF f, of E "on_mem w"] s(2) f by (simp add: only_feeds_def)
    with d f s Inr show ?thesis
      by (auto simp: settleOverdueCycle_def exec only_feeds_def settled_by_def split: sum.split)
  qed
qed

lemma current_cycle_stored:
  assumes "memory_ok m" and "current_cycle m gid = Inr c"
  shows "c_GroupID c = gid" "GetCycle m gid (c_Index c) = Inr c" "\<not> c_Settled c"
proof -
  from assms(2) have "c \<in> set (ListCyclesByGroup m gid)" "\<not> c_Settled c"
    by (auto simp: current_cycle_def find_Some_iff)
  then show "c_GroupID c = gid" "GetCycle m gid (c_Index c) = Inr c" "\<not> c_Settled c"
    by (simp_all add: ListCyclesByGroup_set [OF assms(1)])
qed

definition others_same :: "string \<Rightarrow> world \<Rightarrow> world \<Rightarrow> bool" where
  "others_same gid w w' \<longleftrightarrow> (\<forall>k. k \<noteq> gid \<longrightarrow> GetGroup (store w') k = GetGroup (store w) k)"

text \<open>
  The inner loop ends: each round raises the guard, and the reloaded group keeps its number of
  cycles, which bounds it.
\<close>

lemma drain_group_total:
  assumes "memory_ok (store w)" and "GetGroup (store w) (g_ID g) = Inr g"
  shows "\<exists>n w'. drain_group E now guard g settled w = Some (n, w')
    \<and> book_run E (on_mem w) (books_of w) (books_of w') \<and> memory_ok (store w') \<and> on_mem w' = on_mem w
    \<and> others_same (g_ID g) w w'"
  using assms
proof (induction "nat (g_TotalCycles g + 1 - guard)" arbitrary: guard g settled w rule: less_induct)
  case less
  note ok = less.prems(1) and g = less.prems(2)
  show ?case
  proof (cases "guard > g_TotalCycles g")
    case True
    then show ?thesis
      using ok by (subst drain_group.simps) (simp add: others_same_def)
  next
    case False
    note guard = False
    show ?thesis
    proof (cases "current_cycle (store w) (g_ID g)")
      case (Inl e)
      with False ok show ?thesis
        by (subst drain_group.simps) (simp add: CurrentCycle_def exec others_same_def)
    next
      case (Inr c)
      note cur = Inr
      show ?thesis
      proof (cases "IsOverdue c now")
        case False
        with guard cur ok show ?thesis
          by (subst drain_group.simps) (simp add: CurrentCycle_def exec others_same_def)
      next
        case True
        note c = current_cycle_stored [OF ok cur]
        obtain r w1 where s: "settleOverdueCycle E g c w = (r, w1)"
          and run: "book_run E (on_mem w) (books_of w) (books_of w1)"
          and ok1: "memory_ok (store w1)" and om: "on_mem w1 = on_mem w"
          and l: "isl r \<longrightarrow> feeds_cleared (store w1) = feeds_cleared (store w)"
          and rt: "\<not> isl r \<longrightarrow> settled_by w g c w1"
          using settleOverdueCycle_result [OF g c(2,1), of E] ok by blast
        show ?thesis
        proof (cases "isl r")
          case True
          then obtain e where "r = Inl e"
            by (auto simp: isl_def)
          with guard cur \<open>IsOverdue c now\<close> s run ok1 om l show ?thesis
            by (subst drain_group.simps)
              (auto simp: CurrentCycle_def exec others_same_def feeds_same(2) [of "store w1" "store w"])
        next
          case False
          with rt have sb: "settled_by w g c w1"
            by simp
          let ?g = "advanced g (c_Index c)"
          have oth: "others_same (g_ID g) w w1"
            using settled_by_gets(2) [OF sb] by (simp add: others_same_def)
          show ?thesis
          proof (cases "g_State ?g = GroupActive")
            case False
            with guard cur \<open>IsOverdue c now\<close> s \<open>\<not> isl r\<close> run ok1 om oth settled_by_gets(1) [OF sb] show ?thesis
              by (subst drain_group.simps) (auto simp: CurrentCycle_def exec split: sum.split)
          next
            case True
            have "\<exists>n w'. drain_group E now (guard + 1) ?g (settled + 1) w1 = Some (n, w')
              \<and> book_run E (on_mem w1) (books_of w1) (books_of w') \<and> memory_ok (store w') \<and> on_mem w' = on_mem w1
              \<and> others_same (g_ID ?g) w1 w'"
              by (rule less.hyps) (use guard ok1 settled_by_gets(1) [OF sb] in simp_all)
            then obtain n w' where "drain_group E now (guard + 1) ?g (settled + 1) w1 = Some (n, w')"
              "book_run E (on_mem w) (books_of w1) (books_of w')" "memory_ok (store w')" "on_mem w' = on_mem w"
              "others_same (g_ID g) w1 w'"
              by (auto simp: om)
            with guard cur \<open>IsOverdue c now\<close> s \<open>\<not> isl r\<close> True run oth settled_by_gets(1) [OF sb] show ?thesis
              by (subst drain_group.simps) (auto simp: CurrentCycle_def exec others_same_def split: sum.split)
          qed
        qed
      qed
    qed
  qed
qed

lemma drain_groups_total:
  assumes "memory_ok (store w)" and "\<forall>g \<in> set gs. GetGroup (store w) (g_ID g) = Inr g" and "distinct (map g_ID gs)"
  shows "\<exists>n w'. drain_groups E now gs settled w = Some (n, w')
    \<and> book_run E (on_mem w) (books_of w) (books_of w') \<and> memory_ok (store w') \<and> on_mem w' = on_mem w"
  using assms
proof (induction gs arbitrary: settled w)
  case (Cons g gs)
  show ?case
  proof (cases "g_State g = GroupActive")
    case False
    with Cons show ?thesis
      by simp
  next
    case True
    obtain n w1 where d: "drain_group E now 0 g settled w = Some (n, w1)"
      "book_run E (on_mem w) (books_of w) (books_of w1)" "memory_ok (store w1)" "on_mem w1 = on_mem w"
      "others_same (g_ID g) w w1"
      using drain_group_total [of w g E now 0 settled] Cons.prems by auto
    have "\<forall>h \<in> set gs. GetGroup (store w1) (g_ID h) = Inr h"
    proof
      fix h assume h: "h \<in> set gs"
      then have "g_ID h \<noteq> g_ID g"
        using Cons.prems(3) by (metis distinct.simps(2) imageI list.simps(9) set_map)
      then show "GetGroup (store w1) (g_ID h) = Inr h"
        using Cons.prems(2) d(5) h by (simp add: others_same_def)
    qed
    with Cons.IH [of w1 n] Cons.prems d obtain m w' where "drain_groups E now gs n w1 = Some (m, w')"
      "book_run E (on_mem w) (books_of w1) (books_of w')" "memory_ok (store w')" "on_mem w' = on_mem w"
      by auto
    with True d show ?thesis
      by auto
  qed
qed simp

lemma ListGroups_stored:
  assumes "memory_ok m"
  shows "g \<in> set (fst (ListGroups m p)) \<Longrightarrow> GetGroup m (g_ID g) = Inr g"
    and "distinct (map g_ID (fst (ListGroups m p)))"
proof -
  have k: "kept_under g_ID (groups m)"
    using assms by (simp add: memory_ok_def)
  show "g \<in> set (fst (ListGroups m p)) \<Longrightarrow> GetGroup m (g_ID g) = Inr g"
    using pick_page_set [of "sort_key g_CreatedAt (gm_range (groups m))" p]
    by (auto simp: ListGroups_def Let_def GetGroup_def kept_under_range [OF k])
  have "distinct (map g_ID (gm_range (groups m)))"
    by (rule kept_under_distinct [OF k])
  then have "distinct (map g_ID (sort_key g_CreatedAt (gm_range (groups m))))"
    by (simp only: distinct_map distinct_sort set_sort)
  then show "distinct (map g_ID (fst (ListGroups m p)))"
    by (simp add: ListGroups_def Let_def pick_page_distinct)
qed

lemma ProcessDeadlines_total:
  assumes "memory_ok (store w)"
  shows "\<exists>n w'. ProcessDeadlines E now w = Some (n, w')
    \<and> book_run E (on_mem w) (books_of w) (books_of w') \<and> memory_ok (store w') \<and> on_mem w' = on_mem w"
  unfolding ProcessDeadlines_def
  by (rule drain_groups_total [OF assms]) (use ListGroups_stored [OF assms] in auto)

section \<open>Accounts and the operator\<close>

lemma GetUserByEmail_none:
  "GetUserByEmail m a = Inl e \<Longrightarrow> v \<in> set (gm_range (users m)) \<Longrightarrow> u_Email v \<noteq> a"
  by (auto simp: GetUserByEmail_def find_None_iff)

lemma Register_result:
  "\<exists>r w'. Register E inp w = (r, w') \<and> book_run E mem (books_of w) (books_of w')
     \<and> (\<forall>u. r = Inr u \<longrightarrow> GetUser (store w') (u_ID u) = Inr u)"
proof -
  obtain r w' where r: "Register E inp w = (r, w')"
    by fastforce
  let ?a = "normal_email E (ri_Email inp)"
  show ?thesis
  proof (cases "\<exists>u. r = Inr u")
    case False
    then have "feeds_cleared (store w') = feeds_cleared (store w) \<and> rail w' = rail w \<and> idseq w \<le> idseq w'"
      using r by (auto simp: Register_def exec Let_def hash_password_def split: sum.splits if_splits
          intro: order_trans [OF _ chain_calls_idseq(1)])
    with r False show ?thesis
      by (auto intro: idle_run)
  next
    case True
    then obtain u where "r = Inr u"
      by blast
    obtain e where none: "GetUserByEmail (store w) ?a = Inl e"
      using r True by (cases "GetUserByEmail (store w) ?a") (auto simp: Register_def exec Let_def split: if_splits)
    have "length (ri_Password inp) \<ge> 8"
      using r \<open>r = Inr u\<close> none
      by (auto simp: Register_def exec Let_def hash_password_def HashPassword_def split: if_splits)
    let ?w = "w\<lparr>ticks := Suc (ticks w), idseq := Suc (Suc (idseq w))\<rparr>"
    have "u_ID u = NewID (env_rand E (Suc (idseq w))) \<and> u_Email u = ?a \<and> u_KYCStatus u = KYCPending
       \<and> (\<exists>cm. w' = after (chain_RegisterIdentity E cm) ?w\<lparr>store := SaveUser u (store w)\<rparr>)"
      using r \<open>r = Inr u\<close> none \<open>length (ri_Password inp) \<ge> 8\<close>
      by (auto simp: Register_def exec Let_def hash_password_def split: sum.splits if_splits)
    then obtain cm where u: "u_ID u = NewID (env_rand E (Suc (idseq w)))" "u_Email u = ?a" "u_KYCStatus u = KYCPending"
      and w': "w' = after (chain_RegisterIdentity E cm) ?w\<lparr>store := SaveUser u (store w)\<rparr>"
      by blast
    have seq: "Suc (Suc (idseq w)) \<le> idseq w'"
      using chain_calls_idseq(1) [of ?w E cm] by (simp add: w')
    have f: "feeds_cleared (store w') = SaveUser u (feeds_cleared (store w))" "rail w' = rail w"
      by (simp_all add: w')
    have d: "drawn_id E (idseq w) (idseq w') (u_ID u)"
      using seq u(1) unfolding drawn_id_def by (intro exI [of _ "Suc (idseq w)"]) simp
    have "\<forall>v \<in> set (gm_range (users (store w))). u_Email v \<noteq> u_Email u"
      using GetUserByEmail_none [OF none] u(2) by simp
    with f d u have "book_run E mem (books_of w) (books_of w')"
      by (intro r_into_rtranclp registeredI [where u = u]) simp_all
    moreover have "GetUser (store w') (u_ID u) = Inr u"
      by (simp add: w' GetUser_def SaveUser_def gm_get_set)
    ultimately show ?thesis
      using r \<open>r = Inr u\<close> by blast
  qed
qed


lemma Register_run: "book_run E mem (books_of w) (books_of (snd (Register E inp w)))"
  using Register_result [of E inp w mem] by auto

lemma SeedAdmin_run: "book_run E mem (books_of w) (books_of (snd (SeedAdmin E email pw name w)))"
proof (cases "isl (GetUserByEmail (store w) email)")
  case False
  then show ?thesis
    by (auto simp: SeedAdmin_def exec)
next
  case True
  let ?inp = "\<lparr>ri_Email = email, ri_Password = pw, ri_DisplayName = name,
         ri_WalletAddress = ''0xADMIN'', ri_KYCProvider = ''platform'', ri_KYCSignature = ''seed''\<rparr>"
  obtain r w1 where r: "Register E ?inp w = (r, w1)" "book_run E mem (books_of w) (books_of w1)"
    "\<forall>u. r = Inr u \<longrightarrow> GetUser (store w1) (u_ID u) = Inr u"
    using Register_result [of E ?inp w mem] by blast
  show ?thesis
  proof (cases r)
    case (Inl e)
    with True r show ?thesis
      by (simp add: SeedAdmin_def exec)
  next
    case (Inr u)
    with True r have s: "snd (SeedAdmin E email pw name w) = w1\<lparr>ticks := Suc (ticks w1),
        store := SaveUser (u\<lparr>u_Role := RoleAdmin, u_KYCStatus := KYCApproved, u_UpdatedAt := env_clock E (ticks w1)\<rparr>) (store w1)\<rparr>"
      by (simp add: SeedAdmin_def exec)
    have "book_run E mem (books_of w1) (books_of (snd (SeedAdmin E email pw name w)))"
      unfolding s using r(3) Inr
      by (intro r_into_rtranclp user_changedI [where v = u and
            u = "u\<lparr>u_Role := RoleAdmin, u_KYCStatus := KYCApproved, u_UpdatedAt := env_clock E (ticks w1)\<rparr>"]) simp_all
    with r(2) show ?thesis
      by simp
  qed
qed

lemma user_saved_run:
  assumes "GetUser (store w) k = Inr v" "memory_ok (store w)" "u_ID u = u_ID v" "u_Email u = u_Email v"
    and "feeds_cleared (store w') = SaveUser u (feeds_cleared (store w))" "rail w' = rail w" "idseq w \<le> idseq w'"
  shows "book_run E mem (books_of w) (books_of w')"
  using assms stored_ids(1) [OF assms(2,1)]
  by (intro r_into_rtranclp user_changedI [where u = u and v = v]) simp_all

lemma UpdateProfile_run:
  assumes "memory_ok (store w)"
  shows "book_run E mem (books_of w) (books_of (snd (UpdateProfile E uid name w)))"
proof (cases "GetUser (store w) uid")
  case (Inr u)
  let ?u = "(if name \<noteq> '''' then u\<lparr>u_DisplayName := name\<rparr> else u)\<lparr>u_UpdatedAt := env_clock E (ticks w)\<rparr>"
  from Inr show ?thesis
    by (intro user_saved_run [OF Inr assms, of ?u]) (simp_all add: UpdateProfile_def exec Let_def)
qed (simp add: UpdateProfile_def exec)

lemma DecideKYC_run:
  assumes "memory_ok (store w)"
  shows "book_run E mem (books_of w) (books_of (snd (DecideKYC E actor uid approve w)))"
proof (cases "GetUser (store w) uid")
  case (Inr u)
  let ?u = "u\<lparr>u_KYCStatus := if approve then KYCApproved else KYCRejected, u_UpdatedAt := env_clock E (ticks w)\<rparr>"
  show ?thesis
  proof (cases "u_KYCStatus u = KYCPending")
    case True
    with Inr show ?thesis
      by (intro user_saved_run [OF Inr assms, of ?u]) (simp_all add: DecideKYC_def exec Let_def)
  qed (use Inr in \<open>simp add: DecideKYC_def exec\<close>)
qed (simp add: DecideKYC_def exec)

lemma SetUserRole_run:
  assumes "memory_ok (store w)"
  shows "book_run E mem (books_of w) (books_of (snd (SetUserRole E actor uid role w)))"
proof (cases "GetUser (store w) uid")
  case (Inr u)
  let ?u = "u\<lparr>u_Role := role, u_UpdatedAt := env_clock E (ticks w)\<rparr>"
  show ?thesis
  proof (cases "role \<noteq> RoleMember \<and> role \<noteq> RoleAdmin")
    case False
    with Inr show ?thesis
      by (intro user_saved_run [OF Inr assms, of ?u]) (auto simp: SetUserRole_def exec Let_def)
  qed (use Inr in \<open>simp add: SetUserRole_def exec\<close>)
qed (auto simp: SetUserRole_def exec)

lemma SetUserStatus_run:
  assumes "memory_ok (store w)"
  shows "book_run E mem (books_of w) (books_of (snd (SetUserStatus E actor uid st w)))"
proof (cases "GetUser (store w) uid")
  case (Inr u)
  let ?u = "u\<lparr>u_Status := st, u_UpdatedAt := env_clock E (ticks w)\<rparr>"
  from Inr show ?thesis
    by (intro user_saved_run [OF Inr assms, of ?u]) (simp_all add: SetUserStatus_def exec Let_def)
qed (simp add: SetUserStatus_def exec)

lemma CreateWebhook_run: "book_run E mem (books_of w) (books_of (snd (CreateWebhook E actor url secret w)))"
  by (auto simp: CreateWebhook_def exec Let_def intro!: idle_run)

lemma DeleteWebhook_run: "book_run E mem (books_of w) (books_of (snd (Service_DeleteWebhook E actor wid w)))"
  by (auto simp: Service_DeleteWebhook_def exec intro!: idle_run)

lemma indexer_turn_frame:
  "books_of (indexer_turn ch w) = books_of w" "on_mem (indexer_turn ch w) = on_mem w"
  "memory_ok (store w) \<Longrightarrow> memory_ok (store (indexer_turn ch w))"
  by (auto simp: indexer_turn_def books_of_def on_mem_def split: truth_layer.split prod.split option.split)

lemma projected_frame:
  "books_of (w\<lparr>store := AppendReputationEvent ev (store w)\<rparr>) = books_of w"
  "on_mem (w\<lparr>store := AppendReputationEvent ev (store w)\<rparr>) = on_mem w"
  "memory_ok (store w) \<Longrightarrow> memory_ok (store (w\<lparr>store := AppendReputationEvent ev (store w)\<rparr>))"
  by (auto simp: books_of_def on_mem_def)

end
