(* ===== verification/Book_Invariants.thy ===== *)
theory Book_Invariants
  imports Simulation
begin

text \<open>
  What every step of the books keeps: the invariants of the service, each a predicate on the
  tables, proved once for the twelve steps.
\<close>

section \<open>What a step of the store leaves alone\<close>

lemma ledger_frames [simp]:
  "GetUser (SaveGroup g m) k = GetUser m k" "GetUser (SaveMembership x m) k = GetUser m k"
  "GetUser (SaveJoinRequest j m) k = GetUser m k" "GetUser (SaveInvitation iv m) k = GetUser m k"
  "GetUser (SaveCycle c m) k = GetUser m k" "GetUser (SaveContribution y m) k = GetUser m k"
  "GetUser (SavePayout p m) k = GetUser m k" "GetUser (AppendEscrowEntry e m) k = GetUser m k"
  "GetGroup (SaveUser u m) k = GetGroup m k" "GetGroup (SaveMembership x m) k = GetGroup m k"
  "GetGroup (SaveJoinRequest j m) k = GetGroup m k" "GetGroup (SaveInvitation iv m) k = GetGroup m k"
  "GetGroup (SaveCycle c m) k = GetGroup m k" "GetGroup (SaveContribution y m) k = GetGroup m k"
  "GetGroup (SavePayout p m) k = GetGroup m k" "GetGroup (AppendEscrowEntry e m) k = GetGroup m k"
  "GetMembership (SaveUser u m) k v = GetMembership m k v"
  "GetMembership (SaveGroup g m) k v = GetMembership m k v"
  "GetMembership (SaveJoinRequest j m) k v = GetMembership m k v"
  "GetMembership (SaveInvitation iv m) k v = GetMembership m k v"
  "GetMembership (SaveCycle c m) k v = GetMembership m k v"
  "GetMembership (SaveContribution y m) k v = GetMembership m k v"
  "GetMembership (SavePayout p m) k v = GetMembership m k v"
  "GetMembership (AppendEscrowEntry e m) k v = GetMembership m k v"
  "GetJoinRequest (SaveUser u m) k = GetJoinRequest m k"
  "GetJoinRequest (SaveGroup g m) k = GetJoinRequest m k"
  "GetJoinRequest (SaveMembership x m) k = GetJoinRequest m k"
  "GetJoinRequest (SaveInvitation iv m) k = GetJoinRequest m k"
  "GetJoinRequest (SaveCycle c m) k = GetJoinRequest m k"
  "GetJoinRequest (SaveContribution y m) k = GetJoinRequest m k"
  "GetJoinRequest (SavePayout p m) k = GetJoinRequest m k"
  "GetJoinRequest (AppendEscrowEntry e m) k = GetJoinRequest m k"
  "GetInvitation (SaveUser u m) k = GetInvitation m k" "GetInvitation (SaveGroup g m) k = GetInvitation m k"
  "GetInvitation (SaveMembership x m) k = GetInvitation m k"
  "GetInvitation (SaveJoinRequest j m) k = GetInvitation m k"
  "GetInvitation (SaveCycle c m) k = GetInvitation m k"
  "GetInvitation (SaveContribution y m) k = GetInvitation m k"
  "GetInvitation (SavePayout p m) k = GetInvitation m k"
  "GetInvitation (AppendEscrowEntry e m) k = GetInvitation m k"
  "GetCycle (SaveUser u m) k i = GetCycle m k i" "GetCycle (SaveGroup g m) k i = GetCycle m k i"
  "GetCycle (SaveMembership x m) k i = GetCycle m k i" "GetCycle (SaveJoinRequest j m) k i = GetCycle m k i"
  "GetCycle (SaveInvitation iv m) k i = GetCycle m k i"
  "GetCycle (SaveContribution y m) k i = GetCycle m k i" "GetCycle (SavePayout p m) k i = GetCycle m k i"
  "GetCycle (AppendEscrowEntry e m) k i = GetCycle m k i"
  "GetContribution (SaveUser u m) k v i = GetContribution m k v i"
  "GetContribution (SaveGroup g m) k v i = GetContribution m k v i"
  "GetContribution (SaveMembership x m) k v i = GetContribution m k v i"
  "GetContribution (SaveJoinRequest j m) k v i = GetContribution m k v i"
  "GetContribution (SaveInvitation iv m) k v i = GetContribution m k v i"
  "GetContribution (SaveCycle c m) k v i = GetContribution m k v i"
  "GetContribution (SavePayout p m) k v i = GetContribution m k v i"
  "GetContribution (AppendEscrowEntry e m) k v i = GetContribution m k v i"
  "ListContributionsByCycle (SaveUser u m) k i = ListContributionsByCycle m k i"
  "ListContributionsByCycle (SaveGroup g m) k i = ListContributionsByCycle m k i"
  "ListContributionsByCycle (SaveMembership x m) k i = ListContributionsByCycle m k i"
  "ListContributionsByCycle (SaveJoinRequest j m) k i = ListContributionsByCycle m k i"
  "ListContributionsByCycle (SaveInvitation iv m) k i = ListContributionsByCycle m k i"
  "ListContributionsByCycle (SaveCycle c m) k i = ListContributionsByCycle m k i"
  "ListContributionsByCycle (SavePayout p m) k i = ListContributionsByCycle m k i"
  "ListContributionsByCycle (AppendEscrowEntry e m) k i = ListContributionsByCycle m k i"
  "ListPayoutsByGroup (SaveUser u m) k = ListPayoutsByGroup m k"
  "ListPayoutsByGroup (SaveGroup g m) k = ListPayoutsByGroup m k"
  "ListPayoutsByGroup (SaveMembership x m) k = ListPayoutsByGroup m k"
  "ListPayoutsByGroup (SaveJoinRequest j m) k = ListPayoutsByGroup m k"
  "ListPayoutsByGroup (SaveInvitation iv m) k = ListPayoutsByGroup m k"
  "ListPayoutsByGroup (SaveCycle c m) k = ListPayoutsByGroup m k"
  "ListPayoutsByGroup (SaveContribution y m) k = ListPayoutsByGroup m k"
  "ListPayoutsByGroup (AppendEscrowEntry e m) k = ListPayoutsByGroup m k"
  "ListEscrowByGroup (SaveUser u m) k = ListEscrowByGroup m k"
  "ListEscrowByGroup (SaveGroup g m) k = ListEscrowByGroup m k"
  "ListEscrowByGroup (SaveMembership x m) k = ListEscrowByGroup m k"
  "ListEscrowByGroup (SaveJoinRequest j m) k = ListEscrowByGroup m k"
  "ListEscrowByGroup (SaveInvitation iv m) k = ListEscrowByGroup m k"
  "ListEscrowByGroup (SaveCycle c m) k = ListEscrowByGroup m k"
  "ListEscrowByGroup (SaveContribution y m) k = ListEscrowByGroup m k"
  "ListEscrowByGroup (SavePayout p m) k = ListEscrowByGroup m k" "users (SaveGroup g m) = users m"
  "users (SaveMembership x m) = users m" "users (SaveJoinRequest j m) = users m"
  "users (SaveInvitation iv m) = users m" "users (SaveCycle c m) = users m"
  "users (SaveContribution y m) = users m" "users (SavePayout p m) = users m"
  "users (AppendEscrowEntry e m) = users m" "groups (SaveUser u m) = groups m"
  "groups (SaveMembership x m) = groups m" "groups (SaveJoinRequest j m) = groups m"
  "groups (SaveInvitation iv m) = groups m" "groups (SaveCycle c m) = groups m"
  "groups (SaveContribution y m) = groups m" "groups (SavePayout p m) = groups m"
  "groups (AppendEscrowEntry e m) = groups m" "memberships (SaveUser u m) = memberships m"
  "memberships (SaveGroup g m) = memberships m" "memberships (SaveJoinRequest j m) = memberships m"
  "memberships (SaveInvitation iv m) = memberships m" "memberships (SaveCycle c m) = memberships m"
  "memberships (SaveContribution y m) = memberships m" "memberships (SavePayout p m) = memberships m"
  "memberships (AppendEscrowEntry e m) = memberships m" "contributions (SaveUser u m) = contributions m"
  "contributions (SaveGroup g m) = contributions m" "contributions (SaveMembership x m) = contributions m"
  "contributions (SaveJoinRequest j m) = contributions m"
  "contributions (SaveInvitation iv m) = contributions m" "contributions (SaveCycle c m) = contributions m"
  "contributions (SavePayout p m) = contributions m"
  "contributions (AppendEscrowEntry e m) = contributions m" "payouts (SaveUser u m) = payouts m"
  "payouts (SaveGroup g m) = payouts m" "payouts (SaveMembership x m) = payouts m"
  "payouts (SaveJoinRequest j m) = payouts m" "payouts (SaveInvitation iv m) = payouts m"
  "payouts (SaveCycle c m) = payouts m" "payouts (SaveContribution y m) = payouts m"
  "payouts (AppendEscrowEntry e m) = payouts m" "escrow (SaveUser u m) = escrow m"
  "escrow (SaveGroup g m) = escrow m" "escrow (SaveMembership x m) = escrow m"
  "escrow (SaveJoinRequest j m) = escrow m" "escrow (SaveInvitation iv m) = escrow m"
  "escrow (SaveCycle c m) = escrow m" "escrow (SaveContribution y m) = escrow m"
  "escrow (SavePayout p m) = escrow m"
  by (simp_all add: memory_ops GetContribution_def GetCycle_def GetGroup_def GetInvitation_def GetJoinRequest_def GetMembership_def GetUser_def ListContributionsByCycle_def ListEscrowByGroup_def ListPayoutsByGroup_def)

lemma ledger_frames_cycles [simp]:
  "GetUser (fold SaveCycle cs m) k = GetUser m k" "GetGroup (fold SaveCycle cs m) k = GetGroup m k"
  "GetMembership (fold SaveCycle cs m) k v = GetMembership m k v"
  "GetJoinRequest (fold SaveCycle cs m) k = GetJoinRequest m k"
  "GetInvitation (fold SaveCycle cs m) k = GetInvitation m k"
  "GetContribution (fold SaveCycle cs m) k v i = GetContribution m k v i"
  "ListContributionsByCycle (fold SaveCycle cs m) k i = ListContributionsByCycle m k i"
  "ListPayoutsByGroup (fold SaveCycle cs m) k = ListPayoutsByGroup m k"
  "ListEscrowByGroup (fold SaveCycle cs m) k = ListEscrowByGroup m k"
  "users (fold SaveCycle cs m) = users m" "groups (fold SaveCycle cs m) = groups m"
  "memberships (fold SaveCycle cs m) = memberships m"
  "contributions (fold SaveCycle cs m) = contributions m" "payouts (fold SaveCycle cs m) = payouts m"
  "escrow (fold SaveCycle cs m) = escrow m"
  by (induction cs arbitrary: m) simp_all

lemma ledger_gets [simp]:
  "GetUser (SaveUser u m) k = (if k = u_ID u then Inr u else GetUser m k)"
  "GetGroup (SaveGroup g m) k = (if k = g_ID g then Inr g else GetGroup m k)"
  "GetMembership (SaveMembership x m) k v
     = (if memberKey k v = memberKey (m_GroupID x) (m_UserID x) then Inr x else GetMembership m k v)"
  "GetJoinRequest (SaveJoinRequest j m) k = (if k = j_ID j then Inr j else GetJoinRequest m k)"
  "GetInvitation (SaveInvitation iv m) k = (if k = i_ID iv then Inr iv else GetInvitation m k)"
  "GetCycle (SaveCycle c m) k i = (if cycleKey k i = cycleKey (c_GroupID c) (c_Index c) then Inr c else GetCycle m k i)"
  using user_table.get_save [of u m k] group_table.get_save [of g m k] join_request_table.get_save [of j m k]
    invitation_table.get_save [of iv m k] membership_table.get_save [of x m "(k, v)"]
    cycle_table.get_save [of c m "(k, i)"]
  by simp_all

section \<open>Entities\<close>

lemma SaveCycles_memory_ok: "memory_ok m \<Longrightarrow> memory_ok (fold SaveCycle cs m)"
  by (induction cs arbitrary: m) auto

lemma step_memory_ok:
  assumes "book_step E mem b b'" and "memory_ok (ledger b)"
  shows "memory_ok (ledger b')"
  using assms by cases (auto intro!: memory_ok_ops SaveCycles_memory_ok)

lemma step_drawn: "book_step E mem b b' \<Longrightarrow> drawn b \<le> drawn b'"
  by (induction rule: book_step.induct) (auto simp: drawn_id_def)

text \<open>Accounts and groups never disappear, and a new one has an identifier drawn in the step.\<close>

definition opened :: "memory \<Rightarrow> string \<Rightarrow> bool" where
  "opened m gid \<longleftrightarrow> (\<exists>g. GetGroup m gid = Inr g)"

lemma known_frames [simp]:
  "known (SaveUser u m) k \<longleftrightarrow> k = u_ID u \<or> known m k" "known (SaveGroup g m) k = known m k"
  "known (SaveMembership x m) k = known m k" "known (SaveJoinRequest j m) k = known m k"
  "known (SaveInvitation iv m) k = known m k" "known (SaveCycle c m) k = known m k"
  "known (SaveContribution y m) k = known m k" "known (SavePayout p m) k = known m k"
  "known (AppendEscrowEntry e m) k = known m k" "known (fold SaveCycle cs m) k = known m k"
  by (auto simp: known_def)

lemma opened_frames [simp]:
  "opened (SaveUser u m) k = opened m k" "opened (SaveGroup g m) k \<longleftrightarrow> k = g_ID g \<or> opened m k"
  "opened (SaveMembership x m) k = opened m k" "opened (SaveJoinRequest j m) k = opened m k"
  "opened (SaveInvitation iv m) k = opened m k" "opened (SaveCycle c m) k = opened m k"
  "opened (SaveContribution y m) k = opened m k" "opened (SavePayout p m) k = opened m k"
  "opened (AppendEscrowEntry e m) k = opened m k" "opened (fold SaveCycle cs m) k = opened m k"
  by (auto simp: opened_def)

lemma knownI: "GetUser m k = Inr u \<Longrightarrow> known m k" and openedI: "GetGroup m k = Inr g \<Longrightarrow> opened m k"
  by (auto simp: known_def opened_def)

lemma with_order_fields [simp]:
  "g_ID (with_order g order) = g_ID g" "g_Members (with_order g order) = g_Members g"
  "g_OrganizerID (with_order g order) = g_OrganizerID g" "g_PayoutOrder (with_order g order) = order"
  "g_TotalCycles (with_order g order) = int (length order)" "g_MaxMembers (with_order g order) = g_MaxMembers g"
  "g_ContributionAmount (with_order g order) = g_ContributionAmount g" "g_Name (with_order g order) = g_Name g"
  "g_CycleLength (with_order g order) = g_CycleLength g"
  by (simp_all add: with_order_def)

lemma step_known:
  assumes "book_step E mem b b'"
  shows "known (ledger b) k \<Longrightarrow> known (ledger b') k"
    and "known (ledger b') k \<Longrightarrow> known (ledger b) k \<or> drawn_id E (drawn b) (drawn b') k"
  using assms by (cases; auto dest: knownI)+

lemma step_opened:
  assumes "book_step E mem b b'" and "memory_ok (ledger b)"
  shows "opened (ledger b) k \<Longrightarrow> opened (ledger b') k"
    and "opened (ledger b') k \<Longrightarrow> opened (ledger b) k \<or> drawn_id E (drawn b) (drawn b') k"
proof -
  have "opened (ledger b') k \<longleftrightarrow> opened (ledger b) k \<or> opened (ledger b') k \<and> drawn_id E (drawn b) (drawn b') k"
    using assms(1)
  proof cases
    case (settled c g u a p req y n)
    then have "g_ID g = c_GroupID c"
      using stored_ids(2) [OF assms(2)] by blast
    with settled show ?thesis
      by (auto dest: openedI)
  qed (auto dest: openedI)
  then show "opened (ledger b) k \<Longrightarrow> opened (ledger b') k"
    and "opened (ledger b') k \<Longrightarrow> opened (ledger b) k \<or> drawn_id E (drawn b) (drawn b') k"
    by blast+
qed

definition ids_drawn :: "env \<Rightarrow> books \<Rightarrow> bool" where
  "ids_drawn E b \<longleftrightarrow>
     (\<forall>k. known (ledger b) k \<or> opened (ledger b) k \<longrightarrow> drawn_id E 0 (drawn b) k)"

lemma drawn_id_mono: "drawn_id E k n x \<Longrightarrow> n \<le> n' \<Longrightarrow> drawn_id E 0 n' x"
  unfolding drawn_id_def by (metis le0 less_le_trans)

lemma step_ids_drawn:
  assumes "book_step E mem b b'" and "memory_ok (ledger b)" and "ids_drawn E b"
  shows "ids_drawn E b'"
  unfolding ids_drawn_def
proof (intro allI impI)
  fix k assume "known (ledger b') k \<or> opened (ledger b') k"
  then have "drawn_id E 0 (drawn b) k \<or> drawn_id E (drawn b) (drawn b') k"
    using step_known(2) [OF assms(1)] step_opened(2) [OF assms(1,2)] assms(3) unfolding ids_drawn_def by blast
  then show "drawn_id E 0 (drawn b') k"
    using step_drawn [OF assms(1)] by (auto intro: drawn_id_mono)
qed

lemma parties_knownI:
  assumes "\<And>gid g. GetGroup m gid = Inr g \<Longrightarrow> known m (g_OrganizerID g) \<and> (\<forall>uid \<in> set (g_Members g). known m uid)"
    and "\<And>k j. GetJoinRequest m k = Inr j \<Longrightarrow> known m (j_UserID j)"
    and "\<And>k i. GetInvitation m k = Inr i \<Longrightarrow> known m (i_UserID i)"
  shows "parties_known m"
  using assms unfolding parties_known_def by blast

lemma step_parties_known:
  assumes "book_step E mem b b'" and "parties_known (ledger b)"
  shows "parties_known (ledger b')"
proof (rule parties_knownI)
  note k = parties_knownD [OF assms(2)]
  fix gid g assume "GetGroup (ledger b') gid = Inr g"
  with assms(1) show "known (ledger b') (g_OrganizerID g) \<and> (\<forall>uid \<in> set (g_Members g). known (ledger b') uid)"
    by cases (auto split: if_splits dest: k(1) k(2) knownI)
next
  note k = parties_knownD [OF assms(2)]
  fix i j assume "GetJoinRequest (ledger b') i = Inr j"
  with assms(1) show "known (ledger b') (j_UserID j)"
    by cases (auto split: if_splits dest: k(3))
next
  note k = parties_knownD [OF assms(2)]
  fix i j assume "GetInvitation (ledger b') i = Inr j"
  with assms(1) show "known (ledger b') (i_UserID j)"
    by cases (auto split: if_splits dest: k(4))
qed

section \<open>Groups\<close>

definition group_wf :: "group \<Rightarrow> bool" where
  "group_wf g \<longleftrightarrow> ValidateConfig g = Inr () \<and> g_OrganizerID g \<in> set (g_Members g)
     \<and> int (length (g_Members g)) \<le> g_MaxMembers g
     \<and> (if g_State g = GroupCreated then g_PayoutOrder g = [] \<and> g_TotalCycles g = 0
        else Validate g = Inr () \<and> g_TotalCycles g = int (length (g_PayoutOrder g)) \<and> g_State g \<noteq> GroupSettlement)"

definition groups_wf :: "memory \<Rightarrow> bool" where
  "groups_wf m \<longleftrightarrow> (\<forall>k g. GetGroup m k = Inr g \<longrightarrow> group_wf g)"

lemma groups_wfD: "groups_wf m \<Longrightarrow> GetGroup m k = Inr g \<Longrightarrow> group_wf g"
  by (simp add: groups_wf_def)

lemma advanced_state:
  "g_State g \<noteq> GroupSettlement \<Longrightarrow>
   g_State (advanced g i) = (if i = g_TotalCycles g - 1 \<and> g_State g = GroupActive then GroupClosed else g_State g)"
  by (cases "g_State g")
    (simp_all add: advanced_def try_transition_def Transition_def CanTransition_def allowedTransitions_def)

lemma advanced_created: "g_State (advanced g i) = GroupCreated \<longleftrightarrow> g_State g = GroupCreated"
  by (cases "g_State g")
    (simp_all add: advanced_def try_transition_def Transition_def CanTransition_def allowedTransitions_def)

lemma advanced_later: "g_State g \<le> g_State (advanced g i)"
  by (cases "g_State g")
    (simp_all add: advanced_def try_transition_def Transition_def CanTransition_def allowedTransitions_def
      group_state_order)

lemma advanced_wf: "group_wf g \<Longrightarrow> group_wf (advanced g i)"
  using advanced_state [of g i]
  by (auto simp: group_wf_def Validate_ok ValidateConfig_ok split: if_splits)

lemma activated_wf:
  "group_wf g \<Longrightarrow> Validate (with_order g order) = Inr () \<Longrightarrow>
   group_wf (with_order g order\<lparr>g_ActivatedAt := t, g_State := GroupActive\<rparr>)"
  by (simp add: group_wf_def Validate_ok ValidateConfig_ok with_order_def)

lemma step_groups_wf:
  assumes "book_step E mem b b'" and "groups_wf (ledger b)"
  shows "groups_wf (ledger b')"
  unfolding groups_wf_def
proof (intro allI impI)
  note wf = groups_wfD [OF assms(2)]
  fix k g assume g: "GetGroup (ledger b') k = Inr g"
  from assms(1) show "group_wf g"
  proof cases
    case (group_opened g' u n x)
    with g show ?thesis
      by (auto simp: group_wf_def ValidateConfig_ok split: if_splits dest: wf)
  next
    case (member_added g' x n)
    with g wf [of "g_ID g'" g'] show ?thesis
      by (auto simp: group_wf_def ValidateConfig_ok split: if_splits dest: wf)
  next
    case (member_dropped g' uid x s)
    have "int (length (filter (\<lambda>v. v \<noteq> uid) (g_Members g'))) \<le> int (length (g_Members g'))"
      by simp
    note less = order_trans [OF this]
    from member_dropped g wf [of "g_ID g'" g'] show ?thesis
      by (auto intro!: less simp: group_wf_def ValidateConfig_ok split: if_splits dest: wf)
  next
    case (activated g' order n now)
    with g wf [of "g_ID g'" g'] show ?thesis
      by (auto split: if_splits intro: activated_wf dest: wf)
  next
    case (settled c g' u a p req y n)
    with g wf [of "c_GroupID c" g'] show ?thesis
      by (auto split: if_splits intro: advanced_wf dest: wf)
  qed (use g in \<open>auto dest: wf\<close>)
qed

section \<open>Accounts\<close>

definition emails_unique :: "memory \<Rightarrow> bool" where
  "emails_unique m \<longleftrightarrow> (\<forall>k u l v. GetUser m k = Inr u \<longrightarrow> GetUser m l = Inr v \<longrightarrow> u_Email u = u_Email v \<longrightarrow> k = l)"

lemma users_range: "memory_ok m \<Longrightarrow> GetUser m k = Inr u \<Longrightarrow> u \<in> set (gm_range (users m))"
  using stored_ids(1) [of m k u] by (auto simp: memory_ok_def kept_under_range GetUser_def)

lemma emails_uniqueD: "emails_unique m \<Longrightarrow> GetUser m k = Inr u \<Longrightarrow> GetUser m l = Inr v \<Longrightarrow> u_Email u = u_Email v \<Longrightarrow> k = l"
  by (simp add: emails_unique_def)

lemma step_emails_unique:
  assumes "book_step E mem b b'" and ok: "memory_ok (ledger b)" and "emails_unique (ledger b)"
  shows "emails_unique (ledger b')"
  using assms(1)
proof cases
  case (registered n u)
  have "u_Email v \<noteq> u_Email u" "u_Email u \<noteq> u_Email v" if "GetUser (ledger b) k = Inr v" for k v
    using registered(3) users_range [OF ok that] by auto
  with registered assms(3) show ?thesis
    by (auto simp: emails_unique_def)
next
  case (user_changed u v n)
  show ?thesis
    unfolding emails_unique_def user_changed
    using emails_uniqueD [OF assms(3)] user_changed by (auto split: if_splits)
qed (use assms(3) in \<open>simp_all add: emails_unique_def\<close>)

section \<open>Memberships\<close>

text \<open>The member list of a group and its active memberships say the same.\<close>

definition memberships_agree :: "memory \<Rightarrow> bool" where
  "memberships_agree m \<longleftrightarrow>
     (\<forall>gid g uid. GetGroup m gid = Inr g \<longrightarrow>
        (uid \<in> set (g_Members g) \<longleftrightarrow> (\<exists>x. GetMembership m gid uid = Inr x \<and> m_Status x = MembershipActive)))"

definition memberships_placed :: "memory \<Rightarrow> bool" where
  "memberships_placed m \<longleftrightarrow> (\<forall>k v x. GetMembership m k v = Inr x \<longrightarrow> opened m (m_GroupID x))"

lemma stored_membership:
  "memory_ok m \<Longrightarrow> GetMembership m k v = Inr x \<Longrightarrow> memberKey (m_GroupID x) (m_UserID x) = memberKey k v"
  by (auto simp: memory_ok_def kept_under_def GetMembership_def dest: gm_allD)

lemma opened_plain: "ids_drawn E b \<Longrightarrow> opened (ledger b) gid \<Longrightarrow> CHR ''|'' \<notin> set gid"
  by (auto simp: ids_drawn_def drawn_id_def NewID_plain)

lemma drawn_plain: "drawn_id E k n gid \<Longrightarrow> CHR ''|'' \<notin> set gid"
  by (auto simp: drawn_id_def NewID_plain)

lemma drawn_fresh:
  assumes "inj (env_rand E)" and "ids_drawn E b" and "drawn_id E (drawn b) n x"
  shows "\<not> opened (ledger b) x" "\<not> known (ledger b) x"
proof -
  have "\<not> drawn_id E 0 (drawn b) x"
    using assms(1,3) by (auto simp: drawn_id_def inj_eq)
  with assms(2) show "\<not> opened (ledger b) x" "\<not> known (ledger b) x"
    by (auto simp: ids_drawn_def)
qed

lemma step_memberships_placed:
  assumes "book_step E mem b b'" and "memory_ok (ledger b)" and "memberships_placed (ledger b)"
  shows "memberships_placed (ledger b')"
  unfolding memberships_placed_def
proof (intro allI impI)
  fix k v x assume x: "GetMembership (ledger b') k v = Inr x"
  have old: "opened (ledger b) (m_GroupID y)" if "GetMembership (ledger b) i j = Inr y" for i j y
    using assms(3) that by (auto simp: memberships_placed_def)
  from assms(1) x show "opened (ledger b') (m_GroupID x)"
    by cases (auto split: if_splits dest: old)
qed

lemma step_memberships_agree:
  assumes "book_step E mem b b'" and inj: "inj (env_rand E)" and ok: "memory_ok (ledger b)"
    and ids: "ids_drawn E b" and placed: "memberships_placed (ledger b)" and agree: "memberships_agree (ledger b)"
  shows "memberships_agree (ledger b')"
  unfolding memberships_agree_def
proof (intro allI impI)
  fix gid g uid
  let ?m = "ledger b"
  assume g: "GetGroup (ledger b') gid = Inr g"
  have old: "uid \<in> set (g_Members h) \<longleftrightarrow> (\<exists>x. GetMembership ?m gid uid = Inr x \<and> m_Status x = MembershipActive)"
    if "GetGroup ?m gid = Inr h" for h
    using agree that by (auto simp: memberships_agree_def)
  have plain: "CHR ''|'' \<notin> set k" if "GetGroup ?m k = Inr h" for k h
    using opened_plain [OF ids openedI [OF that]] .
  from assms(1) show "uid \<in> set (g_Members g) \<longleftrightarrow>
      (\<exists>x. GetMembership (ledger b') gid uid = Inr x \<and> m_Status x = MembershipActive)"
  proof cases
    case (group_opened g' u n x)
    note p = drawn_plain [OF group_opened(4)]
    show ?thesis
    proof (cases "gid = g_ID g'")
      case True
      have none: "GetMembership ?m gid v \<noteq> Inr y" for v y
      proof
        assume y: "GetMembership ?m gid v = Inr y"
        then have o: "opened ?m (m_GroupID y)"
          using placed by (auto simp: memberships_placed_def)
        with stored_membership [OF ok y] opened_plain [OF ids o] p True have "m_GroupID y = gid"
          by (simp add: memberKey_inject)
        with o drawn_fresh(1) [OF inj ids group_opened(4)] True show False
          by simp
      qed
      with True g group_opened p show ?thesis
        by (auto simp: memberKey_inject)
    next
      case False
      with g group_opened p plain old show ?thesis
        by (auto simp: memberKey_inject)
    qed
  next
    case (member_added g' x n)
    with g old plain [OF member_added(2)] plain [of gid] show ?thesis
      by (cases "gid = g_ID g'") (auto simp: memberKey_inject)
  next
    case (member_dropped g' v x s)
    with g old plain [OF member_dropped(2)] plain [of gid] stored_membership [OF ok member_dropped(5)] show ?thesis
      by (cases "gid = g_ID g'") (auto simp: memberKey_inject)
  next
    case (activated g' order n now)
    with g old show ?thesis
      by (cases "gid = g_ID g'") auto
  next
    case (settled c g' u a p req y n)
    with g old stored_ids(2) [OF ok settled(2)] show ?thesis
      by (cases "gid = g_ID g'") auto
  qed (use g old in simp_all)
qed

section \<open>Cycles\<close>

lemma itoa_nonneg: "0 \<le> i \<Longrightarrow> itoa i = nat_digits (nat i)"
proof (cases "i = 0")
  case True
  have "char_of (48 :: nat) = CHR ''0''"
    using char_of_char [of "CHR ''0''", where 'a = nat] by simp
  with True show ?thesis
    by (simp add: itoa_def nat_digits.simps [of 0])
qed (simp add: itoa_def itoa_loop_digits)

lemma itoa_neg: "i < 0 \<Longrightarrow> \<exists>b. itoa i = CHR ''-'' # b"
  by (simp add: itoa_def Let_def)

lemma nat_digits_no_minus: "nat_digits n \<noteq> CHR ''-'' # b"
proof
  assume "nat_digits n = CHR ''-'' # b"
  then have "is_digit (CHR ''-'')"
    using nat_digits_is_digit [of "CHR ''-''" n] by simp
  then show False
    by simp
qed

lemma itoa_nonneg_inject:
  assumes "0 \<le> j"
  shows "itoa i = itoa j \<longleftrightarrow> i = j"
proof
  note j = itoa_nonneg [OF assms]
  assume eq: "itoa i = itoa j"
  have "0 \<le> i"
    using itoa_neg [of i] eq j nat_digits_no_minus [of "nat j"] by force
  with eq j have "nat_digits (nat i) = nat_digits (nat j)"
    by (simp add: itoa_nonneg)
  then have "nat i = nat j"
    by (metis nat_digits_value)
  with assms \<open>0 \<le> i\<close> show "i = j"
    by simp
qed simp

lemma cycleKey_nonneg: "0 \<le> j \<Longrightarrow> cycleKey g i = cycleKey h j \<longleftrightarrow> g = h \<and> i = j"
  by (simp add: cycleKey_def split_last_sep itoa_no_bar itoa_nonneg_inject)

lemma GetCycle_scheduled:
  "GetCycle (fold SaveCycle (Cycles g now) m) gid i
   = (if gid = g_ID g \<and> 0 \<le> i \<and> i < int (length (g_PayoutOrder g)) then Inr (Cycles g now ! nat i)
      else GetCycle m gid i)"
proof (cases "gid = g_ID g \<and> 0 \<le> i \<and> i < int (length (g_PayoutOrder g))")
  case True
  let ?c = "Cycles g now ! nat i"
  have c: "c_GroupID ?c = gid" "c_Index ?c = i"
    using True by (simp_all add: Cycles_nth nat_less_iff)
  have mem: "?c \<in> set (Cycles g now)"
    using True by (intro nth_mem) (simp add: nat_less_iff)
  have keys: "map ((\<lambda>(g, i). cycleKey g i) \<circ> (\<lambda>c. (c_GroupID c, c_Index c))) (Cycles g now)
      = map (\<lambda>k. cycleKey (g_ID g) (int k)) [0..<length (g_PayoutOrder g)]"
    by (rule nth_equalityI) (simp_all add: Cycles_nth)
  have "distinct (map (\<lambda>k. cycleKey (g_ID g) (int k)) [0..<length (g_PayoutOrder g)])"
    by (simp add: distinct_map inj_on_def cycleKey_nonneg)
  from cycle_table.get_saves [OF this [folded keys] mem, of m] c True show ?thesis
    by simp
next
  case False
  have "cycleKey gid i \<noteq> cycleKey (c_GroupID c) (c_Index c)" if "c \<in> set (Cycles g now)" for c
  proof -
    from that obtain k where "k < length (g_PayoutOrder g)" "c = Cycles g now ! k"
      by (metis in_set_conv_nth length_Cycles)
    with False show ?thesis
      by (auto simp: Cycles_nth cycleKey_nonneg)
  qed
  then have "(\<lambda>(g, i). cycleKey g i) (gid, i) \<notin> ((\<lambda>(g, i). cycleKey g i) \<circ> (\<lambda>c. (c_GroupID c, c_Index c))) ` set (Cycles g now)"
    by auto
  from cycle_table.get_saves_other [OF this, of m]
  have "GetCycle (fold SaveCycle (Cycles g now) m) gid i = GetCycle m gid i"
    by simp
  then show ?thesis
    by (simp only: if_not_P [OF False])
qed

definition cycles_wf :: "memory \<Rightarrow> bool" where
  "cycles_wf m \<longleftrightarrow> (\<forall>gid i c. GetCycle m gid i = Inr c \<longrightarrow> c_GroupID c = gid \<and> c_Index c = i
     \<and> (\<exists>g. GetGroup m gid = Inr g \<and> g_State g \<noteq> GroupCreated \<and> 0 \<le> i \<and> i < g_TotalCycles g
          \<and> c_PayoutUser c = g_PayoutOrder g ! nat i))"

definition cycles_complete :: "memory \<Rightarrow> bool" where
  "cycles_complete m \<longleftrightarrow> (\<forall>gid g i. GetGroup m gid = Inr g \<longrightarrow> g_State g \<noteq> GroupCreated \<longrightarrow>
     0 \<le> i \<longrightarrow> i < g_TotalCycles g \<longrightarrow> (\<exists>c. GetCycle m gid i = Inr c))"

lemma cycles_wfD:
  assumes "cycles_wf m" "GetCycle m gid i = Inr c"
  shows "c_GroupID c = gid" "c_Index c = i" "0 \<le> i"
    "\<exists>g. GetGroup m gid = Inr g \<and> g_State g \<noteq> GroupCreated \<and> i < g_TotalCycles g \<and> c_PayoutUser c = g_PayoutOrder g ! nat i"
  using assms unfolding cycles_wf_def by blast+

lemma step_cycles_wf:
  assumes "book_step E mem b b'" and inj: "inj (env_rand E)" and ids: "ids_drawn E b"
    and ok: "memory_ok (ledger b)" and wf: "cycles_wf (ledger b)"
  shows "cycles_wf (ledger b')"
  unfolding cycles_wf_def
proof (intro allI impI)
  fix gid i c
  let ?m = "ledger b"
  assume c: "GetCycle (ledger b') gid i = Inr c"
  note old = cycles_wfD [OF wf]
  from assms(1) show "c_GroupID c = gid \<and> c_Index c = i
     \<and> (\<exists>g. GetGroup (ledger b') gid = Inr g \<and> g_State g \<noteq> GroupCreated \<and> 0 \<le> i \<and> i < g_TotalCycles g
          \<and> c_PayoutUser c = g_PayoutOrder g ! nat i)"
  proof cases
    case (group_opened g u n x)
    with c have c': "GetCycle ?m gid i = Inr c"
      by simp
    from old(4) [OF c'] drawn_fresh(1) [OF inj ids group_opened(4)] have "gid \<noteq> g_ID g"
      by (auto simp: opened_def)
    with old [OF c'] group_opened show ?thesis
      by auto
  next
    case (member_added g x n)
    with c have c': "GetCycle ?m gid i = Inr c"
      by simp
    with old [OF c'] member_added show ?thesis
      by auto
  next
    case (member_dropped g v x s)
    with c have c': "GetCycle ?m gid i = Inr c"
      by simp
    with old [OF c'] member_dropped show ?thesis
      by auto
  next
    case (activated g order n now)
    show ?thesis
    proof (cases "gid = g_ID g \<and> 0 \<le> i \<and> i < int (length order)")
      case True
      with c activated have "c = Cycles (with_order g order) now ! nat i"
        by (simp add: GetCycle_scheduled)
      with True activated show ?thesis
        by (simp add: Cycles_nth nat_less_iff)
    next
      case False
      with c activated have c': "GetCycle ?m gid i = Inr c"
        by (auto simp: GetCycle_scheduled split: if_splits)
      with old [OF c'] activated show ?thesis
        by auto
    qed
  next
    case (settled d g u a p req y n)
    note d = old [OF settled(3)] and gid = stored_ids(2) [OF ok settled(2)]
    show ?thesis
    proof (cases "gid = c_GroupID d \<and> i = c_Index d")
      case True
      with c settled d gid show ?thesis
        by (auto simp: cycleKey_nonneg advanced_created)
    next
      case False
      with c settled d(3) have c': "GetCycle ?m gid i = Inr c"
        by (auto simp: cycleKey_nonneg split: if_splits)
      with old [OF c'] settled gid show ?thesis
        by (cases "gid = g_ID g") (auto simp: advanced_created)
    qed
  qed (use c old in auto)
qed

lemma step_cycles_complete:
  assumes "book_step E mem b b'" and ok: "memory_ok (ledger b)" and wf: "cycles_wf (ledger b)"
    and all: "cycles_complete (ledger b)"
  shows "cycles_complete (ledger b')"
  unfolding cycles_complete_def
proof (intro allI impI)
  fix gid g i
  assume g: "GetGroup (ledger b') gid = Inr g" "g_State g \<noteq> GroupCreated" "0 \<le> i" "i < g_TotalCycles g"
  have old: "\<exists>c. GetCycle (ledger b) gid i = Inr c"
    if "GetGroup (ledger b) gid = Inr h" "g_State h \<noteq> GroupCreated" "i < g_TotalCycles h" for h
    using all that g(3) unfolding cycles_complete_def by blast
  from assms(1) show "\<exists>c. GetCycle (ledger b') gid i = Inr c"
  proof cases
    case (activated h order n now)
    with g old show ?thesis
      by (auto simp: GetCycle_scheduled split: if_splits)
  next
    case (settled d h u a p req y n)
    have "\<exists>c. GetCycle (ledger b) gid i = Inr c"
      using g settled old stored_ids(2) [OF ok settled(2)]
      by (auto simp: advanced_created split: if_splits)
    with settled show ?thesis
      by auto
  qed (use g old in \<open>auto split: if_splits\<close>)
qed

section \<open>Contributions\<close>

definition all_contributions :: "memory \<Rightarrow> contribution list" where
  "all_contributions m = gm_range (contributions m)"

definition contributions_wf :: "memory \<Rightarrow> bool" where
  "contributions_wf m \<longleftrightarrow> (\<forall>x \<in> set (all_contributions m). \<exists>g c. GetGroup m (co_GroupID x) = Inr g
     \<and> g_State g \<noteq> GroupCreated \<and> co_UserID x \<in> set (g_Members g) \<and> co_Amount x = g_ContributionAmount g
     \<and> GetCycle m (co_GroupID x) (co_CycleIndex x) = Inr c)"

lemma all_contributions_frames [simp]:
  "all_contributions (SaveUser u m) = all_contributions m" "all_contributions (SaveGroup g m) = all_contributions m"
  "all_contributions (SaveMembership mm m) = all_contributions m"
  "all_contributions (SaveJoinRequest j m) = all_contributions m"
  "all_contributions (SaveInvitation iv m) = all_contributions m" "all_contributions (SaveCycle c m) = all_contributions m"
  "all_contributions (SavePayout p m) = all_contributions m" "all_contributions (AppendEscrowEntry e m) = all_contributions m"
  "all_contributions (fold SaveCycle cs m) = all_contributions m"
  by (simp_all add: all_contributions_def)

lemma all_contributions_new:
  "GetContribution m (co_GroupID x) (co_UserID x) (co_CycleIndex x) = Inl e \<Longrightarrow>
   all_contributions (SaveContribution x m) = all_contributions m @ [x]"
  by (simp add: all_contributions_def GetContribution_def SaveContribution_def gm_range_set_new)

lemma ListContributionsByCycle_all:
  "ListContributionsByCycle m gid i = filter (\<lambda>x. co_GroupID x = gid \<and> co_CycleIndex x = i) (all_contributions m)"
  by (simp add: ListContributionsByCycle_def all_contributions_def)

text \<open>Cycles are never dropped.\<close>

lemma step_cycle_kept:
  assumes "book_step E mem b b'" and "GetCycle (ledger b) gid i = Inr c"
  shows "\<exists>c'. GetCycle (ledger b') gid i = Inr c'"
  using assms by cases (auto simp: GetCycle_scheduled)

text \<open>What a step does to a group that is no longer CREATED: nothing but its state may change.\<close>

definition same_terms :: "group \<Rightarrow> group \<Rightarrow> bool" where
  "same_terms g g' \<longleftrightarrow> (\<exists>s. g' = g\<lparr>g_State := s\<rparr> \<and> s \<noteq> GroupCreated \<and> g_State g \<le> s)"

lemma same_terms_fields:
  "same_terms g g' \<Longrightarrow> g_ID g' = g_ID g \<and> g_Members g' = g_Members g \<and> g_PayoutOrder g' = g_PayoutOrder g
     \<and> g_TotalCycles g' = g_TotalCycles g \<and> g_ContributionAmount g' = g_ContributionAmount g
     \<and> expected_amount g' = expected_amount g \<and> g_State g' \<noteq> GroupCreated"
  by (auto simp: same_terms_def expected_amount_def)

lemma advanced_same_terms: "g_State g \<noteq> GroupCreated \<Longrightarrow> same_terms g (advanced g i)"
  unfolding same_terms_def
  by (intro exI [of _ "g_State (advanced g i)"] conjI)
    (simp_all add: advanced_created advanced_later, simp add: advanced_def try_transition_def Transition_def)

lemma same_terms_trans: "same_terms g h \<Longrightarrow> same_terms h k \<Longrightarrow> same_terms g k"
  by (auto simp: same_terms_def intro: order_trans)

lemma same_terms_refl: "g_State g \<noteq> GroupCreated \<Longrightarrow> same_terms g g"
  unfolding same_terms_def by (intro exI [of _ "g_State g"]) simp

lemma step_started_group:
  assumes "book_step E mem b b'" and inj: "inj (env_rand E)" and ids: "ids_drawn E b" and ok: "memory_ok (ledger b)"
    and g: "GetGroup (ledger b) gid = Inr g" "g_State g \<noteq> GroupCreated"
  shows "\<exists>g'. GetGroup (ledger b') gid = Inr g' \<and> same_terms g g'"
proof -
  note refl = same_terms_refl [OF g(2)]
  from assms(1) show ?thesis
  proof cases
    case (group_opened h u n x)
    have "gid \<noteq> g_ID h"
      using drawn_fresh(1) [OF inj ids group_opened(4)] openedI [OF g(1)] by auto
    with group_opened g refl show ?thesis
      by simp
  next
    case (settled d h u a p req y n)
    note hid = stored_ids(2) [OF ok settled(2)]
    show ?thesis
    proof (cases "gid = c_GroupID d")
      case True
      with settled g hid advanced_same_terms [OF g(2), of "c_Index d"] show ?thesis
        by simp
    next
      case False
      with settled g hid refl show ?thesis
        by simp
    qed
  next
    case (member_added h x n)
    with g have "gid \<noteq> g_ID h"
      by auto
    with member_added g refl show ?thesis
      by simp
  next
    case (member_dropped h v x s)
    with g have "gid \<noteq> g_ID h"
      by auto
    with member_dropped g refl show ?thesis
      by simp
  next
    case (activated h order n now)
    with g have "gid \<noteq> g_ID h"
      by auto
    with activated g refl show ?thesis
      by simp
  qed (use g refl in simp_all)
qed

lemma step_contributions_wf:
  assumes "book_step E mem b b'" and inj: "inj (env_rand E)" and ids: "ids_drawn E b" and ok: "memory_ok (ledger b)"
    and wf: "contributions_wf (ledger b)"
  shows "contributions_wf (ledger b')"
  unfolding contributions_wf_def
proof
  fix x assume x: "x \<in> set (all_contributions (ledger b'))"
  have old: "\<exists>g c. GetGroup (ledger b') (co_GroupID x) = Inr g
     \<and> g_State g \<noteq> GroupCreated \<and> co_UserID x \<in> set (g_Members g) \<and> co_Amount x = g_ContributionAmount g
     \<and> GetCycle (ledger b') (co_GroupID x) (co_CycleIndex x) = Inr c" if in_old: "x \<in> set (all_contributions (ledger b))"
  proof -
    obtain g c where g: "GetGroup (ledger b) (co_GroupID x) = Inr g" "g_State g \<noteq> GroupCreated"
      and x: "co_UserID x \<in> set (g_Members g)" "co_Amount x = g_ContributionAmount g"
      and c: "GetCycle (ledger b) (co_GroupID x) (co_CycleIndex x) = Inr c"
      using wf in_old unfolding contributions_wf_def by blast
    obtain g' where g': "GetGroup (ledger b') (co_GroupID x) = Inr g'" "same_terms g g'"
      using step_started_group [OF assms(1) inj ids ok g] by blast
    obtain c' where "GetCycle (ledger b') (co_GroupID x) (co_CycleIndex x) = Inr c'"
      using step_cycle_kept [OF assms(1) c] by blast
    with g'(1) same_terms_fields [OF g'(2)] x show ?thesis
      by simp
  qed
  from assms(1) show "\<exists>g c. GetGroup (ledger b') (co_GroupID x) = Inr g
     \<and> g_State g \<noteq> GroupCreated \<and> co_UserID x \<in> set (g_Members g) \<and> co_Amount x = g_ContributionAmount g
     \<and> GetCycle (ledger b') (co_GroupID x) (co_CycleIndex x) = Inr c"
  proof cases
    case (contributed y g c e a req ent n)
    then have "x \<in> set (all_contributions (ledger b)) \<or> x = y"
      using x by (auto simp: all_contributions_new [OF contributed(7)])
    then show ?thesis
    proof
      assume "x = y"
      with contributed show ?thesis
        by simp
    qed (rule old)
  qed (use x old in simp_all)
qed

section \<open>The escrow ledger\<close>

definition cycle_open :: "memory \<Rightarrow> string \<Rightarrow> int \<Rightarrow> bool" where
  "cycle_open m gid i \<longleftrightarrow> (\<exists>c. GetCycle m gid i = Inr c \<and> \<not> c_Settled c)"

text \<open>The money of a group: what was contributed to its cycles that are not settled yet.\<close>

definition open_pool :: "memory \<Rightarrow> string \<Rightarrow> money" where
  "open_pool m gid = sum_list (map co_Amount
     (filter (\<lambda>x. co_GroupID x = gid \<and> cycle_open m gid (co_CycleIndex x)) (all_contributions m)))"

definition escrow_conserved :: "memory \<Rightarrow> bool" where
  "escrow_conserved m \<longleftrightarrow> (\<forall>gid. EscrowBalance (ListEscrowByGroup m gid) = open_pool m gid)"

lemma cycle_open_frames [simp]:
  "cycle_open (SaveUser u m) = cycle_open m" "cycle_open (SaveGroup g m) = cycle_open m"
  "cycle_open (SaveMembership mm m) = cycle_open m" "cycle_open (SaveJoinRequest j m) = cycle_open m"
  "cycle_open (SaveInvitation iv m) = cycle_open m" "cycle_open (SaveContribution y m) = cycle_open m"
  "cycle_open (SavePayout p m) = cycle_open m" "cycle_open (AppendEscrowEntry e m) = cycle_open m"
  by (simp_all add: cycle_open_def fun_eq_iff)

lemma total_amount_sum: "total_amount xs = sum_list (map co_Amount xs)"
proof -
  have "foldl (\<lambda>s c. s + co_Amount c) a xs = a + sum_list (map co_Amount xs)" for a
    by (induction xs arbitrary: a) (simp_all add: add.assoc)
  then show ?thesis
    by (simp add: total_amount_def)
qed

lemma sum_filter_split:
  "sum_list (map f (filter P xs)) = sum_list (map f (filter (\<lambda>x. P x \<and> Q x) xs)) + sum_list (map f (filter (\<lambda>x. P x \<and> \<not> Q x) xs))"
  for f :: "'a \<Rightarrow> money"
  by (induction xs) (simp_all add: algebra_simps)

lemma balance_entry:
  "EscrowBalance (ListEscrowByGroup (AppendEscrowEntry e m) gid)
   = EscrowBalance (ListEscrowByGroup m gid) + (if e_GroupID e = gid then signed_amount e else 0)"
  by (rule escrow_log.balance_append)

lemma open_pool_cong:
  assumes "all_contributions m' = all_contributions m"
    and "\<And>x. x \<in> set (all_contributions m) \<Longrightarrow> co_GroupID x = gid \<Longrightarrow>
          cycle_open m' gid (co_CycleIndex x) = cycle_open m gid (co_CycleIndex x)"
  shows "open_pool m' gid = open_pool m gid"
proof -
  have "filter (\<lambda>x. co_GroupID x = gid \<and> cycle_open m' gid (co_CycleIndex x)) (all_contributions m)
      = filter (\<lambda>x. co_GroupID x = gid \<and> cycle_open m gid (co_CycleIndex x)) (all_contributions m)"
    by (rule filter_cong) (use assms(2) in auto)
  then show ?thesis
    by (simp add: open_pool_def assms(1))
qed

text \<open>Settling a cycle takes what was contributed to it out of the pool.\<close>

lemma open_pool_settle:
  assumes c: "GetCycle m (c_GroupID c) (c_Index c) = Inr c" "\<not> c_Settled c" and "0 \<le> c_Index c"
  shows "open_pool (SaveCycle (c\<lparr>c_Settled := True\<rparr>) m) gid
    = open_pool m gid - (if c_GroupID c = gid then total_amount (ListContributionsByCycle m gid (c_Index c)) else 0)"
proof (cases "c_GroupID c = gid")
  case True
  let ?P = "\<lambda>x. co_GroupID x = gid \<and> cycle_open m gid (co_CycleIndex x)"
  let ?xs = "all_contributions m"
  have "cycle_open (SaveCycle (c\<lparr>c_Settled := True\<rparr>) m) gid j \<longleftrightarrow> cycle_open m gid j \<and> j \<noteq> c_Index c" for j
    using True assms by (auto simp: cycle_open_def cycleKey_nonneg)
  then have "open_pool (SaveCycle (c\<lparr>c_Settled := True\<rparr>) m) gid
      = sum_list (map co_Amount (filter (\<lambda>x. ?P x \<and> co_CycleIndex x \<noteq> c_Index c) ?xs))"
    by (simp add: open_pool_def conj_ac)
  moreover have "open_pool m gid = sum_list (map co_Amount (filter (\<lambda>x. ?P x \<and> co_CycleIndex x = c_Index c) ?xs))
      + sum_list (map co_Amount (filter (\<lambda>x. ?P x \<and> co_CycleIndex x \<noteq> c_Index c) ?xs))"
    unfolding open_pool_def by (rule sum_filter_split)
  moreover have "filter (\<lambda>x. ?P x \<and> co_CycleIndex x = c_Index c) ?xs
      = filter (\<lambda>x. co_GroupID x = gid \<and> co_CycleIndex x = c_Index c) ?xs"
    by (rule filter_cong) (use True c in \<open>auto simp: cycle_open_def\<close>)
  ultimately show ?thesis
    unfolding total_amount_sum ListContributionsByCycle_all by (simp only: True if_True) simp
next
  case False
  then have "cycle_open (SaveCycle (c\<lparr>c_Settled := True\<rparr>) m) gid j = cycle_open m gid j" for j
    using assms by (simp add: cycle_open_def cycleKey_nonneg)
  with False show ?thesis
    by (simp add: open_pool_def)
qed

lemma open_pool_frames [simp]:
  "open_pool (SaveUser u m) gid = open_pool m gid" "open_pool (SaveGroup g m) gid = open_pool m gid"
  "open_pool (SaveMembership mm m) gid = open_pool m gid" "open_pool (SaveJoinRequest j m) gid = open_pool m gid"
  "open_pool (SaveInvitation iv m) gid = open_pool m gid" "open_pool (SavePayout p m) gid = open_pool m gid"
  "open_pool (AppendEscrowEntry e m) gid = open_pool m gid"
  by (simp_all add: open_pool_def)

lemma open_pool_contribute:
  assumes "GetContribution m (co_GroupID x) (co_UserID x) (co_CycleIndex x) = Inl e"
    and "cycle_open m (co_GroupID x) (co_CycleIndex x)"
  shows "open_pool (SaveContribution x m) gid = open_pool m gid + (if co_GroupID x = gid then co_Amount x else 0)"
  using assms by (auto simp: open_pool_def all_contributions_new)

lemma open_pool_schedule:
  assumes "contributions_wf m" and "GetGroup m (g_ID g) = Inr h" and "g_State h = GroupCreated"
  shows "open_pool (fold SaveCycle (Cycles g now) m) gid = open_pool m gid"
proof (rule open_pool_cong)
  fix x assume "x \<in> set (all_contributions m)" "co_GroupID x = gid"
  then have "gid \<noteq> g_ID g"
    using assms by (auto simp: contributions_wf_def)
  then show "cycle_open (fold SaveCycle (Cycles g now) m) gid (co_CycleIndex x) = cycle_open m gid (co_CycleIndex x)"
    by (simp add: cycle_open_def GetCycle_scheduled)
qed simp

lemma credit_signed: "credit_for x y \<Longrightarrow> e_GroupID y = co_GroupID x \<and> signed_amount y = co_Amount x"
  by (simp add: credit_for_def signed_amount_def)

lemma debit_signed: "debit_for p y \<Longrightarrow> e_GroupID y = po_GroupID p \<and> signed_amount y = - po_GrossAmount p"
  by (simp add: debit_for_def signed_amount_def)

lemma step_escrow_conserved:
  assumes "book_step E mem b b'" and wf: "cycles_wf (ledger b)" "contributions_wf (ledger b)"
    and cons: "escrow_conserved (ledger b)"
  shows "escrow_conserved (ledger b')"
  unfolding escrow_conserved_def
proof
  fix gid
  have old: "EscrowBalance (ListEscrowByGroup (ledger b) gid) = open_pool (ledger b) gid"
    using cons by (simp add: escrow_conserved_def)
  from assms(1) show "EscrowBalance (ListEscrowByGroup (ledger b') gid) = open_pool (ledger b') gid"
  proof cases
    case (activated g order n now)
    have "open_pool (fold SaveCycle (Cycles (with_order g order) now)
        (SaveGroup (with_order g order\<lparr>g_ActivatedAt := Some now, g_State := GroupActive\<rparr>) (ledger b))) gid
      = open_pool (fold SaveCycle (Cycles (with_order g order) now) (ledger b)) gid"
      by (rule open_pool_cong) (simp_all add: cycle_open_def GetCycle_scheduled)
    also have "\<dots> = open_pool (ledger b) gid"
      by (rule open_pool_schedule [OF wf(2)]) (use activated in simp_all)
    finally show ?thesis
      using activated old by simp
  next
    case (contributed x g c e a req y n)
    have "cycle_open (ledger b) (co_GroupID x) (co_CycleIndex x)"
      using contributed by (auto simp: cycle_open_def)
    from open_pool_contribute [OF contributed(7) this] credit_signed [OF contributed(10)] contributed old
    show ?thesis
      by (simp add: balance_entry)
  next
    case (settled c g u a p req y n)
    have idx: "0 \<le> c_Index c"
      by (rule cycles_wfD(3) [OF wf(1) settled(3)])
    let ?m = "SavePayout p (AppendEscrowEntry y (ledger b))"
    have "open_pool (ledger b') gid = open_pool (SaveCycle (c\<lparr>c_Settled := True\<rparr>) ?m) gid"
      using settled by simp
    also have "\<dots> = open_pool ?m gid
        - (if c_GroupID c = gid then total_amount (ListContributionsByCycle ?m gid (c_Index c)) else 0)"
      by (rule open_pool_settle) (use settled idx in simp_all)
    finally show ?thesis
      using settled old debit_signed [OF settled(9)] by (auto simp: balance_entry payout_for_def)
  qed (use old in simp_all)
qed

section \<open>The payment rail\<close>

definition rail_agrees :: "bool \<Rightarrow> books \<Rightarrow> bool" where
  "rail_agrees mem b \<longleftrightarrow>
     (mem \<longrightarrow> (\<forall>gid. rail_balance (movements b) gid = EscrowBalance (ListEscrowByGroup (ledger b) gid)))"

lemma step_rail_agrees:
  assumes "book_step E mem b b'" and "rail_agrees mem b"
  shows "rail_agrees mem b'"
  unfolding rail_agrees_def
proof (intro impI allI)
  fix gid assume mem
  then have old: "rail_balance (movements b) gid = EscrowBalance (ListEscrowByGroup (ledger b) gid)"
    using assms(2) by (simp add: rail_agrees_def)
  from assms(1) show "rail_balance (movements b') gid = EscrowBalance (ListEscrowByGroup (ledger b') gid)"
  proof cases
    case (contributed x g c e a req y n)
    with old credit_signed [OF contributed(10)] show ?thesis
      by (simp add: balance_entry charge_for_def)
  next
    case (settled c g u a p req y n)
    with old debit_signed [OF settled(9)] show ?thesis
      by (simp add: balance_entry disburse_for_def)
  next
    case (unrecorded call n)
    with old \<open>mem\<close> show ?thesis
      by simp
  qed (use old in simp_all)
qed

section \<open>Payouts\<close>

definition cycle_done :: "memory \<Rightarrow> string \<Rightarrow> int \<Rightarrow> bool" where
  "cycle_done m gid i \<longleftrightarrow> (\<exists>c. GetCycle m gid i = Inr c \<and> c_Settled c)"

definition payouts_of :: "memory \<Rightarrow> string \<Rightarrow> int \<Rightarrow> payout list" where
  "payouts_of m gid i = filter (\<lambda>p. po_CycleIndex p = i) (ListPayoutsByGroup m gid)"

lemma payouts_of_frames [simp]:
  "payouts_of (SavePayout p m) gid i
   = payouts_of m gid i @ (if po_GroupID p = gid \<and> po_CycleIndex p = i then [p] else [])"
  "payouts_of (SaveGroup g m) gid i = payouts_of m gid i" "payouts_of (SaveCycle c m) gid i = payouts_of m gid i"
  "payouts_of (AppendEscrowEntry e m) gid i = payouts_of m gid i"
  "payouts_of (fold SaveCycle cs m) gid i = payouts_of m gid i"
  by (simp_all add: payouts_of_def) (simp add: ListPayoutsByGroup_def SavePayout_def)

definition paid_right :: "memory \<Rightarrow> string \<Rightarrow> int \<Rightarrow> payout \<Rightarrow> bool" where
  "paid_right m gid i p \<longleftrightarrow> (\<exists>g c. GetGroup m gid = Inr g \<and> GetCycle m gid i = Inr c
     \<and> po_PayeeUserID p = c_PayoutUser c
     \<and> po_GrossAmount p = total_amount (ListContributionsByCycle m gid i)
     \<and> po_ExpectedAmount p = expected_amount g \<and> po_Shortfall p = po_ExpectedAmount p - po_GrossAmount p)"

definition payouts_wf :: "memory \<Rightarrow> bool" where
  "payouts_wf m \<longleftrightarrow> (\<forall>gid i. if cycle_done m gid i then \<exists>p. payouts_of m gid i = [p] \<and> paid_right m gid i p
                            else payouts_of m gid i = [])"


text \<open>A settled cycle is final: the cycle, its contributions and its payouts stay as they are.\<close>

lemma step_settled_cycle:
  assumes "book_step E mem b b'" and wf: "cycles_wf (ledger b)"
    and c: "GetCycle (ledger b) gid i = Inr c" "c_Settled c"
  shows "GetCycle (ledger b') gid i = Inr c"
    and "ListContributionsByCycle (ledger b') gid i = ListContributionsByCycle (ledger b) gid i"
    and "payouts_of (ledger b') gid i = payouts_of (ledger b) gid i"
proof -
  have "GetCycle (ledger b') gid i = Inr c
    \<and> ListContributionsByCycle (ledger b') gid i = ListContributionsByCycle (ledger b) gid i
    \<and> payouts_of (ledger b') gid i = payouts_of (ledger b) gid i"
    using assms(1)
  proof cases
    case (activated g order n now)
    then have "gid \<noteq> g_ID g"
      using cycles_wfD(4) [OF wf c(1)] by auto
    with activated c show ?thesis
      by (simp add: GetCycle_scheduled)
  next
    case (contributed x g d e a req y n)
    then have "\<not> (co_GroupID x = gid \<and> co_CycleIndex x = i)"
      using c by auto
    with contributed c show ?thesis
      by (simp add: ListContributionsByCycle_all all_contributions_new payouts_of_def)
  next
    case (settled d g u a p req y n)
    have "\<not> (gid = c_GroupID d \<and> i = c_Index d)"
      using settled c by auto
    with settled c cycles_wfD(3) [OF wf settled(3)] show ?thesis
      by (auto simp: cycleKey_nonneg payout_for_def)
  qed (use c in \<open>simp_all add: payouts_of_def\<close>)
  then show "GetCycle (ledger b') gid i = Inr c"
    and "ListContributionsByCycle (ledger b') gid i = ListContributionsByCycle (ledger b) gid i"
    and "payouts_of (ledger b') gid i = payouts_of (ledger b) gid i"
    by blast+
qed

lemma step_paid_right:
  assumes "book_step E mem b b'" and inj: "inj (env_rand E)" and ids: "ids_drawn E b" and ok: "memory_ok (ledger b)"
    and wf: "cycles_wf (ledger b)" and dn: "cycle_done (ledger b) gid i" and right: "paid_right (ledger b) gid i p"
  shows "paid_right (ledger b') gid i p"
proof -
  obtain g c where p: "GetGroup (ledger b) gid = Inr g" "GetCycle (ledger b) gid i = Inr c"
      "po_PayeeUserID p = c_PayoutUser c" "po_GrossAmount p = total_amount (ListContributionsByCycle (ledger b) gid i)"
      "po_ExpectedAmount p = expected_amount g" "po_Shortfall p = po_ExpectedAmount p - po_GrossAmount p"
    using right unfolding paid_right_def by blast
  have s: "c_Settled c"
    using dn p(2) by (auto simp: cycle_done_def)
  have "g_State g \<noteq> GroupCreated"
    using cycles_wfD(4) [OF wf p(2)] p(1) by auto
  then obtain g' where "GetGroup (ledger b') gid = Inr g'" "same_terms g g'"
    using step_started_group [OF assms(1) inj ids ok p(1)] by blast
  with p step_settled_cycle [OF assms(1) wf p(2) s] same_terms_fields [of g g'] show ?thesis
    unfolding paid_right_def by simp
qed

lemma step_payouts_wf:
  assumes "book_step E mem b b'" and inj: "inj (env_rand E)" and ids: "ids_drawn E b" and ok: "memory_ok (ledger b)"
    and wf: "cycles_wf (ledger b)" and pw: "payouts_wf (ledger b)"
  shows "payouts_wf (ledger b')"
  unfolding payouts_wf_def
proof (intro allI)
  fix gid i
  have old: "if cycle_done (ledger b) gid i
      then \<exists>p. payouts_of (ledger b) gid i = [p] \<and> paid_right (ledger b) gid i p
      else payouts_of (ledger b) gid i = []"
    using pw by (simp add: payouts_wf_def)
  show "if cycle_done (ledger b') gid i
      then \<exists>p. payouts_of (ledger b') gid i = [p] \<and> paid_right (ledger b') gid i p
      else payouts_of (ledger b') gid i = []"
  proof (cases "cycle_done (ledger b) gid i")
    case True
    then obtain c where c: "GetCycle (ledger b) gid i = Inr c" "c_Settled c"
      by (auto simp: cycle_done_def)
    from True old obtain p where "payouts_of (ledger b) gid i = [p]" "paid_right (ledger b) gid i p"
      by auto
    with step_paid_right [OF assms(1) inj ids ok wf True] step_settled_cycle [OF assms(1) wf c] c show ?thesis
      by (auto simp: cycle_done_def)
  next
    case False
    with old have none: "payouts_of (ledger b) gid i = []"
      by simp
    from assms(1) show ?thesis
    proof cases
      case (settled d g u a p req y n)
      note d = cycles_wfD [OF wf settled(3)] and hid = stored_ids(2) [OF ok settled(2)]
      note uid = stored_ids(1) [OF ok settled(5)]
      show ?thesis
      proof (cases "gid = c_GroupID d \<and> i = c_Index d")
        case True
        with settled have "payouts_of (ledger b') gid i = [p]"
          using none by (simp add: payout_for_def)
        moreover have "cycle_done (ledger b') gid i"
          using True settled by (simp add: cycle_done_def)
        moreover have "paid_right (ledger b') gid i p"
          using True settled hid uid by (simp add: paid_right_def payout_for_def expected_amount_def)
        ultimately show ?thesis
          by simp
      next
        case other: False
        then have "\<not> cycle_done (ledger b') gid i"
          using False settled d(3) by (auto simp: cycle_done_def cycleKey_nonneg)
        with other settled none show ?thesis
          by (auto simp: payout_for_def)
      qed
    next
      case (activated g order n now)
      then have "\<not> cycle_done (ledger b') gid i"
        using False by (auto simp: cycle_done_def GetCycle_scheduled Cycles_nth nat_less_iff split: if_splits)
      with activated none show ?thesis
        by simp
    qed (use False none in \<open>simp_all add: cycle_done_def payouts_of_def\<close>)
  qed
qed

section \<open>All together\<close>

definition books_ok :: "env \<Rightarrow> bool \<Rightarrow> books \<Rightarrow> bool" where
  "books_ok E mem b \<longleftrightarrow> memory_ok (ledger b) \<and> ids_drawn E b \<and> parties_known (ledger b) \<and> groups_wf (ledger b)
     \<and> emails_unique (ledger b) \<and> memberships_placed (ledger b) \<and> memberships_agree (ledger b)
     \<and> cycles_wf (ledger b) \<and> cycles_complete (ledger b) \<and> contributions_wf (ledger b)
     \<and> escrow_conserved (ledger b) \<and> payouts_wf (ledger b) \<and> rail_agrees mem b"

lemma step_books_ok:
  assumes "book_step E mem b b'" and "inj (env_rand E)" and "books_ok E mem b"
  shows "books_ok E mem b'"
  using assms unfolding books_ok_def
  by (intro conjI)
    (blast intro: step_memory_ok step_ids_drawn step_parties_known step_groups_wf step_emails_unique
      step_memberships_placed step_memberships_agree step_cycles_wf step_cycles_complete step_contributions_wf
      step_escrow_conserved step_payouts_wf step_rail_agrees)+

lemma run_books_ok: "book_run E mem b b' \<Longrightarrow> inj (env_rand E) \<Longrightarrow> books_ok E mem b \<Longrightarrow> books_ok E mem b'"
  by (induction rule: rtranclp_induct) (auto intro: step_books_ok)

lemma books_ok_empty: "books_ok E mem \<lparr>ledger = feeds_cleared NewMemory, movements = [], drawn = n\<rparr>"
  by (simp add: books_ok_def memory_ok_def NewMemory_def ids_drawn_def known_def opened_def parties_known_def
      groups_wf_def emails_unique_def memberships_placed_def memberships_agree_def cycles_wf_def cycles_complete_def
      contributions_wf_def all_contributions_def gm_range_def escrow_conserved_def open_pool_def ListEscrowByGroup_def
      payouts_wf_def cycle_done_def payouts_of_def ListPayoutsByGroup_def rail_agrees_def
      GetUser_def GetGroup_def GetMembership_def GetJoinRequest_def GetInvitation_def GetCycle_def feeds_cleared_def)

section \<open>Along a run\<close>

text \<open>What a step keeps of a started group and of a settled cycle, a run keeps.\<close>

lemma run_started_group:
  assumes "book_run E mem b b'" and "inj (env_rand E)" and "books_ok E mem b"
    and "GetGroup (ledger b) gid = Inr g" and "g_State g \<noteq> GroupCreated"
  shows "\<exists>g'. GetGroup (ledger b') gid = Inr g' \<and> same_terms g g'"
  using assms(1)
proof (induction rule: rtranclp_induct)
  case base
  with assms(4,5) same_terms_refl show ?case
    by blast
next
  case (step c d)
  then obtain h where h: "GetGroup (ledger c) gid = Inr h" "same_terms g h"
    by blast
  have "books_ok E mem c"
    by (rule run_books_ok [OF step.hyps(1) assms(2,3)])
  then have "ids_drawn E c" "memory_ok (ledger c)"
    by (simp_all add: books_ok_def)
  from step_started_group [OF step.hyps(2) assms(2) this h(1)] same_terms_fields [OF h(2)] same_terms_trans [OF h(2)]
  show ?case
    by blast
qed

lemma run_settled_cycle:
  assumes "book_run E mem b b'" and "inj (env_rand E)" and "books_ok E mem b"
    and "GetCycle (ledger b) gid i = Inr c" and "c_Settled c"
  shows "GetCycle (ledger b') gid i = Inr c
    \<and> ListContributionsByCycle (ledger b') gid i = ListContributionsByCycle (ledger b) gid i
    \<and> payouts_of (ledger b') gid i = payouts_of (ledger b) gid i"
  using assms(1)
proof (induction rule: rtranclp_induct)
  case (step x d)
  have "books_ok E mem x"
    by (rule run_books_ok [OF step.hyps(1) assms(2,3)])
  then have "cycles_wf (ledger x)"
    by (simp add: books_ok_def)
  from step_settled_cycle [OF step.hyps(2) this _ assms(5)] step.IH show ?case
    by simp
qed (simp add: assms(4))

end
