(* ===== verification/Reachable.thy ===== *)
theory Reachable
  imports Book_Invariants
begin

text \<open>
  The runs of the service: what the API handlers, the scheduler and the indexer may call, one after
  the other, from an empty store. Every reachable world satisfies the invariants of the books.
\<close>

section \<open>Steps of the program\<close>

text \<open>
  One rule per operation that changes the state; of a query, at most the clock readings it took are
  seen (\<open>clock_read\<close>). \<open>deadlines\<close> is the scheduler's tick, \<open>indexer\<close> a turn of the indexer's loop,
  \<open>subscribed\<close> and \<open>unsubscribed\<close> its start and its end, \<open>projected\<close> its turn
  on a channel whose sender is outside the world: that of an EVM poller, or one already closed.
\<close>

inductive api_step :: "env \<Rightarrow> world \<Rightarrow> world \<Rightarrow> bool" for E where
  register: "api_step E w (snd (Register E inp w))"
| update_profile: "api_step E w (snd (UpdateProfile E uid name w))"
| decide_kyc: "api_step E w (snd (DecideKYC E actor uid approve w))"
| set_user_role: "api_step E w (snd (SetUserRole E actor uid rl w))"
| set_user_status: "api_step E w (snd (SetUserStatus E actor uid st w))"
| seed_admin: "api_step E w (snd (SeedAdmin E email password name w))"
| create_webhook: "api_step E w (snd (CreateWebhook E actor url secret w))"
| delete_webhook: "api_step E w (snd (Service_DeleteWebhook E actor hid w))"
| create_group: "api_step E w (snd (CreateGroup E uid cinp w))"
| request_to_join: "api_step E w (snd (RequestToJoin E uid gid w))"
| decide_join_request: "api_step E w (snd (DecideJoinRequest E actor rid approve w))"
| invite: "api_step E w (snd (Invite E actor gid uid w))"
| respond_invitation: "api_step E w (snd (RespondInvitation E uid iid accept w))"
| leave_group: "api_step E w (snd (LeaveGroup uid gid w))"
| remove_member: "api_step E w (snd (RemoveMember actor gid uid w))"
| activate_group: "api_step E w (snd (ActivateGroup E actor gid order w))"
| submit_contribution: "api_step E w (snd (SubmitContribution E uid gid i source w))"
| settle_cycle: "api_step E w (snd (SettleCycle E actor gid i w))"
| admin_settle_cycle: "api_step E w (snd (AdminSettleCycle E actor gid i w))"
| deadlines: "ProcessDeadlines E now w = Some (n, w') \<Longrightarrow> api_step E w w'"
| indexer: "api_step E w (indexer_turn ch w)"
| subscribed: "truth w = MemT m \<Longrightarrow> api_step E w (w\<lparr>truth := MemT (snd (mem_Subscribe m))\<rparr>)"
| unsubscribed: "truth w = MemT m \<Longrightarrow> api_step E w (w\<lparr>truth := MemT (mem_unsubscribe ch m)\<rparr>)"
| projected: "api_step E w (w\<lparr>store := AppendReputationEvent ev (store w)\<rparr>)"
| clock_read: "api_step E w (w\<lparr>ticks := k\<rparr>)"

definition booted :: "truth_layer \<Rightarrow> world" where
  "booted t = \<lparr>store = NewMemory, truth = t, rail = [], delivered = [], outbox = [], idseq = 0, ticks = 0\<rparr>"

inductive reachable :: "env \<Rightarrow> world \<Rightarrow> bool" for E where
  boot: "reachable E (booted t)"
| step: "reachable E w \<Longrightarrow> api_step E w w' \<Longrightarrow> reachable E w'"

inductive_cases api_stepE: "api_step E w w'"

section \<open>Every operation keeps the truth layer and the maps\<close>

lemma same_chainD:
  assumes "\<And>mem. preserves (same_chain mem) m"
  shows "on_mem (snd (m w)) = on_mem w"
  using preservesD [OF assms [of "on_mem w"], of w] by simp

lemma group_ops_same_chain:
  "preserves (same_chain mem) (CreateGroup E u inp)" "preserves (same_chain mem) (RequestToJoin E u gid)"
  "preserves (same_chain mem) (DecideJoinRequest E u rid ap)" "preserves (same_chain mem) (Invite E u gid v)"
  "preserves (same_chain mem) (RespondInvitation E u iid ac)" "preserves (same_chain mem) (LeaveGroup u gid)"
  "preserves (same_chain mem) (RemoveMember u gid v)" "preserves (same_chain mem) (ActivateGroup E u gid order)"
  "preserves (same_chain mem) (SubmitContribution E u gid k src)" "preserves (same_chain mem) (SettleCycle E u gid k)"
  unfolding CreateGroup_def RequestToJoin_def DecideJoinRequest_def Invite_def RespondInvitation_def
    LeaveGroup_def RemoveMember_def ActivateGroup_def SubmitContribution_def SettleCycle_def Let_def
  by (intro same_chain_primitives same_chain_ops preserves_ret preserves_fail preserves_lift preserves_guardE
      preserves_andThen preserves_attempt preserves_ignoring preserves_wrapErr preserves_forEach preserves_if
      preserves_case_sum)+

lemma account_ops_same_chain:
  "preserves (same_chain mem) (UpdateProfile E u nm)" "preserves (same_chain mem) (DecideKYC E u v ap)"
  "preserves (same_chain mem) (SetUserRole E u v rl)" "preserves (same_chain mem) (SetUserStatus E u v stt)"
  "preserves (same_chain mem) (AdminSettleCycle E u gid k)" "preserves (same_chain mem) (CreateWebhook E u url sec)"
  "preserves (same_chain mem) (Service_DeleteWebhook E u wid)" "preserves (same_chain mem) (SeedAdmin E em pw nm)"
  unfolding UpdateProfile_def DecideKYC_def SetUserRole_def SetUserStatus_def AdminSettleCycle_def
    CreateWebhook_def Service_DeleteWebhook_def SeedAdmin_def Let_def
  by (intro same_chain_primitives same_chain_ops preserves_ret preserves_fail preserves_lift preserves_guardE
      preserves_andThen preserves_attempt preserves_ignoring preserves_wrapErr preserves_forEach preserves_if
      preserves_case_sum)+

section \<open>The simulation\<close>

definition simulated :: "env \<Rightarrow> world \<Rightarrow> world \<Rightarrow> bool" where
  "simulated E w w' \<longleftrightarrow> book_run E (on_mem w) (books_of w) (books_of w') \<and> memory_ok (store w') \<and> on_mem w' = on_mem w"

lemma simulatedI:
  assumes "book_run E (on_mem w) (books_of w) (books_of (snd (m w)))" and "preserves store_ok m"
    and "\<And>mem. preserves (same_chain mem) m" and "memory_ok (store w)"
  shows "simulated E w (snd (m w))"
  using assms preservesD [OF assms(2), of w] same_chainD [OF assms(3), of w] by (simp add: simulated_def)

lemma api_step_simulated:
  assumes "api_step E w w'" and ok: "memory_ok (store w)" and pk: "parties_known (store w)"
  shows "simulated E w w'"
  using assms(1)
proof cases
  case (register inp)
  show ?thesis
    unfolding register by (intro simulatedI Register_run Register_keeps_store_ok same_chain_ops ok)
next
  case (update_profile uid name)
  show ?thesis
    unfolding update_profile by (intro simulatedI UpdateProfile_run UpdateProfile_keeps account_ops_same_chain ok)
next
  case (decide_kyc actor uid approve)
  show ?thesis
    unfolding decide_kyc by (intro simulatedI DecideKYC_run DecideKYC_keeps account_ops_same_chain ok)
next
  case (set_user_role actor uid rl)
  show ?thesis
    unfolding set_user_role by (intro simulatedI SetUserRole_run SetUserRole_keeps account_ops_same_chain ok)
next
  case (set_user_status actor uid st)
  show ?thesis
    unfolding set_user_status by (intro simulatedI SetUserStatus_run SetUserStatus_keeps account_ops_same_chain ok)
next
  case (seed_admin email password name)
  show ?thesis
    unfolding seed_admin by (intro simulatedI SeedAdmin_run SeedAdmin_keeps account_ops_same_chain ok)
next
  case (create_webhook actor url secret)
  show ?thesis
    unfolding create_webhook by (intro simulatedI CreateWebhook_run CreateWebhook_keeps account_ops_same_chain ok)
next
  case (delete_webhook actor hid)
  show ?thesis
    unfolding delete_webhook
    by (intro simulatedI DeleteWebhook_run Service_DeleteWebhook_keeps account_ops_same_chain ok)
next
  case (create_group uid cinp)
  show ?thesis
    unfolding create_group by (intro simulatedI CreateGroup_run group_ops_keep_store_ok group_ops_same_chain ok)
next
  case (request_to_join uid gid)
  show ?thesis
    unfolding request_to_join by (intro simulatedI RequestToJoin_run group_ops_keep_store_ok group_ops_same_chain ok)
next
  case (decide_join_request actor rid approve)
  show ?thesis
    unfolding decide_join_request
    by (intro simulatedI DecideJoinRequest_run group_ops_keep_store_ok group_ops_same_chain ok pk)
next
  case (invite actor gid uid)
  show ?thesis
    unfolding invite by (intro simulatedI Invite_run group_ops_keep_store_ok group_ops_same_chain ok)
next
  case (respond_invitation uid iid accept)
  show ?thesis
    unfolding respond_invitation
    by (intro simulatedI RespondInvitation_run group_ops_keep_store_ok group_ops_same_chain ok pk)
next
  case (leave_group uid gid)
  show ?thesis
    unfolding leave_group by (intro simulatedI LeaveGroup_run group_ops_keep_store_ok group_ops_same_chain ok)
next
  case (remove_member actor gid uid)
  show ?thesis
    unfolding remove_member by (intro simulatedI RemoveMember_run group_ops_keep_store_ok group_ops_same_chain ok)
next
  case (activate_group actor gid order)
  show ?thesis
    unfolding activate_group by (intro simulatedI ActivateGroup_run group_ops_keep_store_ok group_ops_same_chain ok)
next
  case (submit_contribution uid gid i source)
  show ?thesis
    unfolding submit_contribution
    by (intro simulatedI SubmitContribution_run group_ops_keep_store_ok group_ops_same_chain ok)
next
  case (settle_cycle actor gid i)
  show ?thesis
    unfolding settle_cycle by (intro simulatedI SettleCycle_run group_ops_keep_store_ok group_ops_same_chain ok)
next
  case (admin_settle_cycle actor gid i)
  show ?thesis
    unfolding admin_settle_cycle
    by (intro simulatedI AdminSettleCycle_run AdminSettleCycle_keeps account_ops_same_chain ok)
next
  case (deadlines now n)
  with ProcessDeadlines_total [OF ok, of E now] show ?thesis
    by (auto simp: simulated_def)
next
  case (indexer ch)
  with ok show ?thesis
    by (simp add: simulated_def indexer_turn_frame)
next
  case (subscribed m)
  with ok show ?thesis
    by (simp add: simulated_def books_of_def on_mem_def)
next
  case (unsubscribed m ch)
  with ok show ?thesis
    by (simp add: simulated_def books_of_def on_mem_def)
next
  case (projected ev)
  with ok show ?thesis
    using projected_frame(3) [of w ev] by (simp add: simulated_def projected_frame(1,2))
next
  case (clock_read k)
  with ok show ?thesis
    by (simp add: simulated_def books_of_def on_mem_def)
qed

section \<open>The invariants of reachable worlds\<close>

definition world_ok :: "env \<Rightarrow> world \<Rightarrow> bool" where
  "world_ok E w \<longleftrightarrow> memory_ok (store w) \<and> books_ok E (on_mem w) (books_of w)"

lemma parties_known_feeds [simp]: "parties_known (feeds_cleared m) = parties_known m"
proof -
  have "GetJoinRequest (feeds_cleared m) k = GetJoinRequest m k"
    and "GetInvitation (feeds_cleared m) k = GetInvitation m k" for k
    by (simp_all add: GetJoinRequest_def GetInvitation_def)
  then show ?thesis
    by (simp add: parties_known_def)
qed

lemma world_ok_step:
  assumes "inj (env_rand E)" and "world_ok E w" and "api_step E w w'"
  shows "world_ok E w'"
proof -
  have ok: "memory_ok (store w)" and books: "books_ok E (on_mem w) (books_of w)"
    using assms(2) by (simp_all add: world_ok_def)
  then have "parties_known (store w)"
    by (simp add: books_ok_def)
  with assms(3) ok have "simulated E w w'"
    by (rule api_step_simulated)
  then show ?thesis
    using run_books_ok [OF _ assms(1) books] by (simp add: simulated_def world_ok_def)
qed

lemma reachable_world_ok:
  assumes "reachable E w" and "inj (env_rand E)"
  shows "world_ok E w"
  using assms(1)
proof induction
  case (boot t)
  show ?case
    using books_ok_empty [of E "on_mem (booted t)" 0] memory_ok_New
    by (simp add: world_ok_def books_of_def booted_def)
next
  case (step w w')
  then show ?case
    by (blast intro: world_ok_step [OF assms(2)])
qed

text \<open>The same, in the vocabulary of the store.\<close>

lemma feeds_cleared_abstract [simp]:
  "opened (feeds_cleared m) k = opened m k" "cycle_open (feeds_cleared m) k i = cycle_open m k i"
  "cycle_done (feeds_cleared m) k i = cycle_done m k i" "all_contributions (feeds_cleared m) = all_contributions m"
  "open_pool (feeds_cleared m) k = open_pool m k" "payouts_of (feeds_cleared m) k i = payouts_of m k i"
  "paid_right (feeds_cleared m) k i p = paid_right m k i p"
  by (simp_all add: opened_def cycle_open_def cycle_done_def all_contributions_def open_pool_def payouts_of_def
      paid_right_def)

lemma feeds_cleared_invariants [simp]:
  "groups_wf (feeds_cleared m) = groups_wf m" "emails_unique (feeds_cleared m) = emails_unique m"
  "memberships_agree (feeds_cleared m) = memberships_agree m" "cycles_wf (feeds_cleared m) = cycles_wf m"
  "cycles_complete (feeds_cleared m) = cycles_complete m" "contributions_wf (feeds_cleared m) = contributions_wf m"
  "escrow_conserved (feeds_cleared m) = escrow_conserved m" "payouts_wf (feeds_cleared m) = payouts_wf m"
  by (simp_all add: groups_wf_def emails_unique_def memberships_agree_def cycles_wf_def cycles_complete_def
      contributions_wf_def escrow_conserved_def payouts_wf_def cong: if_cong)

lemma world_okD:
  assumes "world_ok E w"
  shows "memory_ok (store w)" "parties_known (store w)" "groups_wf (store w)" "emails_unique (store w)"
    "memberships_agree (store w)" "cycles_wf (store w)" "cycles_complete (store w)" "contributions_wf (store w)"
    "escrow_conserved (store w)" "payouts_wf (store w)" "rail_agrees (on_mem w) (books_of w)" "ids_drawn E (books_of w)"
  using assms unfolding world_ok_def books_ok_def by simp_all


text \<open>A later world is a run of the books away.\<close>

lemma later_simulated:
  assumes "(api_step E)\<^sup>*\<^sup>* w w'" and "world_ok E w" and "inj (env_rand E)"
  shows "book_run E (on_mem w) (books_of w) (books_of w') \<and> world_ok E w' \<and> on_mem w' = on_mem w"
  using assms(1)
proof (induction rule: rtranclp_induct)
  case (step v v')
  then have ok: "world_ok E v"
    by simp
  have "simulated E v v'"
    by (rule api_step_simulated [OF step.hyps(2) world_okD(1,2) [OF ok]])
  with step.IH world_ok_step [OF assms(3) ok step.hyps(2)] show ?case
    by (auto simp: simulated_def)
qed (simp add: assms(2))

lemma reachable_later: "(api_step E)\<^sup>*\<^sup>* w w' \<Longrightarrow> reachable E w \<Longrightarrow> reachable E w'"
  by (induction rule: rtranclp_induct) (auto intro: reachable.step)

end
