(* ===== verification/Scenario.thy ===== *)
theory Scenario
  imports Reachable
begin

text \<open>
  A run of the service, evaluated: two approved accounts, a group of the two, its activation, the
  contributions to its first cycle and the settlement they trigger. The theorems on reachable
  worlds are applied to its states.
\<close>

definition demo_env :: env where
  "demo_env = \<lparr>env_rand = (\<lambda>n. replicate n (CHR ''x'')), env_salt = (\<lambda>_. []),
     env_pbkdf2 = (\<lambda>pw s i n. Inr []), env_unicode_email = (\<lambda>s. s),
     env_clock = (\<lambda>n. int n), env_sha = (\<lambda>s. []), env_rail = NewMockProvider (\<lambda>s. []),
     env_transact = (\<lambda>_ _. Inr ''tx''), env_from_hex = (\<lambda>s. s), env_hooks = False\<rparr>"

definition demo_id :: "nat \<Rightarrow> string" where
  "demo_id n = NewID (replicate n (CHR ''x''))"

lemma demo_inj: "inj (env_rand demo_env)"
  by (simp add: demo_env_def inj_on_def)

lemma demo_id_inject [simp]: "demo_id m = demo_id n \<longleftrightarrow> m = n"
  by (simp add: demo_id_def)

lemma demo_id_plain [simp]: "CHR ''|'' \<notin> set (demo_id n)"
  by (simp add: demo_id_def NewID_plain)

lemma demo_env_fields [simp]:
  "NewID (env_rand demo_env n) = demo_id n" "env_clock demo_env n = int n" "env_salt demo_env n = []"
  "env_pbkdf2 demo_env pw s i k = Inr []" "env_sha demo_env x = []" "env_hooks demo_env = False"
  "env_rail demo_env = NewMockProvider (\<lambda>s. [])"
  by (simp_all add: demo_env_def demo_id_def)

lemma demo_keys [simp]:
  "memberKey (demo_id a) u = memberKey (demo_id b) v \<longleftrightarrow> a = b \<and> u = v"
  "0 \<le> j \<Longrightarrow> cycleKey (demo_id a) i = cycleKey (demo_id b) j \<longleftrightarrow> a = b \<and> i = j"
  "0 \<le> j \<Longrightarrow> contribKey (demo_id a) u i = contribKey (demo_id b) v j \<longleftrightarrow> a = b \<and> u = v \<and> i = j"
  by (auto simp: memberKey_inject cycleKey_nonneg contribKey_def split_first_sep split_last_sep itoa_no_bar
      itoa_nonneg_inject)

lemmas demo_store = SaveUser_def SaveGroup_def SaveMembership_def SaveInvitation_def SaveCycle_def
  SaveContribution_def SavePayout_def AppendEscrowEntry_def SaveNotification_def slice_at_def
  GetUser_def GetGroup_def GetUserByEmail_def GetMembership_def GetInvitation_def GetCycle_def GetContribution_def
  ListContributionsByCycle_def gm_get_def gm_set_def gm_range_def

lemmas demo_ops = exec Let_def notified_unfold answer_def after_def chain_ops mem_RegisterIdentity_def
  mem_DeployGroup_def mem_ActivateGroup_def mem_SubmitContribution_def mem_RecordPayout_def
  NewMemChain_def emit_def txHash_def Hash_def hex_encode_def accepted_def NewMockProvider_def
  MockProvider_Charge_def MockProvider_Disburse_def

definition demo_user :: "nat \<Rightarrow> string \<Rightarrow> string \<Rightarrow> time \<Rightarrow> user" where
  "demo_user n email name t = \<lparr>u_ID = demo_id n, u_Email = email, u_DisplayName = name,
     u_WalletAddress = ''0xADMIN'', u_IdentityCommitment = ''0x'', u_KYCProvider = ''platform'',
     u_KYCStatus = KYCApproved, u_Role = RoleAdmin, u_Status = UserActive,
     u_PasswordHash = ''pbkdf2$120000$$'', u_CreatedAt = t, u_UpdatedAt = t + 1\<rparr>"

lemma demo_user_fields [simp]:
  "u_ID (demo_user n e s t) = demo_id n" "u_Email (demo_user n e s t) = e" "u_DisplayName (demo_user n e s t) = s"
  "u_KYCStatus (demo_user n e s t) = KYCApproved" "u_Status (demo_user n e s t) = UserActive"
  "u_WalletAddress (demo_user n e s t) = ''0xADMIN''"
  by (simp_all add: demo_user_def)

definition demo1 :: world where
  "demo1 = snd (SeedAdmin demo_env ''a'' ''password'' ''A'' (booted (MemT NewMemChain)))"

definition demo2 :: world where
  "demo2 = snd (SeedAdmin demo_env ''b'' ''password'' ''B'' demo1)"

lemmas demo_register = SeedAdmin_def Register_def normal_email_def is_ascii_def ascii_trim_def ascii_space_def
  ascii_lower_def hash_password_def HashPassword_def b64_encode_def pbkdfIterations_def decimal_120000
  ComputeIdentityCommitment_def

lemma demo2: "demo2 = (booted (MemT NewMemChain))\<lparr>idseq := 4, ticks := 4,
    store := NewMemory\<lparr>users := [(demo_id 1, demo_user 1 ''a'' ''A'' 0), (demo_id 3, demo_user 3 ''b'' ''B'' 2)]\<rparr>\<rparr>"
  by (simp add: demo2_def demo1_def demo_register demo_ops demo_store booted_def NewMemory_def demo_user_def)

definition demo3 :: world where
  "demo3 = snd (CreateGroup demo_env (demo_id 1)
     \<lparr>cg_Name = ''g'', cg_ContributionAmount = 100, cg_CycleLength = 1000, cg_MaxMembers = 2\<rparr> demo2)"

definition demo_group :: "string list \<Rightarrow> group" where
  "demo_group ms = \<lparr>g_ID = demo_id 4, g_ContractAddress = ''0x'', g_Name = ''g'', g_OrganizerID = demo_id 1,
     g_ContributionAmount = 100, g_CycleLength = 1000, g_MaxMembers = 2, g_TotalCycles = 0, g_Members = ms,
     g_PayoutOrder = [], g_State = GroupCreated, g_CreatedAt = 4, g_ActivatedAt = None\<rparr>"

definition demo_member :: "nat \<Rightarrow> nat \<Rightarrow> bool \<Rightarrow> time \<Rightarrow> membership" where
  "demo_member k u org t = \<lparr>m_ID = demo_id k, m_GroupID = demo_id 4, m_UserID = demo_id u, m_Organizer = org,
     m_Status = MembershipActive, m_JoinedAt = t\<rparr>"

lemma demo3: "demo3 = demo2\<lparr>idseq := 6, ticks := 5, store := (store demo2)\<lparr>
     groups := [(demo_id 4, demo_group [demo_id 1])],
     memberships := [(memberKey (demo_id 4) (demo_id 1), demo_member 5 1 True 4)]\<rparr>\<rparr>"
  by (simp add: demo3_def demo2 CreateGroup_def demo_ops demo_store booted_def NewMemory_def CanParticipate_def
      ValidateConfig_def demo_group_def demo_member_def)


lemma demo_ticks [simp]: "ticks (notified demo_env u k t b w) = Suc (ticks w)"
  by (simp add: notified_unfold exec)

definition demo4 :: world where
  "demo4 = snd (Invite demo_env (demo_id 1) (demo_id 4) (demo_id 3) demo3)"

definition demo_invitation :: invitation where
  "demo_invitation = \<lparr>i_ID = demo_id 6, i_GroupID = demo_id 4, i_UserID = demo_id 3, i_InvitedBy = demo_id 1,
     i_Status = InvitePending, i_CreatedAt = 5\<rparr>"

lemma demo4 [simp]:
  "users (store demo4) = users (store demo2)" "groups (store demo4) = groups (store demo3)"
  "memberships (store demo4) = memberships (store demo3)" "invitations (store demo4) = [(demo_id 6, demo_invitation)]"
  "cycles (store demo4) = []" "contributions (store demo4) = []" "payouts (store demo4) = []"
  "escrow (store demo4) = []" "truth demo4 = MemT NewMemChain" "rail demo4 = []" "idseq demo4 = 8" "ticks demo4 = 7"
  by (simp_all add: demo4_def demo3 demo2 Invite_def demo_store exec booted_def NewMemory_def demo_group_def
      HasMember_def Let_def demo_invitation_def)

definition demo5 :: world where
  "demo5 = snd (RespondInvitation demo_env (demo_id 3) (demo_id 6) True demo4)"

lemma demo5 [simp]:
  "users (store demo5) = users (store demo2)" 
  "groups (store demo5) = [(demo_id 4, demo_group [demo_id 1, demo_id 3])]"
  "memberships (store demo5) = [(memberKey (demo_id 4) (demo_id 1), demo_member 5 1 True 4),
     (memberKey (demo_id 4) (demo_id 3), demo_member 8 3 False 7)]"
  "cycles (store demo5) = []" "contributions (store demo5) = []" "payouts (store demo5) = []"
  "escrow (store demo5) = []" "truth demo5 = MemT NewMemChain" "rail demo5 = []" "idseq demo5 = 9" "ticks demo5 = 8"
  by (simp_all add: demo5_def demo3 demo2 RespondInvitation_def demo_store exec booted_def NewMemory_def demo_group_def
      addMember_def CanParticipate_def demo_member_def Let_def demo_invitation_def)

definition demo6 :: world where
  "demo6 = snd (ActivateGroup demo_env (demo_id 1) (demo_id 4) [] demo5)"

definition demo_running :: group where
  "demo_running = (demo_group [demo_id 1, demo_id 3])\<lparr>g_TotalCycles := 2, g_PayoutOrder := [demo_id 1, demo_id 3],
     g_State := GroupActive, g_ActivatedAt := Some 8\<rparr>"

definition demo_cycle :: "int \<Rightarrow> nat \<Rightarrow> bool \<Rightarrow> cycle" where
  "demo_cycle i u s = \<lparr>c_GroupID = demo_id 4, c_Index = i, c_Deadline = 8 + (i + 1) * 1000, c_PayoutUser = demo_id u,
     c_Settled = s\<rparr>"

lemma demo6 [simp]:
  "users (store demo6) = users (store demo2)" 
  "groups (store demo6) = [(demo_id 4, demo_running)]"
  "memberships (store demo6) = memberships (store demo5)"
  "cycles (store demo6) = [(cycleKey (demo_id 4) 0, demo_cycle 0 1 False), (cycleKey (demo_id 4) 1, demo_cycle 1 3 False)]"
  "contributions (store demo6) = []" "payouts (store demo6) = []"
  "escrow (store demo6) = []" "truth demo6 = MemT NewMemChain" "rail demo6 = []" "idseq demo6 = 11" "ticks demo6 = 11"
  by (simp_all add: demo6_def demo2 ActivateGroup_def demo_store demo_ops booted_def NewMemory_def demo_group_def
      Validate_def Transition_def CanTransition_def allowedTransitions_def Cycles_def cycle_deadline_def
      demo_cycle_def demo_running_def)


definition demo7 :: world where
  "demo7 = snd (SubmitContribution demo_env (demo_id 1) (demo_id 4) 0 ''bank'' demo6)"

definition demo_paid :: "nat \<Rightarrow> nat \<Rightarrow> time \<Rightarrow> contribution" where
  "demo_paid k u t = \<lparr>co_ID = demo_id k, co_GroupID = demo_id 4, co_UserID = demo_id u, co_CycleIndex = 0,
     co_Amount = 100, co_Commitment = ''0x'', co_Revealed = True, co_PaidAt = Some t\<rparr>"


lemma demo_running [simp]:
  "g_ID demo_running = demo_id 4" "g_State demo_running = GroupActive" "g_Members demo_running = [demo_id 1, demo_id 3]"
  "g_ContributionAmount demo_running = 100" "g_TotalCycles demo_running = 2" "g_Name demo_running = ''g''"
  "g_OrganizerID demo_running = demo_id 1" "g_PayoutOrder demo_running = [demo_id 1, demo_id 3]"
  by (simp_all add: demo_running_def demo_group_def)

lemma demo_cycle [simp]:
  "c_GroupID (demo_cycle i u s) = demo_id 4" "c_Index (demo_cycle i u s) = i" "c_Settled (demo_cycle i u s) = s"
  "c_PayoutUser (demo_cycle i u s) = demo_id u" "demo_cycle i u s\<lparr>c_Settled := b\<rparr> = demo_cycle i u b"
  "c_Deadline (demo_cycle i u s) = 8 + (i + 1) * 1000"
  by (simp_all add: demo_cycle_def)

definition demo_credit :: "nat \<Rightarrow> nat \<Rightarrow> time \<Rightarrow> escrow_entry" where
  "demo_credit k u t = \<lparr>e_ID = demo_id k, e_GroupID = demo_id 4, e_CycleIndex = 0, e_UserID = demo_id u,
     e_Direction = LedgerCredit, e_Amount = 100, e_Reference = ''0x'', e_Memo = ''contribution'', e_CreatedAt = t\<rparr>"

lemma demo7 [simp]:
  "users (store demo7) = users (store demo2)" "groups (store demo7) = groups (store demo6)"
  "memberships (store demo7) = memberships (store demo5)" "cycles (store demo7) = cycles (store demo6)"
  "contributions (store demo7) = [(contribKey (demo_id 4) (demo_id 1) 0, demo_paid 11 1 12)]"
  "payouts (store demo7) = []" "escrow (store demo7) = [demo_credit 13 1 12]" "truth demo7 = MemT NewMemChain"
  "idseq demo7 = 15" "ticks demo7 = 14"
  by (simp_all add: demo7_def demo2 SubmitContribution_def demo_store demo_ops booted_def NewMemory_def HasMember_def
      on_memchain_def allContributed_def ComputeContributionCommitment_def demo_credit_def demo_paid_def
      rail_Charge_def)


definition demo8 :: world where
  "demo8 = snd (SubmitContribution demo_env (demo_id 3) (demo_id 4) 0 ''bank'' demo7)"

lemma demo_paid [simp]:
  "co_GroupID (demo_paid k u t) = demo_id 4" "co_UserID (demo_paid k u t) = demo_id u"
  "co_CycleIndex (demo_paid k u t) = 0" "co_Amount (demo_paid k u t) = 100"
  by (simp_all add: demo_paid_def)

definition demo_payout :: payout where
  "demo_payout = \<lparr>po_ID = demo_id 21, po_GroupID = demo_id 4, po_CycleIndex = 0, po_PayeeUserID = demo_id 1,
     po_GrossAmount = 200, po_ExpectedAmount = 200, po_Shortfall = 0, po_DisbursementRef = ''0x'',
     po_SettledAt = 18\<rparr>"

lemmas demo_contribute = SubmitContribution_def demo_store demo_ops booted_def NewMemory_def HasMember_def
  on_memchain_def allContributed_def ComputeContributionCommitment_def demo_credit_def rail_Charge_def

lemma demo8 [simp]:
  "users (store demo8) = users (store demo2)" "groups (store demo8) = groups (store demo6)"
  "memberships (store demo8) = memberships (store demo5)" 
  "cycles (store demo8) = [(cycleKey (demo_id 4) 0, demo_cycle 0 1 True), (cycleKey (demo_id 4) 1, demo_cycle 1 3 False)]"
  "contributions (store demo8) = [(contribKey (demo_id 4) (demo_id 1) 0, demo_paid 11 1 12),
     (contribKey (demo_id 4) (demo_id 3) 0, demo_paid 15 3 15)]"
  "payouts (store demo8) = [demo_payout]" "truth demo8 = MemT NewMemChain" "idseq demo8 = 23" "ticks demo8 = 20"
  by (simp_all add: demo8_def demo2 demo_contribute settleCycle_def total_amount_def expected_amount_def
      rail_Disburse_def demo_payout_def demo_paid_def)


lemma demo_reachable:
  "reachable demo_env demo1" "reachable demo_env demo2" "reachable demo_env demo3" "reachable demo_env demo4"
  "reachable demo_env demo5" "reachable demo_env demo6" "reachable demo_env demo7" "reachable demo_env demo8"
proof -
  show 1: "reachable demo_env demo1"
    unfolding demo1_def by (blast intro: reachable.intros api_step.intros)
  show 2: "reachable demo_env demo2"
    unfolding demo2_def by (blast intro: reachable.intros api_step.intros 1)
  show 3: "reachable demo_env demo3"
    unfolding demo3_def by (blast intro: reachable.intros api_step.intros 2)
  show 4: "reachable demo_env demo4"
    unfolding demo4_def by (blast intro: reachable.intros api_step.intros 3)
  show 5: "reachable demo_env demo5"
    unfolding demo5_def by (blast intro: reachable.intros api_step.intros 4)
  show 6: "reachable demo_env demo6"
    unfolding demo6_def by (blast intro: reachable.intros api_step.intros 5)
  show 7: "reachable demo_env demo7"
    unfolding demo7_def by (blast intro: reachable.intros api_step.intros 6)
  show "reachable demo_env demo8"
    unfolding demo8_def by (blast intro: reachable.intros api_step.intros 7)
qed

end
