(* ===== verification/Deadlines.thy ===== *)
theory Deadlines
  imports Scenario
begin

text \<open>
  What the scheduler's \<^verbatim>\<open>ProcessDeadlines\<close> achieves: it ends in every reachable world, and when
  the truth layer is the development chain and the rail pays out, it leaves no active group with an
  overdue current cycle.
\<close>

section \<open>An overdue cycle is settled\<close>

lemma payee_known:
  assumes ok: "world_ok E w" and c: "GetCycle (store w) gid i = Inr c"
  shows "\<exists>u. GetUser (store w) (c_PayoutUser c) = Inr u"
proof -
  note w = world_okD [OF ok]
  obtain g where g: "GetGroup (store w) gid = Inr g" "g_State g \<noteq> GroupCreated" "i < g_TotalCycles g"
    "c_PayoutUser c = g_PayoutOrder g ! nat i"
    using cycles_wfD(4) [OF w(6) c] by blast
  have "Validate g = Inr ()" "g_TotalCycles g = int (length (g_PayoutOrder g))"
    using groups_wfD [OF w(3) g(1)] g(2) by (simp_all add: group_wf_def)
  moreover from this(2) have "nat i < length (g_PayoutOrder g)"
    using cycles_wfD(3) [OF w(6) c] g(3) by simp
  ultimately have "c_PayoutUser c \<in> set (g_Members g)"
    using g(4) nth_mem by (fastforce simp: Validate_ok)
  then show ?thesis
    using parties_knownD(2) [OF w(2) g(1)] by (simp add: known_def)
qed

lemma settleOverdueCycle_succeeds:
  assumes ok: "world_ok E w" and mem: "on_mem w"
    and pays: "\<And>k req. accepted (Disburse (env_rail E) k req)"
    and g: "GetGroup (store w) (g_ID g) = Inr g" and c: "GetCycle (store w) (g_ID g) (c_Index c) = Inr c"
    "c_GroupID c = g_ID g" "\<not> c_Settled c"
  shows "\<exists>r w'. settleOverdueCycle E g c w = (Inr r, w')"
proof -
  let ?paid = "paid_users (ListContributionsByCycle (store w) (g_ID g) (c_Index c))"
  obtain w1 where d: "forEach (g_Members g) (\<lambda>u. if u \<notin> ?paid then recordDefault E g c u else ret ()) w = (Inr (), w1)"
    and f: "only_feeds w w1"
    using forEach_defaults [of "g_Members g" "\<lambda>u. u \<notin> ?paid" E g c w] mem by blast
  obtain u where u: "GetUser (store w1) (c_PayoutUser c) = Inr u"
    using payee_known [OF ok c(1)] by (auto simp: only_feeds_gets [OF f])
  have "on_mem (payout_moved E w1 g c u)"
    using f mem by (simp add: payout_moved_def only_feeds_def)
  then obtain tx where "answer (chain_RecordPayout E (payout_record w1 g c u)) (payout_moved E w1 g c u) = Inr tx"
    using chain_answers_on_mem(6) by blast
  then obtain p w' where "settleCycle E g c w1 = (Inr p, w')"
    using settleCycle_ok [of w1 g c u E tx] g c u pays by (auto simp: only_feeds_gets [OF f] payout_answer_def)
  with d show ?thesis
    by (simp add: settleOverdueCycle_def exec)
qed

lemma settled_by_cycle:
  assumes "settled_by w g c w'" and "c_GroupID c = g_ID g" and "0 \<le> c_Index c"
  shows "GetCycle (store w') k i = (if k = g_ID g \<and> i = c_Index c then Inr (c\<lparr>c_Settled := True\<rparr>) else GetCycle (store w) k i)"
proof -
  obtain p y where f: "feeds_cleared (store w') = SaveGroup (advanced g (c_Index c))
     (SaveCycle (c\<lparr>c_Settled := True\<rparr>) (SavePayout p (AppendEscrowEntry y (feeds_cleared (store w)))))"
    using assms by (auto simp: settled_by_def)
  have "GetCycle (store w') k i = GetCycle (feeds_cleared (store w')) k i"
    by simp
  with assms(2,3) show ?thesis
    unfolding f by (simp add: cycleKey_nonneg)
qed

section \<open>A group is caught up\<close>

text \<open>The first open cycle of the group, if any, is not overdue.\<close>

definition caught_up :: "time \<Rightarrow> memory \<Rightarrow> string \<Rightarrow> bool" where
  "caught_up now m gid \<longleftrightarrow> (\<forall>i c. GetCycle m gid i = Inr c \<longrightarrow> \<not> c_Settled c \<longrightarrow>
     (\<forall>j d. j < i \<longrightarrow> GetCycle m gid j = Inr d \<longrightarrow> c_Settled d) \<longrightarrow> \<not> IsOverdue c now)"

definition group_done :: "time \<Rightarrow> memory \<Rightarrow> string \<Rightarrow> bool" where
  "group_done now m gid \<longleftrightarrow> (\<forall>g. GetGroup m gid = Inr g \<longrightarrow> g_State g = GroupActive \<longrightarrow> caught_up now m gid)"

lemma current_cycle_none:
  assumes "memory_ok m" and "cycles_wf m" and "current_cycle m gid = Inl e" and "GetCycle m gid i = Inr c"
  shows "c_Settled c"
proof -
  have "c \<in> set (ListCyclesByGroup m gid)"
    using ListCyclesByGroup_set [OF assms(1)] cycles_wfD(1,2) [OF assms(2,4)] assms(4) by simp
  then show ?thesis
    using assms(3) by (auto simp: current_cycle_def find_None_iff)
qed

lemma current_cycle_least:
  assumes "memory_ok m" and "cycles_wf m" and "current_cycle m gid = Inr c"
    and "GetCycle m gid j = Inr d" and "j < c_Index c"
  shows "c_Settled d"
proof -
  have "d \<in> set (ListCyclesByGroup m gid)"
    using ListCyclesByGroup_set [OF assms(1)] cycles_wfD(1,2) [OF assms(2,4)] assms(4) by simp
  moreover have "c_Index d < c_Index c"
    using cycles_wfD(2) [OF assms(2,4)] assms(5) by simp
  moreover obtain k where k: "k < length (ListCyclesByGroup m gid)" "c = ListCyclesByGroup m gid ! k"
      "\<forall>l < k. c_Settled (ListCyclesByGroup m gid ! l)"
    using assms(3) by (auto simp: current_cycle_def find_Some_iff)
  ultimately obtain l where l: "l < length (ListCyclesByGroup m gid)" "d = ListCyclesByGroup m gid ! l"
    by (auto simp: in_set_conv_nth)
  have "l < k"
  proof (rule ccontr)
    assume "\<not> l < k"
    then have "c_Index c \<le> c_Index d"
      using ListCyclesByGroup_sorted [OF assms(1), of gid] k l
      by (cases "k = l") (auto simp: sorted_wrt_iff_nth_less intro: less_imp_le)
    with \<open>c_Index d < c_Index c\<close> show False
      by simp
  qed
  with k l show ?thesis
    by simp
qed

lemma current_cycle_caught_up:
  assumes "memory_ok m" and "cycles_wf m"
    and "(\<exists>e. current_cycle m gid = Inl e) \<or> (\<exists>c. current_cycle m gid = Inr c \<and> \<not> IsOverdue c now)"
  shows "caught_up now m gid"
  unfolding caught_up_def
proof (intro allI impI)
  fix i c assume c: "GetCycle m gid i = Inr c" "\<not> c_Settled c"
    and least: "\<forall>j d. j < i \<longrightarrow> GetCycle m gid j = Inr d \<longrightarrow> c_Settled d"
  from assms(3) current_cycle_none [OF assms(1,2) _ c(1)] c(2) obtain d where
    d: "current_cycle m gid = Inr d" "\<not> IsOverdue d now"
    by blast
  note d' = current_cycle_stored [OF assms(1) d(1)]
  have "\<not> i < c_Index d"
    using current_cycle_least [OF assms(1,2) d(1) c(1)] c(2) by blast
  moreover have "\<not> c_Index d < i"
    using least d'(2,3) by blast
  ultimately have "i = c_Index d"
    by simp
  with c(1) d' d(2) show "\<not> IsOverdue c now"
    by simp
qed

section \<open>The loops\<close>

definition open_cycles :: "memory \<Rightarrow> string \<Rightarrow> int set" where
  "open_cycles m gid = {i. cycle_open m gid i}"

lemma open_cycles_bound:
  assumes "cycles_wf m" and "GetGroup m gid = Inr g"
  shows "open_cycles m gid \<subseteq> {0..<g_TotalCycles g}"
  using assms by (fastforce simp: open_cycles_def cycle_open_def cycles_wf_def)

definition elsewhere_same :: "string \<Rightarrow> world \<Rightarrow> world \<Rightarrow> bool" where
  "elsewhere_same gid w w' \<longleftrightarrow> (\<forall>k. k \<noteq> gid \<longrightarrow> GetGroup (store w') k = GetGroup (store w) k
     \<and> (\<forall>i. GetCycle (store w') k i = GetCycle (store w) k i))"

lemma elsewhere_same_refl: "elsewhere_same gid w w"
  by (simp add: elsewhere_same_def)

lemma elsewhere_same_trans: "elsewhere_same gid w v \<Longrightarrow> elsewhere_same gid v u \<Longrightarrow> elsewhere_same gid w u"
  by (simp add: elsewhere_same_def)

lemma elsewhere_same_done: "elsewhere_same gid w w' \<Longrightarrow> k \<noteq> gid \<Longrightarrow> group_done now (store w') k = group_done now (store w) k"
  by (simp add: elsewhere_same_def group_done_def caught_up_def)

lemma overdue_round:
  assumes ok: "world_ok E w" and inj: "inj (env_rand E)" and mem: "on_mem w"
    and pays: "\<And>k req. accepted (Disburse (env_rail E) k req)"
    and g: "GetGroup (store w) (g_ID g) = Inr g" and cur: "current_cycle (store w) (g_ID g) = Inr c"
  shows "\<exists>r w1. settleOverdueCycle E g c w = (Inr r, w1) \<and> world_ok E w1 \<and> on_mem w1
    \<and> elsewhere_same (g_ID g) w w1 \<and> GetGroup (store w1) (g_ID g) = Inr (advanced g (c_Index c))
    \<and> c_Index c \<in> open_cycles (store w) (g_ID g)
    \<and> open_cycles (store w1) (g_ID g) = open_cycles (store w) (g_ID g) - {c_Index c}"
proof -
  note W = world_okD [OF ok]
  note c = current_cycle_stored [OF W(1) cur]
  obtain r w1 where s: "settleOverdueCycle E g c w = (Inr r, w1)"
    using settleOverdueCycle_succeeds [OF ok mem pays g c(2,1,3)] by blast
  with settleOverdueCycle_result [OF g c(2,1), of E] W(1) have run: "book_run E (on_mem w) (books_of w) (books_of w1)"
    and ok1: "memory_ok (store w1)" and m1: "on_mem w1 = on_mem w" and sb: "settled_by w g c w1"
    by auto
  note cyc = settled_by_cycle [OF sb c(1) cycles_wfD(3) [OF W(6) c(2)]]
  have "world_ok E w1"
    using run_books_ok [OF run inj] ok ok1 m1 by (simp add: world_ok_def)
  moreover have "elsewhere_same (g_ID g) w w1"
    using settled_by_gets(2) [OF sb] by (simp add: elsewhere_same_def cyc)
  moreover have "open_cycles (store w1) (g_ID g) = open_cycles (store w) (g_ID g) - {c_Index c}"
    by (auto simp: open_cycles_def cycle_open_def cyc)
  moreover have "c_Index c \<in> open_cycles (store w) (g_ID g)"
    using c by (simp add: open_cycles_def cycle_open_def)
  ultimately show ?thesis
    using s settled_by_gets(1) [OF sb] m1 mem by blast
qed

lemma drain_group_catches_up:
  assumes inj: "inj (env_rand E)" and pays: "\<And>k req. accepted (Disburse (env_rail E) k req)"
    and "world_ok E w" and "on_mem w" and "GetGroup (store w) (g_ID g) = Inr g"
    and "int (card (open_cycles (store w) (g_ID g))) + guard \<le> g_TotalCycles g"
  shows "\<exists>n w'. drain_group E now guard g settled w = Some (n, w') \<and> world_ok E w' \<and> on_mem w'
    \<and> elsewhere_same (g_ID g) w w' \<and> group_done now (store w') (g_ID g)"
  using assms(3-)
proof (induction "card (open_cycles (store w) (g_ID g))" arbitrary: guard g settled w rule: less_induct)
  case less
  note ok = less.prems(1) and mem = less.prems(2) and g = less.prems(3)
  note W = world_okD [OF ok]
  have guard: "\<not> guard > g_TotalCycles g"
    using less.prems(4) by linarith
  have stop: ?case if "caught_up now (store w) (g_ID g)" and "drain_group E now guard g settled w = Some (settled, w)"
    using that ok mem elsewhere_same_refl by (auto simp: group_done_def)
  show ?case
  proof (cases "current_cycle (store w) (g_ID g)")
    case (Inl e)
    then show ?thesis
      using guard by (intro stop current_cycle_caught_up [OF W(1,6)])
        (simp, subst drain_group.simps, simp add: CurrentCycle_def exec)
  next
    case (Inr c)
    note cur = Inr
    show ?thesis
    proof (cases "IsOverdue c now")
      case False
      then show ?thesis
        using guard Inr by (intro stop current_cycle_caught_up [OF W(1,6)])
          (simp, subst drain_group.simps, simp add: CurrentCycle_def exec)
    next
      case True
      obtain r w1 where s: "settleOverdueCycle E g c w = (Inr r, w1)" and ok1: "world_ok E w1" "on_mem w1"
        and e1: "elsewhere_same (g_ID g) w w1" and g1: "GetGroup (store w1) (g_ID g) = Inr (advanced g (c_Index c))"
        and i: "c_Index c \<in> open_cycles (store w) (g_ID g)"
        and o1: "open_cycles (store w1) (g_ID g) = open_cycles (store w) (g_ID g) - {c_Index c}"
        using overdue_round [OF ok inj mem pays g cur] by blast
      let ?g = "advanced g (c_Index c)"
      have fin: "finite (open_cycles (store w) (g_ID g))"
        using open_cycles_bound [OF W(6) g] finite_subset by blast
      then have less_open: "card (open_cycles (store w1) (g_ID g)) < card (open_cycles (store w) (g_ID g))"
        unfolding o1 using i by (rule card_Diff1_less)
      show ?thesis
      proof (cases "g_State ?g = GroupActive")
        case False
        then have "group_done now (store w1) (g_ID g)"
          using g1 by (simp add: group_done_def)
        moreover have "drain_group E now guard g settled w = Some (settled + 1, w1)"
          using guard cur True s g1 False by (subst drain_group.simps) (simp add: CurrentCycle_def exec)
        ultimately show ?thesis
          using ok1 e1 by blast
      next
        case active: True
        have "\<exists>n w'. drain_group E now (guard + 1) ?g (settled + 1) w1 = Some (n, w') \<and> world_ok E w' \<and> on_mem w'
          \<and> elsewhere_same (g_ID ?g) w1 w' \<and> group_done now (store w') (g_ID ?g)"
          by (rule less.hyps) (use less_open less.prems(4) ok1 g1 in simp_all)
        moreover have "drain_group E now guard g settled w = drain_group E now (guard + 1) ?g (settled + 1) w1"
          using guard cur True s g1 active by (subst drain_group.simps) (simp add: CurrentCycle_def exec)
        ultimately show ?thesis
          using elsewhere_same_trans [OF e1] by auto
      qed
    qed
  qed
qed

lemma drain_groups_catches_up:
  assumes inj: "inj (env_rand E)" and pays: "\<And>k req. accepted (Disburse (env_rail E) k req)"
    and "world_ok E w" and "on_mem w" and "\<forall>g \<in> set gs. GetGroup (store w) (g_ID g) = Inr g"
    and "distinct (map g_ID gs)"
  shows "\<exists>n w'. drain_groups E now gs settled w = Some (n, w') \<and> world_ok E w'
    \<and> (\<forall>k. if k \<in> g_ID ` set gs then group_done now (store w') k
           else GetGroup (store w') k = GetGroup (store w) k \<and> group_done now (store w') k = group_done now (store w) k)"
  using assms(3-)
proof (induction gs arbitrary: settled w)
  case (Cons g gs)
  have g: "GetGroup (store w) (g_ID g) = Inr g" "g_ID g \<notin> g_ID ` set gs"
    using Cons.prems by auto
  have "\<exists>n w1. world_ok E w1 \<and> on_mem w1 \<and> elsewhere_same (g_ID g) w w1 \<and> group_done now (store w1) (g_ID g)
    \<and> drain_groups E now (g # gs) settled w = drain_groups E now gs n w1"
  proof (cases "g_State g = GroupActive")
    case False
    with Cons.prems g(1) elsewhere_same_refl show ?thesis
      by (intro exI [of _ settled] exI [of _ w]) (simp add: group_done_def)
  next
    case True
    have ok: "world_ok E w"
      by (rule Cons.prems(1))
    have total: "0 \<le> g_TotalCycles g"
      using groups_wfD [OF world_okD(3) [OF ok] g(1)] by (auto simp: group_wf_def split: if_splits)
    have "card (open_cycles (store w) (g_ID g)) \<le> card {0..<g_TotalCycles g}"
      by (rule card_mono) (use open_cycles_bound [OF world_okD(6) [OF ok] g(1)] in simp_all)
    with total have c: "int (card (open_cycles (store w) (g_ID g))) + 0 \<le> g_TotalCycles g"
      by simp
    obtain n w1 where "drain_group E now 0 g settled w = Some (n, w1) \<and> world_ok E w1 \<and> on_mem w1
      \<and> elsewhere_same (g_ID g) w w1 \<and> group_done now (store w1) (g_ID g)"
      using drain_group_catches_up [OF inj pays ok Cons.prems(2) g(1) c, of now settled] by (elim exE)
    with True show ?thesis
      by auto
  qed
  then obtain n w1 where w1: "world_ok E w1" "on_mem w1" "elsewhere_same (g_ID g) w w1" "group_done now (store w1) (g_ID g)"
    and d: "drain_groups E now (g # gs) settled w = drain_groups E now gs n w1"
    by blast
  have rest: "\<forall>h \<in> set gs. GetGroup (store w1) (g_ID h) = Inr h"
  proof
    fix h assume h: "h \<in> set gs"
    then have "g_ID h \<noteq> g_ID g"
      using g(2) by (metis imageI)
    then show "GetGroup (store w1) (g_ID h) = Inr h"
      using Cons.prems(3) w1(3) h by (simp add: elsewhere_same_def)
  qed
  have "distinct (map g_ID gs)"
    using Cons.prems(4) by simp
  from Cons.IH [OF w1(1,2) rest this, of n] obtain m w' where
    r: "drain_groups E now gs n w1 = Some (m, w')" "world_ok E w'"
    and k: "\<forall>k. if k \<in> g_ID ` set gs then group_done now (store w') k
           else GetGroup (store w') k = GetGroup (store w1) k \<and> group_done now (store w') k = group_done now (store w1) k"
    by (elim exE conjE)
  have "if k \<in> g_ID ` set (g # gs) then group_done now (store w') k
     else GetGroup (store w') k = GetGroup (store w) k \<and> group_done now (store w') k = group_done now (store w) k" for k
  proof (cases "k = g_ID g")
    case True
    with k [rule_format, of k] w1(4) g(2) show ?thesis
      by simp
  next
    case False
    with k [rule_format, of k] elsewhere_same_done [OF w1(3), of k now] w1(3) show ?thesis
      by (simp add: elsewhere_same_def)
  qed
  with r d show ?case
    by (intro exI [of _ m] exI [of _ w']) simp
qed simp

lemma ListGroups_all:
  assumes "memory_ok m" and "length (groups m) \<le> 100000" and "GetGroup m gid = Inr g"
  shows "g \<in> set (fst (ListGroups m \<lparr>p_Offset = 0, p_Limit = 100000\<rparr>))"
proof -
  let ?all = "sort_key g_CreatedAt (gm_range (groups m))"
  have "length (gm_range (groups m)) \<le> 100000"
    using assms(2) by (simp add: gm_range_def)
  then have "pick_page ?all \<lparr>p_Offset = 0, p_Limit = 100000\<rparr> = ?all"
    using pick_page_length [of ?all "\<lparr>p_Offset = 0, p_Limit = 100000\<rparr>"] by (simp add: pick_page_take)
  moreover have "g \<in> set (gm_range (groups m))"
    using stored_ids(2) [OF assms(1,3)] assms(1,3) kept_under_range [of g_ID "groups m"]
    by (auto simp: memory_ok_def GetGroup_def)
  ultimately show ?thesis
    by (simp add: ListGroups_def)
qed

section \<open>Properties\<close>

text \<open>
  C9: deadline processing ends in every reachable world, whatever the rail and the chain answer: its
  inner loop has no bound of its own but the group's number of cycles, read from the group as
  reloaded.
\<close>

theorem ProcessDeadlines_terminates:
  assumes "reachable E w" and "inj (env_rand E)"
  shows "\<exists>n w'. ProcessDeadlines E now w = Some (n, w') \<and> reachable E w'"
proof -
  obtain n w' where d: "ProcessDeadlines E now w = Some (n, w')"
    using ProcessDeadlines_total [OF world_okD(1) [OF reachable_world_ok [OF assms]], of E now] by blast
  with reachable.step [OF assms(1) api_step.deadlines [OF d]] show ?thesis
    by blast
qed

theorem ProcessDeadlines_terminates_witness:
  "\<exists>n w'. ProcessDeadlines demo_env 5000 demo8 = Some (n, w') \<and> reachable demo_env w'"
  by (rule ProcessDeadlines_terminates [OF demo_reachable(8) demo_inj])

text \<open>
  C4: when the rail pays out, a pass of the scheduler on the development chain leaves no ACTIVE group
  whose current cycle is overdue, for up to 100000 groups, the size of the page it asks for.
\<close>

theorem deadlines_leave_nothing_overdue:
  assumes "reachable E w" and "inj (env_rand E)" and "truth w = MemT m"
    and "\<forall>k req. accepted (Disburse (env_rail E) k req)" and "length (groups (store w)) \<le> 100000"
  shows "\<exists>n w'. ProcessDeadlines E now w = Some (n, w')
    \<and> (\<forall>gid g c. GetGroup (store w') gid = Inr g \<longrightarrow> g_State g = GroupActive
         \<longrightarrow> CurrentCycle gid w' = (Inr c, w') \<longrightarrow> \<not> IsOverdue c now)"
proof -
  have ok: "world_ok E w" and mem: "on_mem w"
    using reachable_world_ok [OF assms(1,2)] assms(3) by (simp_all add: on_mem_def)
  let ?gs = "fst (ListGroups (store w) \<lparr>p_Offset = 0, p_Limit = 100000\<rparr>)"
  note stored = ListGroups_stored [OF world_okD(1) [OF ok]]
  obtain n w' where d: "ProcessDeadlines E now w = Some (n, w')" and ok': "world_ok E w'"
    and k: "\<And>k. if k \<in> g_ID ` set ?gs then group_done now (store w') k
           else GetGroup (store w') k = GetGroup (store w) k"
    using drain_groups_catches_up [OF assms(2) _ ok mem, of ?gs now 0] stored assms(4)
    unfolding ProcessDeadlines_def by (metis (no_types, lifting))
  note W' = world_okD [OF ok']
  have "\<not> IsOverdue c now" if g: "GetGroup (store w') gid = Inr g" "g_State g = GroupActive"
      and cur: "current_cycle (store w') gid = Inr c" for gid g c
  proof -
    have "gid \<in> g_ID ` set ?gs"
      using k [of gid] g(1) ListGroups_all [OF world_okD(1) [OF ok] assms(5), of gid g]
        stored_ids(2) [OF world_okD(1) [OF ok], of gid g] by (auto split: if_splits)
    with k [of gid] g have "caught_up now (store w') gid"
      by (simp add: group_done_def)
    moreover note current_cycle_stored [OF W'(1) cur]
    ultimately show ?thesis
      using current_cycle_least [OF W'(1,6) cur] unfolding caught_up_def by blast
  qed
  with d show ?thesis
    by (auto simp: CurrentCycle_def exec)
qed

theorem deadlines_leave_nothing_overdue_witness:
  "\<exists>n w'. ProcessDeadlines demo_env 5000 demo8 = Some (n, w')
    \<and> (\<forall>gid g c. GetGroup (store w') gid = Inr g \<longrightarrow> g_State g = GroupActive
         \<longrightarrow> CurrentCycle gid w' = (Inr c, w') \<longrightarrow> \<not> IsOverdue c 5000)"
  by (rule deadlines_leave_nothing_overdue [OF demo_reachable(8) demo_inj])
    (use mock.disburse_accepted in simp_all)

end
