(* ===== verification/Operations.thy ===== *)
theory Operations
  imports Scenario
begin

text \<open>
  What single operations of the service answer: who may call them, when they succeed and what they
  leave behind when they do not.
\<close>

section \<open>Authorization\<close>

definition forbidden :: "(world, 'a) act \<Rightarrow> world \<Rightarrow> bool" where
  "forbidden m w \<longleftrightarrow> (\<exists>e. m w = (Inl e, w) \<and> errors_Is e ErrForbidden)"

text \<open>
  C25: the organizer's operations answer \<open>ErrForbidden\<close> to everyone else and change nothing at all.
\<close>

theorem organizer_only:
  assumes "GetGroup (store w) gid = Inr g" and "actor \<noteq> g_OrganizerID g"
  shows "forbidden (Invite E actor gid uid) w \<and> forbidden (RemoveMember actor gid uid) w
    \<and> forbidden (ActivateGroup E actor gid order) w \<and> forbidden (SettleCycle E actor gid i) w
    \<and> forbidden (ListJoinRequests actor gid) w
    \<and> (\<forall>rid j. GetJoinRequest (store w) rid = Inr j \<longrightarrow> j_GroupID j = gid
         \<longrightarrow> forbidden (DecideJoinRequest E actor rid approve) w)"
  using assms
  by (simp add: forbidden_def Invite_def RemoveMember_def ActivateGroup_def SettleCycle_def ListJoinRequests_def
      DecideJoinRequest_def exec)

theorem organizer_only_witness: "forbidden (SettleCycle demo_env (demo_id 3) (demo_id 4) 0) demo7"
proof -
  have "GetGroup (store demo7) (demo_id 4) = Inr demo_running"
    by (simp add: GetGroup_def found_def gm_get_def)
  from organizer_only [OF this, of "demo_id 3" demo_env] show ?thesis
    by simp
qed

section \<open>Creating a group\<close>

lemma deploy_on_mem: "truth w = MemT m \<Longrightarrow> \<exists>addr. answer (chain_DeployGroup E g) w = Inr addr"
  using chain_answers_on_mem(2) by (simp add: on_mem_def)

text \<open>The EVM client deploys no group.\<close>

lemma deploy_on_evm:
  "\<not> on_mem w \<Longrightarrow> \<exists>e. answer (chain_DeployGroup E g) w = Inl e \<and> errors_Is e ErrNotWired"
  by (auto simp: on_mem_def answer_def chain_DeployGroup_def evm_DeployGroup_def split: truth_layer.split)

definition group_requested :: "memory \<Rightarrow> string \<Rightarrow> create_group_input \<Rightarrow> bool" where
  "group_requested m uid inp \<longleftrightarrow>
     (\<exists>u. GetUser m uid = Inr u \<and> u_Status u = UserActive \<and> u_KYCStatus u = KYCApproved)
     \<and> cg_Name inp \<noteq> '''' \<and> 0 < sint (cg_ContributionAmount inp) \<and> 0 < sint (cg_CycleLength inp) \<and> 2 \<le> cg_MaxMembers inp"

lemma CreateGroup_refused:
  assumes "\<not> group_requested (store w) uid inp"
  shows "\<exists>e w'. CreateGroup E uid inp w = (Inl e, w') \<and> store w' = store w"
proof (cases "\<exists>u. GetUser (store w) uid = Inr u \<and> u_Status u = UserActive \<and> u_KYCStatus u = KYCApproved")
  case True
  then obtain u where u: "GetUser (store w) uid = Inr u" "CanParticipate u = Inr ()"
    by (auto simp: CanParticipate_ok)
  let ?g = "\<lparr>g_ID = NewID (env_rand E (idseq w)), g_ContractAddress = '''', g_Name = cg_Name inp, g_OrganizerID = uid,
              g_ContributionAmount = cg_ContributionAmount inp, g_CycleLength = cg_CycleLength inp,
              g_MaxMembers = cg_MaxMembers inp, g_TotalCycles = 0, g_Members = [uid],
              g_PayoutOrder = [], g_State = GroupCreated, g_CreatedAt = env_clock E (ticks w), g_ActivatedAt = None\<rparr>"
  have "ValidateConfig ?g \<noteq> Inr ()"
    using True assms ValidateConfig_ok [of ?g "()"] by (auto simp: group_requested_def)
  then obtain e where "ValidateConfig ?g = Inl e"
    by (cases "ValidateConfig ?g") auto
  with u show ?thesis
    by (simp add: CreateGroup_def exec)
next
  case False
  show ?thesis
  proof (cases "GetUser (store w) uid")
    case (Inr u)
    with False have "CanParticipate u \<noteq> Inr ()"
      by (auto simp: CanParticipate_ok)
    with Inr show ?thesis
      by (cases "CanParticipate u") (auto simp: CreateGroup_def exec)
  qed (simp add: CreateGroup_def exec)
qed

text \<open>
  C24: a group is created exactly when its creator has an active, approved account, the configuration
  is valid and the truth layer is the development chain; it is then stored in state CREATED with the
  creator as its only member and organizer. A refusal stores nothing; on an EVM chain what would be
  created is refused with the client's not-wired error.
\<close>

theorem CreateGroup_requires_approval:
  "if group_requested (store w) uid inp \<and> (\<exists>m. truth w = MemT m)
   then \<exists>g w'. CreateGroup E uid inp w = (Inr g, w') \<and> GetGroup (store w') (g_ID g) = Inr g
      \<and> g_State g = GroupCreated \<and> g_OrganizerID g = uid \<and> g_Members g = [uid]
      \<and> (\<exists>x. GetMembership (store w') (g_ID g) uid = Inr x \<and> m_Status x = MembershipActive \<and> m_Organizer x)
   else \<exists>e w'. CreateGroup E uid inp w = (Inl e, w') \<and> store w' = store w
      \<and> (group_requested (store w) uid inp \<longrightarrow> errors_Is e ErrNotWired)"
proof (cases "group_requested (store w) uid inp")
  case True
  then obtain u where u: "GetUser (store w) uid = Inr u" "CanParticipate u = Inr ()"
    and inp: "cg_Name inp \<noteq> ''''" "0 < sint (cg_ContributionAmount inp)" "0 < sint (cg_CycleLength inp)" "2 \<le> cg_MaxMembers inp"
    by (auto simp: group_requested_def CanParticipate_ok)
  let ?g = "\<lparr>g_ID = NewID (env_rand E (idseq w)), g_ContractAddress = '''', g_Name = cg_Name inp, g_OrganizerID = uid,
              g_ContributionAmount = cg_ContributionAmount inp, g_CycleLength = cg_CycleLength inp,
              g_MaxMembers = cg_MaxMembers inp, g_TotalCycles = 0, g_Members = [uid],
              g_PayoutOrder = [], g_State = GroupCreated, g_CreatedAt = env_clock E (ticks w), g_ActivatedAt = None\<rparr>"
  let ?w = "w\<lparr>ticks := Suc (ticks w), idseq := Suc (idseq w)\<rparr>"
  have valid: "ValidateConfig ?g = Inr ()"
    using inp ValidateConfig_ok [of ?g "()"] by simp
  show ?thesis
  proof (cases "\<exists>m. truth w = MemT m")
    case mem: True
    then obtain addr where "answer (chain_DeployGroup E ?g) ?w = Inr addr"
      using deploy_on_mem [of ?w _ E ?g] by auto
    with mem True u valid show ?thesis
      by (simp add: CreateGroup_def exec Let_def GetGroup_def GetMembership_def memory_ops gm_get_set)
  next
    case evm: False
    then obtain e where "answer (chain_DeployGroup E ?g) ?w = Inl e" "errors_Is e ErrNotWired"
      using deploy_on_evm [of ?w E ?g] by (auto simp: on_mem_def)
    with evm u valid show ?thesis
      by (simp add: CreateGroup_def exec Let_def)
  qed
qed (use CreateGroup_refused in auto)

theorem CreateGroup_requires_approval_witness:
  "(\<exists>e w'. CreateGroup demo_env (demo_id 9) \<lparr>cg_Name = ''g'', cg_ContributionAmount = 100, cg_CycleLength = 1000,
      cg_MaxMembers = 2\<rparr> demo5 = (Inl e, w') \<and> store w' = store demo5)
   \<and> (\<exists>e w'. CreateGroup demo_env (demo_id 1) \<lparr>cg_Name = ''g'', cg_ContributionAmount = 100, cg_CycleLength = 1000,
      cg_MaxMembers = 2\<rparr> (demo5\<lparr>truth := EvmT \<lparr>ev_signer = True, ev_calls = 0\<rparr>\<rparr>) = (Inl e, w') \<and> errors_Is e ErrNotWired)"
proof -
  let ?inp = "\<lparr>cg_Name = ''g'', cg_ContributionAmount = 100, cg_CycleLength = 1000, cg_MaxMembers = 2\<rparr>"
  have "\<not> group_requested (store demo5) (demo_id 9) ?inp" "group_requested (store demo5) (demo_id 1) ?inp"
    by (simp_all add: group_requested_def demo2 GetUser_def gm_get_def found_def demo_user_def)
  then show ?thesis
    using CreateGroup_requires_approval [of demo5 "demo_id 9" ?inp demo_env]
      CreateGroup_requires_approval [of "demo5\<lparr>truth := EvmT \<lparr>ev_signer = True, ev_calls = 0\<rparr>\<rparr>" "demo_id 1" ?inp demo_env]
    by auto
qed

section \<open>Contributing\<close>

lemma settleCycle_contributions: "contributions (store (snd (settleCycle E g c w))) = contributions (store w)"
  by (simp add: settleCycle_def exec Let_def memory_ops split: sum.split)

text \<open>A contribution that may be made and whose charge is accepted is recorded.\<close>

lemma SubmitContribution_accepted:
  assumes may: "may_contribute (store w) gid uid i g c"
    and a: "accepted (charge_answer E w (contribution_charge g gid uid i src))"
    and tx: "answer (chain_SubmitContribution E (new_contribution E w g gid uid i))
      (contribution_charged E w g gid uid i src) = Inr tx"
  shows "\<exists>now w'. SubmitContribution E uid gid i src w
        = (Inr (new_contribution E w g gid uid i\<lparr>co_Revealed := True, co_PaidAt := Some now\<rparr>), w')
    \<and> GetContribution (store w') gid uid i
        = Inr (new_contribution E w g gid uid i\<lparr>co_Revealed := True, co_PaidAt := Some now\<rparr>)"
proof -
  have g: "GetGroup (store w) gid = Inr g" "g_State g = GroupActive" "uid \<in> set (g_Members g)"
      "GetCycle (store w) gid i = Inr c" "\<not> c_Settled c"
    and "isl (GetContribution (store w) gid uid i)"
    using may by (simp_all add: may_contribute_def)
  then obtain e where e: "GetContribution (store w) gid uid i = Inl e"
    by (auto simp: isl_def)
  from SubmitContribution_ok [OF g e a tx] obtain now y w1 w' where
    r: "SubmitContribution E uid gid i src w
      = (Inr (new_contribution E w g gid uid i\<lparr>co_Revealed := True, co_PaidAt := Some now\<rparr>), w')"
    and f: "feeds_cleared (store w1) = AppendEscrowEntry y (SaveContribution
       (new_contribution E w g gid uid i\<lparr>co_Revealed := True, co_PaidAt := Some now\<rparr>) (feeds_cleared (store w)))"
    and s: "if allContributed (store w1) g i
     then let w2 = snd (settleCycle E g c w1)
          in feeds_cleared (store w') = feeds_cleared (store w2) \<and> rail w' = rail w2 \<and> idseq w2 \<le> idseq w'
             \<and> on_mem w' = on_mem w2
     else w' = w1"
    by blast
  have "contributions (store w') = contributions (store w1)"
    using s settleCycle_contributions [of E g c w1] by (metis feeds_cleared_tables(7))
  moreover have "contributions (store w1) = contributions (feeds_cleared (store w1))"
    by simp
  ultimately have "GetContribution (store w') gid uid i
      = Inr (new_contribution E w g gid uid i\<lparr>co_Revealed := True, co_PaidAt := Some now\<rparr>)"
    unfolding f by (simp add: GetContribution_def SaveContribution_def AppendEscrowEntry_def new_contribution_def
        gm_get_set)
  with r show ?thesis
    by blast
qed

text \<open>The rail takes the amount of a contribution that may be made.\<close>

definition contribution_paid :: "env \<Rightarrow> world \<Rightarrow> string \<Rightarrow> string \<Rightarrow> int \<Rightarrow> string \<Rightarrow> bool" where
  "contribution_paid E w gid uid i src \<longleftrightarrow>
     (\<exists>g c. GetGroup (store w) gid = Inr g \<and> g_State g = GroupActive \<and> uid \<in> set (g_Members g)
        \<and> GetCycle (store w) gid i = Inr c \<and> \<not> c_Settled c \<and> isl (GetContribution (store w) gid uid i)
        \<and> accepted (Charge (env_rail E) (length (rail w)) \<lparr>ch_GroupID = gid, ch_UserID = uid, ch_CycleIndex = i,
              ch_Amount = g_ContributionAmount g, ch_Source = src\<rparr>))"

lemma contribution_paid_alt:
  "may_contribute (store w) gid uid i g c \<Longrightarrow>
   contribution_paid E w gid uid i src \<longleftrightarrow> accepted (charge_answer E w (contribution_charge g gid uid i src))"
  by (auto simp: contribution_paid_def may_contribute_def charge_answer_def contribution_charge_def)

text \<open>
  C5: a contribution is accepted exactly when the group is ACTIVE, the user is a member, the cycle
  exists and is not settled, the user has not paid for it yet, the rail accepts the charge, and the
  truth layer is the development chain. It is then recorded for the group's amount; otherwise the store
  is as before. A refusal has charged the member in one case only: on an EVM chain, whose client refuses
  the contribution after the charge.
\<close>

theorem SubmitContribution_outcome:
  "if contribution_paid E w gid uid i src \<and> (\<exists>m. truth w = MemT m)
   then \<exists>x w' g. SubmitContribution E uid gid i src w = (Inr x, w')
      \<and> GetContribution (store w') gid uid i = Inr x \<and> co_Revealed x
      \<and> GetGroup (store w) gid = Inr g \<and> co_Amount x = g_ContributionAmount g
   else \<exists>e w'. SubmitContribution E uid gid i src w = (Inl e, w') \<and> store w' = store w
      \<and> (if contribution_paid E w gid uid i src then \<exists>req a. rail w' = rail w @ [ChargeCall req a] \<and> accepted a
         else w' = w \<or> (\<exists>req a. rail w' = rail w @ [ChargeCall req a] \<and> \<not> accepted a))"
proof (cases "\<exists>g c. may_contribute (store w) gid uid i g c")
  case False
  then have "\<not> contribution_paid E w gid uid i src"
    by (auto simp: contribution_paid_def may_contribute_def)
  with SubmitContribution_refused [OF False, of E src] show ?thesis
    by auto
next
  case True
  then obtain g c where may: "may_contribute (store w) gid uid i g c"
    by blast
  let ?req = "contribution_charge g gid uid i src" and ?m = "contribution_charged E w g gid uid i src"
  let ?call = "chain_SubmitContribution E (new_contribution E w g gid uid i)"
  note paid = contribution_paid_alt [OF may, of E src]
  have rail: "rail ?m = rail w @ [ChargeCall ?req (charge_answer E w ?req)]" and same: "on_mem ?m \<longleftrightarrow> on_mem w"
    by (simp_all add: contribution_charged_def Let_def on_mem_def)
  show ?thesis
  proof (cases "accepted (charge_answer E w ?req) \<and> on_mem w")
    case True
    then obtain tx where tx: "answer ?call ?m = Inr tx"
      using chain_answers_on_mem(4) [of ?m E] same by blast
    show ?thesis
      using SubmitContribution_accepted [OF may _ tx] True may paid
      by (auto simp: may_contribute_def new_contribution_def on_mem_def)
  next
    case False
    have "\<not> on_mem w \<Longrightarrow> \<not> (\<exists>tx. answer ?call ?m = Inr tx)"
      using same by (auto simp: on_mem_def answer_def chain_SubmitContribution_def on_memchain_def
          evm_SubmitContribution_def split: truth_layer.splits)
    with False SubmitContribution_failed [OF may, of E src] obtain e w' where
      "SubmitContribution E uid gid i src w = (Inl e, w')" "store w' = store w"
      "rail w' = rail w @ [ChargeCall ?req (charge_answer E w ?req)]"
      unfolding rail by blast
    with False paid show ?thesis
      by (auto simp: on_mem_def)
  qed
qed

theorem SubmitContribution_outcome_witness:
  "(\<exists>x w'. SubmitContribution demo_env (demo_id 1) (demo_id 4) 0 ''bank'' demo6 = (Inr x, w') \<and> co_Amount x = 100)
   \<and> (\<exists>e w' req a. SubmitContribution demo_env (demo_id 1) (demo_id 4) 0 ''bank''
        (demo6\<lparr>truth := EvmT \<lparr>ev_signer = True, ev_calls = 0\<rparr>\<rparr>) = (Inl e, w') \<and> store w' = store demo6
      \<and> rail w' = [ChargeCall req a] \<and> accepted a)"
proof -
  have g: "GetGroup (store demo6) (demo_id 4) = Inr demo_running" "GetCycle (store demo6) (demo_id 4) 0 = Inr (demo_cycle 0 1 False)"
    "isl (GetContribution (store demo6) (demo_id 4) (demo_id 1) 0)"
    by (simp_all add: GetGroup_def GetCycle_def GetContribution_def gm_get_def found_def)
  then have "contribution_paid demo_env demo6 (demo_id 4) (demo_id 1) 0 ''bank''"
    "contribution_paid demo_env (demo6\<lparr>truth := EvmT \<lparr>ev_signer = True, ev_calls = 0\<rparr>\<rparr>) (demo_id 4) (demo_id 1) 0 ''bank''"
    using mock.charge_accepted by (auto simp: contribution_paid_def)
  then show ?thesis
    using SubmitContribution_outcome [of demo_env demo6 "demo_id 4" "demo_id 1" 0 "''bank''"]
      SubmitContribution_outcome [of demo_env "demo6\<lparr>truth := EvmT \<lparr>ev_signer = True, ev_calls = 0\<rparr>\<rparr>" "demo_id 4" "demo_id 1" 0 "''bank''"] g(1)
    by auto
qed

end
