(* ===== verification/Sql_Table.thy ===== *)
theory Sql_Table
  imports Memory_Store "HOL-Library.Char_ord" "HOL-Library.List_Lexorder" "HOL-Library.Product_Lexorder"
    "HOL-Library.Monad_Syntax"
begin

text \<open>
  The part of SQL that the statements of the two SQL stores use: tables whose rows keep the order of
  their insertion, \<^verbatim>\<open>INSERT\<close>, \<^verbatim>\<open>INSERT ... ON CONFLICT (..) DO UPDATE SET ..\<close>,
  \<^verbatim>\<open>DELETE ... WHERE\<close>, \<^verbatim>\<open>SELECT\<close> with \<^verbatim>\<open>WHERE\<close>, \<^verbatim>\<open>ORDER BY\<close>, \<^verbatim>\<open>LIMIT\<close> and
  \<^verbatim>\<open>OFFSET\<close>. Text compares byte by byte (the \<^verbatim>\<open>BINARY\<close> collation). Rows that an
  \<^verbatim>\<open>ORDER BY\<close> does not tell apart, and those of a \<^verbatim>\<open>SELECT\<close> without one, come in the order
  of the table, one of the orders SQL permits. A statement fails when a constraint does; failures of
  the disk or of the connection are not modelled.
\<close>

section \<open>Rows and tables\<close>

text \<open>
  \<open>STime\<close> (microseconds), \<open>SBool\<close> and \<open>STexts\<close> are the native types of Postgres.
\<close>

datatype sqlval = SNull | SInt int | SText string | SBool bool | STime int | STexts "string list"

type_synonym row = "string \<Rightarrow> sqlval option"

definition row_of :: "string list \<Rightarrow> sqlval list \<Rightarrow> row" where
  "row_of cols vals = map_of (zip cols vals)"

definition text_at :: "row \<Rightarrow> string \<Rightarrow> string option" where
  "text_at r c = (case r c of Some (SText s) \<Rightarrow> Some s | _ \<Rightarrow> None)"

definition int_at :: "row \<Rightarrow> string \<Rightarrow> int option" where
  "int_at r c = (case r c of Some (SInt i) \<Rightarrow> Some i | _ \<Rightarrow> None)"

text \<open>A nullable text column, as \<^verbatim>\<open>sql.NullString\<close>.\<close>

definition null_text_at :: "row \<Rightarrow> string \<Rightarrow> string option option" where
  "null_text_at r c = (case r c of Some (SText s) \<Rightarrow> Some (Some s) | Some SNull \<Rightarrow> Some None | _ \<Rightarrow> None)"

definition bool_at :: "row \<Rightarrow> string \<Rightarrow> bool option" where
  "bool_at r c = (case r c of Some (SBool b) \<Rightarrow> Some b | _ \<Rightarrow> None)"

definition time_at :: "row \<Rightarrow> string \<Rightarrow> int option" where
  "time_at r c = (case r c of Some (STime t) \<Rightarrow> Some t | _ \<Rightarrow> None)"

definition null_time_at :: "row \<Rightarrow> string \<Rightarrow> int option option" where
  "null_time_at r c = (case r c of Some (STime t) \<Rightarrow> Some (Some t) | Some SNull \<Rightarrow> Some None | _ \<Rightarrow> None)"

definition texts_at :: "row \<Rightarrow> string \<Rightarrow> string list option" where
  "texts_at r c = (case r c of Some (STexts ss) \<Rightarrow> Some ss | _ \<Rightarrow> None)"

text \<open>
  The order of \<^verbatim>\<open>ORDER BY\<close>: values of one type by their own order, NULL first, and the
  types one after the other (SQLite's order; the statements only compare values of one column).
\<close>

fun sql_rank :: "sqlval \<Rightarrow> nat \<times> int \<times> string list" where
  "sql_rank SNull = (0, 0, [])"
| "sql_rank (SInt i) = (1, i, [])"
| "sql_rank (SText s) = (2, 0, [s])"
| "sql_rank (SBool b) = (3, if b then 1 else 0, [])"
| "sql_rank (STime t) = (4, t, [])"
| "sql_rank (STexts ss) = (5, 0, ss)"

lemma sql_rank_inject [simp]: "sql_rank x = sql_rank y \<longleftrightarrow> x = y"
  by (cases x; cases y) simp_all

instantiation sqlval :: linorder
begin

definition less_eq_sqlval :: "sqlval \<Rightarrow> sqlval \<Rightarrow> bool" where
  "less_eq_sqlval x y \<longleftrightarrow> sql_rank x \<le> sql_rank y"

definition less_sqlval :: "sqlval \<Rightarrow> sqlval \<Rightarrow> bool" where
  "less_sqlval x y \<longleftrightarrow> sql_rank x < sql_rank y"

instance
proof
  fix x y z :: sqlval
  show "x < y \<longleftrightarrow> x \<le> y \<and> \<not> y \<le> x"
    unfolding less_eq_sqlval_def less_sqlval_def by (rule less_le_not_le)
  show "x \<le> x"
    by (simp add: less_eq_sqlval_def)
  show "x \<le> y \<Longrightarrow> y \<le> z \<Longrightarrow> x \<le> z"
    unfolding less_eq_sqlval_def by (rule order_trans)
  show "x \<le> y \<Longrightarrow> y \<le> x \<Longrightarrow> x = y"
    unfolding less_eq_sqlval_def by (metis antisym sql_rank_inject)
  show "x \<le> y \<or> y \<le> x"
    unfolding less_eq_sqlval_def by (rule linear)
qed

end

lemma sqlval_order [simp]:
  "SInt i \<le> SInt j \<longleftrightarrow> i \<le> j" "SText s \<le> SText t \<longleftrightarrow> s \<le> t" "STime a \<le> STime b \<longleftrightarrow> a \<le> b"
  by (auto simp: less_eq_sqlval_def)

definition same_on :: "string list \<Rightarrow> row \<Rightarrow> row \<Rightarrow> bool" where
  "same_on cols r q \<longleftrightarrow> (\<forall>c \<in> set cols. r c = q c)"

section \<open>Statements\<close>

definition constraint_failed :: err where
  "constraint_failed = Errorf ErrOther ''constraint failed'' []"

text \<open>\<open>uniques\<close> are the column lists of the primary key and of the unique constraints.\<close>

definition clashes :: "string list list \<Rightarrow> row \<Rightarrow> row list \<Rightarrow> bool" where
  "clashes uniques r t \<longleftrightarrow> (\<exists>q \<in> set t. \<exists>cols \<in> set uniques. same_on cols r q)"

definition sql_insert :: "string list list \<Rightarrow> row \<Rightarrow> row list \<Rightarrow> err + row list" where
  "sql_insert uniques r t = (if clashes uniques r t then Inl constraint_failed else Inr (t @ [r]))"

text \<open>
  The rows that agree with the new one on the target columns are updated in the columns \<open>sets\<close>,
  all of which take the new row's value (\<^verbatim>\<open>c=excluded.c\<close>).
\<close>

definition sql_upsert :: "string list list \<Rightarrow> string list \<Rightarrow> string list \<Rightarrow> row \<Rightarrow> row list \<Rightarrow> err + row list" where
  "sql_upsert uniques target sets r t =
     (case List.find (same_on target r) t of
        None \<Rightarrow> sql_insert uniques r t
      | Some q \<Rightarrow>
          let q' = override_on q r (set sets)
          in if clashes uniques q' (filter (\<lambda>x. \<not> same_on target r x) t) then Inl constraint_failed
             else Inr (map (\<lambda>x. if same_on target r x then q' else x) t))"

text \<open>The table of a database that a statement changes; a statement that fails changes nothing.\<close>

definition stored_in :: "((row list \<Rightarrow> row list) \<Rightarrow> 'd \<Rightarrow> 'd) \<Rightarrow> 'd \<Rightarrow> err + row list \<Rightarrow> err + 'd" where
  "stored_in upd db r = (case r of Inl e \<Rightarrow> Inl e | Inr t \<Rightarrow> Inr (upd (\<lambda>_. t) db))"

definition sql_delete :: "(row \<Rightarrow> bool) \<Rightarrow> row list \<Rightarrow> row list" where
  "sql_delete P t = filter (\<lambda>r. \<not> P r) t"

definition text_is :: "string \<Rightarrow> string \<Rightarrow> row \<Rightarrow> bool" where
  "text_is c s r \<longleftrightarrow> r c = Some (SText s)"

definition int_is :: "string \<Rightarrow> int \<Rightarrow> row \<Rightarrow> bool" where
  "int_is c i r \<longleftrightarrow> r c = Some (SInt i)"

definition column :: "string \<Rightarrow> row \<Rightarrow> sqlval" where
  "column c r = (case r c of None \<Rightarrow> SNull | Some v \<Rightarrow> v)"

definition order_by :: "string \<Rightarrow> row list \<Rightarrow> row list" where
  "order_by c t = sort_key (column c) t"

definition order_by_desc :: "string \<Rightarrow> row list \<Rightarrow> row list" where
  "order_by_desc c t = rev (order_by c (rev t))"

definition limit_offset :: "int \<Rightarrow> int \<Rightarrow> 'r list \<Rightarrow> 'r list" where
  "limit_offset n off t = take (nat n) (drop (nat off) t)"

section \<open>Reading rows\<close>

definition scan_error :: err where
  "scan_error = Errorf ErrOther ''sql: Scan error'' []"

definition scanned :: "'a option \<Rightarrow> err + 'a" where
  "scanned r = (case r of None \<Rightarrow> Inl scan_error | Some x \<Rightarrow> Inr x)"

text \<open>\<^verbatim>\<open>for rows.Next() { x, err := scan(rows); if err != nil { return err }; out = append(out, x) }\<close>\<close>

fun scan_rows :: "(row \<Rightarrow> err + 'a) \<Rightarrow> row list \<Rightarrow> err + 'a list" where
  "scan_rows scan [] = Inr []"
| "scan_rows scan (r # rs) =
     (case scan r of
        Inl e \<Rightarrow> Inl e
      | Inr x \<Rightarrow> (case scan_rows scan rs of Inl e \<Rightarrow> Inl e | Inr xs \<Rightarrow> Inr (x # xs)))"

text \<open>\<^verbatim>\<open>QueryRow(..).Scan(..)\<close> of the first row that qualifies, or \<^verbatim>\<open>sql.ErrNoRows\<close>, which the
  store's \<^verbatim>\<open>noRows\<close> turns into \<open>ErrNotFound\<close>.\<close>

definition query_row :: "(row \<Rightarrow> err + 'a) \<Rightarrow> (row \<Rightarrow> bool) \<Rightarrow> row list \<Rightarrow> err + 'a" where
  "query_row scan P t =
     (case List.find P t of None \<Rightarrow> Inl (sentinel_err ErrNotFound) | Some r \<Rightarrow> scan r)"

definition counted :: "nat \<Rightarrow> err + 'a list \<Rightarrow> err + 'a list \<times> int" where
  "counted n r = (case r of Inl e \<Rightarrow> Inl e | Inr xs \<Rightarrow> Inr (xs, int n))"

section \<open>The database\<close>

record database =
  t_users :: "row list"
  t_groups :: "row list"
  t_memberships :: "row list"
  t_join_requests :: "row list"
  t_invitations :: "row list"
  t_cycles :: "row list"
  t_contributions :: "row list"
  t_payouts :: "row list"
  t_escrow_entries :: "row list"
  t_reputation_events :: "row list"
  t_notifications :: "row list"
  t_audit :: "row list"
  t_webhooks :: "row list"

section \<open>Facts\<close>

lemma scanned_Some [simp]: "scanned (Some x) = Inr x"
  by (simp add: scanned_def)

lemma scan_rows_map: "(\<And>x. x \<in> set xs \<Longrightarrow> scan (f x) = Inr (g x)) \<Longrightarrow> scan_rows scan (map f xs) = Inr (map g xs)"
  by (induction xs) simp_all

lemma find_map: "List.find P (map f xs) = map_option f (List.find (P \<circ> f) xs)"
  by (induction xs) auto

text \<open>An upsert whose row differs from the matching stored one in no column left out of \<open>sets\<close>.\<close>

lemma sql_upsert_ok:
  assumes free: "\<And>q cols. q \<in> set t \<Longrightarrow> \<not> same_on target r q \<Longrightarrow> cols \<in> set uniques \<Longrightarrow> \<not> same_on cols r q"
    and same: "\<And>q. q \<in> set t \<Longrightarrow> same_on target r q \<Longrightarrow> override_on q r (set sets) = r"
  shows "sql_upsert uniques target sets r t
    = Inr (if \<exists>q \<in> set t. same_on target r q then map (\<lambda>x. if same_on target r x then r else x) t else t @ [r])"
proof (cases "List.find (same_on target r) t")
  case None
  then have "\<forall>q \<in> set t. \<not> same_on target r q"
    by (simp add: find_None_iff)
  with None free show ?thesis
    by (auto simp: sql_upsert_def sql_insert_def clashes_def)
next
  case (Some q)
  then have q: "q \<in> set t" "same_on target r q"
    by (auto simp: find_Some_iff)
  then have "override_on q r (set sets) = r"
    by (rule same)
  with Some q free show ?thesis
    by (auto simp: sql_upsert_def clashes_def)
qed

end
