(* ===== verification/Sql_Codec.thy ===== *)
theory Sql_Codec
  imports Sql_Table Store_Facts
begin

text \<open>
  What makes a table of rows an implementation of a keyed table of entities, once for both SQL
  stores: \<open>sql_codec\<close> is the contract of a pair of an encoder and a scanner, \<open>sql_keyed\<close>
  adds the key columns. Inside them a table that holds the rows of a Go map's entries answers
  lookups, filters and orderings as the map does, and an upsert writes the row of the changed entry
  exactly when the map would be changed there, provided that no other unique column clashes and that
  the columns the statement leaves alone agree.
\<close>

section \<open>Sorting\<close>

lemma insort_key_cong:
  "(\<And>y. y \<in> set xs \<Longrightarrow> f x \<le> f y \<longleftrightarrow> g x \<le> g y) \<Longrightarrow> insort_key f x xs = insort_key g x xs"
  by (induction xs) auto

lemma sort_key_cong:
  fixes f :: "'a \<Rightarrow> 'b :: linorder" and g :: "'a \<Rightarrow> 'c :: linorder"
  assumes "\<And>x y. x \<in> set xs \<Longrightarrow> y \<in> set xs \<Longrightarrow> f x \<le> f y \<longleftrightarrow> g x \<le> g y"
  shows "sort_key f xs = sort_key g xs"
  using assms
proof (induction xs)
  case (Cons x xs)
  then have "sort_key f xs = sort_key g xs"
    by simp
  moreover have "insort_key f x (sort_key g xs) = insort_key g x (sort_key g xs)"
    by (rule insort_key_cong) (use Cons.prems in simp)
  ultimately show ?case
    by simp
qed simp

lemma insort_key_map: "insort_key f (h x) (map h xs) = map h (insort_key (f \<circ> h) x xs)"
  by (induction xs) auto

lemma sort_key_map: "sort_key f (map h xs) = map h (sort_key (f \<circ> h) xs)"
  by (induction xs) (simp_all add: insort_key_map comp_def)

section \<open>Entries of a Go map\<close>


lemma kept_under_find:
  assumes "kept_under key m"
  shows "List.find (\<lambda>v. key v = k) (gm_range m) = gm_get m k"
proof (cases "gm_get m k")
  case None
  then have "\<forall>v \<in> set (gm_range m). key v \<noteq> k"
    using assms by (auto simp: kept_under_range)
  with None show ?thesis
    by (simp add: find_None_iff)
next
  case (Some v)
  then have v: "key v = k" "v \<in> set (gm_range m)"
    using assms by (auto simp: kept_under_def gm_range_get dest: gm_allD)
  then obtain w where w: "List.find (\<lambda>v. key v = k) (gm_range m) = Some w"
    by (cases "List.find (\<lambda>v. key v = k) (gm_range m)") (auto simp: find_None_iff)
  then have "key w = k" "w \<in> set (gm_range m)"
    by (auto simp: find_Some_iff)
  then have "gm_get m k = Some w"
    using assms by (auto simp: kept_under_range)
  with w Some show ?thesis
    by simp
qed

lemma kept_under_entry: "kept_under key m \<Longrightarrow> (k, x) \<in> set m \<Longrightarrow> k = key x"
proof -
  assume "kept_under key m" "(k, x) \<in> set m"
  then have "gm_get m k = Some x" "gm_all (\<lambda>k v. k = key v) m"
    by (simp_all add: kept_under_def gm_ok_def gm_get_def)
  then show "k = key x"
    by (auto dest: gm_allD)
qed

lemma update_entries:
  assumes "\<forall>(k, x) \<in> set es. k = key x" and "distinct (map fst es)" and "key v \<in> fst ` set es"
  shows "map snd (AList.update (key v) v es) = map (\<lambda>x. if key x = key v then v else x) (map snd es)"
  using assms
proof (induction es)
  case (Cons e es)
  obtain x where e: "e = (key x, x)"
    using Cons.prems(1) by (cases e) simp
  show ?case
  proof (cases "key x = key v")
    case True
    have "map (\<lambda>y. if key y = key v then v else y) (map snd es) = map snd es"
    proof (rule map_idI)
      fix y assume "y \<in> set (map snd es)"
      then obtain k where "(k, y) \<in> set es"
        by auto
      then have "key y \<in> fst ` set es"
        using Cons.prems(1) by force
      moreover have "key v \<notin> fst ` set es"
        using Cons.prems(2) True by (simp add: e)
      ultimately have "key y \<noteq> key v"
        by metis
      then show "(if key y = key v then v else y) = y"
        by simp
    qed
    with True show ?thesis
      by (simp add: e)
  next
    case False
    with Cons.prems have "key v \<in> fst ` set es"
      by (simp add: e)
    with False Cons.IH Cons.prems(1,2) show ?thesis
      by (simp add: e)
  qed
qed simp

lemma gm_range_set:
  assumes "kept_under key m"
  shows "gm_range (gm_set (key v) v m)
    = (if \<exists>w \<in> set (gm_range m). key w = key v then map (\<lambda>w. if key w = key v then v else w) (gm_range m)
       else gm_range m @ [v])"
proof (cases "gm_get m (key v)")
  case None
  then have "\<not> (\<exists>w \<in> set (gm_range m). key w = key v)"
    using kept_under_range [OF assms] by auto
  with None show ?thesis
    by (simp only: gm_range_set_new if_False)
next
  case (Some w)
  then have w: "(key v, w) \<in> set m"
    by (simp add: gm_get_def map_of_SomeD)
  then have ex: "\<exists>w \<in> set (gm_range m). key w = key v"
    using kept_under_entry [OF assms w] by (force simp: gm_range_def)
  have "key v \<in> fst ` set m"
    using w by force
  moreover have "\<forall>(k, x) \<in> set m. k = key x"
    using kept_under_entry [OF assms] by auto
  moreover have "distinct (map fst m)"
    using assms by (simp add: kept_under_def gm_ok_def)
  ultimately have "gm_range (gm_set (key v) v m) = map (\<lambda>w. if key w = key v then v else w) (gm_range m)"
    unfolding gm_range_def gm_set_def by (intro update_entries)
  then show ?thesis
    by (simp only: ex if_True)
qed

lemma gm_range_delete:
  assumes "kept_under key m"
  shows "gm_range (gm_delete k m) = filter (\<lambda>v. key v \<noteq> k) (gm_range m)"
proof -
  have "\<And>e. e \<in> set m \<Longrightarrow> fst e = key (snd e)"
    using kept_under_entry [OF assms] by (metis prod.collapse)
  then show ?thesis
    unfolding gm_range_def gm_delete_def AList.delete_eq filter_map
    by (intro arg_cong [where f = "map snd"] filter_cong) (auto simp: comp_def case_prod_beta)
qed

section \<open>An encoder and its scanner\<close>

locale sql_codec =
  fixes row :: "'v \<Rightarrow> row" and scan :: "row \<Rightarrow> err + 'v" and good :: "'v \<Rightarrow> bool"
  assumes scan_row: "good v \<Longrightarrow> scan (row v) = Inr v"
begin

lemma scan_all: "\<forall>v \<in> set vs. good v \<Longrightarrow> scan_rows scan (map row vs) = Inr vs"
  using scan_rows_map [of vs scan row "\<lambda>v. v"] by (simp add: scan_row)

lemma select_rows:
  assumes "\<forall>v \<in> set vs. good v" and "\<And>v. v \<in> set vs \<Longrightarrow> P (row v) \<longleftrightarrow> Q v"
  shows "scan_rows scan (filter P (map row vs)) = Inr (filter Q vs)"
proof -
  have "filter P (map row vs) = map row (filter Q vs)"
    using assms(2) by (simp add: filter_map comp_def cong: filter_cong)
  then show ?thesis
    using assms(1) by (simp add: scan_all)
qed

lemma order_rows:
  assumes "\<And>v w. v \<in> set vs \<Longrightarrow> w \<in> set vs \<Longrightarrow> column c (row v) \<le> column c (row w) \<longleftrightarrow> f v \<le> f w"
  shows "order_by c (map row vs) = map row (sort_key f vs)"
proof -
  have "sort_key (column c \<circ> row) vs = sort_key f vs"
    by (rule sort_key_cong) (simp add: assms)
  then show ?thesis
    by (simp add: order_by_def sort_key_map)
qed

lemma select_ordered:
  assumes "\<forall>v \<in> set vs. good v" and "\<And>v. v \<in> set vs \<Longrightarrow> P (row v) \<longleftrightarrow> Q v"
    and "\<And>v w. v \<in> set vs \<Longrightarrow> w \<in> set vs \<Longrightarrow> column c (row v) \<le> column c (row w) \<longleftrightarrow> f v \<le> f w"
  shows "scan_rows scan (order_by c (filter P (map row vs))) = Inr (sort_key f (filter Q vs))"
proof -
  have "filter P (map row vs) = map row (filter Q vs)"
    using assms(2) by (simp add: filter_map comp_def cong: filter_cong)
  then show ?thesis
    using assms(1) order_rows [of "filter Q vs" c f] assms(3) by (simp add: scan_all)
qed

text \<open>In whatever order the rows come, they are those selected.\<close>

lemma select_any_order:
  assumes "\<forall>v \<in> set vs. good v" and "\<And>v. v \<in> set vs \<Longrightarrow> P (row v) \<longleftrightarrow> Q v"
  shows "\<exists>xs. scan_rows scan (order_by c (filter P (map row vs))) = Inr xs \<and> mset xs = mset (filter Q vs)"
proof -
  have "filter P (map row vs) = map row (filter Q vs)"
    using assms(2) by (simp add: filter_map comp_def cong: filter_cong)
  then have "order_by c (filter P (map row vs)) = map row (sort_key (column c \<circ> row) (filter Q vs))"
    by (simp add: order_by_def sort_key_map)
  then show ?thesis
    using assms(1) by (simp add: scan_all)
qed

text \<open>A page of rows in any order.\<close>

lemma page_rows:
  assumes "\<forall>v \<in> set vs. good v"
  shows "counted k (scan_rows scan (limit_offset n off (map row vs))) = Inr (limit_offset n off vs, int k)"
proof -
  have "limit_offset n off (map row vs) = map row (limit_offset n off vs)"
    by (simp add: limit_offset_def take_map drop_map)
  moreover have "\<forall>v \<in> set (limit_offset n off vs). good v"
    using assms by (auto simp: limit_offset_def dest!: in_set_takeD in_set_dropD)
  ultimately show ?thesis
    by (simp add: scan_all counted_def)
qed

lemma page_ordered:
  assumes "\<forall>v \<in> set vs. good v"
  shows "counted k (scan_rows scan (limit_offset n off (order_by c (map row vs))))
      = Inr (limit_offset n off (sort_key (column c \<circ> row) vs), int k)"
    and "counted k (scan_rows scan (limit_offset n off (order_by_desc c (map row vs))))
      = Inr (limit_offset n off (rev (sort_key (column c \<circ> row) (rev vs))), int k)"
proof -
  have "order_by c (map row vs) = map row (sort_key (column c \<circ> row) vs)"
    "order_by_desc c (map row vs) = map row (rev (sort_key (column c \<circ> row) (rev vs)))"
    by (simp_all add: order_by_desc_def order_by_def rev_map sort_key_map)
  with assms show "counted k (scan_rows scan (limit_offset n off (order_by c (map row vs))))
      = Inr (limit_offset n off (sort_key (column c \<circ> row) vs), int k)"
    "counted k (scan_rows scan (limit_offset n off (order_by_desc c (map row vs))))
      = Inr (limit_offset n off (rev (sort_key (column c \<circ> row) (rev vs))), int k)"
    by (simp_all add: page_rows)
qed

lemma find_row:
  assumes "\<forall>v \<in> set vs. good v" and "\<And>v. v \<in> set vs \<Longrightarrow> P (row v) \<longleftrightarrow> Q v"
  shows "query_row scan P (map row vs) = found (List.find Q vs)"
proof -
  have "List.find (P \<circ> row) vs = List.find Q vs"
    by (rule find_cong) (simp_all add: assms(2))
  moreover have "good v" if "List.find Q vs = Some v" for v
    using that assms(1) by (auto simp: find_Some_iff)
  ultimately show ?thesis
    by (auto simp: query_row_def find_map found_def scan_row split: option.split)
qed

end

text \<open>A row that already agrees on the columns left alone.\<close>

lemma override_row:
  assumes "dom q = set cols" and "dom r = set cols" and "\<forall>c \<in> set cols. c \<notin> S \<longrightarrow> q c = r c"
  shows "override_on q r S = r"
proof
  fix c
  show "override_on q r S c = r c"
  proof (cases "c \<in> set cols")
    case True
    with assms(3) show ?thesis
      by (simp add: override_on_def)
  next
    case False
    with assms(1,2) have "q c = None" "r c = None"
      by (metis domIff)+
    then show ?thesis
      by (simp add: override_on_def)
  qed
qed

lemma row_of_Cons [simp]: "row_of (c # cs) (v # vs) k = (if k = c then Some v else row_of cs vs k)"
  by (simp add: row_of_def)

lemma row_of_Nil [simp]: "row_of [] vs k = None"
  by (simp add: row_of_def)

lemma dom_row_of [simp]: "length vals = length cols \<Longrightarrow> dom (row_of cols vals) = set cols"
  by (simp add: row_of_def dom_map_of_zip)

section \<open>A table with a key\<close>

text \<open>
  \<open>key\<close> is the entity's key in the map, \<open>target\<close> the conflict target of the upsert,
  \<open>uniques\<close> the columns of every unique constraint and \<open>sets\<close> the columns the upsert
  updates. \<open>same v w\<close> asks that \<open>v\<close> has what the statement leaves alone as the stored
  \<open>w\<close> has it, \<open>apart v w\<close> that the two clash in no other unique column.
\<close>

definition compatible :: "('v \<Rightarrow> 'k) \<Rightarrow> ('v \<Rightarrow> 'v \<Rightarrow> bool) \<Rightarrow> ('v \<Rightarrow> 'v \<Rightarrow> bool) \<Rightarrow> 'v \<Rightarrow> 'v list \<Rightarrow> bool" where
  "compatible key same apart v vs \<longleftrightarrow> (\<forall>w \<in> set vs. if key w = key v then same v w else apart v w)"

lemma compatible_True [simp]: "compatible key (\<lambda>v w. True) (\<lambda>v w. True) v vs"
  by (simp add: compatible_def)

locale sql_keyed = sql_codec row scan good
  for row :: "'v \<Rightarrow> row" and scan and good :: "'v \<Rightarrow> bool" +
  fixes key :: "'v \<Rightarrow> 'k" and uniques :: "string list list" and target sets :: "string list"
    and same apart :: "'v \<Rightarrow> 'v \<Rightarrow> bool"
  assumes same_target: "good v \<Longrightarrow> good w \<Longrightarrow> same_on target (row v) (row w) \<longleftrightarrow> key w = key v"
    and no_clash: "good v \<Longrightarrow> good w \<Longrightarrow> key w \<noteq> key v \<Longrightarrow> apart v w \<Longrightarrow>
        \<forall>cols \<in> set uniques. \<not> same_on cols (row v) (row w)"
    and frozen: "good v \<Longrightarrow> good w \<Longrightarrow> key w = key v \<Longrightarrow> same v w \<Longrightarrow>
        override_on (row w) (row v) (set sets) = row v"
begin

lemma upsert_rows:
  assumes m: "kept_under key m" and good: "\<forall>w \<in> set (gm_range m). good w" "good v"
    and c: "compatible key same apart v (gm_range m)"
  shows "sql_upsert uniques target sets (row v) (map row (gm_range m)) = Inr (map row (gm_range (gm_set (key v) v m)))"
proof -
  let ?vs = "gm_range m"
  have eq: "same_on target (row v) (row w) \<longleftrightarrow> key w = key v" if "w \<in> set ?vs" for w
    using same_target [of v w] good that by auto
  have "sql_upsert uniques target sets (row v) (map row ?vs)
      = Inr (if \<exists>q \<in> set (map row ?vs). same_on target (row v) q
             then map (\<lambda>x. if same_on target (row v) x then row v else x) (map row ?vs) else map row ?vs @ [row v])"
  proof (rule sql_upsert_ok)
    fix q cols
    assume "q \<in> set (map row ?vs)" and other: "\<not> same_on target (row v) q" and cols: "cols \<in> set uniques"
    then obtain w where w: "w \<in> set ?vs" "q = row w"
      by auto
    with other eq c have "key w \<noteq> key v" "apart v w"
      by (auto simp: compatible_def)
    with w cols good show "\<not> same_on cols (row v) q"
      by (simp add: no_clash)
  next
    fix q
    assume "q \<in> set (map row ?vs)" and hit: "same_on target (row v) q"
    then obtain w where w: "w \<in> set ?vs" "q = row w"
      by auto
    with hit eq c have "key w = key v" "same v w"
      by (auto simp: compatible_def)
    with w good show "override_on q (row v) (set sets) = row v"
      by (simp add: frozen)
  qed
  also have "\<dots> = Inr (map row (gm_range (gm_set (key v) v m)))"
    by (auto simp: gm_range_set [OF m] eq)
  finally show ?thesis .
qed

end

section \<open>Lookups and logs\<close>

context sql_codec
begin

lemma lookup_row:
  assumes m: "kept_under key m" and "\<forall>w \<in> set (gm_range m). good w"
    and "\<And>w. w \<in> set (gm_range m) \<Longrightarrow> P (row w) \<longleftrightarrow> key w = k"
  shows "query_row scan P (map row (gm_range m)) = found (gm_get m k)"
  using find_row [OF assms(2), of P "\<lambda>w. key w = k"] assms(3) by (simp add: kept_under_find [OF m])

end

text \<open>An insert under a fresh identifier appends the row, and so does an upsert.\<close>

lemma insert_fresh:
  assumes "\<And>v. row v ''id'' = Some (SText (f v))" and "f v \<notin> f ` set vs"
  shows "sql_insert [[''id'']] (row v) (map row vs) = Inr (map row (vs @ [v]))"
    and "sql_upsert [[''id'']] [''id''] sets (row v) (map row vs) = Inr (map row (vs @ [v]))"
proof -
  have new: "\<forall>w \<in> set vs. \<not> same_on [''id''] (row v) (row w)"
    using assms by (auto simp: same_on_def)
  show insert: "sql_insert [[''id'']] (row v) (map row vs) = Inr (map row (vs @ [v]))"
    using new by (auto simp: sql_insert_def clashes_def)
  have "List.find (same_on [''id''] (row v)) (map row vs) = None"
    using new by (auto simp: find_None_iff)
  then show "sql_upsert [[''id'']] [''id''] sets (row v) (map row vs) = Inr (map row (vs @ [v]))"
    by (simp add: sql_upsert_def insert)
qed

end
