(* ===== verification/Enum_Text.thy ===== *)
theory Enum_Text
  imports Domain_Ledger
begin

text \<open>
  The string types of the domain package as the stores write and read them: \<^verbatim>\<open>string(x)\<close>
  for the constants of each type that \<open>Domain_Group\<close> and \<open>Domain_Ledger\<close> do not print
  already, and the constant a stored string stands for. A string that is none of the constants is
  never written; it reads as no value.
\<close>

fun membership_status_string :: "membership_status \<Rightarrow> string" where
  "membership_status_string MembershipActive = ''active''"
| "membership_status_string MembershipLeft = ''left''"
| "membership_status_string MembershipRemoved = ''removed''"

fun ledger_direction_string :: "ledger_direction \<Rightarrow> string" where
  "ledger_direction_string LedgerCredit = ''credit''"
| "ledger_direction_string LedgerDebit = ''debit''"

fun event_type_string :: "event_type \<Rightarrow> string" where
  "event_type_string EventContributionMade = ''ContributionMade''"
| "event_type_string EventContributionMissed = ''ContributionMissed''"
| "event_type_string EventPayoutReceived = ''PayoutReceived''"
| "event_type_string EventGroupExit = ''GroupExit''"
| "event_type_string EventGroupExpulsion = ''GroupExpulsion''"

definition kyc_status_of :: "string \<Rightarrow> kyc_status option" where
  "kyc_status_of s = List.find (\<lambda>x. kyc_status_string x = s) [KYCPending, KYCApproved, KYCRejected]"

definition role_of :: "string \<Rightarrow> role option" where
  "role_of s = Some (if s = ''member'' then RoleMember else if s = ''admin'' then RoleAdmin else RoleOther s)"

definition user_status_of :: "string \<Rightarrow> user_status option" where
  "user_status_of s = List.find (\<lambda>x. user_status_string x = s) [UserActive, UserSuspended]"

definition group_state_of :: "string \<Rightarrow> group_state option" where
  "group_state_of s =
     List.find (\<lambda>x. group_state_string x = s) [GroupCreated, GroupActive, GroupSettlement, GroupClosed]"

definition membership_status_of :: "string \<Rightarrow> membership_status option" where
  "membership_status_of s =
     List.find (\<lambda>x. membership_status_string x = s) [MembershipActive, MembershipLeft, MembershipRemoved]"

definition join_request_status_of :: "string \<Rightarrow> join_request_status option" where
  "join_request_status_of s =
     List.find (\<lambda>x. join_request_status_string x = s) [JoinPending, JoinApproved, JoinRejected]"

definition invitation_status_of :: "string \<Rightarrow> invitation_status option" where
  "invitation_status_of s =
     List.find (\<lambda>x. invitation_status_string x = s) [InvitePending, InviteAccepted, InviteDeclined]"

definition ledger_direction_of :: "string \<Rightarrow> ledger_direction option" where
  "ledger_direction_of s = List.find (\<lambda>x. ledger_direction_string x = s) [LedgerCredit, LedgerDebit]"

definition event_type_of :: "string \<Rightarrow> event_type option" where
  "event_type_of s =
     List.find (\<lambda>x. event_type_string x = s)
       [EventContributionMade, EventContributionMissed, EventPayoutReceived, EventGroupExit, EventGroupExpulsion]"

definition notification_kind_of :: "string \<Rightarrow> notification_kind option" where
  "notification_kind_of s =
     List.find (\<lambda>x. notification_kind_string x = s)
       [NotifyContributionDue, NotifyContributionMade, NotifyPayoutSent, NotifyDefaultRecorded,
        NotifyJoinRequest, NotifyJoinDecision, NotifyInvitation, NotifyGroupActivated, NotifyRiskWarning]"

text \<open>A role that is one of the two constants is not kept as another string.\<close>

definition role_plain :: "role \<Rightarrow> bool" where
  "role_plain r \<longleftrightarrow> r \<noteq> RoleOther ''member'' \<and> r \<noteq> RoleOther ''admin''"

lemma enum_of_string [simp]:
  "kyc_status_of (kyc_status_string k) = Some k"
  "user_status_of (user_status_string us) = Some us"
  "group_state_of (group_state_string g) = Some g"
  "membership_status_of (membership_status_string ms) = Some ms"
  "join_request_status_of (join_request_status_string j) = Some j"
  "invitation_status_of (invitation_status_string i) = Some i"
  "ledger_direction_of (ledger_direction_string d) = Some d"
  "event_type_of (event_type_string e) = Some e"
  "notification_kind_of (notification_kind_string n) = Some n"
proof -
  show "kyc_status_of (kyc_status_string k) = Some k"
    by (cases k) (simp_all add: kyc_status_of_def)
  show "user_status_of (user_status_string us) = Some us"
    by (cases us) (simp_all add: user_status_of_def)
  show "group_state_of (group_state_string g) = Some g"
    by (cases g) (simp_all add: group_state_of_def)
  show "membership_status_of (membership_status_string ms) = Some ms"
    by (cases ms) (simp_all add: membership_status_of_def)
  show "join_request_status_of (join_request_status_string j) = Some j"
    by (cases j) (simp_all add: join_request_status_of_def)
  show "invitation_status_of (invitation_status_string i) = Some i"
    by (cases i) (simp_all add: invitation_status_of_def)
  show "ledger_direction_of (ledger_direction_string d) = Some d"
    by (cases d) (simp_all add: ledger_direction_of_def)
  show "event_type_of (event_type_string e) = Some e"
    by (cases e) (simp_all add: event_type_of_def)
  show "notification_kind_of (notification_kind_string n) = Some n"
    by (cases n) (simp_all add: notification_kind_of_def)
qed

lemma role_of_string [simp]: "role_plain r \<Longrightarrow> role_of (role_string r) = Some r"
  by (cases r) (auto simp: role_of_def role_plain_def)

lemma kyc_status_string_inject [simp]: "kyc_status_string k = kyc_status_string l \<longleftrightarrow> k = l"
  by (cases k; cases l) simp_all

end
