(* ===== verification/Store_Mirror.thy ===== *)
theory Store_Mirror
  imports Sql_Codec Enum_Text
begin

text \<open>
  When a database mirrors a memory store, for any format of the rows: a \<open>sql_format\<close> gives the row,
  the scanner and the entities that fit, of each table, and what the database refuses as an index or an
  offset; \<open>mirrors F db m\<close> says that every table holds the rows of the entries of the corresponding map or log. The SELECT statements, which the two SQL stores
  share, answer on a mirroring database as the in-memory store does, up to the order of rows sorted by a
  time; this is proved once, in the locale \<open>sql_format_laws\<close>. Each store adds its INSERT statements.
\<close>

section \<open>Formats\<close>

record sql_format =
  rf_user :: "user \<Rightarrow> row"
  rf_group :: "group \<Rightarrow> row"
  rf_membership :: "membership \<Rightarrow> row"
  rf_join_request :: "join_request \<Rightarrow> row"
  rf_invitation :: "invitation \<Rightarrow> row"
  rf_cycle :: "cycle \<Rightarrow> row"
  rf_contribution :: "contribution \<Rightarrow> row"
  rf_webhook :: "webhook \<Rightarrow> row"
  rf_payout :: "payout \<Rightarrow> row"
  rf_escrow :: "escrow_entry \<Rightarrow> row"
  rf_audit :: "audit_entry \<Rightarrow> row"
  rf_reputation :: "reputation_event \<Rightarrow> row"
  rf_notification :: "notification \<Rightarrow> row"
  sc_user :: "row \<Rightarrow> err + user"
  sc_group :: "row \<Rightarrow> err + group"
  sc_membership :: "row \<Rightarrow> err + membership"
  sc_join_request :: "row \<Rightarrow> err + join_request"
  sc_invitation :: "row \<Rightarrow> err + invitation"
  sc_cycle :: "row \<Rightarrow> err + cycle"
  sc_contribution :: "row \<Rightarrow> err + contribution"
  sc_webhook :: "row \<Rightarrow> err + webhook"
  sc_payout :: "row \<Rightarrow> err + payout"
  sc_escrow :: "row \<Rightarrow> err + escrow_entry"
  sc_audit :: "row \<Rightarrow> err + audit_entry"
  sc_reputation :: "row \<Rightarrow> err + reputation_event"
  sc_notification :: "row \<Rightarrow> err + notification"
  ok_user :: "user \<Rightarrow> bool"
  ok_group :: "group \<Rightarrow> bool"
  ok_membership :: "membership \<Rightarrow> bool"
  ok_join_request :: "join_request \<Rightarrow> bool"
  ok_invitation :: "invitation \<Rightarrow> bool"
  ok_cycle :: "cycle \<Rightarrow> bool"
  ok_contribution :: "contribution \<Rightarrow> bool"
  ok_webhook :: "webhook \<Rightarrow> bool"
  ok_payout :: "payout \<Rightarrow> bool"
  ok_escrow :: "escrow_entry \<Rightarrow> bool"
  ok_audit :: "audit_entry \<Rightarrow> bool"
  ok_reputation :: "reputation_event \<Rightarrow> bool"
  ok_notification :: "notification \<Rightarrow> bool"
  refuse_index :: "int \<Rightarrow> err option"
  refuse_offset :: "int \<Rightarrow> err option"

lemmas column_tests = same_on_def text_is_def int_is_def column_def

section \<open>A database that mirrors a memory store\<close>

text \<open>The logs of one owner are kept apart in memory; a table shows the entries in the order of writing.\<close>

definition mirrors :: "sql_format \<Rightarrow> database \<Rightarrow> memory \<Rightarrow> bool" where
  "mirrors F db m \<longleftrightarrow> memory_ok m
     \<and> t_users db = map (rf_user F) (gm_range (users m)) \<and> (\<forall>v \<in> set (gm_range (users m)). ok_user F v)
     \<and> t_groups db = map (rf_group F) (gm_range (groups m)) \<and> (\<forall>v \<in> set (gm_range (groups m)). ok_group F v)
     \<and> t_memberships db = map (rf_membership F) (gm_range (memberships m)) \<and> (\<forall>v \<in> set (gm_range (memberships m)). ok_membership F v)
     \<and> t_join_requests db = map (rf_join_request F) (gm_range (joinRequests m)) \<and> (\<forall>v \<in> set (gm_range (joinRequests m)). ok_join_request F v)
     \<and> t_invitations db = map (rf_invitation F) (gm_range (invitations m)) \<and> (\<forall>v \<in> set (gm_range (invitations m)). ok_invitation F v)
     \<and> t_cycles db = map (rf_cycle F) (gm_range (cycles m)) \<and> (\<forall>v \<in> set (gm_range (cycles m)). ok_cycle F v)
     \<and> t_contributions db = map (rf_contribution F) (gm_range (contributions m)) \<and> (\<forall>v \<in> set (gm_range (contributions m)). ok_contribution F v)
     \<and> t_webhooks db = map (rf_webhook F) (gm_range (webhooks m)) \<and> (\<forall>v \<in> set (gm_range (webhooks m)). ok_webhook F v)
     \<and> t_payouts db = map (rf_payout F) (payouts m) \<and> (\<forall>v \<in> set (payouts m). ok_payout F v)
     \<and> t_escrow_entries db = map (rf_escrow F) (escrow m) \<and> (\<forall>v \<in> set (escrow m). ok_escrow F v)
     \<and> t_audit db = map (rf_audit F) (audit m) \<and> (\<forall>v \<in> set (audit m). ok_audit F v)
     \<and> (\<exists>es. t_reputation_events db = map (rf_reputation F) es \<and> (\<forall>v \<in> set es. ok_reputation F v)
         \<and> (\<forall>u. filter (\<lambda>v. r_UserID v = u) es = slice_at (reputation m) u))
     \<and> (\<exists>es. t_notifications db = map (rf_notification F) es \<and> (\<forall>v \<in> set es. ok_notification F v)
         \<and> (\<forall>u. filter (\<lambda>v. n_UserID v = u) es = slice_at (notifications m) u))"

definition new_database :: database where
  "new_database = \<lparr>t_users = [], t_groups = [], t_memberships = [], t_join_requests = [], t_invitations = [],
     t_cycles = [], t_contributions = [], t_payouts = [], t_escrow_entries = [], t_reputation_events = [],
     t_notifications = [], t_audit = [], t_webhooks = []\<rparr>"

lemma mirrors_new: "mirrors F new_database NewMemory"
  using memory_ok_New by (simp add: mirrors_def new_database_def NewMemory_def gm_range_def slice_at_def)

text \<open>A write that succeeds and leaves a mirroring database.\<close>

definition mirrored :: "sql_format \<Rightarrow> err + database \<Rightarrow> memory \<Rightarrow> bool" where
  "mirrored F r m \<longleftrightarrow> (\<exists>db. r = Inr db \<and> mirrors F db m)"

text \<open>The parts of a composite key that the in-memory store's keys tell apart.\<close>

definition int64_key :: "int \<Rightarrow> bool" where
  "int64_key i \<longleftrightarrow> - (2 ^ 63) < i \<and> i < 2 ^ 63"

lemma int64_keys:
  "int64_key i \<Longrightarrow> int64_key j \<Longrightarrow> cycleKey g i = cycleKey h j \<longleftrightarrow> g = h \<and> i = j"
  "CHR ''|'' \<notin> set g \<Longrightarrow> CHR ''|'' \<notin> set h \<Longrightarrow> int64_key i \<Longrightarrow> int64_key j \<Longrightarrow>
   contribKey g u i = contribKey h v j \<longleftrightarrow> g = h \<and> u = v \<and> i = j"
  by (simp_all add: int64_key_def cycleKey_inject contribKey_inject)

section \<open>Saving keeps the mirror\<close>

text \<open>The new table holds the row of the new entry where the map changed, or at the end of the log.\<close>

lemma saved_ok:
  assumes "kept_under key t" and "\<forall>w \<in> set (gm_range t). P w" and "P v"
  shows "\<forall>w \<in> set (gm_range (gm_set (key v) v t)). P w"
  using assms by (auto simp: gm_range_set)

lemma mirrored_user:
  assumes "mirrors F db m" and "ok_user F u"
    and "r = Inr (map (rf_user F) (gm_range (gm_set (u_ID u) u (users m))))"
  shows "mirrored F (stored_in t_users_update db r) (SaveUser u m)"
  using assms saved_ok [of "u_ID" "users m" "ok_user F" u] memory_ok_ops(1) [of m u]
  by (simp add: mirrors_def mirrored_def memory_ok_def stored_in_def SaveUser_def)

lemma mirrored_group:
  assumes "mirrors F db m" and "ok_group F g"
    and "r = Inr (map (rf_group F) (gm_range (gm_set (g_ID g) g (groups m))))"
  shows "mirrored F (stored_in t_groups_update db r) (SaveGroup g m)"
  using assms saved_ok [of "g_ID" "groups m" "ok_group F" g] memory_ok_ops(2) [of m g]
  by (simp add: mirrors_def mirrored_def memory_ok_def stored_in_def SaveGroup_def)

lemma mirrored_membership:
  assumes "mirrors F db m" and "ok_membership F x"
    and "r = Inr (map (rf_membership F) (gm_range (gm_set (memberKey (m_GroupID x) (m_UserID x)) x (memberships m))))"
  shows "mirrored F (stored_in t_memberships_update db r) (SaveMembership x m)"
  using assms saved_ok [of "\<lambda>x. memberKey (m_GroupID x) (m_UserID x)" "memberships m" "ok_membership F" x] memory_ok_ops(3) [of m x]
  by (simp add: mirrors_def mirrored_def memory_ok_def stored_in_def SaveMembership_def)

lemma mirrored_join_request:
  assumes "mirrors F db m" and "ok_join_request F j"
    and "r = Inr (map (rf_join_request F) (gm_range (gm_set (j_ID j) j (joinRequests m))))"
  shows "mirrored F (stored_in t_join_requests_update db r) (SaveJoinRequest j m)"
  using assms saved_ok [of "j_ID" "joinRequests m" "ok_join_request F" j] memory_ok_ops(4) [of m j]
  by (simp add: mirrors_def mirrored_def memory_ok_def stored_in_def SaveJoinRequest_def)

lemma mirrored_invitation:
  assumes "mirrors F db m" and "ok_invitation F i"
    and "r = Inr (map (rf_invitation F) (gm_range (gm_set (i_ID i) i (invitations m))))"
  shows "mirrored F (stored_in t_invitations_update db r) (SaveInvitation i m)"
  using assms saved_ok [of "i_ID" "invitations m" "ok_invitation F" i] memory_ok_ops(5) [of m i]
  by (simp add: mirrors_def mirrored_def memory_ok_def stored_in_def SaveInvitation_def)

lemma mirrored_cycle:
  assumes "mirrors F db m" and "ok_cycle F c"
    and "r = Inr (map (rf_cycle F) (gm_range (gm_set (cycleKey (c_GroupID c) (c_Index c)) c (cycles m))))"
  shows "mirrored F (stored_in t_cycles_update db r) (SaveCycle c m)"
  using assms saved_ok [of "\<lambda>c. cycleKey (c_GroupID c) (c_Index c)" "cycles m" "ok_cycle F" c] memory_ok_ops(6) [of m c]
  by (simp add: mirrors_def mirrored_def memory_ok_def stored_in_def SaveCycle_def)

lemma mirrored_contribution:
  assumes "mirrors F db m" and "ok_contribution F c"
    and "r = Inr (map (rf_contribution F) (gm_range (gm_set (contribKey (co_GroupID c) (co_UserID c) (co_CycleIndex c)) c (contributions m))))"
  shows "mirrored F (stored_in t_contributions_update db r) (SaveContribution c m)"
  using assms saved_ok [of "\<lambda>c. contribKey (co_GroupID c) (co_UserID c) (co_CycleIndex c)" "contributions m" "ok_contribution F" c] memory_ok_ops(7) [of m c]
  by (simp add: mirrors_def mirrored_def memory_ok_def stored_in_def SaveContribution_def)

lemma mirrored_webhook:
  assumes "mirrors F db m" and "ok_webhook F w"
    and "r = Inr (map (rf_webhook F) (gm_range (gm_set (w_ID w) w (webhooks m))))"
  shows "mirrored F (stored_in t_webhooks_update db r) (SaveWebhook w m)"
  using assms saved_ok [of "w_ID" "webhooks m" "ok_webhook F" w] memory_ok_ops(11) [of m w]
  by (simp add: mirrors_def mirrored_def memory_ok_def stored_in_def SaveWebhook_def)

lemma mirrored_payout:
  assumes "mirrors F db m" and "ok_payout F p" and "r = Inr (map (rf_payout F) (payouts m @ [p]))"
  shows "mirrored F (stored_in t_payouts_update db r) (SavePayout p m)"
  using assms memory_ok_ops(8) [of m p]
  by (simp add: mirrors_def mirrored_def stored_in_def SavePayout_def)

lemma mirrored_escrow:
  assumes "mirrors F db m" and "ok_escrow F e" and "r = Inr (map (rf_escrow F) (escrow m @ [e]))"
  shows "mirrored F (stored_in t_escrow_entries_update db r) (AppendEscrowEntry e m)"
  using assms memory_ok_ops(9) [of m e]
  by (simp add: mirrors_def mirrored_def stored_in_def AppendEscrowEntry_def)

lemma mirrored_audit:
  assumes "mirrors F db m" and "ok_audit F a" and "r = Inr (map (rf_audit F) (audit m @ [a]))"
  shows "mirrored F (stored_in t_audit_update db r) (AppendAudit a m)"
  using assms memory_ok_ops(14) [of m a]
  by (simp add: mirrors_def mirrored_def stored_in_def AppendAudit_def)

text \<open>The log of one owner, when an entry is appended to the common table.\<close>

lemma owned_append:
  assumes "\<forall>k. filter (\<lambda>e. owner e = k) es = slice_at m k"
  shows "filter (\<lambda>e. owner e = k) (es @ [e]) = slice_at (gm_set (owner e) (slice_at m (owner e) @ [e]) m) k"
  using assms by (simp add: slice_at_def gm_get_set)

lemma owned_fresh:
  assumes "\<forall>k. filter (\<lambda>e. owner e = k) es = slice_at m k" and "\<forall>k. x \<notin> f ` set (slice_at m k)"
  shows "x \<notin> f ` set es"
proof
  assume "x \<in> f ` set es"
  then obtain e where "e \<in> set es" "x = f e"
    by auto
  then have "e \<in> set (filter (\<lambda>y. owner y = owner e) es)"
    by simp
  then have "x \<in> f ` set (slice_at m (owner e))"
    using assms(1) \<open>x = f e\<close> by simp
  with assms(2) show False
    by simp
qed

lemma owned_concat:
  assumes "gm_ok m" and "gm_all (\<lambda>k vs. \<forall>v \<in> set vs. owner v = k) m"
  shows "filter (\<lambda>v. owner v = k) (concat (gm_range m)) = slice_at m k"
  using assms
proof (induction m)
  case (Cons kv m)
  obtain k' vs where kv: "kv = (k', vs)"
    by (cases kv)
  have own: "\<forall>v \<in> set vs. owner v = k'"
    using Cons.prems(2) by (simp add: kv gm_all_def gm_get_def split: if_splits)
  have "gm_get m k' = None" and ok: "gm_ok m"
    using Cons.prems(1) by (auto simp: kv gm_ok_def gm_get_def map_of_eq_None_iff)
  moreover have "gm_all (\<lambda>k vs. \<forall>v \<in> set vs. owner v = k) m"
    unfolding gm_all_def
  proof (intro allI impI)
    fix j ws
    assume "gm_get m j = Some ws"
    then have "gm_get (kv # m) j = Some ws"
      using \<open>gm_get m k' = None\<close> by (auto simp: kv gm_get_def)
    with Cons.prems(2) show "\<forall>v \<in> set ws. owner v = j"
      by (rule gm_allD)
  qed
  moreover have "filter (\<lambda>v. owner v = k) vs = (if k = k' then vs else [])"
    using own by (auto simp: filter_empty_conv)
  ultimately show ?case
    using Cons.IH by (auto simp: kv gm_range_def slice_at_def gm_get_def)
qed (simp add: gm_range_def slice_at_def gm_get_def)

text \<open>The common table holds the entries of all owners.\<close>

lemma owned_mset:
  assumes "gm_ok m" and "gm_all (\<lambda>k vs. \<forall>v \<in> set vs. owner v = k) m"
    and "\<forall>k. filter (\<lambda>v. owner v = k) es = slice_at m k"
  shows "mset es = mset (concat (gm_range m))"
proof (rule multiset_eqI)
  fix v
  have "count (mset xs) v = count (mset (filter (\<lambda>w. owner w = owner v) xs)) v" for xs
    by (induction xs) auto
  then show "count (mset es) v = count (mset (concat (gm_range m))) v"
    using assms owned_concat [OF assms(1,2), of "owner v"] by metis
qed

lemma mirrored_reputation:
  assumes "mirrors F db m" and "ok_reputation F e" and "\<forall>u. r_ID e \<notin> r_ID ` set (slice_at (reputation m) u)"
    and r: "\<And>es. t_reputation_events db = map (rf_reputation F) es \<Longrightarrow> r_ID e \<notin> r_ID ` set es \<Longrightarrow> r = Inr (map (rf_reputation F) (es @ [e]))"
  shows "mirrored F (stored_in t_reputation_events_update db r) (AppendReputationEvent e m)"
proof -
  obtain es where es: "t_reputation_events db = map (rf_reputation F) es" "\<forall>v \<in> set es. ok_reputation F v"
    "\<forall>u. filter (\<lambda>v. r_UserID v = u) es = slice_at (reputation m) u"
    using assms(1) by (auto simp: mirrors_def)
  have row: "r = Inr (map (rf_reputation F) (es @ [e]))"
    using r [OF es(1)] owned_fresh [OF es(3) assms(3)] by blast
  have "\<exists>es'. map (rf_reputation F) (es @ [e]) = map (rf_reputation F) es' \<and> (\<forall>v \<in> set es'. ok_reputation F v)
      \<and> (\<forall>u. filter (\<lambda>v. r_UserID v = u) es' = slice_at (reputation (AppendReputationEvent e m)) u)"
    using es(2) assms(2) owned_append [OF es(3), of _ e]
    by (intro exI [of _ "es @ [e]"]) (simp add: AppendReputationEvent_def)
  with assms(1) show ?thesis
    using memory_ok_ops(10) [of m e] unfolding row
    by (simp add: mirrors_def mirrored_def stored_in_def AppendReputationEvent_def)
qed

lemma mirrored_notification:
  assumes "mirrors F db m" and "ok_notification F n" and "\<forall>u. n_ID n \<notin> n_ID ` set (slice_at (notifications m) u)"
    and r: "\<And>es. t_notifications db = map (rf_notification F) es \<Longrightarrow> n_ID n \<notin> n_ID ` set es \<Longrightarrow> r = Inr (map (rf_notification F) (es @ [n]))"
  shows "mirrored F (stored_in t_notifications_update db r) (SaveNotification n m)"
proof -
  obtain es where es: "t_notifications db = map (rf_notification F) es" "\<forall>v \<in> set es. ok_notification F v"
    "\<forall>u. filter (\<lambda>v. n_UserID v = u) es = slice_at (notifications m) u"
    using assms(1) by (auto simp: mirrors_def)
  have row: "r = Inr (map (rf_notification F) (es @ [n]))"
    using r [OF es(1)] owned_fresh [OF es(3) assms(3)] by blast
  have "\<exists>es'. map (rf_notification F) (es @ [n]) = map (rf_notification F) es' \<and> (\<forall>v \<in> set es'. ok_notification F v)
      \<and> (\<forall>u. filter (\<lambda>v. n_UserID v = u) es' = slice_at (notifications (SaveNotification n m)) u)"
    using es(2) assms(2) owned_append [OF es(3), of _ n]
    by (intro exI [of _ "es @ [n]"]) (simp add: SaveNotification_def)
  with assms(1) show ?thesis
    using memory_ok_ops(13) [of m n] unfolding row
    by (simp add: mirrors_def mirrored_def stored_in_def SaveNotification_def)
qed

section \<open>Writes\<close>

text \<open>The methods of \<^verbatim>\<open>store.Store\<close> that change the store.\<close>

datatype store_write =
    WUser user
  | WGroup group
  | WMembership membership
  | WJoinRequest join_request
  | WInvitation invitation
  | WCycle cycle
  | WContribution contribution
  | WPayout payout
  | WEscrow escrow_entry
  | WReputation reputation_event
  | WWebhook webhook
  | WDeleteWebhook string
  | WNotification notification
  | WAudit audit_entry

fun memory_write :: "store_write \<Rightarrow> memory \<Rightarrow> memory" where
  "memory_write (WUser u) m = SaveUser u m"
| "memory_write (WGroup g) m = SaveGroup g m"
| "memory_write (WMembership x) m = SaveMembership x m"
| "memory_write (WJoinRequest j) m = SaveJoinRequest j m"
| "memory_write (WInvitation i) m = SaveInvitation i m"
| "memory_write (WCycle c) m = SaveCycle c m"
| "memory_write (WContribution c) m = SaveContribution c m"
| "memory_write (WPayout p) m = SavePayout p m"
| "memory_write (WEscrow e) m = AppendEscrowEntry e m"
| "memory_write (WReputation e) m = AppendReputationEvent e m"
| "memory_write (WWebhook w) m = SaveWebhook w m"
| "memory_write (WDeleteWebhook k) m = DeleteWebhook k m"
| "memory_write (WNotification n) m = SaveNotification n m"
| "memory_write (WAudit a) m = AppendAudit a m"

definition memory_writes :: "store_write list \<Rightarrow> memory \<Rightarrow> memory" where
  "memory_writes ws m = fold memory_write ws m"

text \<open>
  What the constraints and the columns that are never updated ask of a write: the entity fits, it clashes
  with no other one in a unique column, and it has the creation data of the one stored under its key.
\<close>

fun admissible :: "sql_format \<Rightarrow> memory \<Rightarrow> store_write \<Rightarrow> bool" where
  "admissible F m (WUser u) \<longleftrightarrow> ok_user F u \<and>
     compatible u_ID (\<lambda>u w. u_CreatedAt w = u_CreatedAt u) (\<lambda>u w. u_Email w \<noteq> u_Email u) u (gm_range (users m))"
| "admissible F m (WGroup g) \<longleftrightarrow> ok_group F g \<and>
     compatible g_ID (\<lambda>g h. g_CreatedAt h = g_CreatedAt g) (\<lambda>g h. True) g (gm_range (groups m))"
| "admissible F m (WMembership x) \<longleftrightarrow> ok_membership F x \<and>
     compatible (\<lambda>x. memberKey (m_GroupID x) (m_UserID x)) (\<lambda>x y. m_JoinedAt y = m_JoinedAt x)
       (\<lambda>x y. m_ID y \<noteq> m_ID x) x (gm_range (memberships m))"
| "admissible F m (WJoinRequest j) \<longleftrightarrow> ok_join_request F j \<and>
     compatible j_ID (\<lambda>j k. j_GroupID k = j_GroupID j \<and> j_UserID k = j_UserID j \<and> j_CreatedAt k = j_CreatedAt j)
       (\<lambda>j k. True) j (gm_range (joinRequests m))"
| "admissible F m (WInvitation i) \<longleftrightarrow> ok_invitation F i \<and>
     compatible i_ID (\<lambda>i k. i_GroupID k = i_GroupID i \<and> i_UserID k = i_UserID i \<and> i_InvitedBy k = i_InvitedBy i
       \<and> i_CreatedAt k = i_CreatedAt i) (\<lambda>i k. True) i (gm_range (invitations m))"
| "admissible F m (WCycle c) \<longleftrightarrow> ok_cycle F c"
| "admissible F m (WContribution c) \<longleftrightarrow> ok_contribution F c \<and>
     compatible (\<lambda>c. contribKey (co_GroupID c) (co_UserID c) (co_CycleIndex c)) (\<lambda>c d. True)
       (\<lambda>c d. co_ID d \<noteq> co_ID c) c (gm_range (contributions m))"
| "admissible F m (WPayout p) \<longleftrightarrow> ok_payout F p \<and> po_ID p \<notin> po_ID ` set (payouts m)"
| "admissible F m (WEscrow e) \<longleftrightarrow> ok_escrow F e \<and> e_ID e \<notin> e_ID ` set (escrow m)"
| "admissible F m (WReputation e) \<longleftrightarrow> ok_reputation F e \<and> (\<forall>u. r_ID e \<notin> r_ID ` set (slice_at (reputation m) u))"
| "admissible F m (WWebhook w) \<longleftrightarrow> ok_webhook F w \<and>
     compatible w_ID (\<lambda>w x. w_CreatedBy x = w_CreatedBy w \<and> w_CreatedAt x = w_CreatedAt w) (\<lambda>w x. True)
       w (gm_range (webhooks m))"
| "admissible F m (WDeleteWebhook k) \<longleftrightarrow> True"
| "admissible F m (WNotification n) \<longleftrightarrow>
     ok_notification F n \<and> (\<forall>u. n_ID n \<notin> n_ID ` set (slice_at (notifications m) u))"
| "admissible F m (WAudit a) \<longleftrightarrow> ok_audit F a \<and> a_ID a \<notin> a_ID ` set (audit m)"

fun admissible_writes :: "sql_format \<Rightarrow> memory \<Rightarrow> store_write list \<Rightarrow> bool" where
  "admissible_writes F m [] \<longleftrightarrow> True"
| "admissible_writes F m (w # ws) \<longleftrightarrow> admissible F m w \<and> admissible_writes F (memory_write w m) ws"

section \<open>Reads\<close>

text \<open>The methods of \<^verbatim>\<open>store.Store\<close> that read, at one state of the store.\<close>

record store_reads =
  rd_GetUser :: "string \<Rightarrow> err + user"
  rd_GetUserByEmail :: "string \<Rightarrow> err + user"
  rd_ListUsers :: "page \<Rightarrow> err + user list \<times> int"
  rd_ListUsersByKYC :: "kyc_status \<Rightarrow> err + user list"
  rd_GetGroup :: "string \<Rightarrow> err + group"
  rd_ListGroups :: "page \<Rightarrow> err + group list \<times> int"
  rd_GetMembership :: "string \<Rightarrow> string \<Rightarrow> err + membership"
  rd_ListMembershipsByGroup :: "string \<Rightarrow> err + membership list"
  rd_ListMembershipsByUser :: "string \<Rightarrow> err + membership list"
  rd_GetJoinRequest :: "string \<Rightarrow> err + join_request"
  rd_ListJoinRequestsByGroup :: "string \<Rightarrow> err + join_request list"
  rd_GetInvitation :: "string \<Rightarrow> err + invitation"
  rd_ListInvitationsByUser :: "string \<Rightarrow> err + invitation list"
  rd_GetCycle :: "string \<Rightarrow> int \<Rightarrow> err + cycle"
  rd_ListCyclesByGroup :: "string \<Rightarrow> err + cycle list"
  rd_GetContribution :: "string \<Rightarrow> string \<Rightarrow> int \<Rightarrow> err + contribution"
  rd_ListContributionsByCycle :: "string \<Rightarrow> int \<Rightarrow> err + contribution list"
  rd_ListPayoutsByGroup :: "string \<Rightarrow> err + payout list"
  rd_ListEscrowByGroup :: "string \<Rightarrow> err + escrow_entry list"
  rd_ReputationEvents :: "string \<Rightarrow> err + reputation_event list"
  rd_AllReputationEvents :: "page \<Rightarrow> err + reputation_event list \<times> int"
  rd_GetWebhook :: "string \<Rightarrow> err + webhook"
  rd_ListWebhooks :: "err + webhook list"
  rd_ListNotificationsByUser :: "string \<Rightarrow> err + notification list"
  rd_ListAudit :: "page \<Rightarrow> err + audit_entry list \<times> int"

text \<open>The same entities, in whatever order the statement puts them.\<close>

definition same_rows :: "err + 'a list \<Rightarrow> 'a list \<Rightarrow> bool" where
  "same_rows r xs \<longleftrightarrow> (\<exists>ys. r = Inr ys \<and> mset ys = mset xs)"

text \<open>
  What a store answers, next to the in-memory store. The composite keys of the in-memory store are read for group identifiers
  without the separator, and for the indices \<open>idx\<close> the two stores both take.
\<close>

definition same_lookups :: "(int \<Rightarrow> bool) \<Rightarrow> store_reads \<Rightarrow> memory \<Rightarrow> bool" where
  "same_lookups idx R m \<longleftrightarrow>
     (\<forall>k. rd_GetUser R k = GetUser m k) \<and> (\<forall>e. rd_GetUserByEmail R e = GetUserByEmail m e)
     \<and> (\<forall>k. rd_GetGroup R k = GetGroup m k)
     \<and> (\<forall>g u. CHR ''|'' \<notin> set g \<longrightarrow> rd_GetMembership R g u = GetMembership m g u)
     \<and> (\<forall>k. rd_GetJoinRequest R k = GetJoinRequest m k)
     \<and> (\<forall>k. rd_GetInvitation R k = GetInvitation m k)
     \<and> (\<forall>g i. idx i \<longrightarrow> rd_GetCycle R g i = GetCycle m g i)
     \<and> (\<forall>g u i. CHR ''|'' \<notin> set g \<longrightarrow> idx i \<longrightarrow> rd_GetContribution R g u i = GetContribution m g u i)
     \<and> (\<forall>k. rd_GetWebhook R k = GetWebhook m k)"

definition same_listings :: "(int \<Rightarrow> bool) \<Rightarrow> store_reads \<Rightarrow> memory \<Rightarrow> bool" where
  "same_listings idx R m \<longleftrightarrow>
     (\<forall>u. same_rows (rd_ListMembershipsByUser R u) (ListMembershipsByUser m u))
     \<and> (\<forall>g. rd_ListCyclesByGroup R g = Inr (ListCyclesByGroup m g))
     \<and> (\<forall>g i. idx i \<longrightarrow> same_rows (rd_ListContributionsByCycle R g i) (ListContributionsByCycle m g i))
     \<and> (\<forall>k. same_rows (rd_ListUsersByKYC R k) (ListUsersByKYC m k))
     \<and> (\<forall>g. same_rows (rd_ListMembershipsByGroup R g) (ListMembershipsByGroup m g))
     \<and> (\<forall>g. same_rows (rd_ListJoinRequestsByGroup R g) (ListJoinRequestsByGroup m g))
     \<and> (\<forall>u. same_rows (rd_ListInvitationsByUser R u) (ListInvitationsByUser m u))
     \<and> (\<forall>g. same_rows (rd_ListPayoutsByGroup R g) (ListPayoutsByGroup m g))
     \<and> (\<forall>g. same_rows (rd_ListEscrowByGroup R g) (ListEscrowByGroup m g))
     \<and> (\<forall>u. same_rows (rd_ReputationEvents R u) (ReputationEvents m u))
     \<and> (\<forall>u. same_rows (rd_ListNotificationsByUser R u) (ListNotificationsByUser m u))
     \<and> same_rows (rd_ListWebhooks R) (ListWebhooks m)"

lemma same_lookups_mono: "same_lookups idx R m \<Longrightarrow> (\<And>i. idx' i \<Longrightarrow> idx i) \<Longrightarrow> same_lookups idx' R m"
  by (simp add: same_lookups_def)

lemma same_listings_mono: "same_listings idx R m \<Longrightarrow> (\<And>i. idx' i \<Longrightarrow> idx i) \<Longrightarrow> same_listings idx' R m"
  by (simp add: same_listings_def)

text \<open>
  Every page is the part of one list \<open>ys\<close> that its offset and its limit, 50 when it is not positive, name,
  and comes with the same total as in memory. (The pages of the in-memory store all start at the front.)
\<close>

definition paged :: "(page \<Rightarrow> err + 'a list \<times> int) \<Rightarrow> (page \<Rightarrow> 'a list \<times> int) \<Rightarrow> 'a list \<Rightarrow> bool" where
  "paged rd mem ys \<longleftrightarrow> (\<forall>p. 0 \<le> p_Offset p \<longrightarrow>
     rd p = Inr (take (nat (if p_Limit p \<le> 0 then 50 else p_Limit p)) (drop (nat (p_Offset p)) ys), snd (mem p)))"

definition same_pages :: "store_reads \<Rightarrow> memory \<Rightarrow> bool" where
  "same_pages R m \<longleftrightarrow>
     (\<exists>ys. mset ys = mset (gm_range (users m)) \<and> paged (rd_ListUsers R) (ListUsers m) ys)
     \<and> (\<exists>ys. mset ys = mset (gm_range (groups m)) \<and> paged (rd_ListGroups R) (ListGroups m) ys)
     \<and> (\<exists>ys. mset ys = mset (concat (gm_range (reputation m))) \<and> paged (rd_AllReputationEvents R) (AllReputationEvents m) ys)
     \<and> (\<exists>ys. mset ys = mset (audit m) \<and> paged (rd_ListAudit R) (ListAudit m) ys)"

text \<open>The SELECT statements of the two SQL stores, and what a statement refused by the database answers.\<close>

definition unless_refused :: "err option \<Rightarrow> err + 'a \<Rightarrow> err + 'a" where
  "unless_refused e r = (case e of None \<Rightarrow> r | Some x \<Rightarrow> Inl x)"

lemma unless_refused_None [simp]: "unless_refused None r = r"
  by (simp add: unless_refused_def)

definition sql_page :: "sql_format \<Rightarrow> (row \<Rightarrow> err + 'a) \<Rightarrow> nat \<Rightarrow> row list \<Rightarrow> page \<Rightarrow> err + 'a list \<times> int" where
  "sql_page F scan n t p = unless_refused (refuse_offset F (p_Offset p))
     (counted n (scan_rows scan (limit_offset (if p_Limit p \<le> 0 then 50 else p_Limit p) (p_Offset p) t)))"

definition sql_reads :: "sql_format \<Rightarrow> database \<Rightarrow> store_reads" where
  "sql_reads F db = \<lparr>
     rd_GetUser = (\<lambda>id'. query_row (sc_user F) (text_is ''id'' id') (t_users db)),
     rd_GetUserByEmail = (\<lambda>email. query_row (sc_user F) (text_is ''email'' email) (t_users db)),
     rd_ListUsers = sql_page F (sc_user F) (length (t_users db)) (order_by ''created_at'' (t_users db)),
     rd_ListUsersByKYC = (\<lambda>status. scan_rows (sc_user F) (order_by ''created_at'' (filter (text_is
       ''kyc_status'' (kyc_status_string status)) (t_users db)))),
     rd_GetGroup = (\<lambda>id'. query_row (sc_group F) (text_is ''id'' id') (t_groups db)),
     rd_ListGroups = sql_page F (sc_group F) (length (t_groups db)) (order_by ''created_at'' (t_groups db)),
     rd_GetMembership = (\<lambda>groupID userID. query_row (sc_membership F) (\<lambda>r. text_is
       ''group_id'' groupID r \<and> text_is ''user_id'' userID r) (t_memberships db)),
     rd_ListMembershipsByGroup = (\<lambda>groupID. scan_rows (sc_membership F) (order_by ''joined_at''
       (filter (text_is ''group_id'' groupID) (t_memberships db)))),
     rd_ListMembershipsByUser = (\<lambda>userID. scan_rows (sc_membership F) (filter (text_is ''user_id''
       userID) (t_memberships db))),
     rd_GetJoinRequest = (\<lambda>id'. query_row (sc_join_request F) (text_is ''id'' id') (t_join_requests
       db)),
     rd_ListJoinRequestsByGroup = (\<lambda>groupID. scan_rows (sc_join_request F) (order_by ''created_at''
       (filter (text_is ''group_id'' groupID) (t_join_requests db)))),
     rd_GetInvitation = (\<lambda>id'. query_row (sc_invitation F) (text_is ''id'' id') (t_invitations db)),
     rd_ListInvitationsByUser = (\<lambda>userID. scan_rows (sc_invitation F) (order_by ''created_at''
       (filter (text_is ''user_id'' userID) (t_invitations db)))),
     rd_GetCycle = (\<lambda>groupID index. unless_refused (refuse_index F index) (query_row (sc_cycle F)
       (\<lambda>r. text_is ''group_id'' groupID r \<and> int_is ''idx'' index r) (t_cycles db))),
     rd_ListCyclesByGroup = (\<lambda>groupID. scan_rows (sc_cycle F) (order_by ''idx'' (filter (text_is
       ''group_id'' groupID) (t_cycles db)))),
     rd_GetContribution = (\<lambda>groupID userID cyc. unless_refused (refuse_index F cyc) (query_row (sc_contribution F)
       (\<lambda>r. text_is ''group_id'' groupID r \<and> text_is ''user_id'' userID r \<and> int_is ''cycle_index'' cyc r)
       (t_contributions db))),
     rd_ListContributionsByCycle = (\<lambda>groupID cyc. unless_refused (refuse_index F cyc) (scan_rows (sc_contribution F)
       (filter (\<lambda>r. text_is ''group_id'' groupID r \<and> int_is ''cycle_index'' cyc r) (t_contributions db)))),
     rd_ListPayoutsByGroup = (\<lambda>groupID. scan_rows (sc_payout F) (order_by ''cycle_index'' (filter
       (text_is ''group_id'' groupID) (t_payouts db)))),
     rd_ListEscrowByGroup = (\<lambda>groupID. scan_rows (sc_escrow F) (order_by ''created_at'' (filter
       (text_is ''group_id'' groupID) (t_escrow_entries db)))),
     rd_ReputationEvents = (\<lambda>userID. scan_rows (sc_reputation F) (order_by ''timestamp'' (filter
       (text_is ''user_id'' userID) (t_reputation_events db)))),
     rd_AllReputationEvents = sql_page F (sc_reputation F) (length (t_reputation_events db))
       (order_by_desc ''timestamp'' (t_reputation_events db)),
     rd_GetWebhook = (\<lambda>id'. query_row (sc_webhook F) (text_is ''id'' id') (t_webhooks db)),
     rd_ListWebhooks = scan_rows (sc_webhook F) (order_by ''created_at'' (t_webhooks db)),
     rd_ListNotificationsByUser = (\<lambda>userID. scan_rows (sc_notification F) (order_by ''created_at''
       (filter (text_is ''user_id'' userID) (t_notifications db)))),
     rd_ListAudit = sql_page F (sc_audit F) (length (t_audit db)) (order_by_desc ''created_at'' (t_audit db))\<rparr>"

section \<open>Laws of a format\<close>

text \<open>
  Every entity that fits is read back from its row, and the columns the statements look at hold what the
  name says.
\<close>

locale sql_format_laws =
  fixes F :: sql_format
  assumes codecs:
      "\<And>v. ok_user F v \<Longrightarrow> sc_user F (rf_user F v) = Inr v"
      "\<And>v. ok_group F v \<Longrightarrow> sc_group F (rf_group F v) = Inr v"
      "\<And>v. ok_membership F v \<Longrightarrow> sc_membership F (rf_membership F v) = Inr v"
      "\<And>v. ok_join_request F v \<Longrightarrow> sc_join_request F (rf_join_request F v) = Inr v"
      "\<And>v. ok_invitation F v \<Longrightarrow> sc_invitation F (rf_invitation F v) = Inr v"
      "\<And>v. ok_cycle F v \<Longrightarrow> sc_cycle F (rf_cycle F v) = Inr v"
      "\<And>v. ok_contribution F v \<Longrightarrow> sc_contribution F (rf_contribution F v) = Inr v"
      "\<And>v. ok_webhook F v \<Longrightarrow> sc_webhook F (rf_webhook F v) = Inr v"
      "\<And>v. ok_payout F v \<Longrightarrow> sc_payout F (rf_payout F v) = Inr v"
      "\<And>v. ok_escrow F v \<Longrightarrow> sc_escrow F (rf_escrow F v) = Inr v"
      "\<And>v. ok_audit F v \<Longrightarrow> sc_audit F (rf_audit F v) = Inr v"
      "\<And>v. ok_reputation F v \<Longrightarrow> sc_reputation F (rf_reputation F v) = Inr v"
      "\<And>v. ok_notification F v \<Longrightarrow> sc_notification F (rf_notification F v) = Inr v"
    and columns:
      "\<And>u. rf_user F u ''id'' = Some (SText (u_ID u))"
      "\<And>u. rf_user F u ''email'' = Some (SText (u_Email u))"
      "\<And>u. rf_user F u ''kyc_status'' = Some (SText (kyc_status_string (u_KYCStatus u)))"
      "\<And>g. rf_group F g ''id'' = Some (SText (g_ID g))"
      "\<And>x. rf_membership F x ''group_id'' = Some (SText (m_GroupID x))"
      "\<And>x. rf_membership F x ''user_id'' = Some (SText (m_UserID x))"
      "\<And>j. rf_join_request F j ''id'' = Some (SText (j_ID j))"
      "\<And>j. rf_join_request F j ''group_id'' = Some (SText (j_GroupID j))"
      "\<And>i. rf_invitation F i ''id'' = Some (SText (i_ID i))"
      "\<And>i. rf_invitation F i ''user_id'' = Some (SText (i_UserID i))"
      "\<And>c. rf_cycle F c ''group_id'' = Some (SText (c_GroupID c))"
      "\<And>c. rf_cycle F c ''idx'' = Some (SInt (c_Index c))"
      "\<And>c. rf_contribution F c ''group_id'' = Some (SText (co_GroupID c))"
      "\<And>c. rf_contribution F c ''user_id'' = Some (SText (co_UserID c))"
      "\<And>c. rf_contribution F c ''cycle_index'' = Some (SInt (co_CycleIndex c))"
      "\<And>w. rf_webhook F w ''id'' = Some (SText (w_ID w))"
      "\<And>p. rf_payout F p ''id'' = Some (SText (po_ID p))"
      "\<And>p. rf_payout F p ''group_id'' = Some (SText (po_GroupID p))"
      "\<And>e. rf_escrow F e ''id'' = Some (SText (e_ID e))"
      "\<And>e. rf_escrow F e ''group_id'' = Some (SText (e_GroupID e))"
      "\<And>a. rf_audit F a ''id'' = Some (SText (a_ID a))"
      "\<And>e. rf_reputation F e ''id'' = Some (SText (r_ID e))"
      "\<And>e. rf_reputation F e ''user_id'' = Some (SText (r_UserID e))"
      "\<And>n. rf_notification F n ''id'' = Some (SText (n_ID n))"
      "\<And>n. rf_notification F n ''user_id'' = Some (SText (n_UserID n))"
    and keys:
      "\<And>x. ok_membership F x \<Longrightarrow> CHR ''|'' \<notin> set (m_GroupID x)"
      "\<And>c. ok_cycle F c \<Longrightarrow> int64_key (c_Index c)"
      "\<And>c. ok_contribution F c \<Longrightarrow> CHR ''|'' \<notin> set (co_GroupID c) \<and> int64_key (co_CycleIndex c)"
    and offsets: "\<And>i. 0 \<le> i \<Longrightarrow> refuse_offset F i = None"

sublocale sql_format_laws \<subseteq> user: sql_codec "rf_user F" "sc_user F" "ok_user F"
  by unfold_locales (rule codecs(1))

sublocale sql_format_laws \<subseteq> group: sql_codec "rf_group F" "sc_group F" "ok_group F"
  by unfold_locales (rule codecs(2))

sublocale sql_format_laws \<subseteq> membership: sql_codec "rf_membership F" "sc_membership F" "ok_membership F"
  by unfold_locales (rule codecs(3))

sublocale sql_format_laws \<subseteq> join_request: sql_codec "rf_join_request F" "sc_join_request F" "ok_join_request F"
  by unfold_locales (rule codecs(4))

sublocale sql_format_laws \<subseteq> invitation: sql_codec "rf_invitation F" "sc_invitation F" "ok_invitation F"
  by unfold_locales (rule codecs(5))

sublocale sql_format_laws \<subseteq> cycle: sql_codec "rf_cycle F" "sc_cycle F" "ok_cycle F"
  by unfold_locales (rule codecs(6))

sublocale sql_format_laws \<subseteq> contribution: sql_codec "rf_contribution F" "sc_contribution F" "ok_contribution F"
  by unfold_locales (rule codecs(7))

sublocale sql_format_laws \<subseteq> webhook: sql_codec "rf_webhook F" "sc_webhook F" "ok_webhook F"
  by unfold_locales (rule codecs(8))

sublocale sql_format_laws \<subseteq> payout: sql_codec "rf_payout F" "sc_payout F" "ok_payout F"
  by unfold_locales (rule codecs(9))

sublocale sql_format_laws \<subseteq> escrow: sql_codec "rf_escrow F" "sc_escrow F" "ok_escrow F"
  by unfold_locales (rule codecs(10))

sublocale sql_format_laws \<subseteq> audit: sql_codec "rf_audit F" "sc_audit F" "ok_audit F"
  by unfold_locales (rule codecs(11))

sublocale sql_format_laws \<subseteq> reputation: sql_codec "rf_reputation F" "sc_reputation F" "ok_reputation F"
  by unfold_locales (rule codecs(12))

sublocale sql_format_laws \<subseteq> notification: sql_codec "rf_notification F" "sc_notification F" "ok_notification F"
  by unfold_locales (rule codecs(13))

context sql_format_laws
begin

lemma mirrored_delete:
  assumes "mirrors F db m"
  shows "mirrored F (Inr (db\<lparr>t_webhooks := sql_delete (text_is ''id'' k) (t_webhooks db)\<rparr>)) (DeleteWebhook k m)"
proof -
  have kept: "kept_under w_ID (webhooks m)"
    using assms by (simp add: mirrors_def memory_ok_def)
  have "sql_delete (text_is ''id'' k) (map (rf_webhook F) (gm_range (webhooks m)))
      = map (rf_webhook F) (gm_range (gm_delete k (webhooks m)))"
    by (simp add: sql_delete_def filter_map comp_def gm_range_delete [OF kept] column_tests columns)
  then show ?thesis
    using assms memory_ok_ops(12) [of m k]
    by (simp add: mirrors_def mirrored_def DeleteWebhook_def gm_range_delete [OF kept])
qed

lemma mirrors_lookups:
  assumes m: "mirrors F db m"
  shows "same_lookups (\<lambda>i. int64_key i \<and> refuse_index F i = None) (sql_reads F db) m"
  unfolding same_lookups_def
proof (intro conjI allI impI)
  note M = m [unfolded mirrors_def memory_ok_def]
  show "rd_GetUser (sql_reads F db) k = GetUser m k" for k
    unfolding sql_reads_def GetUser_def using M
    by (simp add: user.lookup_row [where key = u_ID and k = k] column_tests columns)
  show "rd_GetUserByEmail (sql_reads F db) e = GetUserByEmail m e" for e
    unfolding sql_reads_def GetUserByEmail_def using M
    by (simp add: user.find_row [where Q = "\<lambda>u. u_Email u = e"] column_tests columns)
  show "rd_GetGroup (sql_reads F db) k = GetGroup m k" for k
    unfolding sql_reads_def GetGroup_def using M
    by (simp add: group.lookup_row [where key = g_ID and k = k] column_tests columns)
  show "rd_GetMembership (sql_reads F db) g u = GetMembership m g u" if "CHR ''|'' \<notin> set g" for g u
    unfolding sql_reads_def GetMembership_def using M that
    by (simp add: membership.lookup_row [where key = "\<lambda>x. memberKey (m_GroupID x) (m_UserID x)" and k = "memberKey g u"] column_tests columns memberKey_inject keys)
  show "rd_GetJoinRequest (sql_reads F db) k = GetJoinRequest m k" for k
    unfolding sql_reads_def GetJoinRequest_def using M
    by (simp add: join_request.lookup_row [where key = j_ID and k = k] column_tests columns)
  show "rd_GetInvitation (sql_reads F db) k = GetInvitation m k" for k
    unfolding sql_reads_def GetInvitation_def using M
    by (simp add: invitation.lookup_row [where key = i_ID and k = k] column_tests columns)
  show "rd_GetCycle (sql_reads F db) g i = GetCycle m g i" if "int64_key i \<and> refuse_index F i = None" for g i
    unfolding sql_reads_def GetCycle_def using M that
    by (simp add: cycle.lookup_row [where key = "\<lambda>c. cycleKey (c_GroupID c) (c_Index c)" and k = "cycleKey g i"] column_tests columns
        int64_keys keys)
  show "rd_GetContribution (sql_reads F db) g u i = GetContribution m g u i" if "CHR ''|'' \<notin> set g" "int64_key i \<and> refuse_index F i = None" for g u i
    unfolding sql_reads_def GetContribution_def using M that
    by (simp add: contribution.lookup_row [where key = "\<lambda>c. contribKey (co_GroupID c) (co_UserID c) (co_CycleIndex c)" and k = "contribKey g u i"] column_tests columns int64_keys keys)
  show "rd_GetWebhook (sql_reads F db) k = GetWebhook m k" for k
    unfolding sql_reads_def GetWebhook_def using M
    by (simp add: webhook.lookup_row [where key = w_ID and k = k] column_tests columns)
qed

lemma mirrors_listings:
  assumes m: "mirrors F db m"
  shows "same_listings (\<lambda>i. refuse_index F i = None) (sql_reads F db) m"
  unfolding same_listings_def
proof (intro conjI allI impI)
  note M = m [unfolded mirrors_def memory_ok_def]
  show "same_rows (rd_ListMembershipsByUser (sql_reads F db) u) (ListMembershipsByUser m u)" for u
    unfolding sql_reads_def ListMembershipsByUser_def same_rows_def using M
    by (simp add: membership.select_rows [where Q = "\<lambda>x. m_UserID x = u"] column_tests columns)
  show "rd_ListCyclesByGroup (sql_reads F db) g = Inr (ListCyclesByGroup m g)" for g
    unfolding sql_reads_def ListCyclesByGroup_def using M
    by (simp add: cycle.select_ordered [where Q = "\<lambda>c. c_GroupID c = g" and f = c_Index] column_tests columns)
  show "same_rows (rd_ListContributionsByCycle (sql_reads F db) g i) (ListContributionsByCycle m g i)" if "refuse_index F i = None" for g i
    unfolding sql_reads_def ListContributionsByCycle_def same_rows_def using M that
    by (simp add: contribution.select_rows [where Q = "\<lambda>c. co_GroupID c = g \<and> co_CycleIndex c = i"]
        column_tests columns)
  show "same_rows (rd_ListUsersByKYC (sql_reads F db) k) (ListUsersByKYC m k)" for k
    unfolding sql_reads_def ListUsersByKYC_def same_rows_def using M
      user.select_any_order [of "gm_range (users m)" "text_is ''kyc_status'' (kyc_status_string k)"
        "\<lambda>u. u_KYCStatus u = k" "''created_at''"]
    by (simp add: column_tests columns)
  show "same_rows (rd_ListMembershipsByGroup (sql_reads F db) g) (ListMembershipsByGroup m g)" for g
    unfolding sql_reads_def ListMembershipsByGroup_def same_rows_def using M
      membership.select_any_order [of "gm_range (memberships m)" "text_is ''group_id'' g"
        "\<lambda>x. m_GroupID x = g" "''joined_at''"]
    by (simp add: column_tests columns)
  show "same_rows (rd_ListJoinRequestsByGroup (sql_reads F db) g) (ListJoinRequestsByGroup m g)" for g
    unfolding sql_reads_def ListJoinRequestsByGroup_def same_rows_def using M
      join_request.select_any_order [of "gm_range (joinRequests m)" "text_is ''group_id'' g"
        "\<lambda>x. j_GroupID x = g" "''created_at''"]
    by (simp add: column_tests columns)
  show "same_rows (rd_ListInvitationsByUser (sql_reads F db) u) (ListInvitationsByUser m u)" for u
    unfolding sql_reads_def ListInvitationsByUser_def same_rows_def using M
      invitation.select_any_order [of "gm_range (invitations m)" "text_is ''user_id'' u"
        "\<lambda>x. i_UserID x = u" "''created_at''"]
    by (simp add: column_tests columns)
  show "same_rows (rd_ListPayoutsByGroup (sql_reads F db) g) (ListPayoutsByGroup m g)" for g
    unfolding sql_reads_def ListPayoutsByGroup_def same_rows_def using M
      payout.select_any_order [of "payouts m" "text_is ''group_id'' g" "\<lambda>x. po_GroupID x = g" "''cycle_index''"]
    by (simp add: column_tests columns)
  show "same_rows (rd_ListEscrowByGroup (sql_reads F db) g) (ListEscrowByGroup m g)" for g
    unfolding sql_reads_def ListEscrowByGroup_def same_rows_def using M
      escrow.select_any_order [of "escrow m" "text_is ''group_id'' g" "\<lambda>x. e_GroupID x = g" "''created_at''"]
    by (simp add: column_tests columns)
  show "same_rows (rd_ReputationEvents (sql_reads F db) u) (ReputationEvents m u)" for u
  proof -
    obtain es where es: "t_reputation_events db = map (rf_reputation F) es" "\<forall>e \<in> set es. ok_reputation F e"
      "filter (\<lambda>e. r_UserID e = u) es = slice_at (reputation m) u"
      using m by (auto simp: mirrors_def)
    then show ?thesis
      unfolding sql_reads_def ReputationEvents_def same_rows_def
      using reputation.select_any_order [of es "text_is ''user_id'' u" "\<lambda>e. r_UserID e = u" "''timestamp''"]
      by (simp add: column_tests columns)
  qed
  show "same_rows (rd_ListNotificationsByUser (sql_reads F db) u) (ListNotificationsByUser m u)" for u
  proof -
    obtain ns where ns: "t_notifications db = map (rf_notification F) ns" "\<forall>n \<in> set ns. ok_notification F n"
      "filter (\<lambda>n. n_UserID n = u) ns = slice_at (notifications m) u"
      using m by (auto simp: mirrors_def)
    then show ?thesis
      unfolding sql_reads_def ListNotificationsByUser_def same_rows_def
      using notification.select_any_order [of ns "text_is ''user_id'' u" "\<lambda>n. n_UserID n = u" "''created_at''"]
      by (simp add: column_tests columns)
  qed
  show "same_rows (rd_ListWebhooks (sql_reads F db)) (ListWebhooks m)"
    unfolding sql_reads_def ListWebhooks_def same_rows_def using M
      webhook.select_any_order [of "gm_range (webhooks m)" "\<lambda>r. True" "\<lambda>w. True" "''created_at''"]
    by simp
qed

text \<open>The list a paged statement reads from, by the values of the column it is ordered by.\<close>

lemma mirrors_paged:
  assumes m: "mirrors F db m"
  shows "paged (rd_ListUsers (sql_reads F db)) (ListUsers m)
      (sort_key (column ''created_at'' \<circ> rf_user F) (gm_range (users m)))"
    and "paged (rd_ListGroups (sql_reads F db)) (ListGroups m)
      (sort_key (column ''created_at'' \<circ> rf_group F) (gm_range (groups m)))"
    and "paged (rd_ListAudit (sql_reads F db)) (ListAudit m)
      (rev (sort_key (column ''created_at'' \<circ> rf_audit F) (rev (audit m))))"
    and "\<exists>es. mset es = mset (concat (gm_range (reputation m))) \<and> (\<forall>e \<in> set es. ok_reputation F e)
      \<and> paged (rd_AllReputationEvents (sql_reads F db)) (AllReputationEvents m)
          (rev (sort_key (column ''timestamp'' \<circ> rf_reputation F) (rev es)))"
proof -
  note M = m [unfolded mirrors_def memory_ok_def]
  show "paged (rd_ListUsers (sql_reads F db)) (ListUsers m)
      (sort_key (column ''created_at'' \<circ> rf_user F) (gm_range (users m)))"
    using M by (simp add: paged_def sql_reads_def sql_page_def offsets user.page_ordered [unfolded limit_offset_def] ListUsers_def Let_def limit_offset_def)
  show "paged (rd_ListGroups (sql_reads F db)) (ListGroups m)
      (sort_key (column ''created_at'' \<circ> rf_group F) (gm_range (groups m)))"
    using M by (simp add: paged_def sql_reads_def sql_page_def offsets group.page_ordered [unfolded limit_offset_def] ListGroups_def Let_def limit_offset_def)
  show "paged (rd_ListAudit (sql_reads F db)) (ListAudit m)
      (rev (sort_key (column ''created_at'' \<circ> rf_audit F) (rev (audit m))))"
    using M by (simp add: paged_def sql_reads_def sql_page_def offsets audit.page_ordered [unfolded limit_offset_def] ListAudit_def Let_def limit_offset_def)
  obtain es where es: "t_reputation_events db = map (rf_reputation F) es" "\<forall>e \<in> set es. ok_reputation F e"
    "\<forall>u. filter (\<lambda>e. r_UserID e = u) es = slice_at (reputation m) u"
    using m by (auto simp: mirrors_def)
  then have all: "mset es = mset (concat (gm_range (reputation m)))"
    using M by (intro owned_mset [where owner = r_UserID]) simp_all
  then have "length es = length (concat (gm_range (reputation m)))"
    by (rule mset_eq_length)
  with es(1,2) have "paged (rd_AllReputationEvents (sql_reads F db)) (AllReputationEvents m)
      (rev (sort_key (column ''timestamp'' \<circ> rf_reputation F) (rev es)))"
    by (simp add: paged_def sql_reads_def sql_page_def offsets reputation.page_ordered [unfolded limit_offset_def] AllReputationEvents_def Let_def limit_offset_def)
  with all es(2) show "\<exists>es. mset es = mset (concat (gm_range (reputation m))) \<and> (\<forall>e \<in> set es. ok_reputation F e)
      \<and> paged (rd_AllReputationEvents (sql_reads F db)) (AllReputationEvents m)
          (rev (sort_key (column ''timestamp'' \<circ> rf_reputation F) (rev es)))"
    by blast
qed

lemma mirrors_pages:
  assumes m: "mirrors F db m"
  shows "same_pages (sql_reads F db) m"
  unfolding same_pages_def
proof (intro conjI)
  show "\<exists>ys. mset ys = mset (gm_range (users m)) \<and> paged (rd_ListUsers (sql_reads F db)) (ListUsers m) ys"
    by (rule exI, rule conjI [rotated], rule mirrors_paged(1) [OF m], simp)
  show "\<exists>ys. mset ys = mset (gm_range (groups m)) \<and> paged (rd_ListGroups (sql_reads F db)) (ListGroups m) ys"
    by (rule exI, rule conjI [rotated], rule mirrors_paged(2) [OF m], simp)
  show "\<exists>ys. mset ys = mset (audit m) \<and> paged (rd_ListAudit (sql_reads F db)) (ListAudit m) ys"
    by (rule exI, rule conjI [rotated], rule mirrors_paged(3) [OF m], simp)
  obtain es where es: "mset es = mset (concat (gm_range (reputation m)))"
    and "paged (rd_AllReputationEvents (sql_reads F db)) (AllReputationEvents m)
      (rev (sort_key (column ''timestamp'' \<circ> rf_reputation F) (rev es)))"
    using mirrors_paged(4) [OF m] by blast
  moreover have "mset (rev (sort_key (column ''timestamp'' \<circ> rf_reputation F) (rev es))) = mset (concat (gm_range (reputation m)))"
    unfolding es [symmetric] by simp
  ultimately show "\<exists>ys. mset ys = mset (concat (gm_range (reputation m)))
      \<and> paged (rd_AllReputationEvents (sql_reads F db)) (AllReputationEvents m) ys"
    by blast
qed

end

end
