(* ===== verification/Pg_Rows.thy ===== *)
theory Pg_Rows
  imports Store_Mirror
begin

text \<open>
  \<^verbatim>\<open>internal/store/pgstore/pgstore.go\<close>, the row of each entity: the argument list of the
  \<^verbatim>\<open>INSERT\<close> and the \<^verbatim>\<open>Scan\<close> that reads it back. Booleans and arrays are native; a
  \<^verbatim>\<open>TIMESTAMPTZ\<close> keeps microseconds, so the driver drops the last three digits of a time. What it
  sends for a nil slice is the argument \<open>nilv\<close>; an empty slice stands for nil, since the fields
  that can be empty are never allocated. Texts are valid UTF-8 without the byte 0.
\<close>

section \<open>Helpers\<close>

definition micros :: "time \<Rightarrow> int" where
  "micros t = t div 1000"

definition from_micros :: "int \<Rightarrow> time" where
  "from_micros i = 1000 * i"

definition nt :: "time option \<Rightarrow> sqlval" where
  "nt t = (case t of None \<Rightarrow> SNull | Some x \<Rightarrow> STime (micros x))"

definition pg_texts :: "sqlval \<Rightarrow> string list \<Rightarrow> sqlval" where
  "pg_texts nilv ss = (if ss = [] then nilv else STexts ss)"

definition pg_limit :: "page \<Rightarrow> int" where
  "pg_limit p = (if p_Limit p \<le> 0 then 50 else p_Limit p)"

section \<open>Rows\<close>

text \<open>Users.\<close>

definition pg_user_cols :: "string list" where
  "pg_user_cols =
     [''id'', ''email'', ''display_name'', ''wallet_address'', ''identity_commitment'', ''kyc_provider'',
      ''kyc_status'', ''role'', ''status'', ''password_hash'', ''created_at'', ''updated_at'']"

definition pg_user_row :: "user \<Rightarrow> row" where
  "pg_user_row u = row_of pg_user_cols
     [SText (u_ID u), SText (u_Email u), SText (u_DisplayName u), SText (u_WalletAddress u),
      SText (u_IdentityCommitment u), SText (u_KYCProvider u), SText (kyc_status_string (u_KYCStatus u)),
      SText (role_string (u_Role u)), SText (user_status_string (u_Status u)), SText (u_PasswordHash u),
      STime (micros (u_CreatedAt u)), STime (micros (u_UpdatedAt u))]"

definition pg_scan_user :: "row \<Rightarrow> err + user" where
  "pg_scan_user r = scanned (do {
       id' \<leftarrow> text_at r ''id'';
       email \<leftarrow> text_at r ''email'';
       display_name \<leftarrow> text_at r ''display_name'';
       wallet_address \<leftarrow> text_at r ''wallet_address'';
       identity_commitment \<leftarrow> text_at r ''identity_commitment'';
       kyc_provider \<leftarrow> text_at r ''kyc_provider'';
       kyc_status \<leftarrow> Option.bind (text_at r ''kyc_status'') kyc_status_of;
       role \<leftarrow> Option.bind (text_at r ''role'') role_of;
       status \<leftarrow> Option.bind (text_at r ''status'') user_status_of;
       password_hash \<leftarrow> text_at r ''password_hash'';
       created_at \<leftarrow> map_option from_micros (time_at r ''created_at'');
       updated_at \<leftarrow> map_option from_micros (time_at r ''updated_at'');
       Some \<lparr>u_ID = id', u_Email = email, u_DisplayName = display_name, u_WalletAddress = wallet_address,
             u_IdentityCommitment = identity_commitment, u_KYCProvider = kyc_provider,
             u_KYCStatus = kyc_status, u_Role = role, u_Status = status, u_PasswordHash = password_hash,
             u_CreatedAt = created_at, u_UpdatedAt = updated_at\<rparr>})"

text \<open>Groups.\<close>

definition pg_group_cols :: "string list" where
  "pg_group_cols =
     [''id'', ''contract_address'', ''name'', ''organizer_id'', ''contribution_amount'',
      ''cycle_length_ns'', ''max_members'', ''total_cycles'', ''members'', ''payout_order'', ''state'',
      ''created_at'', ''activated_at'']"

definition pg_group_row :: "sqlval \<Rightarrow> group \<Rightarrow> row" where
  "pg_group_row nilv g = row_of pg_group_cols
     [SText (g_ID g), SText (g_ContractAddress g), SText (g_Name g), SText (g_OrganizerID g),
      SInt (sint (g_ContributionAmount g)), SInt (sint (g_CycleLength g)), SInt (g_MaxMembers g),
      SInt (g_TotalCycles g), pg_texts nilv (g_Members g), pg_texts nilv (g_PayoutOrder g),
      SText (group_state_string (g_State g)), STime (micros (g_CreatedAt g)), nt (g_ActivatedAt g)]"

definition pg_scan_group :: "row \<Rightarrow> err + group" where
  "pg_scan_group r = scanned (do {
       id' \<leftarrow> text_at r ''id'';
       contract_address \<leftarrow> text_at r ''contract_address'';
       name \<leftarrow> text_at r ''name'';
       organizer_id \<leftarrow> text_at r ''organizer_id'';
       contribution_amount \<leftarrow> map_option word_of_int (int_at r ''contribution_amount'');
       cycle_length_ns \<leftarrow> map_option word_of_int (int_at r ''cycle_length_ns'');
       max_members \<leftarrow> int_at r ''max_members'';
       total_cycles \<leftarrow> int_at r ''total_cycles'';
       members \<leftarrow> texts_at r ''members'';
       payout_order \<leftarrow> texts_at r ''payout_order'';
       state \<leftarrow> Option.bind (text_at r ''state'') group_state_of;
       created_at \<leftarrow> map_option from_micros (time_at r ''created_at'');
       activated_at \<leftarrow> map_option (map_option from_micros) (null_time_at r ''activated_at'');
       Some \<lparr>g_ID = id', g_ContractAddress = contract_address, g_Name = name, g_OrganizerID = organizer_id,
             g_ContributionAmount = contribution_amount, g_CycleLength = cycle_length_ns,
             g_MaxMembers = max_members, g_TotalCycles = total_cycles, g_Members = members,
             g_PayoutOrder = payout_order, g_State = state, g_CreatedAt = created_at,
             g_ActivatedAt = activated_at\<rparr>})"

text \<open>Memberships.\<close>

definition pg_membership_cols :: "string list" where
  "pg_membership_cols =
     [''id'', ''group_id'', ''user_id'', ''organizer'', ''status'', ''joined_at'']"

definition pg_membership_row :: "membership \<Rightarrow> row" where
  "pg_membership_row m = row_of pg_membership_cols
     [SText (m_ID m), SText (m_GroupID m), SText (m_UserID m), SBool (m_Organizer m),
      SText (membership_status_string (m_Status m)), STime (micros (m_JoinedAt m))]"

definition pg_scan_membership :: "row \<Rightarrow> err + membership" where
  "pg_scan_membership r = scanned (do {
       id' \<leftarrow> text_at r ''id'';
       group_id \<leftarrow> text_at r ''group_id'';
       user_id \<leftarrow> text_at r ''user_id'';
       organizer \<leftarrow> bool_at r ''organizer'';
       status \<leftarrow> Option.bind (text_at r ''status'') membership_status_of;
       joined_at \<leftarrow> map_option from_micros (time_at r ''joined_at'');
       Some \<lparr>m_ID = id', m_GroupID = group_id, m_UserID = user_id, m_Organizer = organizer,
             m_Status = status, m_JoinedAt = joined_at\<rparr>})"

text \<open>Join requests.\<close>

definition pg_join_request_cols :: "string list" where
  "pg_join_request_cols =
     [''id'', ''group_id'', ''user_id'', ''status'', ''created_at'', ''decided_at'', ''decided_by'']"

definition pg_join_request_row :: "join_request \<Rightarrow> row" where
  "pg_join_request_row j = row_of pg_join_request_cols
     [SText (j_ID j), SText (j_GroupID j), SText (j_UserID j),
      SText (join_request_status_string (j_Status j)), STime (micros (j_CreatedAt j)), nt (j_DecidedAt j),
      SText (j_DecidedBy j)]"

definition pg_scan_join_request :: "row \<Rightarrow> err + join_request" where
  "pg_scan_join_request r = scanned (do {
       id' \<leftarrow> text_at r ''id'';
       group_id \<leftarrow> text_at r ''group_id'';
       user_id \<leftarrow> text_at r ''user_id'';
       status \<leftarrow> Option.bind (text_at r ''status'') join_request_status_of;
       created_at \<leftarrow> map_option from_micros (time_at r ''created_at'');
       decided_at \<leftarrow> map_option (map_option from_micros) (null_time_at r ''decided_at'');
       decided_by \<leftarrow> text_at r ''decided_by'';
       Some \<lparr>j_ID = id', j_GroupID = group_id, j_UserID = user_id, j_Status = status,
             j_CreatedAt = created_at, j_DecidedAt = decided_at, j_DecidedBy = decided_by\<rparr>})"

text \<open>Invitations.\<close>

definition pg_invitation_cols :: "string list" where
  "pg_invitation_cols =
     [''id'', ''group_id'', ''user_id'', ''invited_by'', ''status'', ''created_at'']"

definition pg_invitation_row :: "invitation \<Rightarrow> row" where
  "pg_invitation_row i = row_of pg_invitation_cols
     [SText (i_ID i), SText (i_GroupID i), SText (i_UserID i), SText (i_InvitedBy i),
      SText (invitation_status_string (i_Status i)), STime (micros (i_CreatedAt i))]"

definition pg_scan_invitation :: "row \<Rightarrow> err + invitation" where
  "pg_scan_invitation r = scanned (do {
       id' \<leftarrow> text_at r ''id'';
       group_id \<leftarrow> text_at r ''group_id'';
       user_id \<leftarrow> text_at r ''user_id'';
       invited_by \<leftarrow> text_at r ''invited_by'';
       status \<leftarrow> Option.bind (text_at r ''status'') invitation_status_of;
       created_at \<leftarrow> map_option from_micros (time_at r ''created_at'');
       Some \<lparr>i_ID = id', i_GroupID = group_id, i_UserID = user_id, i_InvitedBy = invited_by,
             i_Status = status, i_CreatedAt = created_at\<rparr>})"

text \<open>Cycles.\<close>

definition pg_cycle_cols :: "string list" where
  "pg_cycle_cols =
     [''group_id'', ''idx'', ''deadline'', ''payout_user'', ''settled'']"

definition pg_cycle_row :: "cycle \<Rightarrow> row" where
  "pg_cycle_row c = row_of pg_cycle_cols
     [SText (c_GroupID c), SInt (c_Index c), STime (micros (c_Deadline c)), SText (c_PayoutUser c),
      SBool (c_Settled c)]"

definition pg_scan_cycle :: "row \<Rightarrow> err + cycle" where
  "pg_scan_cycle r = scanned (do {
       group_id \<leftarrow> text_at r ''group_id'';
       idx \<leftarrow> int_at r ''idx'';
       deadline \<leftarrow> map_option from_micros (time_at r ''deadline'');
       payout_user \<leftarrow> text_at r ''payout_user'';
       settled \<leftarrow> bool_at r ''settled'';
       Some \<lparr>c_GroupID = group_id, c_Index = idx, c_Deadline = deadline, c_PayoutUser = payout_user,
             c_Settled = settled\<rparr>})"

text \<open>Contributions.\<close>

definition pg_contribution_cols :: "string list" where
  "pg_contribution_cols =
     [''id'', ''group_id'', ''user_id'', ''cycle_index'', ''amount'', ''commitment'', ''revealed'',
      ''paid_at'']"

definition pg_contribution_row :: "contribution \<Rightarrow> row" where
  "pg_contribution_row c = row_of pg_contribution_cols
     [SText (co_ID c), SText (co_GroupID c), SText (co_UserID c), SInt (co_CycleIndex c),
      SInt (sint (co_Amount c)), SText (co_Commitment c), SBool (co_Revealed c), nt (co_PaidAt c)]"

definition pg_scan_contribution :: "row \<Rightarrow> err + contribution" where
  "pg_scan_contribution r = scanned (do {
       id' \<leftarrow> text_at r ''id'';
       group_id \<leftarrow> text_at r ''group_id'';
       user_id \<leftarrow> text_at r ''user_id'';
       cycle_index \<leftarrow> int_at r ''cycle_index'';
       amount \<leftarrow> map_option word_of_int (int_at r ''amount'');
       commitment \<leftarrow> text_at r ''commitment'';
       revealed \<leftarrow> bool_at r ''revealed'';
       paid_at \<leftarrow> map_option (map_option from_micros) (null_time_at r ''paid_at'');
       Some \<lparr>co_ID = id', co_GroupID = group_id, co_UserID = user_id, co_CycleIndex = cycle_index,
             co_Amount = amount, co_Commitment = commitment, co_Revealed = revealed, co_PaidAt = paid_at\<rparr>})"

text \<open>Payouts.\<close>

definition pg_payout_cols :: "string list" where
  "pg_payout_cols =
     [''id'', ''group_id'', ''cycle_index'', ''payee_user_id'', ''gross_amount'', ''expected_amount'',
      ''shortfall'', ''disbursement_ref'', ''settled_at'']"

definition pg_payout_row :: "payout \<Rightarrow> row" where
  "pg_payout_row p = row_of pg_payout_cols
     [SText (po_ID p), SText (po_GroupID p), SInt (po_CycleIndex p), SText (po_PayeeUserID p),
      SInt (sint (po_GrossAmount p)), SInt (sint (po_ExpectedAmount p)), SInt (sint (po_Shortfall p)),
      SText (po_DisbursementRef p), STime (micros (po_SettledAt p))]"

definition pg_scan_payout :: "row \<Rightarrow> err + payout" where
  "pg_scan_payout r = scanned (do {
       id' \<leftarrow> text_at r ''id'';
       group_id \<leftarrow> text_at r ''group_id'';
       cycle_index \<leftarrow> int_at r ''cycle_index'';
       payee_user_id \<leftarrow> text_at r ''payee_user_id'';
       gross_amount \<leftarrow> map_option word_of_int (int_at r ''gross_amount'');
       expected_amount \<leftarrow> map_option word_of_int (int_at r ''expected_amount'');
       shortfall \<leftarrow> map_option word_of_int (int_at r ''shortfall'');
       disbursement_ref \<leftarrow> text_at r ''disbursement_ref'';
       settled_at \<leftarrow> map_option from_micros (time_at r ''settled_at'');
       Some \<lparr>po_ID = id', po_GroupID = group_id, po_CycleIndex = cycle_index,
             po_PayeeUserID = payee_user_id, po_GrossAmount = gross_amount,
             po_ExpectedAmount = expected_amount, po_Shortfall = shortfall,
             po_DisbursementRef = disbursement_ref, po_SettledAt = settled_at\<rparr>})"

text \<open>Escrow.\<close>

definition pg_escrow_cols :: "string list" where
  "pg_escrow_cols =
     [''id'', ''group_id'', ''cycle_index'', ''user_id'', ''direction'', ''amount'', ''reference'',
      ''memo'', ''created_at'']"

definition pg_escrow_row :: "escrow_entry \<Rightarrow> row" where
  "pg_escrow_row e = row_of pg_escrow_cols
     [SText (e_ID e), SText (e_GroupID e), SInt (e_CycleIndex e), SText (e_UserID e),
      SText (ledger_direction_string (e_Direction e)), SInt (sint (e_Amount e)), SText (e_Reference e),
      SText (e_Memo e), STime (micros (e_CreatedAt e))]"

definition pg_scan_escrow :: "row \<Rightarrow> err + escrow_entry" where
  "pg_scan_escrow r = scanned (do {
       id' \<leftarrow> text_at r ''id'';
       group_id \<leftarrow> text_at r ''group_id'';
       cycle_index \<leftarrow> int_at r ''cycle_index'';
       user_id \<leftarrow> text_at r ''user_id'';
       direction \<leftarrow> Option.bind (text_at r ''direction'') ledger_direction_of;
       amount \<leftarrow> map_option word_of_int (int_at r ''amount'');
       reference \<leftarrow> text_at r ''reference'';
       memo \<leftarrow> text_at r ''memo'';
       created_at \<leftarrow> map_option from_micros (time_at r ''created_at'');
       Some \<lparr>e_ID = id', e_GroupID = group_id, e_CycleIndex = cycle_index, e_UserID = user_id,
             e_Direction = direction, e_Amount = amount, e_Reference = reference, e_Memo = memo,
             e_CreatedAt = created_at\<rparr>})"

text \<open>Reputation.\<close>

definition pg_reputation_cols :: "string list" where
  "pg_reputation_cols =
     [''id'', ''user_id'', ''group_id'', ''cycle_index'', ''type'', ''amount'', ''proof_hash'',
      ''timestamp'']"

definition pg_reputation_row :: "reputation_event \<Rightarrow> row" where
  "pg_reputation_row e = row_of pg_reputation_cols
     [SText (r_ID e), SText (r_UserID e), SText (r_GroupID e), SInt (r_CycleIndex e),
      SText (event_type_string (r_Type e)), SInt (sint (r_Amount e)), SText (r_ProofHash e),
      STime (micros (r_Timestamp e))]"

definition pg_scan_reputation :: "row \<Rightarrow> err + reputation_event" where
  "pg_scan_reputation r = scanned (do {
       id' \<leftarrow> text_at r ''id'';
       user_id \<leftarrow> text_at r ''user_id'';
       group_id \<leftarrow> text_at r ''group_id'';
       cycle_index \<leftarrow> int_at r ''cycle_index'';
       type' \<leftarrow> Option.bind (text_at r ''type'') event_type_of;
       amount \<leftarrow> map_option word_of_int (int_at r ''amount'');
       proof_hash \<leftarrow> text_at r ''proof_hash'';
       timestamp \<leftarrow> map_option from_micros (time_at r ''timestamp'');
       Some \<lparr>r_ID = id', r_UserID = user_id, r_GroupID = group_id, r_CycleIndex = cycle_index,
             r_Type = type', r_Amount = amount, r_ProofHash = proof_hash, r_Timestamp = timestamp\<rparr>})"

text \<open>Webhooks.\<close>

definition pg_webhook_cols :: "string list" where
  "pg_webhook_cols =
     [''id'', ''url'', ''secret'', ''active'', ''created_by'', ''created_at'']"

definition pg_webhook_row :: "webhook \<Rightarrow> row" where
  "pg_webhook_row w = row_of pg_webhook_cols
     [SText (w_ID w), SText (w_URL w), SText (w_Secret w), SBool (w_Active w), SText (w_CreatedBy w),
      STime (micros (w_CreatedAt w))]"

definition pg_scan_webhook :: "row \<Rightarrow> err + webhook" where
  "pg_scan_webhook r = scanned (do {
       id' \<leftarrow> text_at r ''id'';
       url \<leftarrow> text_at r ''url'';
       secret \<leftarrow> text_at r ''secret'';
       active \<leftarrow> bool_at r ''active'';
       created_by \<leftarrow> text_at r ''created_by'';
       created_at \<leftarrow> map_option from_micros (time_at r ''created_at'');
       Some \<lparr>w_ID = id', w_URL = url, w_Secret = secret, w_Active = active, w_CreatedBy = created_by,
             w_CreatedAt = created_at\<rparr>})"

text \<open>Notifications.\<close>

definition pg_notification_cols :: "string list" where
  "pg_notification_cols =
     [''id'', ''user_id'', ''kind'', ''title'', ''body'', ''read'', ''created_at'']"

definition pg_notification_row :: "notification \<Rightarrow> row" where
  "pg_notification_row n = row_of pg_notification_cols
     [SText (n_ID n), SText (n_UserID n), SText (notification_kind_string (n_Kind n)), SText (n_Title n),
      SText (n_Body n), SBool (n_Read n), STime (micros (n_CreatedAt n))]"

definition pg_scan_notification :: "row \<Rightarrow> err + notification" where
  "pg_scan_notification r = scanned (do {
       id' \<leftarrow> text_at r ''id'';
       user_id \<leftarrow> text_at r ''user_id'';
       kind \<leftarrow> Option.bind (text_at r ''kind'') notification_kind_of;
       title \<leftarrow> text_at r ''title'';
       body \<leftarrow> text_at r ''body'';
       read \<leftarrow> bool_at r ''read'';
       created_at \<leftarrow> map_option from_micros (time_at r ''created_at'');
       Some \<lparr>n_ID = id', n_UserID = user_id, n_Kind = kind, n_Title = title, n_Body = body, n_Read = read,
             n_CreatedAt = created_at\<rparr>})"

text \<open>Audit.\<close>

definition pg_audit_cols :: "string list" where
  "pg_audit_cols =
     [''id'', ''actor_id'', ''action'', ''target'', ''detail'', ''created_at'']"

definition pg_audit_row :: "audit_entry \<Rightarrow> row" where
  "pg_audit_row a = row_of pg_audit_cols
     [SText (a_ID a), SText (a_ActorID a), SText (a_Action a), SText (a_Target a), SText (a_Detail a),
      STime (micros (a_CreatedAt a))]"

definition pg_scan_audit :: "row \<Rightarrow> err + audit_entry" where
  "pg_scan_audit r = scanned (do {
       id' \<leftarrow> text_at r ''id'';
       actor_id \<leftarrow> text_at r ''actor_id'';
       action \<leftarrow> text_at r ''action'';
       target \<leftarrow> text_at r ''target'';
       detail \<leftarrow> text_at r ''detail'';
       created_at \<leftarrow> map_option from_micros (time_at r ''created_at'');
       Some \<lparr>a_ID = id', a_ActorID = actor_id, a_Action = action, a_Target = target, a_Detail = detail,
             a_CreatedAt = created_at\<rparr>})"

section \<open>What fits a row\<close>

text \<open>
  The entities that a row shows faithfully and that the \<^verbatim>\<open>NOT NULL\<close> and \<^verbatim>\<open>CHECK\<close>
  constraints of \<^verbatim>\<open>schema.sql\<close> and the 32 bits of an \<^verbatim>\<open>INTEGER\<close> column let in; their times are
  whole microseconds.
\<close>

definition whole_micros :: "time \<Rightarrow> bool" where
  "whole_micros t \<longleftrightarrow> t mod 1000 = 0"

definition opt_whole_micros :: "time option \<Rightarrow> bool" where
  "opt_whole_micros t \<longleftrightarrow> (case t of None \<Rightarrow> True | Some x \<Rightarrow> whole_micros x)"

definition pg_user_fits :: "user \<Rightarrow> bool" where
  "pg_user_fits u \<longleftrightarrow> u_Role u \<in> {RoleMember, RoleAdmin} \<and> whole_micros (u_CreatedAt u)
     \<and> whole_micros (u_UpdatedAt u)"

definition pg_group_fits :: "group \<Rightarrow> bool" where
  "pg_group_fits g \<longleftrightarrow> 0 < sint (g_ContributionAmount g) \<and> 0 < sint (g_CycleLength g) \<and> 2 \<le> g_MaxMembers g
     \<and> g_MaxMembers g < 2 ^ 31 \<and> 0 \<le> g_TotalCycles g \<and> g_TotalCycles g < 2 ^ 31
     \<and> g_Members g \<noteq> [] \<and> g_PayoutOrder g \<noteq> [] \<and> whole_micros (g_CreatedAt g)
     \<and> opt_whole_micros (g_ActivatedAt g)"

definition pg_membership_fits :: "membership \<Rightarrow> bool" where
  "pg_membership_fits m \<longleftrightarrow> CHR ''|'' \<notin> set (m_GroupID m) \<and> whole_micros (m_JoinedAt m)"

definition pg_join_request_fits :: "join_request \<Rightarrow> bool" where
  "pg_join_request_fits j \<longleftrightarrow> whole_micros (j_CreatedAt j) \<and> opt_whole_micros (j_DecidedAt j)"

definition pg_invitation_fits :: "invitation \<Rightarrow> bool" where
  "pg_invitation_fits i \<longleftrightarrow> whole_micros (i_CreatedAt i)"

definition pg_cycle_fits :: "cycle \<Rightarrow> bool" where
  "pg_cycle_fits c \<longleftrightarrow> 0 \<le> c_Index c \<and> c_Index c < 2 ^ 31 \<and> whole_micros (c_Deadline c)"

definition pg_contribution_fits :: "contribution \<Rightarrow> bool" where
  "pg_contribution_fits c \<longleftrightarrow> CHR ''|'' \<notin> set (co_GroupID c) \<and> 0 \<le> co_CycleIndex c \<and> co_CycleIndex c < 2 ^ 31
     \<and> 0 < sint (co_Amount c) \<and> opt_whole_micros (co_PaidAt c)"

definition pg_payout_fits :: "payout \<Rightarrow> bool" where
  "pg_payout_fits p \<longleftrightarrow> 0 \<le> po_CycleIndex p \<and> po_CycleIndex p < 2 ^ 31 \<and> 0 \<le> sint (po_GrossAmount p)
     \<and> 0 \<le> sint (po_ExpectedAmount p) \<and> whole_micros (po_SettledAt p)"

definition pg_escrow_fits :: "escrow_entry \<Rightarrow> bool" where
  "pg_escrow_fits e \<longleftrightarrow> - (2 ^ 31) \<le> e_CycleIndex e \<and> e_CycleIndex e < 2 ^ 31 \<and> 0 \<le> sint (e_Amount e)
     \<and> whole_micros (e_CreatedAt e)"

definition pg_reputation_fits :: "reputation_event \<Rightarrow> bool" where
  "pg_reputation_fits e \<longleftrightarrow> - (2 ^ 31) \<le> r_CycleIndex e \<and> r_CycleIndex e < 2 ^ 31 \<and> whole_micros (r_Timestamp e)"

definition pg_webhook_fits :: "webhook \<Rightarrow> bool" where
  "pg_webhook_fits w \<longleftrightarrow> whole_micros (w_CreatedAt w)"

definition pg_notification_fits :: "notification \<Rightarrow> bool" where
  "pg_notification_fits n \<longleftrightarrow> whole_micros (n_CreatedAt n)"

definition pg_audit_fits :: "audit_entry \<Rightarrow> bool" where
  "pg_audit_fits a \<longleftrightarrow> whole_micros (a_CreatedAt a)"

section \<open>Reading back what was written\<close>

lemma from_micros_micros [simp]: "whole_micros t \<Longrightarrow> from_micros (micros t) = t"
  by (auto simp: whole_micros_def from_micros_def micros_def)

lemma nt_read:
  assumes "opt_whole_micros t"
  shows "(case nt t of STime i \<Rightarrow> Some (Some i) | SNull \<Rightarrow> Some None | _ \<Rightarrow> None) = Some (map_option micros t)"
    and "map_option from_micros (map_option micros t) = t"
  using assms by (cases t; simp add: nt_def opt_whole_micros_def)+

lemma pg_texts_Cons [simp]: "ss \<noteq> [] \<Longrightarrow> pg_texts nilv ss = STexts ss"
  by (simp add: pg_texts_def)

lemma pg_role [simp]: "r \<in> {RoleMember, RoleAdmin} \<Longrightarrow> role_of (role_string r) = Some r"
  by (auto simp: role_of_def)

lemmas pg_scans = text_at_def int_at_def bool_at_def time_at_def null_time_at_def texts_at_def nt_read

interpretation pg_user: sql_codec pg_user_row pg_scan_user pg_user_fits
  by unfold_locales
    (simp add: pg_user_row_def pg_scan_user_def pg_user_fits_def pg_user_cols_def pg_scans)

interpretation pg_group: sql_codec "pg_group_row nilv" pg_scan_group pg_group_fits for nilv
  by unfold_locales
    (simp add: pg_group_row_def pg_scan_group_def pg_group_fits_def pg_group_cols_def pg_scans)

interpretation pg_membership: sql_codec pg_membership_row pg_scan_membership pg_membership_fits
  by unfold_locales
    (simp add: pg_membership_row_def pg_scan_membership_def pg_membership_fits_def pg_membership_cols_def pg_scans)

interpretation pg_join_request: sql_codec pg_join_request_row pg_scan_join_request pg_join_request_fits
  by unfold_locales
    (simp add: pg_join_request_row_def pg_scan_join_request_def pg_join_request_fits_def pg_join_request_cols_def pg_scans)

interpretation pg_invitation: sql_codec pg_invitation_row pg_scan_invitation pg_invitation_fits
  by unfold_locales
    (simp add: pg_invitation_row_def pg_scan_invitation_def pg_invitation_fits_def pg_invitation_cols_def pg_scans)

interpretation pg_cycle: sql_codec pg_cycle_row pg_scan_cycle pg_cycle_fits
  by unfold_locales
    (simp add: pg_cycle_row_def pg_scan_cycle_def pg_cycle_fits_def pg_cycle_cols_def pg_scans)

interpretation pg_contribution: sql_codec pg_contribution_row pg_scan_contribution pg_contribution_fits
  by unfold_locales
    (simp add: pg_contribution_row_def pg_scan_contribution_def pg_contribution_fits_def pg_contribution_cols_def pg_scans)

interpretation pg_payout: sql_codec pg_payout_row pg_scan_payout pg_payout_fits
  by unfold_locales
    (simp add: pg_payout_row_def pg_scan_payout_def pg_payout_fits_def pg_payout_cols_def pg_scans)

interpretation pg_escrow: sql_codec pg_escrow_row pg_scan_escrow pg_escrow_fits
  by unfold_locales
    (simp add: pg_escrow_row_def pg_scan_escrow_def pg_escrow_fits_def pg_escrow_cols_def pg_scans)

interpretation pg_reputation: sql_codec pg_reputation_row pg_scan_reputation pg_reputation_fits
  by unfold_locales
    (simp add: pg_reputation_row_def pg_scan_reputation_def pg_reputation_fits_def pg_reputation_cols_def pg_scans)

interpretation pg_webhook: sql_codec pg_webhook_row pg_scan_webhook pg_webhook_fits
  by unfold_locales
    (simp add: pg_webhook_row_def pg_scan_webhook_def pg_webhook_fits_def pg_webhook_cols_def pg_scans)

interpretation pg_notification: sql_codec pg_notification_row pg_scan_notification pg_notification_fits
  by unfold_locales
    (simp add: pg_notification_row_def pg_scan_notification_def pg_notification_fits_def pg_notification_cols_def pg_scans)

interpretation pg_audit: sql_codec pg_audit_row pg_scan_audit pg_audit_fits
  by unfold_locales
    (simp add: pg_audit_row_def pg_scan_audit_def pg_audit_fits_def pg_audit_cols_def pg_scans)

section \<open>What is left of a time\<close>

definition whole :: "time \<Rightarrow> time" where
  "whole t = 1000 * (t div 1000)"

text \<open>The row of an entity is that of the entity with its times cut to whole microseconds.\<close>

lemma micros_whole [simp]: "micros (whole t) = micros t"
  by (simp add: micros_def whole_def)

lemma nt_whole [simp]: "nt (map_option whole t) = nt t"
  by (cases t) (simp_all add: nt_def)

definition whole_user :: "user \<Rightarrow> user" where
  "whole_user u = u\<lparr>u_CreatedAt := whole (u_CreatedAt u), u_UpdatedAt := whole (u_UpdatedAt u)\<rparr>"

definition whole_group :: "group \<Rightarrow> group" where
  "whole_group g = g\<lparr>g_CreatedAt := whole (g_CreatedAt g), g_ActivatedAt := map_option whole (g_ActivatedAt g)\<rparr>"

definition whole_membership :: "membership \<Rightarrow> membership" where
  "whole_membership m = m\<lparr>m_JoinedAt := whole (m_JoinedAt m)\<rparr>"

definition whole_join_request :: "join_request \<Rightarrow> join_request" where
  "whole_join_request j = j\<lparr>j_CreatedAt := whole (j_CreatedAt j), j_DecidedAt := map_option whole (j_DecidedAt j)\<rparr>"

definition whole_invitation :: "invitation \<Rightarrow> invitation" where
  "whole_invitation i = i\<lparr>i_CreatedAt := whole (i_CreatedAt i)\<rparr>"

definition whole_cycle :: "cycle \<Rightarrow> cycle" where
  "whole_cycle c = c\<lparr>c_Deadline := whole (c_Deadline c)\<rparr>"

definition whole_contribution :: "contribution \<Rightarrow> contribution" where
  "whole_contribution c = c\<lparr>co_PaidAt := map_option whole (co_PaidAt c)\<rparr>"

definition whole_payout :: "payout \<Rightarrow> payout" where
  "whole_payout p = p\<lparr>po_SettledAt := whole (po_SettledAt p)\<rparr>"

definition whole_escrow :: "escrow_entry \<Rightarrow> escrow_entry" where
  "whole_escrow e = e\<lparr>e_CreatedAt := whole (e_CreatedAt e)\<rparr>"

definition whole_reputation :: "reputation_event \<Rightarrow> reputation_event" where
  "whole_reputation e = e\<lparr>r_Timestamp := whole (r_Timestamp e)\<rparr>"

definition whole_webhook :: "webhook \<Rightarrow> webhook" where
  "whole_webhook w = w\<lparr>w_CreatedAt := whole (w_CreatedAt w)\<rparr>"

definition whole_notification :: "notification \<Rightarrow> notification" where
  "whole_notification n = n\<lparr>n_CreatedAt := whole (n_CreatedAt n)\<rparr>"

definition whole_audit :: "audit_entry \<Rightarrow> audit_entry" where
  "whole_audit a = a\<lparr>a_CreatedAt := whole (a_CreatedAt a)\<rparr>"

lemma rows_whole [simp]:
  "pg_user_row (whole_user x0) = pg_user_row x0"
  "pg_group_row nilv (whole_group x1) = pg_group_row nilv x1"
  "pg_membership_row (whole_membership x2) = pg_membership_row x2"
  "pg_join_request_row (whole_join_request x3) = pg_join_request_row x3"
  "pg_invitation_row (whole_invitation x4) = pg_invitation_row x4"
  "pg_cycle_row (whole_cycle x5) = pg_cycle_row x5"
  "pg_contribution_row (whole_contribution x6) = pg_contribution_row x6"
  "pg_payout_row (whole_payout x7) = pg_payout_row x7"
  "pg_escrow_row (whole_escrow x8) = pg_escrow_row x8"
  "pg_reputation_row (whole_reputation x9) = pg_reputation_row x9"
  "pg_webhook_row (whole_webhook x10) = pg_webhook_row x10"
  "pg_notification_row (whole_notification x11) = pg_notification_row x11"
  "pg_audit_row (whole_audit x12) = pg_audit_row x12"
  by (simp_all add: pg_user_row_def whole_user_def pg_group_row_def whole_group_def pg_membership_row_def
      whole_membership_def pg_join_request_row_def whole_join_request_def pg_invitation_row_def
      whole_invitation_def pg_cycle_row_def whole_cycle_def pg_contribution_row_def whole_contribution_def
      pg_payout_row_def whole_payout_def pg_escrow_row_def whole_escrow_def pg_reputation_row_def
      whole_reputation_def pg_webhook_row_def whole_webhook_def pg_notification_row_def
      whole_notification_def pg_audit_row_def whole_audit_def)

end
