(* ===== verification/Pg_Store.thy ===== *)
theory Pg_Store
  imports Pg_Rows
begin

text \<open>
  The statements of \<^verbatim>\<open>internal/store/pgstore/pgstore.go\<close>, one definition per method, and the
  constraints of its \<^verbatim>\<open>schema.sql\<close>: unlike SQLite's schema it has foreign keys, \<^verbatim>\<open>CHECK\<close>
  conditions, 32-bit integer columns and unique wallet addresses. A row is checked before conflicts
  are looked for, a foreign key when a row is inserted or its column updated. The statements are taken
  one after the other, as the database serialises them; the pool and the connection are not modelled.
\<close>

section \<open>Constraints\<close>

definition not_null :: "string list \<Rightarrow> row \<Rightarrow> bool" where
  "not_null cols r \<longleftrightarrow> (\<forall>c \<in> set cols. column c r \<noteq> SNull)"

definition int4 :: "string \<Rightarrow> row \<Rightarrow> bool" where
  "int4 c r \<longleftrightarrow> (case int_at r c of None \<Rightarrow> False | Some i \<Rightarrow> - (2 ^ 31) \<le> i \<and> i < 2 ^ 31)"

definition at_least :: "string \<Rightarrow> int \<Rightarrow> row \<Rightarrow> bool" where
  "at_least c k r \<longleftrightarrow> (case int_at r c of None \<Rightarrow> False | Some i \<Rightarrow> k \<le> i)"

definition one_of :: "string \<Rightarrow> string list \<Rightarrow> row \<Rightarrow> bool" where
  "one_of c ss r \<longleftrightarrow> (case text_at r c of None \<Rightarrow> False | Some s \<Rightarrow> s \<in> set ss)"

definition references :: "string \<Rightarrow> row list \<Rightarrow> row \<Rightarrow> bool" where
  "references c t r \<longleftrightarrow> (\<exists>q \<in> set t. q ''id'' = r c)"

definition pg_insert :: "bool \<Rightarrow> string list list \<Rightarrow> row \<Rightarrow> row list \<Rightarrow> err + row list" where
  "pg_insert ok uniques r t = (if ok then sql_insert uniques r t else Inl constraint_failed)"

text \<open>\<open>fks\<close> are the foreign keys of a row that is inserted, when it conflicts with no stored one.\<close>

definition pg_upsert ::
    "bool \<Rightarrow> bool \<Rightarrow> string list list \<Rightarrow> string list \<Rightarrow> string list \<Rightarrow> row \<Rightarrow> row list \<Rightarrow> err + row list" where
  "pg_upsert ok fks uniques target sets r t =
     (if ok \<and> (fks \<or> (\<exists>q \<in> set t. same_on target r q)) then sql_upsert uniques target sets r t
      else Inl constraint_failed)"

definition users_check :: "row \<Rightarrow> bool" where
  "users_check r \<longleftrightarrow> not_null pg_user_cols r
     \<and> one_of ''kyc_status'' [''pending'', ''approved'', ''rejected''] r
     \<and> one_of ''role'' [''member'', ''admin''] r \<and> one_of ''status'' [''active'', ''suspended''] r"

definition groups_check :: "row \<Rightarrow> bool" where
  "groups_check r \<longleftrightarrow> not_null (filter (\<lambda>c. c \<noteq> ''activated_at'') pg_group_cols) r
     \<and> at_least ''contribution_amount'' 1 r \<and> at_least ''cycle_length_ns'' 1 r
     \<and> int4 ''max_members'' r \<and> at_least ''max_members'' 2 r
     \<and> int4 ''total_cycles'' r \<and> at_least ''total_cycles'' 0 r
     \<and> one_of ''state'' [''CREATED'', ''ACTIVE'', ''SETTLEMENT'', ''CLOSED''] r"

definition memberships_check :: "row \<Rightarrow> bool" where
  "memberships_check r \<longleftrightarrow> not_null pg_membership_cols r \<and> one_of ''status'' [''active'', ''left'', ''removed''] r"

definition join_requests_check :: "row \<Rightarrow> bool" where
  "join_requests_check r \<longleftrightarrow> not_null (filter (\<lambda>c. c \<noteq> ''decided_at'') pg_join_request_cols) r
     \<and> one_of ''status'' [''pending'', ''approved'', ''rejected''] r"

definition invitations_check :: "row \<Rightarrow> bool" where
  "invitations_check r \<longleftrightarrow> not_null pg_invitation_cols r
     \<and> one_of ''status'' [''pending'', ''accepted'', ''declined''] r"

definition cycles_check :: "row \<Rightarrow> bool" where
  "cycles_check r \<longleftrightarrow> not_null pg_cycle_cols r \<and> int4 ''idx'' r \<and> at_least ''idx'' 0 r"

definition contributions_check :: "row \<Rightarrow> bool" where
  "contributions_check r \<longleftrightarrow> not_null (filter (\<lambda>c. c \<noteq> ''paid_at'') pg_contribution_cols) r
     \<and> int4 ''cycle_index'' r \<and> at_least ''cycle_index'' 0 r \<and> at_least ''amount'' 1 r"

definition payouts_check :: "row \<Rightarrow> bool" where
  "payouts_check r \<longleftrightarrow> not_null pg_payout_cols r \<and> int4 ''cycle_index'' r \<and> at_least ''cycle_index'' 0 r
     \<and> at_least ''gross_amount'' 0 r \<and> at_least ''expected_amount'' 0 r"

definition escrow_check :: "row \<Rightarrow> bool" where
  "escrow_check r \<longleftrightarrow> not_null pg_escrow_cols r \<and> int4 ''cycle_index'' r
     \<and> one_of ''direction'' [''credit'', ''debit''] r \<and> at_least ''amount'' 0 r"

definition reputation_check :: "row \<Rightarrow> bool" where
  "reputation_check r \<longleftrightarrow> not_null pg_reputation_cols r \<and> int4 ''cycle_index'' r
     \<and> one_of ''type''
         [''ContributionMade'', ''ContributionMissed'', ''PayoutReceived'', ''GroupExit'', ''GroupExpulsion''] r"

text \<open>\<^verbatim>\<open>OFFSET must not be negative\<close>\<close>

definition negative_offset :: err where
  "negative_offset = Errorf ErrOther ''OFFSET must not be negative'' []"

text \<open>
  The parameter of an \<^verbatim>\<open>INTEGER\<close> column is sent in 32 bits: the driver refuses to encode an index that
  does not fit, before the statement runs.
\<close>

definition int4_index :: "int \<Rightarrow> bool" where
  "int4_index i \<longleftrightarrow> - (2 ^ 31) \<le> i \<and> i < 2 ^ 31"

definition unencodable :: err where
  "unencodable = Errorf ErrOther ''failed to encode: out of range for int4'' []"

definition int4_arg :: "int \<Rightarrow> err + 'a \<Rightarrow> err + 'a" where
  "int4_arg i answer = (if int4_index i then answer else Inl unencodable)"

section \<open>Users\<close>

definition pg_SaveUser :: "user \<Rightarrow> database \<Rightarrow> err + database" where
  "pg_SaveUser u db = stored_in t_users_update db
     (pg_upsert (users_check (pg_user_row u)) True
        [[''id''], [''email''], [''wallet_address''], [''identity_commitment'']] [''id'']
        [''email'', ''display_name'', ''wallet_address'', ''identity_commitment'', ''kyc_provider'', ''kyc_status'',
         ''role'', ''status'', ''password_hash'', ''updated_at'']
        (pg_user_row u) (t_users db))"

definition pg_GetUser :: "database \<Rightarrow> string \<Rightarrow> err + user" where
  "pg_GetUser db id' = query_row pg_scan_user (text_is ''id'' id') (t_users db)"

definition pg_GetUserByEmail :: "database \<Rightarrow> string \<Rightarrow> err + user" where
  "pg_GetUserByEmail db email = query_row pg_scan_user (text_is ''email'' email) (t_users db)"

definition pg_ListUsers :: "database \<Rightarrow> page \<Rightarrow> err + user list \<times> int" where
  "pg_ListUsers db p =
     (if p_Offset p < 0 then Inl negative_offset else counted (length (t_users db))
     (scan_rows pg_scan_user (limit_offset (pg_limit p) (p_Offset p) (order_by ''created_at'' (t_users db)))))"

definition pg_ListUsersByKYC :: "database \<Rightarrow> kyc_status \<Rightarrow> err + user list" where
  "pg_ListUsersByKYC db status = scan_rows pg_scan_user
     (order_by ''created_at'' (filter (text_is ''kyc_status'' (kyc_status_string status)) (t_users db)))"

section \<open>Groups\<close>

definition pg_SaveGroup :: "sqlval \<Rightarrow> group \<Rightarrow> database \<Rightarrow> err + database" where
  "pg_SaveGroup nilv g db = stored_in t_groups_update db
     (pg_upsert (groups_check (pg_group_row nilv g) \<and> references ''organizer_id'' (t_users db) (pg_group_row nilv g)) True
        [[''id'']] [''id'']
        [''contract_address'', ''name'', ''organizer_id'', ''contribution_amount'', ''cycle_length_ns'',
         ''max_members'', ''total_cycles'', ''members'', ''payout_order'', ''state'', ''activated_at'']
        (pg_group_row nilv g) (t_groups db))"

definition pg_GetGroup :: "database \<Rightarrow> string \<Rightarrow> err + group" where
  "pg_GetGroup db id' = query_row pg_scan_group (text_is ''id'' id') (t_groups db)"

definition pg_ListGroups :: "database \<Rightarrow> page \<Rightarrow> err + group list \<times> int" where
  "pg_ListGroups db p =
     (if p_Offset p < 0 then Inl negative_offset else counted (length (t_groups db))
     (scan_rows pg_scan_group (limit_offset (pg_limit p) (p_Offset p) (order_by ''created_at'' (t_groups db)))))"

section \<open>Memberships\<close>

definition pg_SaveMembership :: "membership \<Rightarrow> database \<Rightarrow> err + database" where
  "pg_SaveMembership m db = stored_in t_memberships_update db
     (pg_upsert (memberships_check (pg_membership_row m))
        (references ''group_id'' (t_groups db) (pg_membership_row m) \<and> references ''user_id'' (t_users db) (pg_membership_row m))
        [[''id''], [''group_id'', ''user_id'']] [''group_id'', ''user_id'']
        [''id'', ''organizer'', ''status''] (pg_membership_row m) (t_memberships db))"

definition pg_GetMembership :: "database \<Rightarrow> string \<Rightarrow> string \<Rightarrow> err + membership" where
  "pg_GetMembership db groupID userID = query_row pg_scan_membership
     (\<lambda>r. text_is ''group_id'' groupID r \<and> text_is ''user_id'' userID r) (t_memberships db)"

definition pg_ListMembershipsByGroup :: "database \<Rightarrow> string \<Rightarrow> err + membership list" where
  "pg_ListMembershipsByGroup db groupID = scan_rows pg_scan_membership
     (order_by ''joined_at'' (filter (text_is ''group_id'' groupID) (t_memberships db)))"

definition pg_ListMembershipsByUser :: "database \<Rightarrow> string \<Rightarrow> err + membership list" where
  "pg_ListMembershipsByUser db userID = scan_rows pg_scan_membership
     (filter (text_is ''user_id'' userID) (t_memberships db))"

section \<open>Join requests and invitations\<close>

definition pg_SaveJoinRequest :: "join_request \<Rightarrow> database \<Rightarrow> err + database" where
  "pg_SaveJoinRequest j db = stored_in t_join_requests_update db
     (pg_upsert (join_requests_check (pg_join_request_row j))
        (references ''group_id'' (t_groups db) (pg_join_request_row j) \<and> references ''user_id'' (t_users db) (pg_join_request_row j))
        [[''id'']] [''id''] [''status'', ''decided_at'', ''decided_by'']
        (pg_join_request_row j) (t_join_requests db))"

definition pg_GetJoinRequest :: "database \<Rightarrow> string \<Rightarrow> err + join_request" where
  "pg_GetJoinRequest db id' = query_row pg_scan_join_request (text_is ''id'' id') (t_join_requests db)"

definition pg_ListJoinRequestsByGroup :: "database \<Rightarrow> string \<Rightarrow> err + join_request list" where
  "pg_ListJoinRequestsByGroup db groupID = scan_rows pg_scan_join_request
     (order_by ''created_at'' (filter (text_is ''group_id'' groupID) (t_join_requests db)))"

definition pg_SaveInvitation :: "invitation \<Rightarrow> database \<Rightarrow> err + database" where
  "pg_SaveInvitation i db = stored_in t_invitations_update db
     (pg_upsert (invitations_check (pg_invitation_row i))
        (references ''group_id'' (t_groups db) (pg_invitation_row i) \<and> references ''user_id'' (t_users db) (pg_invitation_row i) \<and> references ''invited_by'' (t_users db) (pg_invitation_row i))
        [[''id'']] [''id''] [''status''] (pg_invitation_row i) (t_invitations db))"

definition pg_GetInvitation :: "database \<Rightarrow> string \<Rightarrow> err + invitation" where
  "pg_GetInvitation db id' = query_row pg_scan_invitation (text_is ''id'' id') (t_invitations db)"

definition pg_ListInvitationsByUser :: "database \<Rightarrow> string \<Rightarrow> err + invitation list" where
  "pg_ListInvitationsByUser db userID = scan_rows pg_scan_invitation
     (order_by ''created_at'' (filter (text_is ''user_id'' userID) (t_invitations db)))"

section \<open>Cycles\<close>

definition pg_SaveCycle :: "cycle \<Rightarrow> database \<Rightarrow> err + database" where
  "pg_SaveCycle c db = stored_in t_cycles_update db
     (pg_upsert (cycles_check (pg_cycle_row c))
        (references ''group_id'' (t_groups db) (pg_cycle_row c))
        [[''group_id'', ''idx'']] [''group_id'', ''idx''] [''deadline'', ''payout_user'', ''settled'']
        (pg_cycle_row c) (t_cycles db))"

definition pg_GetCycle :: "database \<Rightarrow> string \<Rightarrow> int \<Rightarrow> err + cycle" where
  "pg_GetCycle db groupID index = int4_arg index (query_row pg_scan_cycle
     (\<lambda>r. text_is ''group_id'' groupID r \<and> int_is ''idx'' index r) (t_cycles db))"

definition pg_ListCyclesByGroup :: "database \<Rightarrow> string \<Rightarrow> err + cycle list" where
  "pg_ListCyclesByGroup db groupID = scan_rows pg_scan_cycle
     (order_by ''idx'' (filter (text_is ''group_id'' groupID) (t_cycles db)))"

section \<open>Contributions\<close>

definition pg_SaveContribution :: "contribution \<Rightarrow> database \<Rightarrow> err + database" where
  "pg_SaveContribution c db = stored_in t_contributions_update db
     (pg_upsert (contributions_check (pg_contribution_row c))
        (references ''group_id'' (t_groups db) (pg_contribution_row c) \<and> references ''user_id'' (t_users db) (pg_contribution_row c))
        [[''id''], [''group_id'', ''user_id'', ''cycle_index'']] [''group_id'', ''user_id'', ''cycle_index'']
        [''id'', ''amount'', ''commitment'', ''revealed'', ''paid_at'']
        (pg_contribution_row c) (t_contributions db))"

definition pg_GetContribution :: "database \<Rightarrow> string \<Rightarrow> string \<Rightarrow> int \<Rightarrow> err + contribution" where
  "pg_GetContribution db groupID userID cyc = int4_arg cyc (query_row pg_scan_contribution
     (\<lambda>r. text_is ''group_id'' groupID r \<and> text_is ''user_id'' userID r \<and> int_is ''cycle_index'' cyc r)
     (t_contributions db))"

definition pg_ListContributionsByCycle :: "database \<Rightarrow> string \<Rightarrow> int \<Rightarrow> err + contribution list" where
  "pg_ListContributionsByCycle db groupID cyc = int4_arg cyc (scan_rows pg_scan_contribution
     (filter (\<lambda>r. text_is ''group_id'' groupID r \<and> int_is ''cycle_index'' cyc r) (t_contributions db)))"

section \<open>Payouts, escrow, reputation\<close>

definition pg_SavePayout :: "payout \<Rightarrow> database \<Rightarrow> err + database" where
  "pg_SavePayout p db = stored_in t_payouts_update db (pg_insert (payouts_check (pg_payout_row p) \<and> references ''group_id'' (t_groups db) (pg_payout_row p) \<and> references ''payee_user_id'' (t_users db) (pg_payout_row p))
        [[''id'']] (pg_payout_row p) (t_payouts db))"

definition pg_ListPayoutsByGroup :: "database \<Rightarrow> string \<Rightarrow> err + payout list" where
  "pg_ListPayoutsByGroup db groupID = scan_rows pg_scan_payout
     (order_by ''cycle_index'' (filter (text_is ''group_id'' groupID) (t_payouts db)))"

definition pg_AppendEscrowEntry :: "escrow_entry \<Rightarrow> database \<Rightarrow> err + database" where
  "pg_AppendEscrowEntry e db =
     stored_in t_escrow_entries_update db (pg_insert (escrow_check (pg_escrow_row e) \<and> references ''group_id'' (t_groups db) (pg_escrow_row e))
        [[''id'']] (pg_escrow_row e) (t_escrow_entries db))"

definition pg_ListEscrowByGroup :: "database \<Rightarrow> string \<Rightarrow> err + escrow_entry list" where
  "pg_ListEscrowByGroup db groupID = scan_rows pg_scan_escrow
     (order_by ''created_at'' (filter (text_is ''group_id'' groupID) (t_escrow_entries db)))"

definition pg_AppendReputationEvent :: "reputation_event \<Rightarrow> database \<Rightarrow> err + database" where
  "pg_AppendReputationEvent e db =
     stored_in t_reputation_events_update db (pg_insert (reputation_check (pg_reputation_row e))
        [[''id'']] (pg_reputation_row e) (t_reputation_events db))"

definition pg_ReputationEvents :: "database \<Rightarrow> string \<Rightarrow> err + reputation_event list" where
  "pg_ReputationEvents db userID = scan_rows pg_scan_reputation
     (order_by ''timestamp'' (filter (text_is ''user_id'' userID) (t_reputation_events db)))"

definition pg_AllReputationEvents :: "database \<Rightarrow> page \<Rightarrow> err + reputation_event list \<times> int" where
  "pg_AllReputationEvents db p =
     (if p_Offset p < 0 then Inl negative_offset else counted (length (t_reputation_events db))
     (scan_rows pg_scan_reputation
        (limit_offset (pg_limit p) (p_Offset p) (order_by_desc ''timestamp'' (t_reputation_events db)))))"

section \<open>Webhooks, notifications, audit\<close>

definition pg_SaveWebhook :: "webhook \<Rightarrow> database \<Rightarrow> err + database" where
  "pg_SaveWebhook w db = stored_in t_webhooks_update db
     (pg_upsert (not_null pg_webhook_cols (pg_webhook_row w)) True
        [[''id'']] [''id''] [''url'', ''secret'', ''active''] (pg_webhook_row w) (t_webhooks db))"

definition pg_GetWebhook :: "database \<Rightarrow> string \<Rightarrow> err + webhook" where
  "pg_GetWebhook db id' = query_row pg_scan_webhook (text_is ''id'' id') (t_webhooks db)"

definition pg_ListWebhooks :: "database \<Rightarrow> err + webhook list" where
  "pg_ListWebhooks db = scan_rows pg_scan_webhook (order_by ''created_at'' (t_webhooks db))"

definition pg_DeleteWebhook :: "string \<Rightarrow> database \<Rightarrow> err + database" where
  "pg_DeleteWebhook id' db = Inr (db\<lparr>t_webhooks := sql_delete (text_is ''id'' id') (t_webhooks db)\<rparr>)"

definition pg_SaveNotification :: "notification \<Rightarrow> database \<Rightarrow> err + database" where
  "pg_SaveNotification n db = stored_in t_notifications_update db
     (pg_upsert (not_null pg_notification_cols (pg_notification_row n))
        (references ''user_id'' (t_users db) (pg_notification_row n))
        [[''id'']] [''id''] [''read''] (pg_notification_row n) (t_notifications db))"

definition pg_ListNotificationsByUser :: "database \<Rightarrow> string \<Rightarrow> err + notification list" where
  "pg_ListNotificationsByUser db userID = scan_rows pg_scan_notification
     (order_by ''created_at'' (filter (text_is ''user_id'' userID) (t_notifications db)))"

definition pg_AppendAudit :: "audit_entry \<Rightarrow> database \<Rightarrow> err + database" where
  "pg_AppendAudit a db = stored_in t_audit_update db (pg_insert (not_null pg_audit_cols (pg_audit_row a))
        [[''id'']] (pg_audit_row a) (t_audit db))"

definition pg_ListAudit :: "database \<Rightarrow> page \<Rightarrow> err + audit_entry list \<times> int" where
  "pg_ListAudit db p =
     (if p_Offset p < 0 then Inl negative_offset else counted (length (t_audit db))
     (scan_rows pg_scan_audit (limit_offset (pg_limit p) (p_Offset p) (order_by_desc ''created_at'' (t_audit db)))))"

end
