(* ===== verification/Defects.thy ===== *)
theory Defects
  imports Scenario Pg_Store
begin

text \<open>
  Reachable states the code does not mean to reach: a member listed twice, and a closed group that
  still holds money. Each is a run of the service, evaluated.
\<close>

section \<open>A member listed twice\<close>

















section \<open>A closed group that holds money\<close>

definition early8 :: world where
  "early8 = snd (SettleCycle demo_env (demo_id 1) (demo_id 4) 1 demo7)"

lemma early8 [simp]:
  "groups (store early8) = [(demo_id 4, demo_running\<lparr>g_State := GroupClosed\<rparr>)]"
  "cycles (store early8) = [(cycleKey (demo_id 4) 0, demo_cycle 0 1 False), (cycleKey (demo_id 4) 1, demo_cycle 1 3 True)]"
  "EscrowBalance (ListEscrowByGroup (store early8) (demo_id 4)) = 100"
  by (simp_all add: early8_def demo2 SettleCycle_def settleCycle_def demo_store demo_ops rail_Disburse_def
     total_amount_def expected_amount_def on_memchain_def try_transition_def Transition_def CanTransition_def
     allowedTransitions_def ListEscrowByGroup_def EscrowBalance_def escrow_step_def demo_credit_def)


lemma early8_reachable: "reachable demo_env early8"
  unfolding early8_def by (blast intro: reachable.intros api_step.intros demo_reachable(7))

text \<open>
  C27: settling the last cycle closes the group whatever became of the earlier ones: the organizer
  can settle cycle 1 of a group of two while cycle 0 is open, and the group is then CLOSED with a
  contribution to cycle 0 in its escrow that no deadline ever pays out and that no one can add to.
\<close>

theorem closed_group_keeps_money:
  "\<exists>E w gid g c. reachable E w \<and> GetGroup (store w) gid = Inr g \<and> g_State g = GroupClosed
    \<and> GetCycle (store w) gid 0 = Inr c \<and> \<not> c_Settled c \<and> EscrowBalance (ListEscrowByGroup (store w) gid) = 100
    \<and> (\<forall>now. ProcessDeadlines E now w = Some (0, w))
    \<and> (\<forall>uid src. \<exists>e. SubmitContribution E uid gid 0 src w = (Inl e, w) \<and> errors_Is e ErrConflict)"
proof -
  let ?g = "demo_running\<lparr>g_State := GroupClosed\<rparr>"
  have "GetGroup (store early8) (demo_id 4) = Inr ?g" "GetCycle (store early8) (demo_id 4) 0 = Inr (demo_cycle 0 1 False)"
    by (simp_all add: GetGroup_def GetCycle_def gm_get_def found_def)
  moreover have "ProcessDeadlines demo_env now early8 = Some (0, early8)" for now
  proof -
    have "set (fst (ListGroups (store early8) p)) \<subseteq> {?g}" for p
      using pick_page_set [of "[?g]" p] by (simp add: ListGroups_def gm_range_def)
    moreover have "drain_groups demo_env now gs n early8 = Some (n, early8)" if "set gs \<subseteq> {?g}" for gs n
      using that by (induction gs) simp_all
    ultimately show ?thesis
      by (simp add: ProcessDeadlines_def)
  qed
  moreover have "\<exists>e. SubmitContribution demo_env uid (demo_id 4) 0 src early8 = (Inl e, early8) \<and> errors_Is e ErrConflict"
    for uid src
    by (simp add: SubmitContribution_def exec demo_store)
  ultimately show ?thesis
    using early8_reachable early8(3)
    by (intro exI [of _ demo_env] exI [of _ early8] exI [of _ "demo_id 4"] exI [of _ ?g]
       exI [of _ "demo_cycle 0 1 False"]) simp
qed

section \<open>Groups on Postgres\<close>

text \<open>
  C20: the Postgres store accepts no group that the service creates: a new group has no payout order yet,
  the driver sends a nil slice as NULL, and the column is NOT NULL. The insert fails whatever the
  database holds.
\<close>

theorem pg_refuses_new_groups:
  assumes "CreateGroup E uid inp w = (Inr g, w')" and "nilv = SNull"
  shows "pg_SaveGroup nilv g db = Inl constraint_failed"
proof -
  have "g_PayoutOrder g = []"
    using assms(1) by (auto simp: CreateGroup_def exec Let_def split: prod.splits sum.splits if_splits)
  then have "column ''payout_order'' (pg_group_row nilv g) = SNull"
    using assms(2) by (simp add: column_def pg_group_row_def pg_group_cols_def pg_texts_def)
  then have "\<not> groups_check (pg_group_row nilv g)"
    by (simp add: groups_check_def not_null_def pg_group_cols_def)
  then show ?thesis
    by (simp add: pg_SaveGroup_def pg_upsert_def stored_in_def)
qed

theorem pg_refuses_new_groups_witness:
  "\<exists>g. fst (CreateGroup demo_env (demo_id 1)
      \<lparr>cg_Name = ''g'', cg_ContributionAmount = 100, cg_CycleLength = 1000, cg_MaxMembers = 2\<rparr> demo2) = Inr g
    \<and> pg_SaveGroup SNull g new_database = Inl constraint_failed"
proof -
  have "fst (CreateGroup demo_env (demo_id 1)
      \<lparr>cg_Name = ''g'', cg_ContributionAmount = 100, cg_CycleLength = 1000, cg_MaxMembers = 2\<rparr> demo2)
    = Inr (demo_group [demo_id 1])"
    by (simp add: demo2 CreateGroup_def demo_ops demo_store booted_def NewMemory_def CanParticipate_def
        ValidateConfig_def demo_group_def demo_member_def)
  then obtain w' where "CreateGroup demo_env (demo_id 1)
      \<lparr>cg_Name = ''g'', cg_ContributionAmount = 100, cg_CycleLength = 1000, cg_MaxMembers = 2\<rparr> demo2
    = (Inr (demo_group [demo_id 1]), w')"
    by (metis prod.collapse)
  from pg_refuses_new_groups [OF this refl] show ?thesis
    using \<open>fst _ = _\<close> by blast
qed

end
