(* ===== verification/Calendar.thy ===== *)
theory Calendar
  imports Domain_Types
begin

text \<open>
  What the SQLite store uses of \<^verbatim>\<open>time.Format\<close> and \<^verbatim>\<open>time.Parse\<close>: the layout
  \<^verbatim>\<open>time.RFC3339Nano\<close> on UTC times of the years 1 to 9999. The civil date of a day is computed
  as the package does, by cycles of 400, 100, 4 and 1 years; a fraction is printed without its
  trailing zeros, and not at all when it is zero.
\<close>

section \<open>The civil calendar\<close>

definition leap :: "nat \<Rightarrow> bool" where
  "leap y \<longleftrightarrow> y mod 4 = 0 \<and> (y mod 100 \<noteq> 0 \<or> y mod 400 = 0)"

definition month_lengths :: "nat \<Rightarrow> nat list" where
  "month_lengths y = [31, if leap y then 29 else 28, 31, 30, 31, 30, 31, 31, 30, 31, 30, 31]"

text \<open>Days before the first of January of a year, counted from the first of January of year 1.\<close>

definition days_before_year :: "nat \<Rightarrow> nat" where
  "days_before_year y = 365 * (y - 1) + (y - 1) div 4 - (y - 1) div 100 + (y - 1) div 400"

text \<open>The year of a day, and the day's place in the year.\<close>

definition year_of :: "nat \<Rightarrow> nat \<times> nat" where
  "year_of d =
     (let n400 = d div 146097; d = d mod 146097;
          n100 = min 3 (d div 36524); d = d - 36524 * n100;
          n4 = d div 1461; d = d mod 1461;
          n1 = min 3 (d div 365)
      in (400 * n400 + 100 * n100 + 4 * n4 + n1 + 1, d - 365 * n1))"

fun month_of :: "nat list \<Rightarrow> nat \<Rightarrow> nat \<times> nat" where
  "month_of [] d = (0, d)"
| "month_of (l # ls) d = (if d < l then (0, d) else case month_of ls (d - l) of (k, r) \<Rightarrow> (Suc k, r))"

text \<open>Year, month from 1, day from 1.\<close>

definition civil :: "nat \<Rightarrow> nat \<times> nat \<times> nat" where
  "civil d = (case year_of d of (y, yd) \<Rightarrow> case month_of (month_lengths y) yd of (m, r) \<Rightarrow> (y, m + 1, r + 1))"

definition day_number :: "nat \<Rightarrow> nat \<Rightarrow> nat \<Rightarrow> nat" where
  "day_number y m d = days_before_year y + sum_list (take (m - 1) (month_lengths y)) + (d - 1)"

section \<open>Numbers of a fixed width\<close>

definition pad :: "nat \<Rightarrow> nat \<Rightarrow> string" where
  "pad w n = replicate (w - length (nat_digits n)) (CHR ''0'') @ nat_digits n"

definition strip_zeros :: "string \<Rightarrow> string" where
  "strip_zeros s = rev (dropWhile (\<lambda>c. c = CHR ''0'') (rev s))"

section \<open>RFC3339Nano\<close>

text \<open>1970-01-01 is day 719162 from 0001-01-01.\<close>

definition epoch_day :: int where
  "epoch_day = 719162"

definition fraction :: "nat \<Rightarrow> string" where
  "fraction n = (if n = 0 then [] else CHR ''.'' # strip_zeros (pad 9 n))"

definition tstr :: "time \<Rightarrow> string" where
  "tstr t =
     (let s = t div 1000000000; n = nat (t mod 1000000000); sec = nat (s mod 86400)
      in case civil (nat (s div 86400 + epoch_day)) of (y, m, d) \<Rightarrow>
           pad 4 y @ ''-'' @ pad 2 m @ ''-'' @ pad 2 d @ ''T'' @ pad 2 (sec div 3600) @ '':'' @
           pad 2 (sec mod 3600 div 60) @ '':'' @ pad 2 (sec mod 60) @ fraction n @ ''Z'')"

text \<open>Of Go's zero time, which a failed \<^verbatim>\<open>time.Parse\<close> leaves: midnight of 0001-01-01.\<close>

definition zero_time :: time where
  "zero_time = - (epoch_day * 86400 * 1000000000)"

definition field :: "nat \<Rightarrow> nat \<Rightarrow> string \<Rightarrow> nat" where
  "field i n s = digits_value (take n (drop i s))"

text \<open>
  The parser on the texts \<open>tstr\<close> writes, with the package's checks of the ranges; what else the layout
  admits (numeric zone offsets, a comma before the fraction, the year 0) is never stored.
\<close>

definition date_ok :: "nat \<Rightarrow> nat \<Rightarrow> nat \<Rightarrow> bool" where
  "date_ok y m d \<longleftrightarrow> 1 \<le> y \<and> 1 \<le> m \<and> m \<le> 12 \<and> 1 \<le> d \<and> d \<le> month_lengths y ! (m - 1)"

definition clock_ok :: "nat \<Rightarrow> nat \<Rightarrow> nat \<Rightarrow> bool" where
  "clock_ok h m s \<longleftrightarrow> h < 24 \<and> m < 60 \<and> s < 60"

definition frac_ok :: "string \<Rightarrow> bool" where
  "frac_ok fr \<longleftrightarrow> fr = [] \<or> hd fr = CHR ''.'' \<and> tl fr \<noteq> [] \<and> (\<forall>c \<in> set (tl fr). is_digit c)"

definition tparse :: "string \<Rightarrow> time" where
  "tparse s =
     (let frac = butlast (drop 19 s)
      in if length s < 20 \<or> last s \<noteq> CHR ''Z'' \<or> \<not> frac_ok frac
            \<or> \<not> (\<forall>i \<in> {0, 1, 2, 3, 5, 6, 8, 9, 11, 12, 14, 15, 17, 18}. is_digit (s ! i))
            \<or> map (\<lambda>i. s ! i) [4, 7, 10, 13, 16] \<noteq> ''--T::''
            \<or> \<not> date_ok (field 0 4 s) (field 5 2 s) (field 8 2 s) \<or> \<not> clock_ok (field 11 2 s) (field 14 2 s) (field 17 2 s)
         then zero_time
         else (((int (day_number (field 0 4 s) (field 5 2 s) (field 8 2 s)) - epoch_day) * 86400
                + int (field 11 2 s * 3600 + field 14 2 s * 60 + field 17 2 s)) * 1000000000
               + int (digits_value (take 9 (tl frac @ replicate 9 (CHR ''0''))))))"

text \<open>The times whose year has four digits.\<close>

definition storable :: "time \<Rightarrow> bool" where
  "storable t \<longleftrightarrow> 0 \<le> t div 1000000000 div 86400 + epoch_day \<and> t div 1000000000 div 86400 + epoch_day < 3652059"

section \<open>Round trip of the date\<close>

lemma year_of_day:
  assumes "year_of d = (y, r)"
  shows "days_before_year y + r = d \<and> r < (if leap y then 366 else 365) \<and> 0 < y"
proof -
  define a where "a = d div 146097"
  define d1 where "d1 = d mod 146097"
  define b where "b = min 3 (d1 div 36524)"
  define d2 where "d2 = d1 - 36524 * b"
  define c where "c = d2 div 1461"
  define d3 where "d3 = d2 mod 1461"
  define e where "e = min 3 (d3 div 365)"
  have y: "y = 400 * a + 100 * b + 4 * c + e + 1" and r: "r = d3 - 365 * e"
    using assms by (simp_all add: year_of_def Let_def a_def d1_def b_def d2_def c_def d3_def e_def)
  have d1: "d1 < 146097" "d = 146097 * a + d1"
    by (simp_all add: d1_def a_def)
  have "b \<le> d1 div 36524"
    by (simp add: b_def)
  then have "36524 * b \<le> d1"
    by (simp add: less_eq_div_iff_mult_less_eq mult.commute)
  then have "d1 = 36524 * b + d2"
    unfolding d2_def by linarith
  moreover have "b \<le> 3"
    by (simp add: b_def)
  ultimately have b: "b \<le> 3" "d1 = 36524 * b + d2"
    by blast+
  have d2: "d2 \<le> 36524" "b < 3 \<Longrightarrow> d2 < 36524"
  proof -
    show "d2 \<le> 36524"
    proof (cases "d1 div 36524 \<le> 3")
      case True
      then have "b = d1 div 36524"
        by (simp add: b_def)
      then have "d2 = d1 mod 36524"
        by (simp add: d2_def minus_mult_div_eq_mod)
      then show ?thesis
        by (simp add: less_imp_le)
    next
      case False
      then have "b = 3"
        by (simp add: b_def)
      then show ?thesis
        using b(2) d1(1) by linarith
    qed
    show "d2 < 36524" if "b < 3"
    proof -
      have "b = d1 div 36524"
        using that by (simp add: b_def min_def split: if_splits)
      then have "d2 = d1 mod 36524"
        by (simp add: d2_def minus_mult_div_eq_mod)
      then show ?thesis
        by simp
    qed
  qed
  have c: "d2 = 1461 * c + d3" "d3 < 1461" "c \<le> 24"
    using d2(1) div_le_mono [of d2 36524 1461] by (simp_all add: c_def d3_def)
  have "e \<le> d3 div 365"
    by (simp add: e_def)
  then have "365 * e \<le> d3"
    by (simp add: less_eq_div_iff_mult_less_eq mult.commute)
  with r have "d3 = 365 * e + r"
    by linarith
  moreover have "e \<le> 3"
    by (simp add: e_def)
  ultimately have e: "e \<le> 3" "d3 = 365 * e + r"
    by blast+
  have r365: "e < 3 \<Longrightarrow> r < 365"
  proof -
    assume "e < 3"
    then have "e = d3 div 365"
      by (simp add: e_def min_def split: if_splits)
    then have "r = d3 mod 365"
      by (simp add: r minus_mult_div_eq_mod)
    then show "r < 365"
      by simp
  qed
  have q: "(y - 1) div 4 = 100 * a + 25 * b + c" "(y - 1) div 100 = 4 * a + b" "(y - 1) div 400 = a"
  proof -
    have "y - 1 = e + (100 * a + 25 * b + c) * 4" "y - 1 = (4 * c + e) + (4 * a + b) * 100"
      "y - 1 = (100 * b + 4 * c + e) + a * 400"
      by (simp_all add: y)
    note * = this
    have z: "e div 4 = 0" "(4 * c + e) div 100 = 0" "(100 * b + 4 * c + e) div 400 = 0"
      using e(1) c(3) b(1) by simp_all
    show "(y - 1) div 4 = 100 * a + 25 * b + c" "(y - 1) div 100 = 4 * a + b" "(y - 1) div 400 = a"
      by (simp only: *(1) div_mult_self1 z add_0_right numeral_neq_zero not_False_eq_True,
          simp only: *(2) div_mult_self1 z add_0_right numeral_neq_zero not_False_eq_True,
          simp only: *(3) div_mult_self1 z add_0_right numeral_neq_zero not_False_eq_True)
  qed
  have "days_before_year y + r = d"
    unfolding days_before_year_def q using y b c e d1 by simp
  moreover have "r < (if leap y then 366 else 365)"
  proof (cases "e = 3")
    case False
    with e(1) r365 show ?thesis
      by simp
  next
    case True
    then have y4: "y = 4 * (100 * a + 25 * b + c + 1)"
      by (simp add: y)
    show ?thesis
    proof (cases "c = 24 \<and> b \<noteq> 3")
      case True
      then have "d2 < 36524"
        using b(1) d2(2) by simp
      then have "r < 365"
        using True \<open>e = 3\<close> c e by simp
      then show ?thesis
        by simp
    next
      case False
      have "y mod 4 = 0"
        by (simp add: y4)
      moreover have "y mod 100 \<noteq> 0 \<or> y mod 400 = 0"
      proof (cases "c = 24")
        case True
        with False have "y = 400 * (a + 1)"
          by (simp add: y \<open>e = 3\<close>)
        then show ?thesis
          by simp
      next
        case False
        have "y = (4 * c + 4) + (4 * a + b) * 100"
          by (simp add: y \<open>e = 3\<close>)
        then have "y mod 100 = 4 * c + 4"
          using False c(3) by (simp only: mod_mult_self1) simp
        then show ?thesis
          by simp
      qed
      ultimately have "leap y"
        by (simp add: leap_def)
      then show ?thesis
        using True c e by simp
    qed
  qed
  ultimately show ?thesis
    using y by simp
qed

lemma month_of_sum:
  "month_of ls d = (k, r) \<Longrightarrow> d < sum_list ls \<Longrightarrow> sum_list (take k ls) + r = d \<and> k < length ls \<and> r < ls ! k"
proof (induction ls arbitrary: d k r)
  case (Cons l ls)
  show ?case
  proof (cases "d < l")
    case False
    obtain k' where k: "month_of ls (d - l) = (k', r)" "k = Suc k'"
      using Cons.prems(1) False by (auto split: prod.splits)
    have "d - l < sum_list ls"
      using Cons.prems(2) False by simp
    from Cons.IH [OF k(1) this] have ih: "sum_list (take k' ls) + r = d - l" "k' < length ls" "r < ls ! k'"
      by simp_all
    then have "l + sum_list (take k' ls) + r = d"
      using False by linarith
    with ih k(2) show ?thesis
      by simp
  qed (use Cons in auto)
qed simp

lemma month_lengths_sum: "sum_list (month_lengths y) = (if leap y then 366 else 365)"
  by (simp add: month_lengths_def)

lemma civil_day: "civil d = (y, m, k) \<Longrightarrow>
    day_number y m k = d \<and> 0 < y \<and> 1 \<le> m \<and> m \<le> 12 \<and> 1 \<le> k \<and> k \<le> 31 \<and> date_ok y m k"
proof -
  assume c: "civil d = (y, m, k)"
  obtain yd where yd: "year_of d = (y, yd)"
    using c by (auto simp: civil_def split: prod.splits)
  note Y = year_of_day [OF yd]
  obtain m' k' where mk: "month_of (month_lengths y) yd = (m', k')" "m = m' + 1" "k = k' + 1"
    using c yd by (auto simp: civil_def split: prod.splits)
  have "yd < sum_list (month_lengths y)"
    using Y by (simp add: month_lengths_sum)
  note M = month_of_sum [OF mk(1) this]
  have "m' < 12"
    using M by (simp add: month_lengths_def)
  moreover have "\<forall>l \<in> set (month_lengths y). l \<le> 31"
    by (simp add: month_lengths_def)
  moreover have "month_lengths y ! m' \<in> set (month_lengths y)"
    using M by simp
  ultimately have "k' < 31"
    using M by (meson less_le_trans)
  with M Y mk \<open>m' < 12\<close> show ?thesis
    by (simp add: day_number_def date_ok_def)
qed

lemma year_bound:
  assumes "d < 3652059" and "civil d = (y, m, k)"
  shows "y \<le> 9999"
proof (rule ccontr)
  assume "\<not> y \<le> 9999"
  then have n: "9999 \<le> y - 1"
    by simp
  have "3652059 \<le> days_before_year y"
  proof (cases "y - 1 = 9999")
    case False
    with n have *: "100 \<le> (y - 1) div 100" "25 \<le> (y - 1) div 400"
      by (simp_all add: less_eq_div_iff_mult_less_eq)
    have "(y - 1) div 100 * 100 \<le> y - 1"
      by (rule div_times_less_eq_dividend)
    then have "25 * ((y - 1) div 100) \<le> (y - 1) div 4"
      by (simp add: less_eq_div_iff_mult_less_eq)
    moreover have "3652059 \<le> 365 * n + p - q + r" if "9999 \<le> n" "n \<noteq> 9999" "100 \<le> q" "25 \<le> r" "25 * q \<le> p"
      for n p q r :: nat
      using that by linarith
    ultimately show ?thesis
      using n False * unfolding days_before_year_def by blast
  qed (simp add: days_before_year_def)
  moreover have "days_before_year y \<le> d"
    using civil_day [OF assms(2)] by (auto simp: day_number_def)
  ultimately show False
    using assms(1) by simp
qed


section \<open>Round trip of a time\<close>

lemma foldl_base: "foldl (\<lambda>v c. 10 * v + f c) a ys = a * 10 ^ length ys + foldl (\<lambda>v c. 10 * v + f c) 0 ys" for a :: nat
proof (induction ys arbitrary: a)
  case (Cons y ys)
  from Cons [of "10 * a + f y"] Cons [of "f y"] show ?case
    by (simp add: algebra_simps)
qed simp

lemma digits_value_append: "digits_value (xs @ ys) = digits_value xs * 10 ^ length ys + digits_value ys"
  unfolding digits_value_def foldl_append by (rule foldl_base)

lemma digits_value_zeros: "digits_value (replicate k (CHR ''0'')) = 0"
  by (induction k) (simp_all add: digits_value_def)

lemma pad_value [simp]: "digits_value (pad w n) = n"
  by (simp add: pad_def digits_value_append digits_value_zeros nat_digits_value)

lemma pad_length: "0 < w \<Longrightarrow> n < 10 ^ w \<Longrightarrow> length (pad w n) = w"
  using nat_digits_length [of w n] by (simp add: pad_def)

lemma pad_digits: "c \<in> set (pad w n) \<Longrightarrow> is_digit c"
  by (auto simp: pad_def dest: nat_digits_is_digit)

lemma strip_zeros_snoc: "strip_zeros (s @ [c]) = (if c = CHR ''0'' then strip_zeros s else s @ [c])"
  by (simp add: strip_zeros_def)

lemma strip_zeros_length: "length (strip_zeros s) \<le> length s"
  by (induction s rule: rev_induct) (simp_all add: strip_zeros_snoc strip_zeros_def)

lemma strip_zeros_pad: "strip_zeros s @ replicate (length s - length (strip_zeros s)) (CHR ''0'') = s"
proof (induction s rule: rev_induct)
  case (snoc c s)
  let ?z = "replicate (length s - length (strip_zeros s)) (CHR ''0'')"
  have "strip_zeros s @ CHR ''0'' # ?z = (strip_zeros s @ ?z) @ ''0''"
    by (simp add: replicate_append_same)
  then show ?case
    using snoc strip_zeros_length [of s] by (simp add: strip_zeros_snoc Suc_diff_le)
qed (simp add: strip_zeros_def)

lemma fraction_value:
  assumes "n < 10 ^ 9"
  shows "digits_value (take 9 (tl (fraction n) @ replicate 9 (CHR ''0''))) = n"
proof (cases "n = 0")
  case True
  then show ?thesis
    by (simp add: fraction_def digits_value_zeros)
next
  case False
  let ?s = "strip_zeros (pad 9 n)"
  have len: "length (pad 9 n) = 9"
    using assms by (simp add: pad_length)
  have s: "?s @ replicate (9 - length ?s) (CHR ''0'') = pad 9 n"
    using strip_zeros_pad [of "pad 9 n"] by (simp add: len)
  then have "length ?s \<le> 9"
    by (metis le_add1 len length_append)
  then have "take 9 (?s @ replicate 9 (CHR ''0'')) = pad 9 n"
    using s by (simp add: take_replicate min_def)
  with False show ?thesis
    by (simp add: fraction_def)
qed

lemma fraction_ok: "frac_ok (fraction n)"
proof (cases "n = 0")
  case False
  let ?s = "strip_zeros (pad 9 n)"
  have "?s \<noteq> []"
  proof
    assume "?s = []"
    then have "pad 9 n = replicate (length (pad 9 n)) (CHR ''0'')"
      using strip_zeros_pad [of "pad 9 n"] by simp
    then have "digits_value (pad 9 n) = 0"
      by (metis digits_value_zeros)
    with False show False
      by simp
  qed
  moreover have "set ?s \<subseteq> set (pad 9 n)"
    unfolding strip_zeros_def by (auto dest: set_dropWhileD)
  ultimately show ?thesis
    using False pad_digits by (auto simp: frac_ok_def fraction_def)
qed (simp add: frac_ok_def fraction_def)

lemma tstr_clock:
  fixes s :: int
  assumes "sec = nat (s mod 86400)"
  shows "int (sec div 3600 * 3600 + sec mod 3600 div 60 * 60 + sec mod 60) = s mod 86400"
    and "sec div 3600 < 24" "sec mod 3600 div 60 < 60" "sec mod 60 < 60"
proof -
  have "sec < 86400"
    using assms by simp
  then show "sec div 3600 < 24" "sec mod 3600 div 60 < 60" "sec mod 60 < 60"
    by (simp_all add: less_mult_imp_div_less)
  have "sec mod 3600 mod 60 = sec mod 60"
    by (simp add: mod_mod_cancel)
  then have "sec div 3600 * 3600 + sec mod 3600 div 60 * 60 + sec mod 60 = sec"
    by (metis (no_types) div_mult_mod_eq add.assoc)
  then show "int (sec div 3600 * 3600 + sec mod 3600 div 60 * 60 + sec mod 60) = s mod 86400"
    using assms by simp
qed

lemma tparse_shape:
  assumes "length a = 4" "length b = 2" "length c = 2" "length h = 2" "length m = 2" "length s = 2"
    and "\<forall>x \<in> set (a @ b @ c @ h @ m @ s). is_digit x" and "frac_ok fr"
    and "date_ok (digits_value a) (digits_value b) (digits_value c)"
    and "clock_ok (digits_value h) (digits_value m) (digits_value s)"
  shows "tparse (a @ ''-'' @ b @ ''-'' @ c @ ''T'' @ h @ '':'' @ m @ '':'' @ s @ fr @ ''Z'') =
     ((int (day_number (digits_value a) (digits_value b) (digits_value c)) - epoch_day) * 86400
       + int (digits_value h * 3600 + digits_value m * 60 + digits_value s)) * 1000000000
     + int (digits_value (take 9 (tl fr @ replicate 9 (CHR ''0''))))"
proof -
  obtain a0 a1 a2 a3 where a: "a = [a0, a1, a2, a3]"
    using assms(1) by (auto simp: length_Suc_conv numeral_eq_Suc)
  obtain b0 b1 c0 c1 h0 h1 m0 m1 s0 s1 where "b = [b0, b1]" "c = [c0, c1]" "h = [h0, h1]" "m = [m0, m1]" "s = [s0, s1]"
    using assms(2-6) by (auto simp: length_Suc_conv numeral_eq_Suc)
  with a assms(7-10) show ?thesis
    by (cases "fr = []") (simp_all add: tparse_def Let_def field_def)
qed

lemma tparse_of_tstr:
  assumes "storable t"
  shows "tparse (tstr t) = t"
proof -
  define s where "s = t div 1000000000"
  define n where "n = nat (t mod 1000000000)"
  define sec where "sec = nat (s mod 86400)"
  define day where "day = nat (s div 86400 + epoch_day)"
  obtain y m d where ymd: "civil day = (y, m, d)"
    by (metis prod_cases3)
  have day: "day < 3652059" "int day = s div 86400 + epoch_day"
    using assms by (simp_all add: day_def s_def storable_def nat_less_iff)
  note Y = civil_day [OF ymd] and clock = tstr_clock [OF sec_def]
  have y: "y < 10 ^ 4"
    using year_bound [OF day(1) ymd] by simp
  have n: "n < 10 ^ 9" "int n = t mod 1000000000"
    by (simp_all add: n_def nat_less_iff)
  have "tstr t = pad 4 y @ ''-'' @ pad 2 m @ ''-'' @ pad 2 d @ ''T'' @ pad 2 (sec div 3600) @ '':'' @
           pad 2 (sec mod 3600 div 60) @ '':'' @ pad 2 (sec mod 60) @ fraction n @ ''Z''"
    using ymd by (simp add: tstr_def Let_def s_def n_def sec_def day_def)
  also have "tparse \<dots> = ((int (day_number y m d) - epoch_day) * 86400
       + int (sec div 3600 * 3600 + sec mod 3600 div 60 * 60 + sec mod 60)) * 1000000000 + int n"
  proof -
    have small: "y < 10 ^ 4" "m < 10 ^ 2" "d < 10 ^ 2" "sec div 3600 < 10 ^ 2" "sec mod 3600 div 60 < 10 ^ 2"
        "sec mod 60 < 10 ^ 2"
      using Y y clock by simp_all
    have digits: "\<forall>x \<in> set (pad 4 y @ pad 2 m @ pad 2 d @ pad 2 (sec div 3600) @ pad 2 (sec mod 3600 div 60)
        @ pad 2 (sec mod 60)). is_digit x"
      using pad_digits by (simp only: set_append Un_iff) blast
    have ranges: "date_ok y m d" "clock_ok (sec div 3600) (sec mod 3600 div 60) (sec mod 60)"
      using Y clock by (simp_all add: clock_ok_def)
    show ?thesis
      using small ranges by (subst tparse_shape [OF _ _ _ _ _ _ digits fraction_ok])
        (simp_all only: pad_length pad_value fraction_value [OF n(1)] zero_less_numeral)
  qed
  also have "\<dots> = (s div 86400 * 86400 + s mod 86400) * 1000000000 + t mod 1000000000"
    using Y day(2) clock(1) n(2) by simp
  also have "\<dots> = t"
    by (simp add: s_def)
  finally show ?thesis .
qed

lemma leap_day_text:
  "tstr 951786245500000000 = ''2000-02-29T01:04:05.5Z''" "tstr 951786245000000000 = ''2000-02-29T01:04:05Z''"
proof -
  have split: "(951786245500000000 :: int) div 1000000000 = 951786245" "(951786245500000000 :: int) mod 1000000000 = 500000000"
    "(951786245000000000 :: int) div 1000000000 = 951786245" "(951786245000000000 :: int) mod 1000000000 = 0"
    by simp_all
  have day: "civil 730178 = (2000, 2, 29)"
    by (simp add: civil_def year_of_def month_lengths_def leap_def)
  have year: "pad 4 2000 = ''2000''"
    by (simp add: pad_def nat_digits.simps char_of_def bit_Suc_0_iff)
  have two: "pad 2 5 = ''05''" "pad 2 4 = ''04''" "pad 2 1 = ''01''" "pad 2 (Suc 0) = ''01''" "pad 2 2 = ''02''"
    "pad 2 29 = ''29''"
    by (simp_all add: pad_def nat_digits.simps char_of_def bit_Suc_0_iff)
  have frac: "fraction 500000000 = ''.5''" "fraction 0 = []"
    by (simp_all add: fraction_def pad_def strip_zeros_def nat_digits.simps char_of_def bit_Suc_0_iff)
  show "tstr 951786245500000000 = ''2000-02-29T01:04:05.5Z''" "tstr 951786245000000000 = ''2000-02-29T01:04:05Z''"
    by (simp_all add: tstr_def split day year two frac epoch_day_def)
qed

text \<open>
  C38: a time of the years 1 to 9999 written by \<open>tstr\<close> is read back by \<open>tparse\<close> to the nanosecond.
\<close>

theorem tparse_tstr:
  assumes "storable t"
  shows "tparse (tstr t) = t"
  using assms by (rule tparse_of_tstr)

theorem tparse_tstr_witness: "tparse ''2000-02-29T01:04:05.5Z'' = 951786245500000000"
  using tparse_tstr [of 951786245500000000] by (simp add: leap_day_text storable_def epoch_day_def)

end
