(* ===== verification/Json_Text.thy ===== *)
theory Json_Text
  imports Domain_Types
begin

text \<open>
  What the SQLite store uses of \<^verbatim>\<open>encoding/json\<close>: a slice of strings as a JSON array, and
  back. Bytes from 0x80 on are copied, as the package does for valid UTF-8; the two separators
  U+2028 and U+2029, which it escapes, are copied here as well. An empty slice is the nil slice,
  which prints as \<^verbatim>\<open>null\<close>: the stored slices that can be empty are never allocated.
\<close>

section \<open>Strings\<close>

abbreviation dquote :: char where "dquote \<equiv> CHR 0x22"
abbreviation bslash :: char where "bslash \<equiv> CHR 0x5C"

text \<open>The package's short escapes and the bytes they stand for.\<close>

definition short_escapes :: "(char \<times> char) list" where
  "short_escapes =
     [(dquote, dquote), (bslash, bslash), (CHR 0x08, CHR ''b''), (CHR 0x0C, CHR ''f''), (CHR 0x0A, CHR ''n''),
      (CHR 0x0D, CHR ''r''), (CHR 0x09, CHR ''t'')]"

definition html_or_control :: "char \<Rightarrow> bool" where
  "html_or_control c \<longleftrightarrow> of_char c < (32 :: nat) \<or> c = CHR ''<'' \<or> c = CHR ''>'' \<or> c = CHR ''&''"

definition json_escape :: "char \<Rightarrow> string" where
  "json_escape c =
     (case map_of short_escapes c of
        Some e \<Rightarrow> [bslash, e]
      | None \<Rightarrow> if html_or_control c
                then [bslash, CHR ''u'', CHR ''0'', CHR ''0'', hex_digit (of_char c div 16), hex_digit (of_char c mod 16)]
                else [c])"

definition json_string :: "string \<Rightarrow> string" where
  "json_string s = dquote # concat (map json_escape s) @ [dquote]"

text \<open>The rest of a string after its opening quote: the bytes up to the closing one, and what follows.\<close>

definition hex_value :: "char \<Rightarrow> nat option" where
  "hex_value c = List.find (\<lambda>n. hex_digit n = c) [0..<16]"

fun short_unescape :: "(char \<times> char) list \<Rightarrow> char \<Rightarrow> char option" where
  "short_unescape [] e = None"
| "short_unescape ((c, d) # ps) e = (if d = e then Some c else short_unescape ps e)"

fun json_chars :: "string \<Rightarrow> (string \<times> string) option" where
  "json_chars [] = None"
| "json_chars [c] = (if c = dquote then Some ([], []) else None)"
| "json_chars (c # e # s) =
     (if c = dquote then Some ([], e # s)
      else if c = bslash then
        (if e = CHR ''u'' then
           (case s of
              a # b # h # l # s' \<Rightarrow>
                (case (hex_value h, hex_value l) of
                   (Some x, Some y) \<Rightarrow>
                     if a = CHR ''0'' \<and> b = CHR ''0'' \<and> x < 8
                     then map_option (\<lambda>(cs, r). (char_of (16 * x + y) # cs, r)) (json_chars s')
                     else None
                 | _ \<Rightarrow> None)
            | _ \<Rightarrow> None)
         else
           (case short_unescape ((CHR ''/'', CHR ''/'') # short_escapes) e of
              Some d \<Rightarrow> map_option (\<lambda>(cs, r). (d # cs, r)) (json_chars s)
            | None \<Rightarrow> None))
      else if of_char c < (32 :: nat) then None
      else map_option (\<lambda>(cs, r). (c # cs, r)) (json_chars (e # s)))"

section \<open>Arrays of strings\<close>

fun json_elems :: "string list \<Rightarrow> string" where
  "json_elems [] = []"
| "json_elems [x] = json_string x"
| "json_elems (x # y # ys) = json_string x @ CHR '','' # json_elems (y # ys)"

definition mustJSON :: "string list \<Rightarrow> string" where
  "mustJSON xs = (if xs = [] then ''null'' else CHR ''['' # json_elems xs @ '']'')"

text \<open>\<open>n\<close> bounds the number of elements.\<close>

fun json_items :: "nat \<Rightarrow> string \<Rightarrow> string list option" where
  "json_items 0 s = None"
| "json_items (Suc n) s =
     (case s of
        q # s' \<Rightarrow>
          if q \<noteq> dquote then None
          else (case json_chars s' of
             Some (x, c # r) \<Rightarrow>
               if c = CHR '','' then map_option ((#) x) (json_items n r)
               else if c = CHR '']'' \<and> r = [] then Some [x] else None
           | _ \<Rightarrow> None)
      | [] \<Rightarrow> None)"

text \<open>
  \<^verbatim>\<open>_ = json.Unmarshal([]byte(s), &out)\<close>: on an error \<^verbatim>\<open>out\<close> stays nil. Arrays are read as
  \<open>mustJSON\<close> writes them, without white space between the tokens.
\<close>

definition parseStrSlice :: "string \<Rightarrow> string list" where
  "parseStrSlice s =
     (case s of
        c # s' \<Rightarrow> if c = CHR ''['' then (case json_items (length s') s' of Some xs \<Rightarrow> xs | None \<Rightarrow> []) else []
      | [] \<Rightarrow> [])"

section \<open>Round trip\<close>

lemma hex_value_digit: "n < 16 \<Longrightarrow> hex_value (hex_digit n) = Some n"
proof -
  assume "n < 16"
  then have "\<forall>k \<in> {0..<16}. hex_value (hex_digit k) = Some k"
    by (simp add: hex_value_def hex_digit_def atLeastLessThan_nat_numeral upt_conv_Cons char_of_def bit_Suc_0_iff)
  with \<open>n < 16\<close> show ?thesis
    by simp
qed

lemma json_chars_escape: "json_chars (json_escape c @ s) = map_option (\<lambda>(cs, r). (c # cs, r)) (json_chars s)"
proof (cases "c \<in> fst ` set short_escapes")
  case True
  then consider "c = dquote" | "c = bslash" | "c = CHR 0x08" | "c = CHR 0x0C" | "c = CHR 0x0A" | "c = CHR 0x0D" | "c = CHR 0x09"
    by (auto simp: short_escapes_def)
  then show ?thesis
    by cases (simp_all add: json_escape_def short_escapes_def)
next
  case False
  then have none: "map_of short_escapes c = None"
    by (simp add: map_of_eq_None_iff)
  have c: "c \<noteq> dquote" "c \<noteq> bslash"
    using False by (auto simp: short_escapes_def)
  show ?thesis
  proof (cases "html_or_control c")
    case True
    let ?n = "of_char c :: nat"
    have n: "?n < 128"
      using True by (auto simp: html_or_control_def)
    then have "hex_value (hex_digit (?n div 16)) = Some (?n div 16)" "hex_value (hex_digit (?n mod 16)) = Some (?n mod 16)"
        "?n div 16 < 8"
      by (simp_all add: hex_value_digit less_mult_imp_div_less)
    with True none show ?thesis
      by (simp add: json_escape_def)
  next
    case plain: False
    then have "\<not> of_char c < (32 :: nat)"
      by (simp add: html_or_control_def)
    with plain none c show ?thesis
      by (cases s) (simp_all add: json_escape_def)
  qed
qed

lemma json_chars_string: "json_chars (concat (map json_escape s) @ dquote # r) = Some (s, r)"
proof (induction s)
  case Nil
  show ?case
    by (cases r) simp_all
next
  case (Cons c s)
  then show ?case
    by (simp add: json_chars_escape)
qed

lemma json_items_elems: "length xs \<le> n \<Longrightarrow> xs \<noteq> [] \<Longrightarrow> json_items n (json_elems xs @ '']'') = Some xs"
proof (induction xs arbitrary: n rule: json_elems.induct)
  case (2 x)
  then show ?case
    by (cases n) (simp_all add: json_string_def json_chars_string)
next
  case (3 x y ys)
  then show ?case
    by (cases n) (simp_all add: json_string_def json_chars_string)
qed simp

lemma json_elems_length: "length xs \<le> length (json_elems xs)"
  by (induction xs rule: json_elems.induct) (simp_all add: json_string_def)

lemma parseStrSlice_mustJSON [simp]: "parseStrSlice (mustJSON xs) = xs"
proof (cases "xs = []")
  case False
  then have "json_items (length (json_elems xs @ '']'')) (json_elems xs @ '']'') = Some xs"
    by (intro json_items_elems) (use json_elems_length [of xs] in simp_all)
  with False show ?thesis
    by (simp add: mustJSON_def parseStrSlice_def del: json_items.simps length_append)
qed (simp add: mustJSON_def parseStrSlice_def)

end
