(* ===== verification/Sqlite_Rows.thy ===== *)
theory Sqlite_Rows
  imports Store_Mirror Calendar Json_Text
begin

text \<open>
  \<^verbatim>\<open>internal/store/sqlitestore/sqlitestore.go\<close>, its helpers and the row of each entity: the
  argument list of the \<^verbatim>\<open>INSERT\<close>, in the order of its columns, and the \<^verbatim>\<open>Scan\<close> that reads
  it back. Times are RFC3339Nano text, money and durations 64-bit integers, booleans 0 and 1, string
  slices JSON, an absent time NULL. A column of another type than the statement wrote fails to scan.
\<close>

section \<open>Helpers\<close>

definition nullTime :: "time option \<Rightarrow> sqlval" where
  "nullTime t = (case t of None \<Rightarrow> SNull | Some x \<Rightarrow> SText (tstr x))"

definition optTime :: "string option \<Rightarrow> time option" where
  "optTime ns = (case ns of None \<Rightarrow> None | Some s \<Rightarrow> if s = [] then None else Some (tparse s))"

definition boolToInt :: "bool \<Rightarrow> int" where
  "boolToInt b = (if b then 1 else 0)"

definition limit :: "page \<Rightarrow> int" where
  "limit p = (if p_Limit p \<le> 0 then 50 else p_Limit p)"

section \<open>Rows\<close>

text \<open>Users.\<close>

definition user_cols :: "string list" where
  "user_cols =
     [''id'', ''email'', ''display_name'', ''wallet_address'', ''identity_commitment'', ''kyc_provider'',
      ''kyc_status'', ''role'', ''status'', ''password_hash'', ''created_at'', ''updated_at'']"

definition user_row :: "user \<Rightarrow> row" where
  "user_row u = row_of user_cols
     [SText (u_ID u), SText (u_Email u), SText (u_DisplayName u), SText (u_WalletAddress u),
      SText (u_IdentityCommitment u), SText (u_KYCProvider u), SText (kyc_status_string (u_KYCStatus u)),
      SText (role_string (u_Role u)), SText (user_status_string (u_Status u)), SText (u_PasswordHash u),
      SText (tstr (u_CreatedAt u)), SText (tstr (u_UpdatedAt u))]"

definition scan_user :: "row \<Rightarrow> err + user" where
  "scan_user r = scanned (do {
       id' \<leftarrow> text_at r ''id'';
       email \<leftarrow> text_at r ''email'';
       display_name \<leftarrow> text_at r ''display_name'';
       wallet_address \<leftarrow> text_at r ''wallet_address'';
       identity_commitment \<leftarrow> text_at r ''identity_commitment'';
       kyc_provider \<leftarrow> text_at r ''kyc_provider'';
       kyc_status \<leftarrow> Option.bind (text_at r ''kyc_status'') kyc_status_of;
       role \<leftarrow> Option.bind (text_at r ''role'') role_of;
       status \<leftarrow> Option.bind (text_at r ''status'') user_status_of;
       password_hash \<leftarrow> text_at r ''password_hash'';
       created_at \<leftarrow> map_option tparse (text_at r ''created_at'');
       updated_at \<leftarrow> map_option tparse (text_at r ''updated_at'');
       Some \<lparr>u_ID = id', u_Email = email, u_DisplayName = display_name, u_WalletAddress = wallet_address,
             u_IdentityCommitment = identity_commitment, u_KYCProvider = kyc_provider,
             u_KYCStatus = kyc_status, u_Role = role, u_Status = status, u_PasswordHash = password_hash,
             u_CreatedAt = created_at, u_UpdatedAt = updated_at\<rparr>})"

text \<open>Groups.\<close>

definition group_cols :: "string list" where
  "group_cols =
     [''id'', ''contract_address'', ''name'', ''organizer_id'', ''contribution_amount'',
      ''cycle_length_ns'', ''max_members'', ''total_cycles'', ''members_json'', ''payout_order_json'',
      ''state'', ''created_at'', ''activated_at'']"

definition group_row :: "group \<Rightarrow> row" where
  "group_row g = row_of group_cols
     [SText (g_ID g), SText (g_ContractAddress g), SText (g_Name g), SText (g_OrganizerID g),
      SInt (sint (g_ContributionAmount g)), SInt (sint (g_CycleLength g)), SInt (g_MaxMembers g),
      SInt (g_TotalCycles g), SText (mustJSON (g_Members g)), SText (mustJSON (g_PayoutOrder g)),
      SText (group_state_string (g_State g)), SText (tstr (g_CreatedAt g)), nullTime (g_ActivatedAt g)]"

definition scan_group :: "row \<Rightarrow> err + group" where
  "scan_group r = scanned (do {
       id' \<leftarrow> text_at r ''id'';
       contract_address \<leftarrow> text_at r ''contract_address'';
       name \<leftarrow> text_at r ''name'';
       organizer_id \<leftarrow> text_at r ''organizer_id'';
       contribution_amount \<leftarrow> map_option word_of_int (int_at r ''contribution_amount'');
       cycle_length_ns \<leftarrow> map_option word_of_int (int_at r ''cycle_length_ns'');
       max_members \<leftarrow> int_at r ''max_members'';
       total_cycles \<leftarrow> int_at r ''total_cycles'';
       members_json \<leftarrow> map_option parseStrSlice (text_at r ''members_json'');
       payout_order_json \<leftarrow> map_option parseStrSlice (text_at r ''payout_order_json'');
       state \<leftarrow> Option.bind (text_at r ''state'') group_state_of;
       created_at \<leftarrow> map_option tparse (text_at r ''created_at'');
       activated_at \<leftarrow> map_option optTime (null_text_at r ''activated_at'');
       Some \<lparr>g_ID = id', g_ContractAddress = contract_address, g_Name = name, g_OrganizerID = organizer_id,
             g_ContributionAmount = contribution_amount, g_CycleLength = cycle_length_ns,
             g_MaxMembers = max_members, g_TotalCycles = total_cycles, g_Members = members_json,
             g_PayoutOrder = payout_order_json, g_State = state, g_CreatedAt = created_at,
             g_ActivatedAt = activated_at\<rparr>})"

text \<open>Memberships.\<close>

definition membership_cols :: "string list" where
  "membership_cols =
     [''id'', ''group_id'', ''user_id'', ''organizer'', ''status'', ''joined_at'']"

definition membership_row :: "membership \<Rightarrow> row" where
  "membership_row m = row_of membership_cols
     [SText (m_ID m), SText (m_GroupID m), SText (m_UserID m), SInt (boolToInt (m_Organizer m)),
      SText (membership_status_string (m_Status m)), SText (tstr (m_JoinedAt m))]"

definition scan_membership :: "row \<Rightarrow> err + membership" where
  "scan_membership r = scanned (do {
       id' \<leftarrow> text_at r ''id'';
       group_id \<leftarrow> text_at r ''group_id'';
       user_id \<leftarrow> text_at r ''user_id'';
       organizer \<leftarrow> map_option (\<lambda>i. i = 1) (int_at r ''organizer'');
       status \<leftarrow> Option.bind (text_at r ''status'') membership_status_of;
       joined_at \<leftarrow> map_option tparse (text_at r ''joined_at'');
       Some \<lparr>m_ID = id', m_GroupID = group_id, m_UserID = user_id, m_Organizer = organizer,
             m_Status = status, m_JoinedAt = joined_at\<rparr>})"

text \<open>Join requests.\<close>

definition join_request_cols :: "string list" where
  "join_request_cols =
     [''id'', ''group_id'', ''user_id'', ''status'', ''created_at'', ''decided_at'', ''decided_by'']"

definition join_request_row :: "join_request \<Rightarrow> row" where
  "join_request_row j = row_of join_request_cols
     [SText (j_ID j), SText (j_GroupID j), SText (j_UserID j),
      SText (join_request_status_string (j_Status j)), SText (tstr (j_CreatedAt j)),
      nullTime (j_DecidedAt j), SText (j_DecidedBy j)]"

definition scan_join_request :: "row \<Rightarrow> err + join_request" where
  "scan_join_request r = scanned (do {
       id' \<leftarrow> text_at r ''id'';
       group_id \<leftarrow> text_at r ''group_id'';
       user_id \<leftarrow> text_at r ''user_id'';
       status \<leftarrow> Option.bind (text_at r ''status'') join_request_status_of;
       created_at \<leftarrow> map_option tparse (text_at r ''created_at'');
       decided_at \<leftarrow> map_option optTime (null_text_at r ''decided_at'');
       decided_by \<leftarrow> text_at r ''decided_by'';
       Some \<lparr>j_ID = id', j_GroupID = group_id, j_UserID = user_id, j_Status = status,
             j_CreatedAt = created_at, j_DecidedAt = decided_at, j_DecidedBy = decided_by\<rparr>})"

text \<open>Invitations.\<close>

definition invitation_cols :: "string list" where
  "invitation_cols =
     [''id'', ''group_id'', ''user_id'', ''invited_by'', ''status'', ''created_at'']"

definition invitation_row :: "invitation \<Rightarrow> row" where
  "invitation_row i = row_of invitation_cols
     [SText (i_ID i), SText (i_GroupID i), SText (i_UserID i), SText (i_InvitedBy i),
      SText (invitation_status_string (i_Status i)), SText (tstr (i_CreatedAt i))]"

definition scan_invitation :: "row \<Rightarrow> err + invitation" where
  "scan_invitation r = scanned (do {
       id' \<leftarrow> text_at r ''id'';
       group_id \<leftarrow> text_at r ''group_id'';
       user_id \<leftarrow> text_at r ''user_id'';
       invited_by \<leftarrow> text_at r ''invited_by'';
       status \<leftarrow> Option.bind (text_at r ''status'') invitation_status_of;
       created_at \<leftarrow> map_option tparse (text_at r ''created_at'');
       Some \<lparr>i_ID = id', i_GroupID = group_id, i_UserID = user_id, i_InvitedBy = invited_by,
             i_Status = status, i_CreatedAt = created_at\<rparr>})"

text \<open>Cycles.\<close>

definition cycle_cols :: "string list" where
  "cycle_cols =
     [''group_id'', ''idx'', ''deadline'', ''payout_user'', ''settled'']"

definition cycle_row :: "cycle \<Rightarrow> row" where
  "cycle_row c = row_of cycle_cols
     [SText (c_GroupID c), SInt (c_Index c), SText (tstr (c_Deadline c)), SText (c_PayoutUser c),
      SInt (boolToInt (c_Settled c))]"

definition scan_cycle :: "row \<Rightarrow> err + cycle" where
  "scan_cycle r = scanned (do {
       group_id \<leftarrow> text_at r ''group_id'';
       idx \<leftarrow> int_at r ''idx'';
       deadline \<leftarrow> map_option tparse (text_at r ''deadline'');
       payout_user \<leftarrow> text_at r ''payout_user'';
       settled \<leftarrow> map_option (\<lambda>i. i = 1) (int_at r ''settled'');
       Some \<lparr>c_GroupID = group_id, c_Index = idx, c_Deadline = deadline, c_PayoutUser = payout_user,
             c_Settled = settled\<rparr>})"

text \<open>Contributions.\<close>

definition contribution_cols :: "string list" where
  "contribution_cols =
     [''id'', ''group_id'', ''user_id'', ''cycle_index'', ''amount'', ''commitment'', ''revealed'',
      ''paid_at'']"

definition contribution_row :: "contribution \<Rightarrow> row" where
  "contribution_row c = row_of contribution_cols
     [SText (co_ID c), SText (co_GroupID c), SText (co_UserID c), SInt (co_CycleIndex c),
      SInt (sint (co_Amount c)), SText (co_Commitment c), SInt (boolToInt (co_Revealed c)),
      nullTime (co_PaidAt c)]"

definition scan_contribution :: "row \<Rightarrow> err + contribution" where
  "scan_contribution r = scanned (do {
       id' \<leftarrow> text_at r ''id'';
       group_id \<leftarrow> text_at r ''group_id'';
       user_id \<leftarrow> text_at r ''user_id'';
       cycle_index \<leftarrow> int_at r ''cycle_index'';
       amount \<leftarrow> map_option word_of_int (int_at r ''amount'');
       commitment \<leftarrow> text_at r ''commitment'';
       revealed \<leftarrow> map_option (\<lambda>i. i = 1) (int_at r ''revealed'');
       paid_at \<leftarrow> map_option optTime (null_text_at r ''paid_at'');
       Some \<lparr>co_ID = id', co_GroupID = group_id, co_UserID = user_id, co_CycleIndex = cycle_index,
             co_Amount = amount, co_Commitment = commitment, co_Revealed = revealed, co_PaidAt = paid_at\<rparr>})"

text \<open>Payouts.\<close>

definition payout_cols :: "string list" where
  "payout_cols =
     [''id'', ''group_id'', ''cycle_index'', ''payee_user_id'', ''gross_amount'', ''expected_amount'',
      ''shortfall'', ''disbursement_ref'', ''settled_at'']"

definition payout_row :: "payout \<Rightarrow> row" where
  "payout_row p = row_of payout_cols
     [SText (po_ID p), SText (po_GroupID p), SInt (po_CycleIndex p), SText (po_PayeeUserID p),
      SInt (sint (po_GrossAmount p)), SInt (sint (po_ExpectedAmount p)), SInt (sint (po_Shortfall p)),
      SText (po_DisbursementRef p), SText (tstr (po_SettledAt p))]"

definition scan_payout :: "row \<Rightarrow> err + payout" where
  "scan_payout r = scanned (do {
       id' \<leftarrow> text_at r ''id'';
       group_id \<leftarrow> text_at r ''group_id'';
       cycle_index \<leftarrow> int_at r ''cycle_index'';
       payee_user_id \<leftarrow> text_at r ''payee_user_id'';
       gross_amount \<leftarrow> map_option word_of_int (int_at r ''gross_amount'');
       expected_amount \<leftarrow> map_option word_of_int (int_at r ''expected_amount'');
       shortfall \<leftarrow> map_option word_of_int (int_at r ''shortfall'');
       disbursement_ref \<leftarrow> text_at r ''disbursement_ref'';
       settled_at \<leftarrow> map_option tparse (text_at r ''settled_at'');
       Some \<lparr>po_ID = id', po_GroupID = group_id, po_CycleIndex = cycle_index,
             po_PayeeUserID = payee_user_id, po_GrossAmount = gross_amount,
             po_ExpectedAmount = expected_amount, po_Shortfall = shortfall,
             po_DisbursementRef = disbursement_ref, po_SettledAt = settled_at\<rparr>})"

text \<open>Escrow.\<close>

definition escrow_cols :: "string list" where
  "escrow_cols =
     [''id'', ''group_id'', ''cycle_index'', ''user_id'', ''direction'', ''amount'', ''reference'',
      ''memo'', ''created_at'']"

definition escrow_row :: "escrow_entry \<Rightarrow> row" where
  "escrow_row e = row_of escrow_cols
     [SText (e_ID e), SText (e_GroupID e), SInt (e_CycleIndex e), SText (e_UserID e),
      SText (ledger_direction_string (e_Direction e)), SInt (sint (e_Amount e)), SText (e_Reference e),
      SText (e_Memo e), SText (tstr (e_CreatedAt e))]"

definition scan_escrow :: "row \<Rightarrow> err + escrow_entry" where
  "scan_escrow r = scanned (do {
       id' \<leftarrow> text_at r ''id'';
       group_id \<leftarrow> text_at r ''group_id'';
       cycle_index \<leftarrow> int_at r ''cycle_index'';
       user_id \<leftarrow> text_at r ''user_id'';
       direction \<leftarrow> Option.bind (text_at r ''direction'') ledger_direction_of;
       amount \<leftarrow> map_option word_of_int (int_at r ''amount'');
       reference \<leftarrow> text_at r ''reference'';
       memo \<leftarrow> text_at r ''memo'';
       created_at \<leftarrow> map_option tparse (text_at r ''created_at'');
       Some \<lparr>e_ID = id', e_GroupID = group_id, e_CycleIndex = cycle_index, e_UserID = user_id,
             e_Direction = direction, e_Amount = amount, e_Reference = reference, e_Memo = memo,
             e_CreatedAt = created_at\<rparr>})"

text \<open>Reputation.\<close>

definition reputation_cols :: "string list" where
  "reputation_cols =
     [''id'', ''user_id'', ''group_id'', ''cycle_index'', ''type'', ''amount'', ''proof_hash'',
      ''timestamp'']"

definition reputation_row :: "reputation_event \<Rightarrow> row" where
  "reputation_row e = row_of reputation_cols
     [SText (r_ID e), SText (r_UserID e), SText (r_GroupID e), SInt (r_CycleIndex e),
      SText (event_type_string (r_Type e)), SInt (sint (r_Amount e)), SText (r_ProofHash e),
      SText (tstr (r_Timestamp e))]"

definition scan_reputation :: "row \<Rightarrow> err + reputation_event" where
  "scan_reputation r = scanned (do {
       id' \<leftarrow> text_at r ''id'';
       user_id \<leftarrow> text_at r ''user_id'';
       group_id \<leftarrow> text_at r ''group_id'';
       cycle_index \<leftarrow> int_at r ''cycle_index'';
       type' \<leftarrow> Option.bind (text_at r ''type'') event_type_of;
       amount \<leftarrow> map_option word_of_int (int_at r ''amount'');
       proof_hash \<leftarrow> text_at r ''proof_hash'';
       timestamp \<leftarrow> map_option tparse (text_at r ''timestamp'');
       Some \<lparr>r_ID = id', r_UserID = user_id, r_GroupID = group_id, r_CycleIndex = cycle_index,
             r_Type = type', r_Amount = amount, r_ProofHash = proof_hash, r_Timestamp = timestamp\<rparr>})"

text \<open>Webhooks.\<close>

definition webhook_cols :: "string list" where
  "webhook_cols =
     [''id'', ''url'', ''secret'', ''active'', ''created_by'', ''created_at'']"

definition webhook_row :: "webhook \<Rightarrow> row" where
  "webhook_row w = row_of webhook_cols
     [SText (w_ID w), SText (w_URL w), SText (w_Secret w), SInt (boolToInt (w_Active w)),
      SText (w_CreatedBy w), SText (tstr (w_CreatedAt w))]"

definition scan_webhook :: "row \<Rightarrow> err + webhook" where
  "scan_webhook r = scanned (do {
       id' \<leftarrow> text_at r ''id'';
       url \<leftarrow> text_at r ''url'';
       secret \<leftarrow> text_at r ''secret'';
       active \<leftarrow> map_option (\<lambda>i. i = 1) (int_at r ''active'');
       created_by \<leftarrow> text_at r ''created_by'';
       created_at \<leftarrow> map_option tparse (text_at r ''created_at'');
       Some \<lparr>w_ID = id', w_URL = url, w_Secret = secret, w_Active = active, w_CreatedBy = created_by,
             w_CreatedAt = created_at\<rparr>})"

text \<open>Notifications.\<close>

definition notification_cols :: "string list" where
  "notification_cols =
     [''id'', ''user_id'', ''kind'', ''title'', ''body'', ''read'', ''created_at'']"

definition notification_row :: "notification \<Rightarrow> row" where
  "notification_row n = row_of notification_cols
     [SText (n_ID n), SText (n_UserID n), SText (notification_kind_string (n_Kind n)), SText (n_Title n),
      SText (n_Body n), SInt (boolToInt (n_Read n)), SText (tstr (n_CreatedAt n))]"

definition scan_notification :: "row \<Rightarrow> err + notification" where
  "scan_notification r = scanned (do {
       id' \<leftarrow> text_at r ''id'';
       user_id \<leftarrow> text_at r ''user_id'';
       kind \<leftarrow> Option.bind (text_at r ''kind'') notification_kind_of;
       title \<leftarrow> text_at r ''title'';
       body \<leftarrow> text_at r ''body'';
       read \<leftarrow> map_option (\<lambda>i. i = 1) (int_at r ''read'');
       created_at \<leftarrow> map_option tparse (text_at r ''created_at'');
       Some \<lparr>n_ID = id', n_UserID = user_id, n_Kind = kind, n_Title = title, n_Body = body, n_Read = read,
             n_CreatedAt = created_at\<rparr>})"

text \<open>Audit.\<close>

definition audit_cols :: "string list" where
  "audit_cols =
     [''id'', ''actor_id'', ''action'', ''target'', ''detail'', ''created_at'']"

definition audit_row :: "audit_entry \<Rightarrow> row" where
  "audit_row a = row_of audit_cols
     [SText (a_ID a), SText (a_ActorID a), SText (a_Action a), SText (a_Target a), SText (a_Detail a),
      SText (tstr (a_CreatedAt a))]"

definition scan_audit :: "row \<Rightarrow> err + audit_entry" where
  "scan_audit r = scanned (do {
       id' \<leftarrow> text_at r ''id'';
       actor_id \<leftarrow> text_at r ''actor_id'';
       action \<leftarrow> text_at r ''action'';
       target \<leftarrow> text_at r ''target'';
       detail \<leftarrow> text_at r ''detail'';
       created_at \<leftarrow> map_option tparse (text_at r ''created_at'');
       Some \<lparr>a_ID = id', a_ActorID = actor_id, a_Action = action, a_Target = target, a_Detail = detail,
             a_CreatedAt = created_at\<rparr>})"

section \<open>What fits a row\<close>

text \<open>
  The entities a row shows faithfully: their times have four-digit years, a role is not one of the
  constants in disguise, and the parts of a composite key can be told apart in the in-memory store's
  keys as well.
\<close>

definition opt_storable :: "time option \<Rightarrow> bool" where
  "opt_storable t \<longleftrightarrow> (case t of None \<Rightarrow> True | Some x \<Rightarrow> storable x)"

definition user_fits :: "user \<Rightarrow> bool" where
  "user_fits u \<longleftrightarrow> role_plain (u_Role u) \<and> storable (u_CreatedAt u) \<and> storable (u_UpdatedAt u)"

definition group_fits :: "group \<Rightarrow> bool" where
  "group_fits g \<longleftrightarrow> storable (g_CreatedAt g) \<and> opt_storable (g_ActivatedAt g)"

definition membership_fits :: "membership \<Rightarrow> bool" where
  "membership_fits m \<longleftrightarrow> CHR ''|'' \<notin> set (m_GroupID m) \<and> storable (m_JoinedAt m)"

definition join_request_fits :: "join_request \<Rightarrow> bool" where
  "join_request_fits j \<longleftrightarrow> storable (j_CreatedAt j) \<and> opt_storable (j_DecidedAt j)"

definition invitation_fits :: "invitation \<Rightarrow> bool" where
  "invitation_fits i \<longleftrightarrow> storable (i_CreatedAt i)"

definition cycle_fits :: "cycle \<Rightarrow> bool" where
  "cycle_fits c \<longleftrightarrow> int64_key (c_Index c) \<and> storable (c_Deadline c)"

definition contribution_fits :: "contribution \<Rightarrow> bool" where
  "contribution_fits c \<longleftrightarrow> CHR ''|'' \<notin> set (co_GroupID c) \<and> int64_key (co_CycleIndex c) \<and> opt_storable (co_PaidAt c)"

definition payout_fits :: "payout \<Rightarrow> bool" where
  "payout_fits p \<longleftrightarrow> storable (po_SettledAt p)"

definition escrow_fits :: "escrow_entry \<Rightarrow> bool" where
  "escrow_fits e \<longleftrightarrow> storable (e_CreatedAt e)"

definition reputation_fits :: "reputation_event \<Rightarrow> bool" where
  "reputation_fits e \<longleftrightarrow> storable (r_Timestamp e)"

definition webhook_fits :: "webhook \<Rightarrow> bool" where
  "webhook_fits w \<longleftrightarrow> storable (w_CreatedAt w)"

definition notification_fits :: "notification \<Rightarrow> bool" where
  "notification_fits n \<longleftrightarrow> storable (n_CreatedAt n)"

definition audit_fits :: "audit_entry \<Rightarrow> bool" where
  "audit_fits a \<longleftrightarrow> storable (a_CreatedAt a)"

section \<open>Reading back what was written\<close>

lemma tstr_neq_Nil [simp]: "tstr t \<noteq> []"
  by (simp add: tstr_def pad_def Let_def split: prod.split)

lemma boolToInt_one [simp]: "boolToInt b = 1 \<longleftrightarrow> b"
  by (simp add: boolToInt_def)

lemma optTime_nullTime:
  assumes "opt_storable t"
  shows "(case nullTime t of SText s \<Rightarrow> Some (Some s) | SNull \<Rightarrow> Some None | _ \<Rightarrow> None) = Some (map_option tstr t)"
    and "optTime (map_option tstr t) = t"
  using assms by (cases t; simp add: nullTime_def optTime_def opt_storable_def tparse_of_tstr)+

lemmas row_reads = text_at_def int_at_def null_text_at_def optTime_nullTime tparse_of_tstr

interpretation sqlite_user: sql_codec user_row scan_user user_fits
  by unfold_locales (simp add: user_row_def scan_user_def user_fits_def user_cols_def row_reads)

interpretation sqlite_group: sql_codec group_row scan_group group_fits
  by unfold_locales (simp add: group_row_def scan_group_def group_fits_def group_cols_def row_reads)

interpretation sqlite_membership: sql_codec membership_row scan_membership membership_fits
  by unfold_locales (simp add: membership_row_def scan_membership_def membership_fits_def membership_cols_def row_reads)

interpretation sqlite_join_request: sql_codec join_request_row scan_join_request join_request_fits
  by unfold_locales (simp add: join_request_row_def scan_join_request_def join_request_fits_def join_request_cols_def row_reads)

interpretation sqlite_invitation: sql_codec invitation_row scan_invitation invitation_fits
  by unfold_locales (simp add: invitation_row_def scan_invitation_def invitation_fits_def invitation_cols_def row_reads)

interpretation sqlite_cycle: sql_codec cycle_row scan_cycle cycle_fits
  by unfold_locales (simp add: cycle_row_def scan_cycle_def cycle_fits_def cycle_cols_def row_reads)

interpretation sqlite_contribution: sql_codec contribution_row scan_contribution contribution_fits
  by unfold_locales (simp add: contribution_row_def scan_contribution_def contribution_fits_def contribution_cols_def row_reads)

interpretation sqlite_payout: sql_codec payout_row scan_payout payout_fits
  by unfold_locales (simp add: payout_row_def scan_payout_def payout_fits_def payout_cols_def row_reads)

interpretation sqlite_escrow: sql_codec escrow_row scan_escrow escrow_fits
  by unfold_locales (simp add: escrow_row_def scan_escrow_def escrow_fits_def escrow_cols_def row_reads)

interpretation sqlite_reputation: sql_codec reputation_row scan_reputation reputation_fits
  by unfold_locales (simp add: reputation_row_def scan_reputation_def reputation_fits_def reputation_cols_def row_reads)

interpretation sqlite_webhook: sql_codec webhook_row scan_webhook webhook_fits
  by unfold_locales (simp add: webhook_row_def scan_webhook_def webhook_fits_def webhook_cols_def row_reads)

interpretation sqlite_notification: sql_codec notification_row scan_notification notification_fits
  by unfold_locales (simp add: notification_row_def scan_notification_def notification_fits_def notification_cols_def row_reads)

interpretation sqlite_audit: sql_codec audit_row scan_audit audit_fits
  by unfold_locales (simp add: audit_row_def scan_audit_def audit_fits_def audit_cols_def row_reads)

end
