(* ===== verification/Sqlite_Store.thy ===== *)
theory Sqlite_Store
  imports Sqlite_Rows
begin

text \<open>
  The statements of \<^verbatim>\<open>internal/store/sqlitestore/sqlitestore.go\<close>, one definition per method.
  The columns of a conflict target and of the other unique constraints are those of
  \<^verbatim>\<open>schema.sql\<close>. A write returns the database after it or the constraint error; a
  read returns the entities or \<open>ErrNotFound\<close>. The store has one connection
  (\<^verbatim>\<open>SetMaxOpenConns(1)\<close>), so the methods run one after the other; opening, pinging and closing
  the database are not modelled.
\<close>

section \<open>Users\<close>

definition sqlite_SaveUser :: "user \<Rightarrow> database \<Rightarrow> err + database" where
  "sqlite_SaveUser u db = stored_in t_users_update db
     (sql_upsert [[''id''], [''email'']] [''id'']
        [''email'', ''display_name'', ''wallet_address'', ''identity_commitment'', ''kyc_provider'', ''kyc_status'',
         ''role'', ''status'', ''password_hash'', ''updated_at'']
        (user_row u) (t_users db))"

definition sqlite_GetUser :: "database \<Rightarrow> string \<Rightarrow> err + user" where
  "sqlite_GetUser db id' = query_row scan_user (text_is ''id'' id') (t_users db)"

definition sqlite_GetUserByEmail :: "database \<Rightarrow> string \<Rightarrow> err + user" where
  "sqlite_GetUserByEmail db email = query_row scan_user (text_is ''email'' email) (t_users db)"

definition sqlite_ListUsers :: "database \<Rightarrow> page \<Rightarrow> err + user list \<times> int" where
  "sqlite_ListUsers db p = counted (length (t_users db))
     (scan_rows scan_user (limit_offset (limit p) (p_Offset p) (order_by ''created_at'' (t_users db))))"

definition sqlite_ListUsersByKYC :: "database \<Rightarrow> kyc_status \<Rightarrow> err + user list" where
  "sqlite_ListUsersByKYC db status = scan_rows scan_user
     (order_by ''created_at'' (filter (text_is ''kyc_status'' (kyc_status_string status)) (t_users db)))"

section \<open>Groups\<close>

definition sqlite_SaveGroup :: "group \<Rightarrow> database \<Rightarrow> err + database" where
  "sqlite_SaveGroup g db = stored_in t_groups_update db
     (sql_upsert [[''id'']] [''id'']
        [''contract_address'', ''name'', ''organizer_id'', ''contribution_amount'', ''cycle_length_ns'',
         ''max_members'', ''total_cycles'', ''members_json'', ''payout_order_json'', ''state'', ''activated_at'']
        (group_row g) (t_groups db))"

definition sqlite_GetGroup :: "database \<Rightarrow> string \<Rightarrow> err + group" where
  "sqlite_GetGroup db id' = query_row scan_group (text_is ''id'' id') (t_groups db)"

definition sqlite_ListGroups :: "database \<Rightarrow> page \<Rightarrow> err + group list \<times> int" where
  "sqlite_ListGroups db p = counted (length (t_groups db))
     (scan_rows scan_group (limit_offset (limit p) (p_Offset p) (order_by ''created_at'' (t_groups db))))"

section \<open>Memberships\<close>

definition sqlite_SaveMembership :: "membership \<Rightarrow> database \<Rightarrow> err + database" where
  "sqlite_SaveMembership m db = stored_in t_memberships_update db
     (sql_upsert [[''id''], [''group_id'', ''user_id'']] [''group_id'', ''user_id'']
        [''id'', ''organizer'', ''status''] (membership_row m) (t_memberships db))"

definition sqlite_GetMembership :: "database \<Rightarrow> string \<Rightarrow> string \<Rightarrow> err + membership" where
  "sqlite_GetMembership db groupID userID = query_row scan_membership
     (\<lambda>r. text_is ''group_id'' groupID r \<and> text_is ''user_id'' userID r) (t_memberships db)"

definition sqlite_ListMembershipsByGroup :: "database \<Rightarrow> string \<Rightarrow> err + membership list" where
  "sqlite_ListMembershipsByGroup db groupID = scan_rows scan_membership
     (order_by ''joined_at'' (filter (text_is ''group_id'' groupID) (t_memberships db)))"

definition sqlite_ListMembershipsByUser :: "database \<Rightarrow> string \<Rightarrow> err + membership list" where
  "sqlite_ListMembershipsByUser db userID = scan_rows scan_membership
     (filter (text_is ''user_id'' userID) (t_memberships db))"

section \<open>Join requests and invitations\<close>

definition sqlite_SaveJoinRequest :: "join_request \<Rightarrow> database \<Rightarrow> err + database" where
  "sqlite_SaveJoinRequest j db = stored_in t_join_requests_update db
     (sql_upsert [[''id'']] [''id''] [''status'', ''decided_at'', ''decided_by'']
        (join_request_row j) (t_join_requests db))"

definition sqlite_GetJoinRequest :: "database \<Rightarrow> string \<Rightarrow> err + join_request" where
  "sqlite_GetJoinRequest db id' = query_row scan_join_request (text_is ''id'' id') (t_join_requests db)"

definition sqlite_ListJoinRequestsByGroup :: "database \<Rightarrow> string \<Rightarrow> err + join_request list" where
  "sqlite_ListJoinRequestsByGroup db groupID = scan_rows scan_join_request
     (order_by ''created_at'' (filter (text_is ''group_id'' groupID) (t_join_requests db)))"

definition sqlite_SaveInvitation :: "invitation \<Rightarrow> database \<Rightarrow> err + database" where
  "sqlite_SaveInvitation i db = stored_in t_invitations_update db
     (sql_upsert [[''id'']] [''id''] [''status''] (invitation_row i) (t_invitations db))"

definition sqlite_GetInvitation :: "database \<Rightarrow> string \<Rightarrow> err + invitation" where
  "sqlite_GetInvitation db id' = query_row scan_invitation (text_is ''id'' id') (t_invitations db)"

definition sqlite_ListInvitationsByUser :: "database \<Rightarrow> string \<Rightarrow> err + invitation list" where
  "sqlite_ListInvitationsByUser db userID = scan_rows scan_invitation
     (order_by ''created_at'' (filter (text_is ''user_id'' userID) (t_invitations db)))"

section \<open>Cycles\<close>

definition sqlite_SaveCycle :: "cycle \<Rightarrow> database \<Rightarrow> err + database" where
  "sqlite_SaveCycle c db = stored_in t_cycles_update db
     (sql_upsert [[''group_id'', ''idx'']] [''group_id'', ''idx''] [''deadline'', ''payout_user'', ''settled'']
        (cycle_row c) (t_cycles db))"

definition sqlite_GetCycle :: "database \<Rightarrow> string \<Rightarrow> int \<Rightarrow> err + cycle" where
  "sqlite_GetCycle db groupID index = query_row scan_cycle
     (\<lambda>r. text_is ''group_id'' groupID r \<and> int_is ''idx'' index r) (t_cycles db)"

definition sqlite_ListCyclesByGroup :: "database \<Rightarrow> string \<Rightarrow> err + cycle list" where
  "sqlite_ListCyclesByGroup db groupID = scan_rows scan_cycle
     (order_by ''idx'' (filter (text_is ''group_id'' groupID) (t_cycles db)))"

section \<open>Contributions\<close>

definition sqlite_SaveContribution :: "contribution \<Rightarrow> database \<Rightarrow> err + database" where
  "sqlite_SaveContribution c db = stored_in t_contributions_update db
     (sql_upsert [[''id''], [''group_id'', ''user_id'', ''cycle_index'']] [''group_id'', ''user_id'', ''cycle_index'']
        [''id'', ''amount'', ''commitment'', ''revealed'', ''paid_at'']
        (contribution_row c) (t_contributions db))"

definition sqlite_GetContribution :: "database \<Rightarrow> string \<Rightarrow> string \<Rightarrow> int \<Rightarrow> err + contribution" where
  "sqlite_GetContribution db groupID userID cyc = query_row scan_contribution
     (\<lambda>r. text_is ''group_id'' groupID r \<and> text_is ''user_id'' userID r \<and> int_is ''cycle_index'' cyc r)
     (t_contributions db)"

definition sqlite_ListContributionsByCycle :: "database \<Rightarrow> string \<Rightarrow> int \<Rightarrow> err + contribution list" where
  "sqlite_ListContributionsByCycle db groupID cyc = scan_rows scan_contribution
     (filter (\<lambda>r. text_is ''group_id'' groupID r \<and> int_is ''cycle_index'' cyc r) (t_contributions db))"

section \<open>Payouts, escrow, reputation\<close>

definition sqlite_SavePayout :: "payout \<Rightarrow> database \<Rightarrow> err + database" where
  "sqlite_SavePayout p db = stored_in t_payouts_update db (sql_insert [[''id'']] (payout_row p) (t_payouts db))"

definition sqlite_ListPayoutsByGroup :: "database \<Rightarrow> string \<Rightarrow> err + payout list" where
  "sqlite_ListPayoutsByGroup db groupID = scan_rows scan_payout
     (order_by ''cycle_index'' (filter (text_is ''group_id'' groupID) (t_payouts db)))"

definition sqlite_AppendEscrowEntry :: "escrow_entry \<Rightarrow> database \<Rightarrow> err + database" where
  "sqlite_AppendEscrowEntry e db =
     stored_in t_escrow_entries_update db (sql_insert [[''id'']] (escrow_row e) (t_escrow_entries db))"

definition sqlite_ListEscrowByGroup :: "database \<Rightarrow> string \<Rightarrow> err + escrow_entry list" where
  "sqlite_ListEscrowByGroup db groupID = scan_rows scan_escrow
     (order_by ''created_at'' (filter (text_is ''group_id'' groupID) (t_escrow_entries db)))"

definition sqlite_AppendReputationEvent :: "reputation_event \<Rightarrow> database \<Rightarrow> err + database" where
  "sqlite_AppendReputationEvent e db =
     stored_in t_reputation_events_update db (sql_insert [[''id'']] (reputation_row e) (t_reputation_events db))"

definition sqlite_ReputationEvents :: "database \<Rightarrow> string \<Rightarrow> err + reputation_event list" where
  "sqlite_ReputationEvents db userID = scan_rows scan_reputation
     (order_by ''timestamp'' (filter (text_is ''user_id'' userID) (t_reputation_events db)))"

definition sqlite_AllReputationEvents :: "database \<Rightarrow> page \<Rightarrow> err + reputation_event list \<times> int" where
  "sqlite_AllReputationEvents db p = counted (length (t_reputation_events db))
     (scan_rows scan_reputation
        (limit_offset (limit p) (p_Offset p) (order_by_desc ''timestamp'' (t_reputation_events db))))"

section \<open>Webhooks, notifications, audit\<close>

definition sqlite_SaveWebhook :: "webhook \<Rightarrow> database \<Rightarrow> err + database" where
  "sqlite_SaveWebhook w db = stored_in t_webhooks_update db
     (sql_upsert [[''id'']] [''id''] [''url'', ''secret'', ''active''] (webhook_row w) (t_webhooks db))"

definition sqlite_GetWebhook :: "database \<Rightarrow> string \<Rightarrow> err + webhook" where
  "sqlite_GetWebhook db id' = query_row scan_webhook (text_is ''id'' id') (t_webhooks db)"

definition sqlite_ListWebhooks :: "database \<Rightarrow> err + webhook list" where
  "sqlite_ListWebhooks db = scan_rows scan_webhook (order_by ''created_at'' (t_webhooks db))"

definition sqlite_DeleteWebhook :: "string \<Rightarrow> database \<Rightarrow> err + database" where
  "sqlite_DeleteWebhook id' db = Inr (db\<lparr>t_webhooks := sql_delete (text_is ''id'' id') (t_webhooks db)\<rparr>)"

definition sqlite_SaveNotification :: "notification \<Rightarrow> database \<Rightarrow> err + database" where
  "sqlite_SaveNotification n db = stored_in t_notifications_update db
     (sql_upsert [[''id'']] [''id''] [''read''] (notification_row n) (t_notifications db))"

definition sqlite_ListNotificationsByUser :: "database \<Rightarrow> string \<Rightarrow> err + notification list" where
  "sqlite_ListNotificationsByUser db userID = scan_rows scan_notification
     (order_by ''created_at'' (filter (text_is ''user_id'' userID) (t_notifications db)))"

definition sqlite_AppendAudit :: "audit_entry \<Rightarrow> database \<Rightarrow> err + database" where
  "sqlite_AppendAudit a db = stored_in t_audit_update db (sql_insert [[''id'']] (audit_row a) (t_audit db))"

definition sqlite_ListAudit :: "database \<Rightarrow> page \<Rightarrow> err + audit_entry list \<times> int" where
  "sqlite_ListAudit db p = counted (length (t_audit db))
     (scan_rows scan_audit (limit_offset (limit p) (p_Offset p) (order_by_desc ''created_at'' (t_audit db))))"

end
