(* ===== verification/Time_Order.thy ===== *)
theory Time_Order
  imports Calendar "HOL-Library.Char_ord" "HOL-Library.List_Lexorder"
begin

text \<open>
  How the text of two times compares. \<^verbatim>\<open>ORDER BY created_at\<close> of the SQLite store compares the
  RFC3339Nano texts byte by byte: two texts of the same length compare as the times do, two of different
  lengths need not, since the fraction loses its trailing zeros and a point sorts before the final
  \<^verbatim>\<open>Z\<close>.
\<close>

section \<open>Texts of a fixed width\<close>

lemma append_less_same_length:
  fixes xs ys r s :: "'a :: linorder list"
  shows "length xs = length ys \<Longrightarrow> xs @ r < ys @ s \<longleftrightarrow> xs < ys \<or> xs = ys \<and> r < s"
  by (induction xs ys rule: list_induct2) auto

lemma digits_value_Cons: "digits_value (c # cs) = (of_char c - 48) * 10 ^ length cs + digits_value cs"
  using digits_value_append [of "[c]" cs] by (simp add: digits_value_def)

lemma digits_value_less: "\<forall>c \<in> set cs. is_digit c \<Longrightarrow> digits_value cs < 10 ^ length cs"
proof (induction cs)
  case Nil
  show ?case by (simp add: digits_value_def)
next
  case (Cons c cs)
  then have "of_char c \<le> (57 :: nat)"
    by simp
  then have "(of_char c - 48 :: nat) \<le> 9"
    by linarith
  then have "(of_char c - 48) * 10 ^ length cs + digits_value cs < 9 * 10 ^ length cs + 10 ^ length cs"
    using Cons by (intro add_le_less_mono mult_right_mono) auto
  then show ?case
    by (simp add: digits_value_Cons)
qed

lemma digit_step_less:
  fixes a b x y p :: nat
  assumes "x < p" and "y < p"
  shows "a * p + x < b * p + y \<longleftrightarrow> a < b \<or> a = b \<and> x < y"
proof (cases a b rule: linorder_cases)
  case less
  then have "(a + 1) * p \<le> b * p"
    by (intro mult_right_mono) auto
  with less assms show ?thesis
    by (simp add: algebra_simps)
next
  case greater
  then have "(b + 1) * p \<le> a * p"
    by (intro mult_right_mono) auto
  with greater assms show ?thesis
    by (simp add: algebra_simps)
qed simp

lemma digits_less:
  assumes "length xs = length ys" and "\<forall>c \<in> set xs. is_digit c" and "\<forall>c \<in> set ys. is_digit c"
  shows "xs < ys \<longleftrightarrow> digits_value xs < digits_value ys"
  using assms
proof (induction xs ys rule: list_induct2)
  case (Cons x xs y ys)
  have "x < y \<longleftrightarrow> (of_char x - 48 :: nat) < of_char y - 48" "x = y \<longleftrightarrow> (of_char x - 48 :: nat) = of_char y - 48"
    using Cons.prems by (auto simp: less_char_def diff_less_mono eq_diff_iff)
  moreover have "digits_value xs < 10 ^ length ys" "digits_value ys < 10 ^ length ys"
    using digits_value_less [of xs] digits_value_less [of ys] Cons by simp_all
  ultimately show ?case
    using Cons by (simp add: digits_value_Cons digit_step_less)
qed simp

lemma pad_less:
  assumes "n < 10 ^ w" and "m < 10 ^ w" and "0 < w"
  shows "pad w n @ r < pad w m @ s \<longleftrightarrow> n < m \<or> n = m \<and> r < s"
proof -
  have "length (pad w n) = length (pad w m)"
    using assms by (simp add: pad_length)
  moreover from this have "pad w n < pad w m \<longleftrightarrow> n < m"
    using pad_digits by (subst digits_less) auto
  moreover have "pad w n = pad w m \<longleftrightarrow> n = m"
    by (metis pad_value)
  ultimately show ?thesis
    by (simp add: append_less_same_length)
qed

lemma strip_zeros_less:
  assumes "length xs = length ys" and "length (strip_zeros xs) = length (strip_zeros ys)"
  shows "strip_zeros xs < strip_zeros ys \<longleftrightarrow> xs < (ys :: string)"
  using strip_zeros_pad [of xs] strip_zeros_pad [of ys] assms
  by (metis append_less_same_length less_irrefl)

lemma fraction_less:
  assumes "n < 10 ^ 9" and "m < 10 ^ 9" and "length (fraction n) = length (fraction m)" and "n < m"
  shows "fraction n < fraction m"
proof -
  have "n \<noteq> 0"
  proof
    assume "n = 0"
    with assms(3) have "fraction m = []"
      by (simp add: fraction_def)
    then show False
      using assms(4) by (simp add: fraction_def split: if_splits)
  qed
  have len: "length (pad 9 n) = length (pad 9 m)"
    using assms(1,2) by (simp add: pad_length)
  moreover have "pad 9 n < pad 9 m"
    using pad_less [OF assms(1,2), of "[]" "[]"] assms(4) by simp
  ultimately have "strip_zeros (pad 9 n) < strip_zeros (pad 9 m)"
    using assms \<open>n \<noteq> 0\<close> by (subst strip_zeros_less) (auto simp: fraction_def split: if_splits)
  then show ?thesis
    using assms(4) \<open>n \<noteq> 0\<close> by (simp add: fraction_def)
qed

section \<open>Dates in order\<close>

lemma days_before_year_Suc: "0 < y \<Longrightarrow> days_before_year (Suc y) = days_before_year y + (if leap y then 366 else 365)"
proof -
  assume "0 < y"
  then obtain n where y: "y = Suc n"
    by (cases y) auto
  have step: "Suc n div k = n div k + (if Suc n mod k = 0 then 1 else 0)" for k
    by (simp add: div_Suc)
  have le: "n div 100 \<le> n div 4"
    by (simp add: div_le_mono2)
  have imp: "Suc n mod 100 = 0 \<longrightarrow> Suc n mod 4 = 0" "Suc n mod 400 = 0 \<longrightarrow> Suc n mod 100 = 0"
    using dvd_trans [of 4 100 "Suc n"] dvd_trans [of 100 400 "Suc n"] by (simp_all add: mod_eq_0_iff_dvd)
  then have leap: "leap y \<longleftrightarrow> Suc n mod 4 = 0 \<and> Suc n mod 100 \<noteq> 0 \<or> Suc n mod 400 = 0"
    unfolding leap_def y by argo
  have arith: "365 * Suc a + (b + i) - (c + j) + (d + k) = 365 * a + b - c + d + (365 + i - j + k)"
    if "c \<le> b" "j \<le> i" for a b c d i j k :: nat
    using that by simp
  have carry: "(if Suc n mod 100 = 0 then 1 else 0) \<le> (if Suc n mod 4 = 0 then 1 else (0 :: nat))"
    using imp(1) by simp
  show ?thesis
    unfolding days_before_year_def leap unfolding y diff_Suc_1 step arith [OF le carry] using imp by auto
qed

lemma days_before_year_mono: "0 < y \<Longrightarrow> y \<le> z \<Longrightarrow> days_before_year y \<le> days_before_year z"
  by (induction z) (auto simp: days_before_year_Suc le_Suc_eq)

lemma year_mono:
  assumes "year_of d = (y, r)" and "year_of d' = (y', r')" and "d < d'"
  shows "y < y' \<or> y = y' \<and> r < r'"
proof -
  note Y = year_of_day [OF assms(1)] and Y' = year_of_day [OF assms(2)]
  have "\<not> y' < y"
  proof
    assume "y' < y"
    then have "days_before_year (Suc y') \<le> days_before_year y"
      by (intro days_before_year_mono) auto
    then show False
      using Y Y' assms(3) by (simp add: days_before_year_Suc)
  qed
  then show ?thesis
    using Y Y' assms(3) by (cases "y = y'") auto
qed

lemma month_mono:
  assumes "month_of ls r = (k, q)" and "month_of ls r' = (k', q')" and "r < r'" and "r' < sum_list ls"
  shows "k < k' \<or> k = k' \<and> q < q'"
proof -
  have M: "sum_list (take k ls) + q = r"
    using month_of_sum [OF assms(1)] assms(3,4) by simp
  have M': "sum_list (take k' ls) + q' = r'" "k' < length ls" "q' < ls ! k'"
    using month_of_sum [OF assms(2,4)] by simp_all
  have "\<not> k' < k"
  proof
    assume "k' < k"
    then have "take (Suc k') ls @ drop (Suc k') (take k ls) = take k ls"
      by (metis Suc_leI append_take_drop_id min.absorb1 take_take)
    then have "sum_list (take (Suc k') ls) \<le> sum_list (take k ls)"
      by (metis le_add1 sum_list_append)
    then show False
      using M M' assms(3) by (simp add: take_Suc_conv_app_nth)
  qed
  then show ?thesis
    using M M' assms(3) by (cases "k = k'") auto
qed

lemma civil_mono:
  assumes "civil d = (y, m, k)" and "civil d' = (y', m', k')" and "d < d'"
  shows "y < y' \<or> y = y' \<and> (m < m' \<or> m = m' \<and> k < k')"
proof -
  obtain r a b where 1: "year_of d = (y, r)" "month_of (month_lengths y) r = (a, b)" "m = a + 1" "k = b + 1"
    using assms(1) by (auto simp: civil_def split: prod.splits)
  obtain r' a' b' where 2: "year_of d' = (y', r')" "month_of (month_lengths y') r' = (a', b')" "m' = a' + 1" "k' = b' + 1"
    using assms(2) by (auto simp: civil_def split: prod.splits)
  have "r' < sum_list (month_lengths y')"
    using year_of_day [OF 2(1)] by (simp add: month_lengths_sum)
  then show ?thesis
    using year_mono [OF 1(1) 2(1) assms(3)] month_mono [of "month_lengths y'" r a b r' a' b'] 1 2 by auto
qed

section \<open>Times in order\<close>

text \<open>The date and the time of day, and the nanosecond, that the text of a time shows.\<close>

lemma tstr_fields:
  assumes "storable t"
  obtains y m d sec n where "civil (nat (t div 1000000000 div 86400 + epoch_day)) = (y, m, d)"
    and "int sec = t div 1000000000 mod 86400" and "int n = t mod 1000000000"
    and "y < 10 ^ 4" and "m < 10 ^ 2" and "d < 10 ^ 2" and "n < 10 ^ 9" and "sec < 86400"
    and "tstr t = pad 4 y @ ''-'' @ pad 2 m @ ''-'' @ pad 2 d @ ''T'' @ pad 2 (sec div 3600) @ '':'' @
           pad 2 (sec mod 3600 div 60) @ '':'' @ pad 2 (sec mod 60) @ fraction n @ ''Z''"
proof -
  define s where "s = t div 1000000000"
  define sec where "sec = nat (s mod 86400)"
  define n where "n = nat (t mod 1000000000)"
  obtain y m d where ymd: "civil (nat (s div 86400 + epoch_day)) = (y, m, d)"
    by (metis prod_cases3)
  have day: "nat (s div 86400 + epoch_day) < 3652059"
    using assms by (simp add: s_def storable_def nat_less_iff)
  show ?thesis
  proof
    show "civil (nat (t div 1000000000 div 86400 + epoch_day)) = (y, m, d)"
      using ymd by (simp add: s_def)
    show "int sec = t div 1000000000 mod 86400" "int n = t mod 1000000000" "n < 10 ^ 9" "sec < 86400"
      by (simp_all add: sec_def s_def n_def nat_less_iff)
    show "y < 10 ^ 4"
      using year_bound [OF day ymd] by simp
    show "m < 10 ^ 2" "d < 10 ^ 2"
      using civil_day [OF ymd] by simp_all
    show "tstr t = pad 4 y @ ''-'' @ pad 2 m @ ''-'' @ pad 2 d @ ''T'' @ pad 2 (sec div 3600) @ '':'' @
           pad 2 (sec mod 3600 div 60) @ '':'' @ pad 2 (sec mod 60) @ fraction n @ ''Z''"
      using ymd by (simp add: tstr_def Let_def s_def n_def sec_def)
  qed
qed

lemma clock_less:
  fixes a b :: nat
  assumes "a < b"
  shows "a div 3600 < b div 3600 \<or> a div 3600 = b div 3600
    \<and> (a mod 3600 div 60 < b mod 3600 div 60 \<or> a mod 3600 div 60 = b mod 3600 div 60 \<and> a mod 60 < b mod 60)"
proof -
  have clock: "c = c div 3600 * 3600 + (c mod 3600 div 60 * 60 + c mod 60)" "c mod 3600 div 60 < 60" for c :: nat
    using mod_mod_cancel [of 60 3600 c] div_mult_mod_eq [of "c mod 3600" 60] div_mult_mod_eq [of c 3600]
    by (simp_all add: less_mult_imp_div_less)
  have "c mod 3600 div 60 * 60 + c mod 60 < 3600" for c :: nat
    using clock(2) [of c] by (metis (no_types) clock(1) div_mult_mod_eq add_left_cancel mod_less_divisor zero_less_numeral)
  then show ?thesis
    using assms clock(1) [of a] clock(1) [of b]
    by (metis digit_step_less mod_less_divisor zero_less_numeral)
qed

lemma time_parts_less:
  fixes t u :: int and sec sec' n n' :: nat
  assumes "int sec = t div 1000000000 mod 86400" and "int n = t mod 1000000000"
    and "int sec' = u div 1000000000 mod 86400" and "int n' = u mod 1000000000" and "t < u"
  shows "t div 1000000000 div 86400 < u div 1000000000 div 86400
    \<or> t div 1000000000 div 86400 = u div 1000000000 div 86400 \<and> (sec < sec' \<or> sec = sec' \<and> n < n')"
proof -
  have t: "t = (t div 1000000000 div 86400 * 86400 + int sec) * 1000000000 + int n"
    unfolding assms(1,2) div_mult_mod_eq ..
  have u: "u = (u div 1000000000 div 86400 * 86400 + int sec') * 1000000000 + int n'"
    unfolding assms(3,4) div_mult_mod_eq ..
  have less: "t div 1000000000 div 86400 \<le> u div 1000000000 div 86400"
    using assms(5) by (intro zdiv_mono1) simp_all
  have "int n < 1000000000" "int n' < 1000000000"
    unfolding assms(2,4) by simp_all
  moreover have "a < b \<or> a = b \<and> (sec < sec' \<or> sec = sec' \<and> n < n')"
    if lt: "(a * 86400 + int sec) * 1000000000 + int n < (b * 86400 + int sec') * 1000000000 + int n'"
      and "a \<le> b" "int n < 1000000000" "int n' < 1000000000" for a b :: int
  proof (cases "a = b")
    case True
    with lt have "int sec * 1000000000 + int n < int sec' * 1000000000 + int n'"
      by simp
    with True that show ?thesis
      by (cases sec sec' rule: linorder_cases) linarith+
  qed (use that in simp)
  moreover have "(t div 1000000000 div 86400 * 86400 + int sec) * 1000000000 + int n
      < (u div 1000000000 div 86400 * 86400 + int sec') * 1000000000 + int n'"
    using assms(5) by (simp only: t [symmetric] u [symmetric])
  ultimately show ?thesis
    using less by blast
qed

lemma tstr_mono:
  assumes "storable t" and "storable u" and len: "length (tstr t) = length (tstr u)" and "t < u"
  shows "tstr t < tstr u"
proof -
  obtain y m d sec n where T: "civil (nat (t div 1000000000 div 86400 + epoch_day)) = (y, m, d)"
    "int sec = t div 1000000000 mod 86400" "int n = t mod 1000000000"
    "y < 10 ^ 4" "m < 10 ^ 2" "d < 10 ^ 2" "n < 10 ^ 9" "sec < 86400"
    "tstr t = pad 4 y @ ''-'' @ pad 2 m @ ''-'' @ pad 2 d @ ''T'' @ pad 2 (sec div 3600) @ '':'' @
           pad 2 (sec mod 3600 div 60) @ '':'' @ pad 2 (sec mod 60) @ fraction n @ ''Z''"
    using tstr_fields [OF assms(1)] .
  obtain y' m' d' sec' n' where U: "civil (nat (u div 1000000000 div 86400 + epoch_day)) = (y', m', d')"
    "int sec' = u div 1000000000 mod 86400" "int n' = u mod 1000000000"
    "y' < 10 ^ 4" "m' < 10 ^ 2" "d' < 10 ^ 2" "n' < 10 ^ 9" "sec' < 86400"
    "tstr u = pad 4 y' @ ''-'' @ pad 2 m' @ ''-'' @ pad 2 d' @ ''T'' @ pad 2 (sec' div 3600) @ '':'' @
           pad 2 (sec' mod 3600 div 60) @ '':'' @ pad 2 (sec' mod 60) @ fraction n' @ ''Z''"
    using tstr_fields [OF assms(2)] .
  have small: "c div 3600 < 10 ^ 2" "c mod 3600 div 60 < 10 ^ 2" "c mod 60 < 10 ^ 2" if "c < 86400" for c :: nat
    using that by (simp_all add: less_mult_imp_div_less)
  have frac: "length (fraction n) = length (fraction n')"
    using len small [OF T(8)] small [OF U(8)] T(4-7) U(4-7) unfolding T(9) U(9) by (simp add: pad_length)
  let ?D = "\<lambda>t. nat (t div 1000000000 div 86400 + epoch_day)"
  have order: "?D t < ?D u \<or> ?D t = ?D u \<and> (sec < sec' \<or> sec = sec' \<and> n < n')"
    using time_parts_less [OF T(2,3) U(2,3) assms(4)] assms(1) unfolding storable_def
    by (metis nat_less_eq_zless add_less_cancel_right)
  have date: "y < y' \<or> y = y' \<and> (m < m' \<or> m = m' \<and> d < d')" if "?D t < ?D u"
    by (rule civil_mono [OF T(1) U(1) that])
  have same: "y = y' \<and> m = m' \<and> d = d'" if "?D t = ?D u"
    using T(1) U(1) unfolding that by simp
  have last: "fraction n @ ''Z'' < fraction n' @ ''Z''" if "n < n'"
    using fraction_less [OF T(7) U(7) frac that] by (simp add: append_less_same_length frac)
  have lit: "[c] @ r < [c] @ r' \<longleftrightarrow> r < r'" for c :: char and r r'
    by simp
  have "tstr t < tstr u \<longleftrightarrow> y < y' \<or> y = y' \<and> (m < m' \<or> m = m' \<and> (d < d' \<or> d = d' \<and>
      (sec div 3600 < sec' div 3600 \<or> sec div 3600 = sec' div 3600 \<and>
        (sec mod 3600 div 60 < sec' mod 3600 div 60 \<or> sec mod 3600 div 60 = sec' mod 3600 div 60 \<and>
          (sec mod 60 < sec' mod 60 \<or> sec mod 60 = sec' mod 60 \<and> fraction n @ ''Z'' < fraction n' @ ''Z'')))))"
    unfolding T(9) U(9)
    by (simp only: lit zero_less_numeral pad_less [OF T(4) U(4)] pad_less [OF T(5) U(5)] pad_less [OF T(6) U(6)]
        pad_less [OF small(1) [OF T(8)] small(1) [OF U(8)]] pad_less [OF small(2) [OF T(8)] small(2) [OF U(8)]]
        pad_less [OF small(3) [OF T(8)] small(3) [OF U(8)]])
  then show ?thesis
    using order date same last clock_less [of sec sec'] by blast
qed

lemma text_order:
  assumes "storable t" and "storable u" and "length (tstr t) = length (tstr u)"
  shows "tstr t \<le> tstr u \<longleftrightarrow> t \<le> u"
proof (cases t u rule: linorder_cases)
  case less
  with tstr_mono [OF assms less] show ?thesis
    by simp
next
  case greater
  with tstr_mono [OF assms(2,1) assms(3) [symmetric] greater] show ?thesis
    by simp
qed simp

end
