(* ===== verification/Sqlite_Refinement.thy ===== *)
theory Sqlite_Refinement
  imports Sqlite_Store Time_Order
begin

text \<open>
  The SQLite store implements the in-memory store: \<open>sqlite_format\<close> is its format of rows, every
  INSERT statement keeps the mirror when the write is admissible, and so every read after a run of
  admissible writes answers as the in-memory store does, up to order. The last section shows where it does not: the order
  of times.
\<close>

section \<open>Columns\<close>

lemmas row_defs =
  user_row_def user_cols_def group_row_def group_cols_def membership_row_def membership_cols_def
  join_request_row_def join_request_cols_def invitation_row_def invitation_cols_def cycle_row_def cycle_cols_def
  contribution_row_def contribution_cols_def payout_row_def payout_cols_def escrow_row_def escrow_cols_def
  reputation_row_def reputation_cols_def webhook_row_def webhook_cols_def notification_row_def notification_cols_def
  audit_row_def audit_cols_def

lemma row_dom:
  "dom (user_row u) = set user_cols"
  "dom (group_row g) = set group_cols"
  "dom (membership_row mem) = set membership_cols"
  "dom (join_request_row j) = set join_request_cols"
  "dom (invitation_row i) = set invitation_cols"
  "dom (cycle_row c) = set cycle_cols"
  "dom (contribution_row co) = set contribution_cols"
  "dom (payout_row p) = set payout_cols"
  "dom (escrow_row e) = set escrow_cols"
  "dom (reputation_row r) = set reputation_cols"
  "dom (webhook_row w) = set webhook_cols"
  "dom (notification_row n) = set notification_cols"
  "dom (audit_row a) = set audit_cols"
  unfolding user_row_def group_row_def membership_row_def join_request_row_def invitation_row_def
    cycle_row_def contribution_row_def payout_row_def escrow_row_def reputation_row_def
    webhook_row_def notification_row_def audit_row_def
  by (rule dom_row_of; simp add: user_cols_def group_cols_def membership_cols_def join_request_cols_def invitation_cols_def
      cycle_cols_def contribution_cols_def payout_cols_def escrow_cols_def reputation_cols_def
      webhook_cols_def notification_cols_def audit_cols_def)+

section \<open>Keyed tables\<close>

interpretation sqlite_users: sql_keyed user_row scan_user user_fits u_ID
    "[[''id''], [''email'']]" "[''id'']"
    "[''email'', ''display_name'', ''wallet_address'', ''identity_commitment'', ''kyc_provider'',
       ''kyc_status'', ''role'', ''status'', ''password_hash'', ''updated_at'']"
    "\<lambda>u w. u_CreatedAt w = u_CreatedAt u" "\<lambda>u w. u_Email w \<noteq> u_Email u"
proof
  fix v w :: user
  assume *: "user_fits v" "user_fits w"
  let ?key = u_ID
  show "same_on [''id''] (user_row v) (user_row w) \<longleftrightarrow> ?key w = ?key v"
    using * by (auto simp: column_tests row_defs)
  show "\<forall>cols \<in> set [[''id''], [''email'']]. \<not> same_on cols (user_row v) (user_row w)" if "?key w \<noteq> ?key v" "(\<lambda>u w. u_Email w \<noteq> u_Email u) v w"
    using * that by (simp add: column_tests row_defs)
  show "override_on (user_row w) (user_row v)
      (set [''email'', ''display_name'', ''wallet_address'', ''identity_commitment'', ''kyc_provider'',
       ''kyc_status'', ''role'', ''status'', ''password_hash'', ''updated_at'']) = user_row v" if "?key w = ?key v" "(\<lambda>u w. u_CreatedAt w = u_CreatedAt u) v w"
    using * that by (intro override_row [OF row_dom(1) row_dom(1)]) (auto simp: row_defs)
qed

interpretation sqlite_groups: sql_keyed group_row scan_group group_fits g_ID
    "[[''id'']]" "[''id'']"
    "[''contract_address'', ''name'', ''organizer_id'', ''contribution_amount'', ''cycle_length_ns'',
       ''max_members'', ''total_cycles'', ''members_json'', ''payout_order_json'', ''state'',
       ''activated_at'']"
    "\<lambda>g h. g_CreatedAt h = g_CreatedAt g" "\<lambda>g h. True"
proof
  fix v w :: group
  assume *: "group_fits v" "group_fits w"
  let ?key = g_ID
  show "same_on [''id''] (group_row v) (group_row w) \<longleftrightarrow> ?key w = ?key v"
    using * by (auto simp: column_tests row_defs)
  show "\<forall>cols \<in> set [[''id'']]. \<not> same_on cols (group_row v) (group_row w)" if "?key w \<noteq> ?key v" "(\<lambda>g h. True) v w"
    using * that by (simp add: column_tests row_defs)
  show "override_on (group_row w) (group_row v)
      (set [''contract_address'', ''name'', ''organizer_id'', ''contribution_amount'', ''cycle_length_ns'',
       ''max_members'', ''total_cycles'', ''members_json'', ''payout_order_json'', ''state'',
       ''activated_at'']) = group_row v" if "?key w = ?key v" "(\<lambda>g h. g_CreatedAt h = g_CreatedAt g) v w"
    using * that by (intro override_row [OF row_dom(2) row_dom(2)]) (auto simp: row_defs)
qed

interpretation sqlite_memberships: sql_keyed membership_row scan_membership membership_fits "\<lambda>x. memberKey (m_GroupID x) (m_UserID x)"
    "[[''id''], [''group_id'', ''user_id'']]" "[''group_id'', ''user_id'']"
    "[''id'', ''organizer'', ''status'']"
    "\<lambda>x y. m_JoinedAt y = m_JoinedAt x" "\<lambda>x y. m_ID y \<noteq> m_ID x"
proof
  fix v w :: membership
  assume *: "membership_fits v" "membership_fits w"
  let ?key = "\<lambda>x. memberKey (m_GroupID x) (m_UserID x)"
  show "same_on [''group_id'', ''user_id''] (membership_row v) (membership_row w) \<longleftrightarrow> ?key w = ?key v"
    using * by (auto simp: column_tests row_defs memberKey_inject membership_fits_def)
  show "\<forall>cols \<in> set [[''id''], [''group_id'', ''user_id'']]. \<not> same_on cols (membership_row v) (membership_row w)" if "?key w \<noteq> ?key v" "(\<lambda>x y. m_ID y \<noteq> m_ID x) v w"
    using * that
    by (simp add: column_tests row_defs memberKey_inject membership_fits_def) metis
  show "override_on (membership_row w) (membership_row v)
      (set [''id'', ''organizer'', ''status'']) = membership_row v" if "?key w = ?key v" "(\<lambda>x y. m_JoinedAt y = m_JoinedAt x) v w"
    using * that by (intro override_row [OF row_dom(3) row_dom(3)]) (auto simp: row_defs memberKey_inject membership_fits_def)
qed

interpretation sqlite_join_requests: sql_keyed join_request_row scan_join_request join_request_fits j_ID
    "[[''id'']]" "[''id'']"
    "[''status'', ''decided_at'', ''decided_by'']"
    "\<lambda>j k. j_GroupID k = j_GroupID j \<and> j_UserID k = j_UserID j \<and> j_CreatedAt k = j_CreatedAt j" "\<lambda>j k. True"
proof
  fix v w :: join_request
  assume *: "join_request_fits v" "join_request_fits w"
  let ?key = j_ID
  show "same_on [''id''] (join_request_row v) (join_request_row w) \<longleftrightarrow> ?key w = ?key v"
    using * by (auto simp: column_tests row_defs)
  show "\<forall>cols \<in> set [[''id'']]. \<not> same_on cols (join_request_row v) (join_request_row w)" if "?key w \<noteq> ?key v" "(\<lambda>j k. True) v w"
    using * that by (simp add: column_tests row_defs)
  show "override_on (join_request_row w) (join_request_row v)
      (set [''status'', ''decided_at'', ''decided_by'']) = join_request_row v" if "?key w = ?key v" "(\<lambda>j k. j_GroupID k = j_GroupID j \<and> j_UserID k = j_UserID j \<and> j_CreatedAt k = j_CreatedAt j) v w"
    using * that by (intro override_row [OF row_dom(4) row_dom(4)]) (auto simp: row_defs)
qed

interpretation sqlite_invitations: sql_keyed invitation_row scan_invitation invitation_fits i_ID
    "[[''id'']]" "[''id'']"
    "[''status'']"
    "\<lambda>i k. i_GroupID k = i_GroupID i \<and> i_UserID k = i_UserID i \<and> i_InvitedBy k = i_InvitedBy i
       \<and> i_CreatedAt k = i_CreatedAt i" "\<lambda>i k. True"
proof
  fix v w :: invitation
  assume *: "invitation_fits v" "invitation_fits w"
  let ?key = i_ID
  show "same_on [''id''] (invitation_row v) (invitation_row w) \<longleftrightarrow> ?key w = ?key v"
    using * by (auto simp: column_tests row_defs)
  show "\<forall>cols \<in> set [[''id'']]. \<not> same_on cols (invitation_row v) (invitation_row w)" if "?key w \<noteq> ?key v" "(\<lambda>i k. True) v w"
    using * that by (simp add: column_tests row_defs)
  show "override_on (invitation_row w) (invitation_row v)
      (set [''status'']) = invitation_row v" if "?key w = ?key v" "(\<lambda>i k. i_GroupID k = i_GroupID i \<and> i_UserID k = i_UserID i \<and> i_InvitedBy k = i_InvitedBy i
       \<and> i_CreatedAt k = i_CreatedAt i) v w"
    using * that by (intro override_row [OF row_dom(5) row_dom(5)]) (auto simp: row_defs)
qed

interpretation sqlite_cycles: sql_keyed cycle_row scan_cycle cycle_fits "\<lambda>c. cycleKey (c_GroupID c) (c_Index c)"
    "[[''group_id'', ''idx'']]" "[''group_id'', ''idx'']"
    "[''deadline'', ''payout_user'', ''settled'']"
    "\<lambda>c d. True" "\<lambda>c d. True"
proof
  fix v w :: cycle
  assume *: "cycle_fits v" "cycle_fits w"
  let ?key = "\<lambda>c. cycleKey (c_GroupID c) (c_Index c)"
  show "same_on [''group_id'', ''idx''] (cycle_row v) (cycle_row w) \<longleftrightarrow> ?key w = ?key v"
    using * by (auto simp: column_tests row_defs cycleKey_inject cycle_fits_def int64_key_def)
  show "\<forall>cols \<in> set [[''group_id'', ''idx'']]. \<not> same_on cols (cycle_row v) (cycle_row w)" if "?key w \<noteq> ?key v" "(\<lambda>c d. True) v w"
    using * that
    by (simp add: column_tests row_defs cycleKey_inject cycle_fits_def int64_key_def) metis
  show "override_on (cycle_row w) (cycle_row v)
      (set [''deadline'', ''payout_user'', ''settled'']) = cycle_row v" if "?key w = ?key v" "(\<lambda>c d. True) v w"
    using * that by (intro override_row [OF row_dom(6) row_dom(6)]) (auto simp: row_defs cycleKey_inject cycle_fits_def int64_key_def)
qed

interpretation sqlite_contributions: sql_keyed contribution_row scan_contribution contribution_fits "\<lambda>c. contribKey (co_GroupID c) (co_UserID c) (co_CycleIndex c)"
    "[[''id''], [''group_id'', ''user_id'', ''cycle_index'']]" "[''group_id'', ''user_id'', ''cycle_index'']"
    "[''id'', ''amount'', ''commitment'', ''revealed'', ''paid_at'']"
    "\<lambda>c d. True" "\<lambda>c d. co_ID d \<noteq> co_ID c"
proof
  fix v w :: contribution
  assume *: "contribution_fits v" "contribution_fits w"
  let ?key = "\<lambda>c. contribKey (co_GroupID c) (co_UserID c) (co_CycleIndex c)"
  show "same_on [''group_id'', ''user_id'', ''cycle_index''] (contribution_row v) (contribution_row w) \<longleftrightarrow> ?key w = ?key v"
    using * by (auto simp: column_tests row_defs contribKey_inject contribution_fits_def int64_key_def)
  show "\<forall>cols \<in> set [[''id''], [''group_id'', ''user_id'', ''cycle_index'']]. \<not> same_on cols (contribution_row v) (contribution_row w)" if "?key w \<noteq> ?key v" "(\<lambda>c d. co_ID d \<noteq> co_ID c) v w"
    using * that
    by (simp add: column_tests row_defs contribKey_inject contribution_fits_def int64_key_def) metis
  show "override_on (contribution_row w) (contribution_row v)
      (set [''id'', ''amount'', ''commitment'', ''revealed'', ''paid_at'']) = contribution_row v" if "?key w = ?key v" "(\<lambda>c d. True) v w"
    using * that by (intro override_row [OF row_dom(7) row_dom(7)]) (auto simp: row_defs contribKey_inject contribution_fits_def int64_key_def)
qed

interpretation sqlite_webhooks: sql_keyed webhook_row scan_webhook webhook_fits w_ID
    "[[''id'']]" "[''id'']"
    "[''url'', ''secret'', ''active'']"
    "\<lambda>w x. w_CreatedBy x = w_CreatedBy w \<and> w_CreatedAt x = w_CreatedAt w" "\<lambda>w x. True"
proof
  fix v w :: webhook
  assume *: "webhook_fits v" "webhook_fits w"
  let ?key = w_ID
  show "same_on [''id''] (webhook_row v) (webhook_row w) \<longleftrightarrow> ?key w = ?key v"
    using * by (auto simp: column_tests row_defs)
  show "\<forall>cols \<in> set [[''id'']]. \<not> same_on cols (webhook_row v) (webhook_row w)" if "?key w \<noteq> ?key v" "(\<lambda>w x. True) v w"
    using * that by (simp add: column_tests row_defs)
  show "override_on (webhook_row w) (webhook_row v)
      (set [''url'', ''secret'', ''active'']) = webhook_row v" if "?key w = ?key v" "(\<lambda>w x. w_CreatedBy x = w_CreatedBy w \<and> w_CreatedAt x = w_CreatedAt w) v w"
    using * that by (intro override_row [OF row_dom(11) row_dom(11)]) (auto simp: row_defs)
qed

section \<open>The format\<close>

definition sqlite_format :: sql_format where
  "sqlite_format = \<lparr>
     rf_user = user_row, rf_group = group_row, rf_membership = membership_row, rf_join_request = join_request_row,
     rf_invitation = invitation_row, rf_cycle = cycle_row, rf_contribution = contribution_row, rf_webhook = webhook_row,
     rf_payout = payout_row, rf_escrow = escrow_row, rf_audit = audit_row, rf_reputation = reputation_row,
     rf_notification = notification_row,
     sc_user = scan_user, sc_group = scan_group, sc_membership = scan_membership, sc_join_request = scan_join_request,
     sc_invitation = scan_invitation, sc_cycle = scan_cycle, sc_contribution = scan_contribution, sc_webhook = scan_webhook,
     sc_payout = scan_payout, sc_escrow = scan_escrow, sc_audit = scan_audit, sc_reputation = scan_reputation,
     sc_notification = scan_notification,
     ok_user = user_fits, ok_group = group_fits, ok_membership = membership_fits, ok_join_request = join_request_fits,
     ok_invitation = invitation_fits, ok_cycle = cycle_fits, ok_contribution = contribution_fits, ok_webhook = webhook_fits,
     ok_payout = payout_fits, ok_escrow = escrow_fits, ok_audit = audit_fits, ok_reputation = reputation_fits,
     ok_notification = notification_fits, refuse_index = (\<lambda>i. None), refuse_offset = (\<lambda>i. None)\<rparr>"

interpretation sqlite: sql_format_laws sqlite_format
  by unfold_locales
    (simp_all add: sqlite_format_def sqlite_user.scan_row sqlite_group.scan_row sqlite_membership.scan_row sqlite_join_request.scan_row
        sqlite_invitation.scan_row sqlite_cycle.scan_row sqlite_contribution.scan_row
        sqlite_webhook.scan_row sqlite_payout.scan_row sqlite_escrow.scan_row sqlite_audit.scan_row
        sqlite_reputation.scan_row sqlite_notification.scan_row,
     simp_all add: row_defs membership_fits_def cycle_fits_def contribution_fits_def)

definition sqlite_reads :: "database \<Rightarrow> store_reads" where
  "sqlite_reads db = \<lparr>
     rd_GetUser = sqlite_GetUser db,
     rd_GetUserByEmail = sqlite_GetUserByEmail db,
     rd_ListUsers = sqlite_ListUsers db,
     rd_ListUsersByKYC = sqlite_ListUsersByKYC db,
     rd_GetGroup = sqlite_GetGroup db,
     rd_ListGroups = sqlite_ListGroups db,
     rd_GetMembership = sqlite_GetMembership db,
     rd_ListMembershipsByGroup = sqlite_ListMembershipsByGroup db,
     rd_ListMembershipsByUser = sqlite_ListMembershipsByUser db,
     rd_GetJoinRequest = sqlite_GetJoinRequest db,
     rd_ListJoinRequestsByGroup = sqlite_ListJoinRequestsByGroup db,
     rd_GetInvitation = sqlite_GetInvitation db,
     rd_ListInvitationsByUser = sqlite_ListInvitationsByUser db,
     rd_GetCycle = sqlite_GetCycle db,
     rd_ListCyclesByGroup = sqlite_ListCyclesByGroup db,
     rd_GetContribution = sqlite_GetContribution db,
     rd_ListContributionsByCycle = sqlite_ListContributionsByCycle db,
     rd_ListPayoutsByGroup = sqlite_ListPayoutsByGroup db,
     rd_ListEscrowByGroup = sqlite_ListEscrowByGroup db,
     rd_ReputationEvents = sqlite_ReputationEvents db,
     rd_AllReputationEvents = sqlite_AllReputationEvents db,
     rd_GetWebhook = sqlite_GetWebhook db,
     rd_ListWebhooks = sqlite_ListWebhooks db,
     rd_ListNotificationsByUser = sqlite_ListNotificationsByUser db,
     rd_ListAudit = sqlite_ListAudit db\<rparr>"

lemma sqlite_reads_sql: "sqlite_reads db = sql_reads sqlite_format db"
  by (simp add: sqlite_reads_def sql_reads_def sqlite_format_def fun_eq_iff sqlite_GetUser_def sqlite_GetUserByEmail_def sqlite_ListUsersByKYC_def sqlite_GetGroup_def
      sqlite_GetMembership_def sqlite_ListMembershipsByGroup_def sqlite_ListMembershipsByUser_def
      sqlite_GetJoinRequest_def sqlite_ListJoinRequestsByGroup_def sqlite_GetInvitation_def
      sqlite_ListInvitationsByUser_def sqlite_GetCycle_def sqlite_ListCyclesByGroup_def
      sqlite_GetContribution_def sqlite_ListContributionsByCycle_def sqlite_ListPayoutsByGroup_def
      sqlite_ListEscrowByGroup_def sqlite_ReputationEvents_def sqlite_GetWebhook_def
      sqlite_ListWebhooks_def sqlite_ListNotificationsByUser_def sqlite_ListUsers_def sqlite_ListGroups_def
      sqlite_AllReputationEvents_def sqlite_ListAudit_def sql_page_def limit_def)

section \<open>Writes\<close>

fun sqlite_write :: "store_write \<Rightarrow> database \<Rightarrow> err + database" where
  "sqlite_write (WUser u) db = sqlite_SaveUser u db"
| "sqlite_write (WGroup g) db = sqlite_SaveGroup g db"
| "sqlite_write (WMembership x) db = sqlite_SaveMembership x db"
| "sqlite_write (WJoinRequest j) db = sqlite_SaveJoinRequest j db"
| "sqlite_write (WInvitation i) db = sqlite_SaveInvitation i db"
| "sqlite_write (WCycle c) db = sqlite_SaveCycle c db"
| "sqlite_write (WContribution c) db = sqlite_SaveContribution c db"
| "sqlite_write (WPayout p) db = sqlite_SavePayout p db"
| "sqlite_write (WEscrow e) db = sqlite_AppendEscrowEntry e db"
| "sqlite_write (WReputation e) db = sqlite_AppendReputationEvent e db"
| "sqlite_write (WWebhook w) db = sqlite_SaveWebhook w db"
| "sqlite_write (WDeleteWebhook k) db = sqlite_DeleteWebhook k db"
| "sqlite_write (WNotification n) db = sqlite_SaveNotification n db"
| "sqlite_write (WAudit a) db = sqlite_AppendAudit a db"

lemma sqlite_format_simps [simp]:
  "rf_user sqlite_format = user_row" "ok_user sqlite_format = user_fits"
  "rf_group sqlite_format = group_row" "ok_group sqlite_format = group_fits"
  "rf_membership sqlite_format = membership_row" "ok_membership sqlite_format = membership_fits"
  "rf_join_request sqlite_format = join_request_row" "ok_join_request sqlite_format = join_request_fits"
  "rf_invitation sqlite_format = invitation_row" "ok_invitation sqlite_format = invitation_fits"
  "rf_cycle sqlite_format = cycle_row" "ok_cycle sqlite_format = cycle_fits"
  "rf_contribution sqlite_format = contribution_row" "ok_contribution sqlite_format = contribution_fits"
  "rf_webhook sqlite_format = webhook_row" "ok_webhook sqlite_format = webhook_fits"
  "rf_payout sqlite_format = payout_row" "ok_payout sqlite_format = payout_fits"
  "rf_escrow sqlite_format = escrow_row" "ok_escrow sqlite_format = escrow_fits"
  "rf_audit sqlite_format = audit_row" "ok_audit sqlite_format = audit_fits"
  "rf_reputation sqlite_format = reputation_row" "ok_reputation sqlite_format = reputation_fits"
  "rf_notification sqlite_format = notification_row" "ok_notification sqlite_format = notification_fits"
  "refuse_index sqlite_format i = None"
  by (simp_all add: sqlite_format_def)

lemma log_ids:
  "payout_row p ''id'' = Some (SText (po_ID p))" "escrow_row e ''id'' = Some (SText (e_ID e))"
  "audit_row a ''id'' = Some (SText (a_ID a))" "reputation_row r ''id'' = Some (SText (r_ID r))"
  "notification_row n ''id'' = Some (SText (n_ID n))"
  by (simp_all add: row_defs)

lemma sqlite_write_mirrors:
  assumes m: "mirrors sqlite_format db m" and w: "admissible sqlite_format m w"
  shows "mirrored sqlite_format (sqlite_write w db) (memory_write w m)"
proof -
  note M = m [unfolded mirrors_def memory_ok_def, simplified]
  show ?thesis
  proof (cases w)
    case (WUser u)
    with w M show ?thesis
      using mirrored_user [OF m, of u] sqlite_users.upsert_rows [of "users m" u]
      by (simp add: sqlite_SaveUser_def)
  next
    case (WGroup g)
    with w M show ?thesis
      using mirrored_group [OF m, of g] sqlite_groups.upsert_rows [of "groups m" g]
      by (simp add: sqlite_SaveGroup_def)
  next
    case (WMembership x)
    with w M show ?thesis
      using mirrored_membership [OF m, of x] sqlite_memberships.upsert_rows [of "memberships m" x]
      by (simp add: sqlite_SaveMembership_def)
  next
    case (WJoinRequest j)
    with w M show ?thesis
      using mirrored_join_request [OF m, of j] sqlite_join_requests.upsert_rows [of "joinRequests m" j]
      by (simp add: sqlite_SaveJoinRequest_def)
  next
    case (WInvitation i)
    with w M show ?thesis
      using mirrored_invitation [OF m, of i] sqlite_invitations.upsert_rows [of "invitations m" i]
      by (simp add: sqlite_SaveInvitation_def)
  next
    case (WCycle c)
    with w M show ?thesis
      using mirrored_cycle [OF m, of c] sqlite_cycles.upsert_rows [of "cycles m" c]
      by (simp add: sqlite_SaveCycle_def)
  next
    case (WContribution c)
    with w M show ?thesis
      using mirrored_contribution [OF m, of c] sqlite_contributions.upsert_rows [of "contributions m" c]
      by (simp add: sqlite_SaveContribution_def)
  next
    case (WWebhook x)
    with w M show ?thesis
      using mirrored_webhook [OF m, of x] sqlite_webhooks.upsert_rows [of "webhooks m" x]
      by (simp add: sqlite_SaveWebhook_def)
  next
    case (WDeleteWebhook k)
    then show ?thesis
      using sqlite.mirrored_delete [OF m, of k] by (simp add: sqlite_DeleteWebhook_def)
  next
    case (WPayout p)
    with w M show ?thesis
      using mirrored_payout [OF m, of p] insert_fresh(1) [of payout_row po_ID p "payouts m"]
      by (simp add: sqlite_SavePayout_def log_ids)
  next
    case (WEscrow e)
    with w M show ?thesis
      using mirrored_escrow [OF m, of e] insert_fresh(1) [of escrow_row e_ID e "escrow m"]
      by (simp add: sqlite_AppendEscrowEntry_def log_ids)
  next
    case (WAudit a)
    with w M show ?thesis
      using mirrored_audit [OF m, of a] insert_fresh(1) [of audit_row a_ID a "audit m"]
      by (simp add: sqlite_AppendAudit_def log_ids)
  next
    case (WReputation e)
    then show ?thesis
      using mirrored_reputation [OF m, of e] insert_fresh(1) [of reputation_row r_ID e] w M
      by (simp add: sqlite_AppendReputationEvent_def log_ids)
  next
    case (WNotification n)
    then show ?thesis
      using mirrored_notification [OF m, of n] insert_fresh(2) [of notification_row n_ID n] w M
      by (simp add: sqlite_SaveNotification_def log_ids)
  qed
qed

section \<open>Runs\<close>

fun sqlite_writes :: "store_write list \<Rightarrow> database \<Rightarrow> err + database" where
  "sqlite_writes [] db = Inr db"
| "sqlite_writes (w # ws) db = (case sqlite_write w db of Inl e \<Rightarrow> Inl e | Inr db' \<Rightarrow> sqlite_writes ws db')"

lemma sqlite_writes_mirror:
  "mirrors sqlite_format db m \<Longrightarrow> admissible_writes sqlite_format m ws \<Longrightarrow> mirrored sqlite_format (sqlite_writes ws db) (memory_writes ws m)"
proof (induction ws arbitrary: db m)
  case Nil
  then show ?case
    by (simp add: mirrored_def memory_writes_def)
next
  case (Cons w ws)
  then obtain db' where "sqlite_write w db = Inr db'" "mirrors sqlite_format db' (memory_write w m)"
    using sqlite_write_mirrors [of db m w] by (auto simp: mirrored_def)
  with Cons show ?case
    by (simp add: memory_writes_def)
qed

text \<open>
  C18: after any sequence of admissible writes to an empty database no statement has failed, and next to the
  in-memory store after the same writes the SQLite store answers every lookup alike, answers every
  listing without a page with the same entities, and answers the four paged listings with the same total and
  with consecutive parts of one ordering of the same entities (where the pages of the in-memory store all start
  at the front). A write is admissible when its times have four-digit years, its identifier and e-mail address
  belong to no other entity, and it leaves the creation data of an entity alone that is stored already.
\<close>

theorem sqlite_refines_memory:
  assumes "admissible_writes sqlite_format NewMemory ws"
  shows "\<exists>db. sqlite_writes ws new_database = Inr db
    \<and> same_lookups int64_key (sqlite_reads db) (memory_writes ws NewMemory)
    \<and> same_listings (\<lambda>i. True) (sqlite_reads db) (memory_writes ws NewMemory)
    \<and> same_pages (sqlite_reads db) (memory_writes ws NewMemory)"
proof -
  obtain db where "sqlite_writes ws new_database = Inr db" and m: "mirrors sqlite_format db (memory_writes ws NewMemory)"
    using sqlite_writes_mirror [OF mirrors_new assms] by (auto simp: mirrored_def)
  with sqlite.mirrors_lookups [OF m] sqlite.mirrors_listings [OF m] sqlite.mirrors_pages [OF m] show ?thesis
    by (simp add: sqlite_reads_sql)
qed

theorem sqlite_refines_memory_witness:
  defines "u \<equiv> \<lparr>u_ID = ''u'', u_Email = ''a@b'', u_DisplayName = ''A'', u_WalletAddress = ''w'',
      u_IdentityCommitment = ''c'', u_KYCProvider = ''p'', u_KYCStatus = KYCPending, u_Role = RoleMember,
      u_Status = UserActive, u_PasswordHash = ''h'', u_CreatedAt = 0, u_UpdatedAt = 0\<rparr>"
    and "n \<equiv> \<lparr>n_ID = ''n'', n_UserID = ''u'', n_Kind = NotifyPayoutSent, n_Title = ''t'', n_Body = ''b'',
      n_Read = False, n_CreatedAt = 5\<rparr>"
  shows "\<exists>db. sqlite_writes [WUser u, WUser (u\<lparr>u_KYCStatus := KYCApproved\<rparr>), WNotification n] new_database = Inr db
    \<and> same_lookups int64_key (sqlite_reads db)
        (memory_writes [WUser u, WUser (u\<lparr>u_KYCStatus := KYCApproved\<rparr>), WNotification n] NewMemory)
    \<and> same_listings (\<lambda>i. True) (sqlite_reads db)
        (memory_writes [WUser u, WUser (u\<lparr>u_KYCStatus := KYCApproved\<rparr>), WNotification n] NewMemory)
    \<and> same_pages (sqlite_reads db)
        (memory_writes [WUser u, WUser (u\<lparr>u_KYCStatus := KYCApproved\<rparr>), WNotification n] NewMemory)"
  by (rule sqlite_refines_memory)
    (simp add: u_def n_def compatible_def user_fits_def notification_fits_def storable_def epoch_day_def role_plain_def
      NewMemory_def SaveUser_def SaveNotification_def slice_at_def gm_range_def gm_set_def)

section \<open>The order of times\<close>

text \<open>
  \<^verbatim>\<open>ORDER BY\<close> on a column of times is the order in time as long as all the texts have one
  length, which is the case when they show as many digits of the fraction.
\<close>

lemma ordered_by_time:
  assumes "\<And>v. v \<in> set vs \<Longrightarrow> column c (row v) = SText (tstr (f v)) \<and> storable (f v) \<and> length (tstr (f v)) = k"
  shows "order_by c (map row vs) = map row (sort_key f vs)"
proof -
  have "sort_key (column c \<circ> row) vs = sort_key f vs"
    by (rule sort_key_cong) (simp add: assms text_order)
  then show ?thesis
    by (simp add: order_by_def sort_key_map)
qed

text \<open>
  C33: in general it is not. The fraction of a second is printed without its trailing zeros, and a point sorts
  before the final Z: of two webhooks, the one created half a second later is listed first, while the
  in-memory store lists them in the order of their creation.
\<close>

theorem sqlite_sorts_times_as_text:
  defines "w1 \<equiv> \<lparr>w_ID = ''a'', w_URL = [], w_Secret = [], w_Active = True, w_CreatedBy = [],
      w_CreatedAt = 951786245000000000\<rparr>"
    and "w2 \<equiv> \<lparr>w_ID = ''b'', w_URL = [], w_Secret = [], w_Active = True, w_CreatedBy = [],
      w_CreatedAt = 951786245500000000\<rparr>"
  shows "\<exists>db. w_CreatedAt w1 < w_CreatedAt w2 \<and> sqlite_writes [WWebhook w1, WWebhook w2] new_database = Inr db
    \<and> sqlite_ListWebhooks db = Inr [w2, w1]
    \<and> ListWebhooks (memory_writes [WWebhook w1, WWebhook w2] NewMemory) = [w1, w2]"
proof -
  have fits: "webhook_fits w1" "webhook_fits w2"
    by (simp_all add: webhook_fits_def w1_def w2_def storable_def epoch_day_def)
  have "admissible_writes sqlite_format NewMemory [WWebhook w1, WWebhook w2]"
    using fits by (simp add: compatible_def NewMemory_def SaveWebhook_def gm_range_def gm_set_def w1_def w2_def)
  then obtain db where db: "sqlite_writes [WWebhook w1, WWebhook w2] new_database = Inr db"
    and m: "mirrors sqlite_format db (memory_writes [WWebhook w1, WWebhook w2] NewMemory)"
    using sqlite_writes_mirror [OF mirrors_new] unfolding mirrored_def by blast
  have range: "gm_range (webhooks (memory_writes [WWebhook w1, WWebhook w2] NewMemory)) = [w1, w2]"
    by (simp add: memory_writes_def NewMemory_def SaveWebhook_def gm_range_def gm_set_def w1_def w2_def)
  have time: "column ''created_at'' (webhook_row w1) = SText ''2000-02-29T01:04:05Z''"
    "column ''created_at'' (webhook_row w2) = SText ''2000-02-29T01:04:05.5Z''"
    by (simp_all add: column_def webhook_row_def webhook_cols_def w1_def w2_def leap_day_text)
  have "\<not> column ''created_at'' (webhook_row w1) \<le> column ''created_at'' (webhook_row w2)"
    by (simp add: time less_eq_char_def)
  then have "order_by ''created_at'' (t_webhooks db) = [webhook_row w2, webhook_row w1]"
    using m range by (simp add: mirrors_def order_by_def)
  then have "sqlite_ListWebhooks db = Inr [w2, w1]"
    using fits sqlite_webhook.scan_row by (simp add: sqlite_ListWebhooks_def)
  moreover have "ListWebhooks (memory_writes [WWebhook w1, WWebhook w2] NewMemory) = [w1, w2]"
    unfolding ListWebhooks_def range by (simp add: w1_def w2_def)
  ultimately show ?thesis
    using db by (auto simp: w1_def w2_def)
qed

end
