(* ===== verification/Pg_Refinement.thy ===== *)
theory Pg_Refinement
  imports Pg_Store
begin

text \<open>
  The Postgres store implements the in-memory store up to the microsecond: after a run of writes that
  are admissible with their times cut to whole microseconds, it answers as the in-memory store does after
  the cut writes, lists and pages by time in the order of time, and refuses indices of more than 32 bits. What its schema asks beyond the columns of
  SQLite's, foreign keys, unique wallet addresses and checks, is part of \<open>pg_admissible\<close>.
\<close>

section \<open>Columns\<close>

lemmas pg_row_defs =
  pg_user_row_def pg_user_cols_def pg_group_row_def pg_group_cols_def
  pg_membership_row_def pg_membership_cols_def pg_join_request_row_def pg_join_request_cols_def
  pg_invitation_row_def pg_invitation_cols_def pg_cycle_row_def pg_cycle_cols_def
  pg_contribution_row_def pg_contribution_cols_def pg_payout_row_def pg_payout_cols_def
  pg_escrow_row_def pg_escrow_cols_def pg_reputation_row_def pg_reputation_cols_def
  pg_webhook_row_def pg_webhook_cols_def pg_notification_row_def pg_notification_cols_def
  pg_audit_row_def pg_audit_cols_def

lemma pg_row_dom:
  "dom (pg_user_row u) = set pg_user_cols"
  "dom (pg_group_row nilv g) = set pg_group_cols"
  "dom (pg_membership_row mem) = set pg_membership_cols"
  "dom (pg_join_request_row j) = set pg_join_request_cols"
  "dom (pg_invitation_row i) = set pg_invitation_cols"
  "dom (pg_cycle_row c) = set pg_cycle_cols"
  "dom (pg_contribution_row co) = set pg_contribution_cols"
  "dom (pg_payout_row p) = set pg_payout_cols"
  "dom (pg_escrow_row e) = set pg_escrow_cols"
  "dom (pg_reputation_row r) = set pg_reputation_cols"
  "dom (pg_webhook_row w) = set pg_webhook_cols"
  "dom (pg_notification_row n) = set pg_notification_cols"
  "dom (pg_audit_row a) = set pg_audit_cols"
  unfolding pg_user_row_def pg_group_row_def pg_membership_row_def pg_join_request_row_def pg_invitation_row_def
    pg_cycle_row_def pg_contribution_row_def pg_payout_row_def pg_escrow_row_def pg_reputation_row_def
    pg_webhook_row_def pg_notification_row_def pg_audit_row_def
  by (rule dom_row_of; simp add: pg_user_cols_def pg_group_cols_def pg_membership_cols_def pg_join_request_cols_def pg_invitation_cols_def
      pg_cycle_cols_def pg_contribution_cols_def pg_payout_cols_def pg_escrow_cols_def pg_reputation_cols_def
      pg_webhook_cols_def pg_notification_cols_def pg_audit_cols_def)+

section \<open>Keyed tables\<close>

interpretation pg_users: sql_keyed pg_user_row pg_scan_user pg_user_fits u_ID
    "[[''id''], [''email''], [''wallet_address''], [''identity_commitment'']]" "[''id'']"
    "[''email'', ''display_name'', ''wallet_address'', ''identity_commitment'', ''kyc_provider'',
       ''kyc_status'', ''role'', ''status'', ''password_hash'', ''updated_at'']"
    "\<lambda>u w. u_CreatedAt w = u_CreatedAt u" "\<lambda>u w. u_Email w \<noteq> u_Email u \<and> u_WalletAddress w \<noteq> u_WalletAddress u
       \<and> u_IdentityCommitment w \<noteq> u_IdentityCommitment u"
proof
  fix v w :: user
  assume *: "pg_user_fits v" "pg_user_fits w"
  let ?key = u_ID
  show "same_on [''id''] (pg_user_row v) (pg_user_row w) \<longleftrightarrow> ?key w = ?key v"
    using * by (auto simp: column_tests pg_row_defs)
  show "\<forall>cols \<in> set [[''id''], [''email''], [''wallet_address''], [''identity_commitment'']].
      \<not> same_on cols (pg_user_row v) (pg_user_row w)" if "?key w \<noteq> ?key v" "(\<lambda>u w. u_Email w \<noteq> u_Email u \<and> u_WalletAddress w \<noteq> u_WalletAddress u
       \<and> u_IdentityCommitment w \<noteq> u_IdentityCommitment u) v w"
    using * that by (simp add: column_tests pg_row_defs) metis
  show "override_on (pg_user_row w) (pg_user_row v)
      (set [''email'', ''display_name'', ''wallet_address'', ''identity_commitment'', ''kyc_provider'',
       ''kyc_status'', ''role'', ''status'', ''password_hash'', ''updated_at'']) = pg_user_row v" if "?key w = ?key v" "(\<lambda>u w. u_CreatedAt w = u_CreatedAt u) v w"
    using * that by (intro override_row [OF pg_row_dom(1) pg_row_dom(1)]) (auto simp: pg_row_defs)
qed

interpretation pg_groups: sql_keyed "pg_group_row nilv" pg_scan_group pg_group_fits g_ID
    "[[''id'']]" "[''id'']"
    "[''contract_address'', ''name'', ''organizer_id'', ''contribution_amount'', ''cycle_length_ns'',
       ''max_members'', ''total_cycles'', ''members'', ''payout_order'', ''state'', ''activated_at'']"
    "\<lambda>g h. g_CreatedAt h = g_CreatedAt g" "\<lambda>g h. True" for nilv
proof
  fix v w :: group
  assume *: "pg_group_fits v" "pg_group_fits w"
  let ?key = g_ID
  show "same_on [''id''] (pg_group_row nilv v) (pg_group_row nilv w) \<longleftrightarrow> ?key w = ?key v"
    using * by (auto simp: column_tests pg_row_defs)
  show "\<forall>cols \<in> set [[''id'']].
      \<not> same_on cols (pg_group_row nilv v) (pg_group_row nilv w)" if "?key w \<noteq> ?key v" "(\<lambda>g h. True) v w"
    using * that by (simp add: column_tests pg_row_defs)
  show "override_on (pg_group_row nilv w) (pg_group_row nilv v)
      (set [''contract_address'', ''name'', ''organizer_id'', ''contribution_amount'', ''cycle_length_ns'',
       ''max_members'', ''total_cycles'', ''members'', ''payout_order'', ''state'', ''activated_at'']) = pg_group_row nilv v" if "?key w = ?key v" "(\<lambda>g h. g_CreatedAt h = g_CreatedAt g) v w"
    using * that by (intro override_row [OF pg_row_dom(2) pg_row_dom(2)]) (auto simp: pg_row_defs)
qed

interpretation pg_memberships: sql_keyed pg_membership_row pg_scan_membership pg_membership_fits "\<lambda>x. memberKey (m_GroupID x) (m_UserID x)"
    "[[''id''], [''group_id'', ''user_id'']]" "[''group_id'', ''user_id'']"
    "[''id'', ''organizer'', ''status'']"
    "\<lambda>x y. m_JoinedAt y = m_JoinedAt x" "\<lambda>x y. m_ID y \<noteq> m_ID x"
proof
  fix v w :: membership
  assume *: "pg_membership_fits v" "pg_membership_fits w"
  let ?key = "\<lambda>x. memberKey (m_GroupID x) (m_UserID x)"
  show "same_on [''group_id'', ''user_id''] (pg_membership_row v) (pg_membership_row w) \<longleftrightarrow> ?key w = ?key v"
    using * by (auto simp: column_tests pg_row_defs memberKey_inject pg_membership_fits_def)
  show "\<forall>cols \<in> set [[''id''], [''group_id'', ''user_id'']].
      \<not> same_on cols (pg_membership_row v) (pg_membership_row w)" if "?key w \<noteq> ?key v" "(\<lambda>x y. m_ID y \<noteq> m_ID x) v w"
    using * that by (simp add: column_tests pg_row_defs memberKey_inject pg_membership_fits_def) metis
  show "override_on (pg_membership_row w) (pg_membership_row v)
      (set [''id'', ''organizer'', ''status'']) = pg_membership_row v" if "?key w = ?key v" "(\<lambda>x y. m_JoinedAt y = m_JoinedAt x) v w"
    using * that by (intro override_row [OF pg_row_dom(3) pg_row_dom(3)]) (auto simp: pg_row_defs memberKey_inject pg_membership_fits_def)
qed

interpretation pg_join_requests: sql_keyed pg_join_request_row pg_scan_join_request pg_join_request_fits j_ID
    "[[''id'']]" "[''id'']"
    "[''status'', ''decided_at'', ''decided_by'']"
    "\<lambda>j k. j_GroupID k = j_GroupID j \<and> j_UserID k = j_UserID j \<and> j_CreatedAt k = j_CreatedAt j" "\<lambda>j k. True"
proof
  fix v w :: join_request
  assume *: "pg_join_request_fits v" "pg_join_request_fits w"
  let ?key = j_ID
  show "same_on [''id''] (pg_join_request_row v) (pg_join_request_row w) \<longleftrightarrow> ?key w = ?key v"
    using * by (auto simp: column_tests pg_row_defs)
  show "\<forall>cols \<in> set [[''id'']].
      \<not> same_on cols (pg_join_request_row v) (pg_join_request_row w)" if "?key w \<noteq> ?key v" "(\<lambda>j k. True) v w"
    using * that by (simp add: column_tests pg_row_defs)
  show "override_on (pg_join_request_row w) (pg_join_request_row v)
      (set [''status'', ''decided_at'', ''decided_by'']) = pg_join_request_row v" if "?key w = ?key v" "(\<lambda>j k. j_GroupID k = j_GroupID j \<and> j_UserID k = j_UserID j \<and> j_CreatedAt k = j_CreatedAt j) v w"
    using * that by (intro override_row [OF pg_row_dom(4) pg_row_dom(4)]) (auto simp: pg_row_defs)
qed

interpretation pg_invitations: sql_keyed pg_invitation_row pg_scan_invitation pg_invitation_fits i_ID
    "[[''id'']]" "[''id'']"
    "[''status'']"
    "\<lambda>i k. i_GroupID k = i_GroupID i \<and> i_UserID k = i_UserID i \<and> i_InvitedBy k = i_InvitedBy i
       \<and> i_CreatedAt k = i_CreatedAt i" "\<lambda>i k. True"
proof
  fix v w :: invitation
  assume *: "pg_invitation_fits v" "pg_invitation_fits w"
  let ?key = i_ID
  show "same_on [''id''] (pg_invitation_row v) (pg_invitation_row w) \<longleftrightarrow> ?key w = ?key v"
    using * by (auto simp: column_tests pg_row_defs)
  show "\<forall>cols \<in> set [[''id'']].
      \<not> same_on cols (pg_invitation_row v) (pg_invitation_row w)" if "?key w \<noteq> ?key v" "(\<lambda>i k. True) v w"
    using * that by (simp add: column_tests pg_row_defs)
  show "override_on (pg_invitation_row w) (pg_invitation_row v)
      (set [''status'']) = pg_invitation_row v" if "?key w = ?key v" "(\<lambda>i k. i_GroupID k = i_GroupID i \<and> i_UserID k = i_UserID i \<and> i_InvitedBy k = i_InvitedBy i
       \<and> i_CreatedAt k = i_CreatedAt i) v w"
    using * that by (intro override_row [OF pg_row_dom(5) pg_row_dom(5)]) (auto simp: pg_row_defs)
qed

interpretation pg_cycles: sql_keyed pg_cycle_row pg_scan_cycle pg_cycle_fits "\<lambda>c. cycleKey (c_GroupID c) (c_Index c)"
    "[[''group_id'', ''idx'']]" "[''group_id'', ''idx'']"
    "[''deadline'', ''payout_user'', ''settled'']"
    "\<lambda>c d. True" "\<lambda>c d. True"
proof
  fix v w :: cycle
  assume *: "pg_cycle_fits v" "pg_cycle_fits w"
  let ?key = "\<lambda>c. cycleKey (c_GroupID c) (c_Index c)"
  show "same_on [''group_id'', ''idx''] (pg_cycle_row v) (pg_cycle_row w) \<longleftrightarrow> ?key w = ?key v"
    using * by (auto simp: column_tests pg_row_defs cycleKey_inject pg_cycle_fits_def)
  show "\<forall>cols \<in> set [[''group_id'', ''idx'']].
      \<not> same_on cols (pg_cycle_row v) (pg_cycle_row w)" if "?key w \<noteq> ?key v" "(\<lambda>c d. True) v w"
    using * that by (simp add: column_tests pg_row_defs cycleKey_inject pg_cycle_fits_def) metis
  show "override_on (pg_cycle_row w) (pg_cycle_row v)
      (set [''deadline'', ''payout_user'', ''settled'']) = pg_cycle_row v" if "?key w = ?key v" "(\<lambda>c d. True) v w"
    using * that by (intro override_row [OF pg_row_dom(6) pg_row_dom(6)]) (auto simp: pg_row_defs cycleKey_inject pg_cycle_fits_def)
qed

interpretation pg_contributions: sql_keyed pg_contribution_row pg_scan_contribution pg_contribution_fits "\<lambda>c. contribKey (co_GroupID c) (co_UserID c) (co_CycleIndex c)"
    "[[''id''], [''group_id'', ''user_id'', ''cycle_index'']]" "[''group_id'', ''user_id'', ''cycle_index'']"
    "[''id'', ''amount'', ''commitment'', ''revealed'', ''paid_at'']"
    "\<lambda>c d. True" "\<lambda>c d. co_ID d \<noteq> co_ID c"
proof
  fix v w :: contribution
  assume *: "pg_contribution_fits v" "pg_contribution_fits w"
  let ?key = "\<lambda>c. contribKey (co_GroupID c) (co_UserID c) (co_CycleIndex c)"
  show "same_on [''group_id'', ''user_id'', ''cycle_index''] (pg_contribution_row v) (pg_contribution_row w) \<longleftrightarrow> ?key w = ?key v"
    using * by (auto simp: column_tests pg_row_defs contribKey_inject pg_contribution_fits_def)
  show "\<forall>cols \<in> set [[''id''], [''group_id'', ''user_id'', ''cycle_index'']].
      \<not> same_on cols (pg_contribution_row v) (pg_contribution_row w)" if "?key w \<noteq> ?key v" "(\<lambda>c d. co_ID d \<noteq> co_ID c) v w"
    using * that by (simp add: column_tests pg_row_defs contribKey_inject pg_contribution_fits_def) metis
  show "override_on (pg_contribution_row w) (pg_contribution_row v)
      (set [''id'', ''amount'', ''commitment'', ''revealed'', ''paid_at'']) = pg_contribution_row v" if "?key w = ?key v" "(\<lambda>c d. True) v w"
    using * that by (intro override_row [OF pg_row_dom(7) pg_row_dom(7)]) (auto simp: pg_row_defs contribKey_inject pg_contribution_fits_def)
qed

interpretation pg_webhooks: sql_keyed pg_webhook_row pg_scan_webhook pg_webhook_fits w_ID
    "[[''id'']]" "[''id'']"
    "[''url'', ''secret'', ''active'']"
    "\<lambda>w x. w_CreatedBy x = w_CreatedBy w \<and> w_CreatedAt x = w_CreatedAt w" "\<lambda>w x. True"
proof
  fix v w :: webhook
  assume *: "pg_webhook_fits v" "pg_webhook_fits w"
  let ?key = w_ID
  show "same_on [''id''] (pg_webhook_row v) (pg_webhook_row w) \<longleftrightarrow> ?key w = ?key v"
    using * by (auto simp: column_tests pg_row_defs)
  show "\<forall>cols \<in> set [[''id'']].
      \<not> same_on cols (pg_webhook_row v) (pg_webhook_row w)" if "?key w \<noteq> ?key v" "(\<lambda>w x. True) v w"
    using * that by (simp add: column_tests pg_row_defs)
  show "override_on (pg_webhook_row w) (pg_webhook_row v)
      (set [''url'', ''secret'', ''active'']) = pg_webhook_row v" if "?key w = ?key v" "(\<lambda>w x. w_CreatedBy x = w_CreatedBy w \<and> w_CreatedAt x = w_CreatedAt w) v w"
    using * that by (intro override_row [OF pg_row_dom(11) pg_row_dom(11)]) (auto simp: pg_row_defs)
qed

section \<open>The format\<close>

definition pg_format :: "sqlval \<Rightarrow> sql_format" where
  "pg_format nilv = \<lparr>
     rf_user = pg_user_row, rf_group = pg_group_row nilv, rf_membership = pg_membership_row, rf_join_request = pg_join_request_row,
     rf_invitation = pg_invitation_row, rf_cycle = pg_cycle_row, rf_contribution = pg_contribution_row, rf_webhook = pg_webhook_row,
     rf_payout = pg_payout_row, rf_escrow = pg_escrow_row, rf_audit = pg_audit_row, rf_reputation = pg_reputation_row,
     rf_notification = pg_notification_row,
     sc_user = pg_scan_user, sc_group = pg_scan_group, sc_membership = pg_scan_membership, sc_join_request = pg_scan_join_request,
     sc_invitation = pg_scan_invitation, sc_cycle = pg_scan_cycle, sc_contribution = pg_scan_contribution, sc_webhook = pg_scan_webhook,
     sc_payout = pg_scan_payout, sc_escrow = pg_scan_escrow, sc_audit = pg_scan_audit, sc_reputation = pg_scan_reputation,
     sc_notification = pg_scan_notification,
     ok_user = pg_user_fits, ok_group = pg_group_fits, ok_membership = pg_membership_fits, ok_join_request = pg_join_request_fits,
     ok_invitation = pg_invitation_fits, ok_cycle = pg_cycle_fits, ok_contribution = pg_contribution_fits, ok_webhook = pg_webhook_fits,
     ok_payout = pg_payout_fits, ok_escrow = pg_escrow_fits, ok_audit = pg_audit_fits, ok_reputation = pg_reputation_fits,
     ok_notification = pg_notification_fits,
     refuse_index = (\<lambda>i. if int4_index i then None else Some unencodable),
     refuse_offset = (\<lambda>i. if i < 0 then Some negative_offset else None)\<rparr>"

interpretation pg: sql_format_laws "pg_format nilv" for nilv
  by unfold_locales
    (simp_all add: pg_format_def pg_user.scan_row pg_group.scan_row pg_membership.scan_row pg_join_request.scan_row
        pg_invitation.scan_row pg_cycle.scan_row pg_contribution.scan_row pg_webhook.scan_row
        pg_payout.scan_row pg_escrow.scan_row pg_audit.scan_row pg_reputation.scan_row
        pg_notification.scan_row,
     simp_all add: pg_row_defs pg_membership_fits_def pg_cycle_fits_def pg_contribution_fits_def int64_key_def)

definition pg_reads :: "database \<Rightarrow> store_reads" where
  "pg_reads db = \<lparr>
     rd_GetUser = pg_GetUser db,
     rd_GetUserByEmail = pg_GetUserByEmail db,
     rd_ListUsers = pg_ListUsers db,
     rd_ListUsersByKYC = pg_ListUsersByKYC db,
     rd_GetGroup = pg_GetGroup db,
     rd_ListGroups = pg_ListGroups db,
     rd_GetMembership = pg_GetMembership db,
     rd_ListMembershipsByGroup = pg_ListMembershipsByGroup db,
     rd_ListMembershipsByUser = pg_ListMembershipsByUser db,
     rd_GetJoinRequest = pg_GetJoinRequest db,
     rd_ListJoinRequestsByGroup = pg_ListJoinRequestsByGroup db,
     rd_GetInvitation = pg_GetInvitation db,
     rd_ListInvitationsByUser = pg_ListInvitationsByUser db,
     rd_GetCycle = pg_GetCycle db,
     rd_ListCyclesByGroup = pg_ListCyclesByGroup db,
     rd_GetContribution = pg_GetContribution db,
     rd_ListContributionsByCycle = pg_ListContributionsByCycle db,
     rd_ListPayoutsByGroup = pg_ListPayoutsByGroup db,
     rd_ListEscrowByGroup = pg_ListEscrowByGroup db,
     rd_ReputationEvents = pg_ReputationEvents db,
     rd_AllReputationEvents = pg_AllReputationEvents db,
     rd_GetWebhook = pg_GetWebhook db,
     rd_ListWebhooks = pg_ListWebhooks db,
     rd_ListNotificationsByUser = pg_ListNotificationsByUser db,
     rd_ListAudit = pg_ListAudit db\<rparr>"

lemma pg_reads_sql: "pg_reads db = sql_reads (pg_format nilv) db"
  by (simp add: pg_reads_def sql_reads_def pg_format_def fun_eq_iff pg_GetUser_def pg_GetUserByEmail_def pg_ListUsersByKYC_def pg_GetGroup_def pg_GetMembership_def
      pg_ListMembershipsByGroup_def pg_ListMembershipsByUser_def pg_GetJoinRequest_def
      pg_ListJoinRequestsByGroup_def pg_GetInvitation_def pg_ListInvitationsByUser_def pg_GetCycle_def
      pg_ListCyclesByGroup_def pg_GetContribution_def pg_ListContributionsByCycle_def
      pg_ListPayoutsByGroup_def pg_ListEscrowByGroup_def pg_ReputationEvents_def pg_GetWebhook_def
      pg_ListWebhooks_def pg_ListNotificationsByUser_def pg_ListUsers_def pg_ListGroups_def pg_AllReputationEvents_def
      pg_ListAudit_def sql_page_def pg_limit_def int4_arg_def unless_refused_def)

lemma pg_format_simps [simp]:
  "rf_user (pg_format nilv) = pg_user_row" "ok_user (pg_format nilv) = pg_user_fits"
  "rf_group (pg_format nilv) = pg_group_row nilv" "ok_group (pg_format nilv) = pg_group_fits"
  "rf_membership (pg_format nilv) = pg_membership_row" "ok_membership (pg_format nilv) = pg_membership_fits"
  "rf_join_request (pg_format nilv) = pg_join_request_row" "ok_join_request (pg_format nilv) = pg_join_request_fits"
  "rf_invitation (pg_format nilv) = pg_invitation_row" "ok_invitation (pg_format nilv) = pg_invitation_fits"
  "rf_cycle (pg_format nilv) = pg_cycle_row" "ok_cycle (pg_format nilv) = pg_cycle_fits"
  "rf_contribution (pg_format nilv) = pg_contribution_row" "ok_contribution (pg_format nilv) = pg_contribution_fits"
  "rf_webhook (pg_format nilv) = pg_webhook_row" "ok_webhook (pg_format nilv) = pg_webhook_fits"
  "rf_payout (pg_format nilv) = pg_payout_row" "ok_payout (pg_format nilv) = pg_payout_fits"
  "rf_escrow (pg_format nilv) = pg_escrow_row" "ok_escrow (pg_format nilv) = pg_escrow_fits"
  "rf_audit (pg_format nilv) = pg_audit_row" "ok_audit (pg_format nilv) = pg_audit_fits"
  "rf_reputation (pg_format nilv) = pg_reputation_row" "ok_reputation (pg_format nilv) = pg_reputation_fits"
  "rf_notification (pg_format nilv) = pg_notification_row" "ok_notification (pg_format nilv) = pg_notification_fits"
  "refuse_index (pg_format nilv) i = None \<longleftrightarrow> int4_index i"
  by (simp_all add: pg_format_def)

section \<open>The constraints hold of what fits\<close>

lemma enum_texts [simp]:
  "kyc_status_string k \<in> {''pending'', ''approved'', ''rejected''}"
  "user_status_string us \<in> {''active'', ''suspended''}"
  "group_state_string g \<in> {''CREATED'', ''ACTIVE'', ''SETTLEMENT'', ''CLOSED''}"
  "membership_status_string ms \<in> {''active'', ''left'', ''removed''}"
  "join_request_status_string j \<in> {''pending'', ''approved'', ''rejected''}"
  "invitation_status_string i \<in> {''pending'', ''accepted'', ''declined''}"
  "ledger_direction_string d \<in> {''credit'', ''debit''}"
  "event_type_string e
    \<in> {''ContributionMade'', ''ContributionMissed'', ''PayoutReceived'', ''GroupExit'', ''GroupExpulsion''}"
proof -
  show "kyc_status_string k \<in> {''pending'', ''approved'', ''rejected''}"
    by (cases k) simp_all
  show "user_status_string us \<in> {''active'', ''suspended''}"
    by (cases us) simp_all
  show "group_state_string g \<in> {''CREATED'', ''ACTIVE'', ''SETTLEMENT'', ''CLOSED''}"
    by (cases g) simp_all
  show "membership_status_string ms \<in> {''active'', ''left'', ''removed''}"
    by (cases ms) simp_all
  show "join_request_status_string j \<in> {''pending'', ''approved'', ''rejected''}"
    by (cases j) simp_all
  show "invitation_status_string i \<in> {''pending'', ''accepted'', ''declined''}"
    by (cases i) simp_all
  show "ledger_direction_string d \<in> {''credit'', ''debit''}"
    by (cases d) simp_all
  show "event_type_string e \<in> {''ContributionMade'', ''ContributionMissed'', ''PayoutReceived'', ''GroupExit'', ''GroupExpulsion''}"
    by (cases e) simp_all
qed

lemma role_text [simp]: "r \<in> {RoleMember, RoleAdmin} \<Longrightarrow> role_string r \<in> {''member'', ''admin''}"
  by auto

lemmas check_defs = not_null_def column_def int4_def at_least_def one_of_def int_at_def text_at_def

lemma checks:
  "pg_user_fits x0 \<Longrightarrow> users_check (pg_user_row x0)"
  "pg_group_fits x1 \<Longrightarrow> groups_check (pg_group_row nilv x1)"
  "pg_membership_fits x2 \<Longrightarrow> memberships_check (pg_membership_row x2)"
  "pg_join_request_fits x3 \<Longrightarrow> join_requests_check (pg_join_request_row x3)"
  "pg_invitation_fits x4 \<Longrightarrow> invitations_check (pg_invitation_row x4)"
  "pg_cycle_fits x5 \<Longrightarrow> cycles_check (pg_cycle_row x5)"
  "pg_contribution_fits x6 \<Longrightarrow> contributions_check (pg_contribution_row x6)"
  "pg_payout_fits x7 \<Longrightarrow> payouts_check (pg_payout_row x7)"
  "pg_escrow_fits x8 \<Longrightarrow> escrow_check (pg_escrow_row x8)"
  "pg_reputation_fits x9 \<Longrightarrow> reputation_check (pg_reputation_row x9)"
  "pg_webhook_fits x10 \<Longrightarrow> not_null pg_webhook_cols (pg_webhook_row x10)"
  "pg_notification_fits x11 \<Longrightarrow> not_null pg_notification_cols (pg_notification_row x11)"
  "pg_audit_fits x12 \<Longrightarrow> not_null pg_audit_cols (pg_audit_row x12)"
proof -
  show "users_check (pg_user_row x0)" if "pg_user_fits x0"
    using that by (simp add: users_check_def pg_user_fits_def pg_user_row_def pg_user_cols_def check_defs
        del: insert_iff)
  show "groups_check (pg_group_row nilv x1)" if "pg_group_fits x1"
    using that by (simp add: groups_check_def pg_group_fits_def pg_group_row_def pg_group_cols_def check_defs
        del: insert_iff)
  show "memberships_check (pg_membership_row x2)" if "pg_membership_fits x2"
    using that by (simp add: memberships_check_def pg_membership_fits_def pg_membership_row_def pg_membership_cols_def check_defs
        del: insert_iff)
  show "join_requests_check (pg_join_request_row x3)" if "pg_join_request_fits x3"
    using that by (simp add: join_requests_check_def pg_join_request_fits_def pg_join_request_row_def pg_join_request_cols_def check_defs
        del: insert_iff)
  show "invitations_check (pg_invitation_row x4)" if "pg_invitation_fits x4"
    using that by (simp add: invitations_check_def pg_invitation_fits_def pg_invitation_row_def pg_invitation_cols_def check_defs
        del: insert_iff)
  show "cycles_check (pg_cycle_row x5)" if "pg_cycle_fits x5"
    using that by (simp add: cycles_check_def pg_cycle_fits_def pg_cycle_row_def pg_cycle_cols_def check_defs
        del: insert_iff)
  show "contributions_check (pg_contribution_row x6)" if "pg_contribution_fits x6"
    using that by (simp add: contributions_check_def pg_contribution_fits_def pg_contribution_row_def pg_contribution_cols_def check_defs
        del: insert_iff)
  show "payouts_check (pg_payout_row x7)" if "pg_payout_fits x7"
    using that by (simp add: payouts_check_def pg_payout_fits_def pg_payout_row_def pg_payout_cols_def check_defs
        del: insert_iff)
  show "escrow_check (pg_escrow_row x8)" if "pg_escrow_fits x8"
    using that by (simp add: escrow_check_def pg_escrow_fits_def pg_escrow_row_def pg_escrow_cols_def check_defs
        del: insert_iff)
  show "reputation_check (pg_reputation_row x9)" if "pg_reputation_fits x9"
    using that by (simp add: reputation_check_def pg_reputation_fits_def pg_reputation_row_def pg_reputation_cols_def check_defs
        del: insert_iff)
  show "not_null pg_webhook_cols (pg_webhook_row x10)" if "pg_webhook_fits x10"
    using that by (simp add: pg_webhook_fits_def pg_webhook_row_def pg_webhook_cols_def check_defs
        del: insert_iff)
  show "not_null pg_notification_cols (pg_notification_row x11)" if "pg_notification_fits x11"
    using that by (simp add: pg_notification_fits_def pg_notification_row_def pg_notification_cols_def check_defs
        del: insert_iff)
  show "not_null pg_audit_cols (pg_audit_row x12)" if "pg_audit_fits x12"
    using that by (simp add: pg_audit_fits_def pg_audit_row_def pg_audit_cols_def check_defs
        del: insert_iff)
qed

section \<open>Writes\<close>

fun pg_write :: "sqlval \<Rightarrow> store_write \<Rightarrow> database \<Rightarrow> err + database" where
  "pg_write nilv (WUser x) db = pg_SaveUser x db"
| "pg_write nilv (WGroup x) db = pg_SaveGroup nilv x db"
| "pg_write nilv (WMembership x) db = pg_SaveMembership x db"
| "pg_write nilv (WJoinRequest x) db = pg_SaveJoinRequest x db"
| "pg_write nilv (WInvitation x) db = pg_SaveInvitation x db"
| "pg_write nilv (WCycle x) db = pg_SaveCycle x db"
| "pg_write nilv (WContribution x) db = pg_SaveContribution x db"
| "pg_write nilv (WPayout x) db = pg_SavePayout x db"
| "pg_write nilv (WEscrow x) db = pg_AppendEscrowEntry x db"
| "pg_write nilv (WReputation x) db = pg_AppendReputationEvent x db"
| "pg_write nilv (WWebhook x) db = pg_SaveWebhook x db"
| "pg_write nilv (WDeleteWebhook k) db = pg_DeleteWebhook k db"
| "pg_write nilv (WNotification x) db = pg_SaveNotification x db"
| "pg_write nilv (WAudit x) db = pg_AppendAudit x db"

text \<open>A write with its times cut to whole microseconds.\<close>

fun whole_write :: "store_write \<Rightarrow> store_write" where
  "whole_write (WUser x) = WUser (whole_user x)"
| "whole_write (WGroup x) = WGroup (whole_group x)"
| "whole_write (WMembership x) = WMembership (whole_membership x)"
| "whole_write (WJoinRequest x) = WJoinRequest (whole_join_request x)"
| "whole_write (WInvitation x) = WInvitation (whole_invitation x)"
| "whole_write (WCycle x) = WCycle (whole_cycle x)"
| "whole_write (WContribution x) = WContribution (whole_contribution x)"
| "whole_write (WPayout x) = WPayout (whole_payout x)"
| "whole_write (WEscrow x) = WEscrow (whole_escrow x)"
| "whole_write (WReputation x) = WReputation (whole_reputation x)"
| "whole_write (WWebhook x) = WWebhook (whole_webhook x)"
| "whole_write (WDeleteWebhook k) = WDeleteWebhook k"
| "whole_write (WNotification x) = WNotification (whole_notification x)"
| "whole_write (WAudit x) = WAudit (whole_audit x)"

lemma pg_write_whole: "pg_write nilv (whole_write w) db = pg_write nilv w db"
  by (cases w) (simp_all add: pg_SaveUser_def pg_SaveGroup_def pg_SaveMembership_def pg_SaveJoinRequest_def pg_SaveInvitation_def
      pg_SaveCycle_def pg_SaveContribution_def pg_SavePayout_def pg_AppendEscrowEntry_def
      pg_AppendReputationEvent_def pg_SaveWebhook_def pg_SaveNotification_def pg_AppendAudit_def)

text \<open>The references of a write to stored users and groups, and the other unique columns of users.\<close>

definition known_user :: "memory \<Rightarrow> string \<Rightarrow> bool" where
  "known_user m k \<longleftrightarrow> k \<in> u_ID ` set (gm_range (users m))"

definition known_group :: "memory \<Rightarrow> string \<Rightarrow> bool" where
  "known_group m k \<longleftrightarrow> k \<in> g_ID ` set (gm_range (groups m))"

fun keys_known :: "memory \<Rightarrow> store_write \<Rightarrow> bool" where
  "keys_known m (WUser u) \<longleftrightarrow> (\<forall>w \<in> set (gm_range (users m)). u_ID w \<noteq> u_ID u \<longrightarrow>
     u_WalletAddress w \<noteq> u_WalletAddress u \<and> u_IdentityCommitment w \<noteq> u_IdentityCommitment u)"
| "keys_known m (WGroup g) \<longleftrightarrow> known_user m (g_OrganizerID g)"
| "keys_known m (WMembership x) \<longleftrightarrow> known_group m (m_GroupID x) \<and> known_user m (m_UserID x)"
| "keys_known m (WJoinRequest j) \<longleftrightarrow> known_group m (j_GroupID j) \<and> known_user m (j_UserID j)"
| "keys_known m (WInvitation i) \<longleftrightarrow> known_group m (i_GroupID i) \<and> known_user m (i_UserID i) \<and> known_user m (i_InvitedBy i)"
| "keys_known m (WCycle c) \<longleftrightarrow> known_group m (c_GroupID c)"
| "keys_known m (WContribution c) \<longleftrightarrow> known_group m (co_GroupID c) \<and> known_user m (co_UserID c)"
| "keys_known m (WPayout p) \<longleftrightarrow> known_group m (po_GroupID p) \<and> known_user m (po_PayeeUserID p)"
| "keys_known m (WEscrow e) \<longleftrightarrow> known_group m (e_GroupID e)"
| "keys_known m (WNotification n) \<longleftrightarrow> known_user m (n_UserID n)"
| "keys_known m w \<longleftrightarrow> True"

definition pg_admissible :: "sqlval \<Rightarrow> memory \<Rightarrow> store_write \<Rightarrow> bool" where
  "pg_admissible nilv m w \<longleftrightarrow> admissible (pg_format nilv) m w \<and> keys_known m w"

lemma known_references:
  assumes "mirrors (pg_format nilv) db m" and "column c r = SText k"
  shows "known_user m k \<Longrightarrow> references c (t_users db) r" "known_group m k \<Longrightarrow> references c (t_groups db) r"
proof -
  have "r c = Some (SText k)"
    using assms(2) by (simp add: column_def split: option.splits)
  note * = assms(1) this
  show "references c (t_users db) r" if "known_user m k"
    using * that by (force simp: known_user_def references_def mirrors_def pg_row_defs)
  show "references c (t_groups db) r" if "known_group m k"
    using * that by (force simp: known_group_def references_def mirrors_def pg_row_defs)
qed

lemma pg_columns:
  "column ''organizer_id'' (pg_group_row nilv x0) = SText (g_OrganizerID x0)"
  "column ''group_id'' (pg_membership_row x1) = SText (m_GroupID x1)"
  "column ''user_id'' (pg_membership_row x1) = SText (m_UserID x1)"
  "column ''group_id'' (pg_join_request_row x2) = SText (j_GroupID x2)"
  "column ''user_id'' (pg_join_request_row x2) = SText (j_UserID x2)"
  "column ''group_id'' (pg_invitation_row x3) = SText (i_GroupID x3)"
  "column ''user_id'' (pg_invitation_row x3) = SText (i_UserID x3)"
  "column ''invited_by'' (pg_invitation_row x3) = SText (i_InvitedBy x3)"
  "column ''group_id'' (pg_cycle_row x4) = SText (c_GroupID x4)"
  "column ''group_id'' (pg_contribution_row x5) = SText (co_GroupID x5)"
  "column ''user_id'' (pg_contribution_row x5) = SText (co_UserID x5)"
  "column ''group_id'' (pg_payout_row x6) = SText (po_GroupID x6)"
  "column ''payee_user_id'' (pg_payout_row x6) = SText (po_PayeeUserID x6)"
  "column ''group_id'' (pg_escrow_row x7) = SText (e_GroupID x7)"
  "column ''user_id'' (pg_notification_row x8) = SText (n_UserID x8)"
  "pg_payout_row y0 ''id'' = Some (SText (po_ID y0))"
  "pg_escrow_row y1 ''id'' = Some (SText (e_ID y1))"
  "pg_audit_row y2 ''id'' = Some (SText (a_ID y2))"
  "pg_reputation_row y3 ''id'' = Some (SText (r_ID y3))"
  "pg_notification_row y4 ''id'' = Some (SText (n_ID y4))"
  by (simp_all add: column_def pg_row_defs)

lemma pg_write_mirrors:
  assumes m: "mirrors (pg_format nilv) db m" and w: "pg_admissible nilv m w"
  shows "mirrored (pg_format nilv) (pg_write nilv w db) (memory_write w m)"
proof -
  note M = m [unfolded mirrors_def memory_ok_def, simplified]
  show ?thesis
  proof (cases w)
    case (WUser x)
    have adm: "ok_user (pg_format nilv) x" "keys_known m w"
      using w WUser by (auto simp: pg_admissible_def)
    have "compatible u_ID (\<lambda>u w. u_CreatedAt w = u_CreatedAt u)
        (\<lambda>u w. u_Email w \<noteq> u_Email u \<and> u_WalletAddress w \<noteq> u_WalletAddress u
          \<and> u_IdentityCommitment w \<noteq> u_IdentityCommitment u) x (gm_range (users m))"
      using w WUser by (auto simp: pg_admissible_def compatible_def)
    then show ?thesis
      using mirrored_user [OF m adm(1)] pg_users.upsert_rows [of "users m" x] checks(1) [of x] w M adm(2)
      by (simp add: WUser pg_SaveUser_def pg_upsert_def pg_admissible_def)
  next
    case (WGroup x)
    have adm: "ok_group (pg_format nilv) x" "keys_known m w"
      using w WGroup by (auto simp: pg_admissible_def)
    show ?thesis
      using mirrored_group [OF m adm(1)] pg_groups.upsert_rows [of "groups m" x] checks(2) [of x] w M adm(2)
        known_references(1) [OF m pg_columns(1)]
      by (simp add: WGroup pg_SaveGroup_def pg_upsert_def pg_admissible_def)
  next
    case (WMembership x)
    have adm: "ok_membership (pg_format nilv) x" "keys_known m w"
      using w WMembership by (auto simp: pg_admissible_def)
    show ?thesis
      using mirrored_membership [OF m adm(1)] pg_memberships.upsert_rows [of "memberships m" x] checks(3) [of x] w M adm(2)
        known_references(2) [OF m pg_columns(2)] known_references(1) [OF m pg_columns(3)]
      by (simp add: WMembership pg_SaveMembership_def pg_upsert_def pg_admissible_def)
  next
    case (WJoinRequest x)
    have adm: "ok_join_request (pg_format nilv) x" "keys_known m w"
      using w WJoinRequest by (auto simp: pg_admissible_def)
    show ?thesis
      using mirrored_join_request [OF m adm(1)] pg_join_requests.upsert_rows [of "joinRequests m" x] checks(4) [of x] w M adm(2)
        known_references(2) [OF m pg_columns(4)] known_references(1) [OF m pg_columns(5)]
      by (simp add: WJoinRequest pg_SaveJoinRequest_def pg_upsert_def pg_admissible_def)
  next
    case (WInvitation x)
    have adm: "ok_invitation (pg_format nilv) x" "keys_known m w"
      using w WInvitation by (auto simp: pg_admissible_def)
    show ?thesis
      using mirrored_invitation [OF m adm(1)] pg_invitations.upsert_rows [of "invitations m" x] checks(5) [of x] w M adm(2)
        known_references(2) [OF m pg_columns(6)] known_references(1) [OF m pg_columns(7)] known_references(1) [OF m pg_columns(8)]
      by (simp add: WInvitation pg_SaveInvitation_def pg_upsert_def pg_admissible_def)
  next
    case (WCycle x)
    have adm: "ok_cycle (pg_format nilv) x" "keys_known m w"
      using w WCycle by (auto simp: pg_admissible_def)
    show ?thesis
      using mirrored_cycle [OF m adm(1)] pg_cycles.upsert_rows [of "cycles m" x] checks(6) [of x] w M adm(2)
        known_references(2) [OF m pg_columns(9)]
      by (simp add: WCycle pg_SaveCycle_def pg_upsert_def pg_admissible_def)
  next
    case (WContribution x)
    have adm: "ok_contribution (pg_format nilv) x" "keys_known m w"
      using w WContribution by (auto simp: pg_admissible_def)
    show ?thesis
      using mirrored_contribution [OF m adm(1)] pg_contributions.upsert_rows [of "contributions m" x] checks(7) [of x] w M adm(2)
        known_references(2) [OF m pg_columns(10)] known_references(1) [OF m pg_columns(11)]
      by (simp add: WContribution pg_SaveContribution_def pg_upsert_def pg_admissible_def)
  next
    case (WWebhook x)
    have adm: "ok_webhook (pg_format nilv) x" "keys_known m w"
      using w WWebhook by (auto simp: pg_admissible_def)
    show ?thesis
      using mirrored_webhook [OF m adm(1)] pg_webhooks.upsert_rows [of "webhooks m" x] checks(11) [of x] w M adm(2)
      by (simp add: WWebhook pg_SaveWebhook_def pg_upsert_def pg_admissible_def)
  next
    case (WDeleteWebhook k)
    then show ?thesis
      using pg.mirrored_delete [OF m, of k] by (simp add: pg_DeleteWebhook_def)
  next
    case (WPayout x)
    have adm: "ok_payout (pg_format nilv) x" "keys_known m w"
      using w WPayout by (auto simp: pg_admissible_def)
    show ?thesis
      using mirrored_payout [OF m adm(1)] insert_fresh(1) [of pg_payout_row po_ID x "payouts m", OF pg_columns(16)]
        checks(8) [of x] w M adm(2)
        known_references(2) [OF m pg_columns(12)]
        known_references(1) [OF m pg_columns(13)]
      by (simp add: WPayout pg_SavePayout_def pg_insert_def pg_admissible_def)
  next
    case (WEscrow x)
    have adm: "ok_escrow (pg_format nilv) x" "keys_known m w"
      using w WEscrow by (auto simp: pg_admissible_def)
    show ?thesis
      using mirrored_escrow [OF m adm(1)] insert_fresh(1) [of pg_escrow_row e_ID x "escrow m", OF pg_columns(17)]
        checks(9) [of x] w M adm(2)
        known_references(2) [OF m pg_columns(14)]
      by (simp add: WEscrow pg_AppendEscrowEntry_def pg_insert_def pg_admissible_def)
  next
    case (WAudit x)
    have adm: "ok_audit (pg_format nilv) x" "keys_known m w"
      using w WAudit by (auto simp: pg_admissible_def)
    show ?thesis
      using mirrored_audit [OF m adm(1)] insert_fresh(1) [of pg_audit_row a_ID x "audit m", OF pg_columns(18)]
        checks(13) [of x] w M adm(2)
      by (simp add: WAudit pg_AppendAudit_def pg_insert_def pg_admissible_def)
  next
    case (WReputation x)
    have adm: "ok_reputation (pg_format nilv) x" "keys_known m w"
      using w WReputation by (auto simp: pg_admissible_def)
    show ?thesis
      using mirrored_reputation [OF m adm(1)] insert_fresh(1) [of pg_reputation_row r_ID x, OF pg_columns(19)]
        checks(10) [of x] w adm
      by (simp add: WReputation pg_AppendReputationEvent_def pg_insert_def pg_upsert_def pg_admissible_def)
  next
    case (WNotification x)
    have adm: "ok_notification (pg_format nilv) x" "keys_known m w"
      using w WNotification by (auto simp: pg_admissible_def)
    show ?thesis
      using mirrored_notification [OF m adm(1)] insert_fresh(2) [of pg_notification_row n_ID x, OF pg_columns(20)]
        checks(12) [of x] w adm
        known_references(1) [OF m pg_columns(15)]
      by (simp add: WNotification pg_SaveNotification_def pg_insert_def pg_upsert_def pg_admissible_def)
  qed
qed

section \<open>Lists in the order of time\<close>

text \<open>
  The listings with a time in their \<^verbatim>\<open>ORDER BY\<close>. The in-memory store sorts four of them and the paged ones by
  the same time; the others it lists in the order of writing.
\<close>

definition listed_by :: "('a \<Rightarrow> int) \<Rightarrow> err + 'a list \<Rightarrow> 'a list \<Rightarrow> bool" where
  "listed_by f r xs \<longleftrightarrow> r = Inr (sort_key f xs)"

definition in_time_order :: "store_reads \<Rightarrow> memory \<Rightarrow> bool" where
  "in_time_order R m \<longleftrightarrow>
     (\<forall>k. rd_ListUsersByKYC R k = Inr (ListUsersByKYC m k))
     \<and> (\<forall>g. rd_ListMembershipsByGroup R g = Inr (ListMembershipsByGroup m g))
     \<and> (\<forall>g. rd_ListJoinRequestsByGroup R g = Inr (ListJoinRequestsByGroup m g))
     \<and> rd_ListWebhooks R = Inr (ListWebhooks m)
     \<and> (\<forall>u. listed_by i_CreatedAt (rd_ListInvitationsByUser R u) (ListInvitationsByUser m u))
     \<and> (\<forall>g. listed_by e_CreatedAt (rd_ListEscrowByGroup R g) (ListEscrowByGroup m g))
     \<and> (\<forall>u. listed_by r_Timestamp (rd_ReputationEvents R u) (ReputationEvents m u))
     \<and> (\<forall>u. listed_by n_CreatedAt (rd_ListNotificationsByUser R u) (ListNotificationsByUser m u))"

definition pages_in_time_order :: "store_reads \<Rightarrow> memory \<Rightarrow> bool" where
  "pages_in_time_order R m \<longleftrightarrow>
     paged (rd_ListUsers R) (ListUsers m) (sort_key u_CreatedAt (gm_range (users m)))
     \<and> paged (rd_ListGroups R) (ListGroups m) (sort_key g_CreatedAt (gm_range (groups m)))
     \<and> paged (rd_ListAudit R) (ListAudit m) (sort_key (\<lambda>a. - a_CreatedAt a) (audit m))
     \<and> (\<exists>es. mset es = mset (concat (gm_range (reputation m)))
         \<and> paged (rd_AllReputationEvents R) (AllReputationEvents m) (sort_key (\<lambda>e. - r_Timestamp e) es))"

lemma micros_le: "whole_micros s \<Longrightarrow> whole_micros t \<Longrightarrow> micros s \<le> micros t \<longleftrightarrow> s \<le> t"
  by (auto simp: whole_micros_def micros_def zdiv_mono1)

lemma mirrors_in_time_order:
  assumes m: "mirrors (pg_format nilv) db m"
  shows "in_time_order (pg_reads db) m"
proof -
  note M = m [unfolded mirrors_def, simplified]
  have "pg_ListUsersByKYC db k = Inr (ListUsersByKYC m k)" for k
    unfolding pg_ListUsersByKYC_def ListUsersByKYC_def using M
    by (simp add: pg_user.select_ordered [where Q = "\<lambda>u. u_KYCStatus u = k" and f = u_CreatedAt] column_tests
        pg_user_row_def pg_user_cols_def pg_user_fits_def micros_le)
  moreover have "pg_ListMembershipsByGroup db g = Inr (ListMembershipsByGroup m g)" for g
    unfolding pg_ListMembershipsByGroup_def ListMembershipsByGroup_def using M
    by (simp add: pg_membership.select_ordered [where Q = "\<lambda>x. m_GroupID x = g" and f = m_JoinedAt] column_tests
        pg_membership_row_def pg_membership_cols_def pg_membership_fits_def micros_le)
  moreover have "pg_ListJoinRequestsByGroup db g = Inr (ListJoinRequestsByGroup m g)" for g
    unfolding pg_ListJoinRequestsByGroup_def ListJoinRequestsByGroup_def using M
    by (simp add: pg_join_request.select_ordered [where Q = "\<lambda>x. j_GroupID x = g" and f = j_CreatedAt] column_tests
        pg_join_request_row_def pg_join_request_cols_def pg_join_request_fits_def micros_le)
  moreover have "pg_ListWebhooks db = Inr (ListWebhooks m)"
    unfolding pg_ListWebhooks_def ListWebhooks_def
    using M pg_webhook.select_ordered [of "gm_range (webhooks m)" "\<lambda>r. True" "\<lambda>w. True" "''created_at''" w_CreatedAt]
    by (simp add: column_tests pg_webhook_row_def pg_webhook_cols_def pg_webhook_fits_def micros_le)
  moreover have "listed_by i_CreatedAt (pg_ListInvitationsByUser db u) (ListInvitationsByUser m u)" for u
    unfolding pg_ListInvitationsByUser_def ListInvitationsByUser_def listed_by_def using M
    by (simp add: pg_invitation.select_ordered [where Q = "\<lambda>i. i_UserID i = u" and f = i_CreatedAt] column_tests
        pg_invitation_row_def pg_invitation_cols_def pg_invitation_fits_def micros_le)
  moreover have "listed_by e_CreatedAt (pg_ListEscrowByGroup db g) (ListEscrowByGroup m g)" for g
    unfolding pg_ListEscrowByGroup_def ListEscrowByGroup_def listed_by_def using M
    by (simp add: pg_escrow.select_ordered [where Q = "\<lambda>e. e_GroupID e = g" and f = e_CreatedAt] column_tests
        pg_escrow_row_def pg_escrow_cols_def pg_escrow_fits_def micros_le)
  moreover have "listed_by r_Timestamp (pg_ReputationEvents db u) (ReputationEvents m u)" for u
  proof -
    obtain es where "t_reputation_events db = map pg_reputation_row es" "\<forall>e \<in> set es. pg_reputation_fits e"
      "filter (\<lambda>e. r_UserID e = u) es = slice_at (reputation m) u"
      using m by (auto simp: mirrors_def)
    then show ?thesis
      unfolding pg_ReputationEvents_def ReputationEvents_def listed_by_def
      by (simp add: pg_reputation.select_ordered [where Q = "\<lambda>e. r_UserID e = u" and f = r_Timestamp] column_tests
          pg_reputation_row_def pg_reputation_cols_def pg_reputation_fits_def micros_le)
  qed
  moreover have "listed_by n_CreatedAt (pg_ListNotificationsByUser db u) (ListNotificationsByUser m u)" for u
  proof -
    obtain ns where "t_notifications db = map pg_notification_row ns" "\<forall>n \<in> set ns. pg_notification_fits n"
      "filter (\<lambda>n. n_UserID n = u) ns = slice_at (notifications m) u"
      using m by (auto simp: mirrors_def)
    then show ?thesis
      unfolding pg_ListNotificationsByUser_def ListNotificationsByUser_def listed_by_def
      by (simp add: pg_notification.select_ordered [where Q = "\<lambda>n. n_UserID n = u" and f = n_CreatedAt] column_tests
          pg_notification_row_def pg_notification_cols_def pg_notification_fits_def micros_le)
  qed
  ultimately show ?thesis
    by (simp add: in_time_order_def pg_reads_def)
qed

text \<open>Sorting by a column of times, in either direction, is sorting by the time.\<close>

lemma sort_key_desc: "rev (sort_key f (rev xs)) = sort_key (\<lambda>x. - f x) xs" for f :: "'a \<Rightarrow> int"
proof (rule properties_for_sort_key [symmetric])
  have "sorted_wrt (\<lambda>x y. f x \<le> f y) (sort_key f (rev xs))"
    using sorted_sort_key [of f "rev xs"] by (simp only: sorted_map)
  then show "sorted (map (\<lambda>x. - f x) (rev (sort_key f (rev xs))))"
    unfolding sorted_map sorted_wrt_rev by simp
  show "filter (\<lambda>y. - f x = - f y) (rev (sort_key f (rev xs))) = filter (\<lambda>y. - f x = - f y) xs" for x
  proof -
    have "(\<lambda>y. - f x = - f y) = (\<lambda>y. f y = f x)"
      by auto
    then show ?thesis
      using sort_key_stable [of f "f x" "rev xs"] by (simp only: rev_filter [symmetric] rev_rev_ident)
  qed
qed simp

lemma sort_by_time:
  assumes "\<And>v. v \<in> set vs \<Longrightarrow> column c (row v) = STime (micros (f v)) \<and> whole_micros (f v)"
  shows "sort_key (column c \<circ> row) vs = sort_key f vs"
  using assms by (intro sort_key_cong) (simp add: micros_le)

lemma mirrors_pages_in_time_order:
  assumes m: "mirrors (pg_format nilv) db m"
  shows "pages_in_time_order (pg_reads db) m"
proof -
  note M = m [unfolded mirrors_def, simplified]
  note pages = pg.mirrors_paged [OF m, folded pg_reads_sql]
  have "sort_key (column ''created_at'' \<circ> pg_user_row) (gm_range (users m)) = sort_key u_CreatedAt (gm_range (users m))"
    using M by (intro sort_by_time) (simp add: column_tests pg_user_row_def pg_user_cols_def pg_user_fits_def)
  moreover have "sort_key (column ''created_at'' \<circ> pg_group_row nilv) (gm_range (groups m)) = sort_key g_CreatedAt (gm_range (groups m))"
    using M by (intro sort_by_time) (simp add: column_tests pg_group_row_def pg_group_cols_def pg_group_fits_def)
  moreover have "sort_key (column ''created_at'' \<circ> pg_audit_row) (rev (audit m)) = sort_key a_CreatedAt (rev (audit m))"
    using M by (intro sort_by_time) (simp add: column_tests pg_audit_row_def pg_audit_cols_def pg_audit_fits_def)
  moreover obtain es where es: "mset es = mset (concat (gm_range (reputation m)))" "\<forall>e \<in> set es. pg_reputation_fits e"
    "paged (rd_AllReputationEvents (pg_reads db)) (AllReputationEvents m)
       (rev (sort_key (column ''timestamp'' \<circ> pg_reputation_row) (rev es)))"
    using pages(4) by auto
  moreover from es(2) have "sort_key (column ''timestamp'' \<circ> pg_reputation_row) (rev es) = sort_key r_Timestamp (rev es)"
    by (intro sort_by_time) (simp add: column_tests pg_reputation_row_def pg_reputation_cols_def pg_reputation_fits_def)
  ultimately show ?thesis
    using pages(1-3) by (auto simp: pages_in_time_order_def sort_key_desc)
qed

text \<open>An index the driver cannot encode.\<close>

definition refuses_wide_indices :: "database \<Rightarrow> bool" where
  "refuses_wide_indices db \<longleftrightarrow> (\<forall>g u i. \<not> int4_index i \<longrightarrow> pg_GetCycle db g i = Inl unencodable
     \<and> pg_GetContribution db g u i = Inl unencodable \<and> pg_ListContributionsByCycle db g i = Inl unencodable)"

lemma wide_indices: "refuses_wide_indices db"
  by (simp add: refuses_wide_indices_def pg_GetCycle_def pg_GetContribution_def pg_ListContributionsByCycle_def int4_arg_def)

section \<open>Runs\<close>

fun pg_writes :: "sqlval \<Rightarrow> store_write list \<Rightarrow> database \<Rightarrow> err + database" where
  "pg_writes nilv [] db = Inr db"
| "pg_writes nilv (w # ws) db = (case pg_write nilv w db of Inl e \<Rightarrow> Inl e | Inr db' \<Rightarrow> pg_writes nilv ws db')"

fun pg_admissible_writes :: "sqlval \<Rightarrow> memory \<Rightarrow> store_write list \<Rightarrow> bool" where
  "pg_admissible_writes nilv m [] \<longleftrightarrow> True"
| "pg_admissible_writes nilv m (w # ws) \<longleftrightarrow> pg_admissible nilv m w \<and> pg_admissible_writes nilv (memory_write w m) ws"

lemma pg_writes_mirror:
  "mirrors (pg_format nilv) db m \<Longrightarrow> pg_admissible_writes nilv m (map whole_write ws) \<Longrightarrow>
   mirrored (pg_format nilv) (pg_writes nilv ws db) (memory_writes (map whole_write ws) m)"
proof (induction ws arbitrary: db m)
  case Nil
  then show ?case
    by (simp add: mirrored_def memory_writes_def)
next
  case (Cons w ws)
  then obtain db' where "pg_write nilv w db = Inr db'" "mirrors (pg_format nilv) db' (memory_write (whole_write w) m)"
    using pg_write_mirrors [of nilv db m "whole_write w"] by (auto simp: mirrored_def pg_write_whole)
  with Cons show ?case
    by (simp add: memory_writes_def)
qed

text \<open>
  C19: the Postgres store agrees with the in-memory store up to the microsecond: after any sequence of writes
  that its schema admits, no statement has failed, and next to the in-memory store after the same
  writes with their times cut to whole microseconds it answers every lookup alike and every listing with
  the same entities. What its statements order by a time comes in the order of that time, and a page of it is the
  part of that list its offset and limit name, with the same total; equal times come in the order of the table,
  as everywhere in the model of SQL. Texts are those Postgres holds (valid UTF-8 without the byte 0). Indices are
  those of 32 bits; a read with any other is refused by the driver.
\<close>

theorem pg_refines_memory:
  assumes "pg_admissible_writes nilv NewMemory (map whole_write ws)"
  shows "\<exists>db. pg_writes nilv ws new_database = Inr db
    \<and> same_lookups int4_index (pg_reads db) (memory_writes (map whole_write ws) NewMemory)
    \<and> same_listings int4_index (pg_reads db) (memory_writes (map whole_write ws) NewMemory)
    \<and> in_time_order (pg_reads db) (memory_writes (map whole_write ws) NewMemory)
    \<and> pages_in_time_order (pg_reads db) (memory_writes (map whole_write ws) NewMemory)
    \<and> refuses_wide_indices db"
proof -
  obtain db where "pg_writes nilv ws new_database = Inr db"
    and m: "mirrors (pg_format nilv) db (memory_writes (map whole_write ws) NewMemory)"
    using pg_writes_mirror [OF mirrors_new assms] by (auto simp: mirrored_def)
  moreover have "same_lookups int4_index (pg_reads db) (memory_writes (map whole_write ws) NewMemory)"
    "same_listings int4_index (pg_reads db) (memory_writes (map whole_write ws) NewMemory)"
    by (rule same_lookups_mono [OF pg.mirrors_lookups [OF m, folded pg_reads_sql]],
        simp add: int64_key_def int4_index_def)
      (rule same_listings_mono [OF pg.mirrors_listings [OF m, folded pg_reads_sql]], simp)
  ultimately show ?thesis
    using mirrors_in_time_order [OF m] mirrors_pages_in_time_order [OF m] wide_indices by blast
qed

theorem pg_refines_memory_witness:
  defines "u \<equiv> \<lparr>u_ID = ''u'', u_Email = ''a@b'', u_DisplayName = ''A'', u_WalletAddress = ''w'',
      u_IdentityCommitment = ''c'', u_KYCProvider = ''p'', u_KYCStatus = KYCPending, u_Role = RoleMember,
      u_Status = UserActive, u_PasswordHash = ''h'', u_CreatedAt = 1234, u_UpdatedAt = 1234\<rparr>"
    and "n \<equiv> \<lparr>n_ID = ''n'', n_UserID = ''u'', n_Kind = NotifyPayoutSent, n_Title = ''t'', n_Body = ''b'',
      n_Read = False, n_CreatedAt = 5\<rparr>"
  shows "\<exists>db. pg_writes SNull [WUser u, WNotification n] new_database = Inr db
    \<and> same_lookups int4_index (pg_reads db) (memory_writes (map whole_write [WUser u, WNotification n]) NewMemory)
    \<and> same_listings int4_index (pg_reads db) (memory_writes (map whole_write [WUser u, WNotification n]) NewMemory)
    \<and> in_time_order (pg_reads db) (memory_writes (map whole_write [WUser u, WNotification n]) NewMemory)
    \<and> pages_in_time_order (pg_reads db) (memory_writes (map whole_write [WUser u, WNotification n]) NewMemory)
    \<and> refuses_wide_indices db"
  by (rule pg_refines_memory)
    (simp add: u_def n_def pg_admissible_def whole_user_def whole_notification_def whole_def compatible_def pg_user_fits_def
      pg_notification_fits_def whole_micros_def known_user_def NewMemory_def SaveUser_def SaveNotification_def slice_at_def
      gm_range_def gm_set_def)

end
