(* ===== verification/Races.thy ===== *)
theory Races
  imports Operations Deadlines
begin

text \<open>
  What the operations do when two requests overlap. The service takes no lock: the store's mutex is
  held for one call only. Contributing and settling first read and check, then move money, then
  record; here each is cut between the checks and the movement, and another request runs in between.
\<close>

section \<open>An operation in two halves with another one between\<close>

definition overlapped :: "('s, 'a) act \<Rightarrow> ('a \<Rightarrow> ('s, 'b) act) \<Rightarrow> ('s, 'c) act \<Rightarrow> ('s, 'b) act" where
  "overlapped checks rest other = andThen checks (\<lambda>a. andThen (attempt other) (\<lambda>_. rest a))"

text \<open>With nothing in between, the halves are the operation.\<close>

lemma overlapped_nothing: "overlapped checks rest (ret ()) = andThen checks rest"
  by (rule ext) (simp add: overlapped_def exec split: prod.split sum.split)

lemma andThen_assoc: "andThen (andThen m f) k = andThen m (\<lambda>x. andThen (f x) k)"
  by (rule ext) (simp add: exec split: prod.split sum.split)

lemma andThen_ret: "andThen (ret x) k = k x"
  by (rule ext) (simp add: exec)

section \<open>Settling\<close>

definition settle_checks :: "string \<Rightarrow> string \<Rightarrow> int \<Rightarrow> (world, group \<times> cycle) act" where
  "settle_checks actorID groupID index =
     andThen (reads (\<lambda>m. GetGroup m groupID)) (\<lambda>g.
     andThen (guardE (g_OrganizerID g \<noteq> actorID)
       (Errorf ErrForbidden ''only the organizer can settle a cycle'' [])) (\<lambda>_.
     andThen (reads (\<lambda>m. GetCycle m groupID index)) (\<lambda>cycle.
     ret (g, cycle))))"

definition settle_rest :: "env \<Rightarrow> group \<times> cycle \<Rightarrow> (world, payout) act" where
  "settle_rest E gc = settleCycle E (fst gc) (snd gc)"

lemma SettleCycle_halves:
  "SettleCycle E actorID groupID index = andThen (settle_checks actorID groupID index) (settle_rest E)"
  by (simp add: SettleCycle_def settle_checks_def settle_rest_def andThen_assoc andThen_ret)

section \<open>Contributing\<close>

definition contribution_checks :: "string \<Rightarrow> string \<Rightarrow> int \<Rightarrow> (world, group \<times> cycle) act" where
  "contribution_checks userID groupID cycleIdx =
     andThen (reads (\<lambda>m. GetGroup m groupID)) (\<lambda>g.
     andThen (guardE (g_State g \<noteq> GroupActive)
       (Errorf ErrConflict ''group is %s, not ACTIVE'' [group_state_string (g_State g)])) (\<lambda>_.
     andThen (guardE (\<not> HasMember g userID)
       (Errorf ErrForbidden ''not a member of this group'' [])) (\<lambda>_.
     andThen (reads (\<lambda>m. GetCycle m groupID cycleIdx)) (\<lambda>cycle.
     andThen (guardE (c_Settled cycle)
       (Errorf ErrConflict ''cycle %d already settled'' [decimal cycleIdx])) (\<lambda>_.
     andThen (attempt (reads (\<lambda>m. GetContribution m groupID userID cycleIdx))) (\<lambda>prior.
     andThen (guardE (\<not> isl prior)
       (Errorf ErrConflict ''already contributed to cycle %d'' [decimal cycleIdx])) (\<lambda>_.
     ret (g, cycle))))))))"

definition contribution_rest ::
  "env \<Rightarrow> string \<Rightarrow> string \<Rightarrow> int \<Rightarrow> string \<Rightarrow> group \<times> cycle \<Rightarrow> (world, contribution) act" where
  "contribution_rest E userID groupID cycleIdx source gc =
     (let g = fst gc; cycle = snd gc
      in andThen (rail_Charge E \<lparr>ch_GroupID = groupID, ch_UserID = userID, ch_CycleIndex = cycleIdx,
           ch_Amount = g_ContributionAmount g, ch_Source = source\<rparr>) (\<lambda>res.
     andThen (guardE (\<not> accepted res)
       (Wrapf ''charge contribution'' (errOr (snd res) (rr_Message (fst res))))) (\<lambda>_.
     andThen (newID E) (\<lambda>cid.
     let c = \<lparr>co_ID = cid, co_GroupID = groupID, co_UserID = userID, co_CycleIndex = cycleIdx,
              co_Amount = g_ContributionAmount g,
              co_Commitment = ComputeContributionCommitment (env_sha E) userID groupID cycleIdx
                                (g_ContributionAmount g),
              co_Revealed = False, co_PaidAt = None\<rparr>
     in andThen (wrapErr ''submit contribution on-chain'' (chain_SubmitContribution E c)) (\<lambda>_.
        andThen (nowUTC E) (\<lambda>now.
        let c = c\<lparr>co_Revealed := True, co_PaidAt := Some now\<rparr>
        in andThen (writes (SaveContribution c)) (\<lambda>_.
           andThen (newID E) (\<lambda>eid.
           andThen (ignoring (writes (AppendEscrowEntry
             \<lparr>e_ID = eid, e_GroupID = groupID, e_CycleIndex = cycleIdx, e_UserID = userID,
              e_Direction = LedgerCredit, e_Amount = g_ContributionAmount g,
              e_Reference = rr_Reference (fst res), e_Memo = ''contribution'', e_CreatedAt = now\<rparr>))) (\<lambda>_.
           andThen (notifyUser E userID NotifyContributionMade ''Contribution received''
             (''Your contribution to '' @ g_Name g @ '' (cycle '' @ decimal cycleIdx @ '') was recorded'')) (\<lambda>_.
           andThen (lists (\<lambda>m. allContributed m g cycleIdx)) (\<lambda>everyone.
           andThen
             (if everyone then
                andThen (attempt (settleCycle E g cycle)) (\<lambda>r.
                case r of
                  Inl e \<Rightarrow> notifyUser E (g_OrganizerID g) NotifyRiskWarning ''Settlement deferred''
                             (''cycle '' @ decimal cycleIdx @ '' could not auto-settle: '' @ err_Error e)
                | Inr _ \<Rightarrow> ret ())
              else ret ()) (\<lambda>_.
           ret c))))))))))))"

lemma SubmitContribution_halves:
  "SubmitContribution E userID groupID cycleIdx source =
     andThen (contribution_checks userID groupID cycleIdx) (contribution_rest E userID groupID cycleIdx source)"
  by (simp add: SubmitContribution_def contribution_checks_def contribution_rest_def andThen_assoc andThen_ret)

section \<open>What a half does to the money\<close>

lemma settle_rest_effect:
  assumes "on_mem w" and "\<not> c_Settled c" and "c_GroupID c = g_ID g"
    and "GetUser (store w) (c_PayoutUser c) = Inr payee" and "accepted (payout_answer E w g c payee)"
  shows "\<exists>p y w'. settleCycle E g c w = (Inr p, w') \<and> payouts (store w') = payouts (store w) @ [p]
    \<and> escrow (store w') = escrow (store w) @ [y] \<and> contributions (store w') = contributions (store w)
    \<and> users (store w') = users (store w) \<and> on_mem w'
    \<and> rail w' = rail w @ [DisburseCall (payout_request w g c payee) (payout_answer E w g c payee)]
    \<and> payout_for g c payee (total_amount (ListContributionsByCycle (store w) (g_ID g) (c_Index c))) p \<and> debit_for p y"
proof -
  obtain tx where tx: "answer (chain_RecordPayout E (payout_record w g c payee)) (payout_moved E w g c payee) = Inr tx"
    using chain_answers_on_mem(6) [of "payout_moved E w g c payee"] assms(1) by (auto simp: payout_moved_def)
  have on: "on_mem (after (chain_RecordPayout E (payout_record w g c payee)) (payout_moved E w g c payee))"
    using assms(1) by (simp add: payout_moved_def)
  show ?thesis
    using assms tx on
    by (simp add: settleCycle_def exec Let_def payout_defs memory_ops payout_for_def debit_for_def)
qed

lemma settleCycle_side_effects:
  "\<exists>zs cs. escrow (store (snd (settleCycle E g c w))) = escrow (store w) @ zs \<and> (\<forall>z \<in> set zs. e_Direction z = LedgerDebit)
    \<and> rail (snd (settleCycle E g c w)) = rail w @ cs \<and> (\<forall>x \<in> set cs. \<exists>r a. x = DisburseCall r a)
    \<and> contributions (store (snd (settleCycle E g c w))) = contributions (store w)
    \<and> on_mem (snd (settleCycle E g c w)) = on_mem w"
  by (auto simp: settleCycle_def exec Let_def memory_ops split: sum.split)

text \<open>The second half of a contribution, whatever it settles: one charge, one credit, one entry saved.\<close>

lemma contribution_rest_effect:
  assumes "on_mem w" and "accepted (charge_answer E w (contribution_charge g gid uid i src))"
  shows "\<exists>x y zs cs w'. contribution_rest E uid gid i src (g, c) w = (Inr x, w')
    \<and> contributions (store w') = contributions (SaveContribution x (store w))
    \<and> co_GroupID x = gid \<and> co_UserID x = uid \<and> co_CycleIndex x = i
    \<and> escrow (store w') = escrow (store w) @ y # zs \<and> (\<forall>z \<in> set zs. e_Direction z = LedgerDebit)
    \<and> e_GroupID y = gid \<and> e_UserID y = uid \<and> e_CycleIndex y = i \<and> e_Direction y = LedgerCredit
    \<and> rail w' = rail w @ ChargeCall (contribution_charge g gid uid i src)
        (charge_answer E w (contribution_charge g gid uid i src)) # cs
    \<and> (\<forall>x \<in> set cs. \<exists>r a. x = DisburseCall r a) \<and> on_mem w'"
proof -
  let ?n = "new_contribution E w g gid uid i" and ?m = "contribution_charged E w g gid uid i src"
  define w0 where "w0 = after (chain_SubmitContribution E ?n) ?m"
  define now where "now = env_clock E (ticks w0)"
  define x where "x = ?n\<lparr>co_Revealed := True, co_PaidAt := Some now\<rparr>"
  define y where "y = \<lparr>e_ID = NewID (env_rand E (idseq w0)), e_GroupID = gid, e_CycleIndex = i,
    e_UserID = uid, e_Direction = LedgerCredit, e_Amount = g_ContributionAmount g,
    e_Reference = rr_Reference (fst (charge_answer E w (contribution_charge g gid uid i src))),
    e_Memo = ''contribution'', e_CreatedAt = now\<rparr>"
  define w1 where "w1 = notified E uid NotifyContributionMade ''Contribution received''
     (''Your contribution to '' @ g_Name g @ '' (cycle '' @ decimal i @ '') was recorded'')
     (w0\<lparr>ticks := Suc (ticks w0), idseq := Suc (idseq w0),
         store := AppendEscrowEntry y (SaveContribution x (store w0))\<rparr>)"
  define w' where "w' = (if allContributed (store w1) g i
     then case settleCycle E g c w1 of
       (Inl e, w2) \<Rightarrow> notified E (g_OrganizerID g) NotifyRiskWarning ''Settlement deferred''
          (''cycle '' @ decimal i @ '' could not auto-settle: '' @ err_Error e) w2
     | (Inr p, w2) \<Rightarrow> w2 else w1)"
  have m: "on_mem ?m"
    using assms(1) by (simp add: contribution_charged_def Let_def)
  obtain tx where tx: "answer (chain_SubmitContribution E ?n) ?m = Inr tx"
    using chain_answers_on_mem(4) [OF m] by blast
  have run: "contribution_rest E uid gid i src (g, c) w = (Inr x, w')"
    using assms(2) tx unfolding w'_def w1_def y_def x_def now_def w0_def
    by (simp add: contribution_rest_def exec Let_def contribution_defs split: sum.split prod.split)
  have w0: "store w0 = store w" "rail w0 = rail ?m" "on_mem w0"
    using m by (simp_all add: w0_def contribution_charged_def Let_def)
  have w1: "contributions (store w1) = contributions (SaveContribution x (store w))"
    "escrow (store w1) = escrow (store w) @ [y]" "rail w1 = rail ?m" "on_mem w1"
    using w0 by (simp_all add: w1_def AppendEscrowEntry_def SaveContribution_def)
  obtain zs cs where s: "escrow (store (snd (settleCycle E g c w1))) = escrow (store w1) @ zs"
    "\<forall>z \<in> set zs. e_Direction z = LedgerDebit" "rail (snd (settleCycle E g c w1)) = rail w1 @ cs"
    "\<forall>x \<in> set cs. \<exists>r a. x = DisburseCall r a"
    "contributions (store (snd (settleCycle E g c w1))) = contributions (store w1)" "on_mem (snd (settleCycle E g c w1))"
    using settleCycle_side_effects [of E g c w1] w1(4) by blast
  have fields: "co_GroupID x = gid \<and> co_UserID x = uid \<and> co_CycleIndex x = i"
    "e_GroupID y = gid \<and> e_UserID y = uid \<and> e_CycleIndex y = i \<and> e_Direction y = LedgerCredit"
    by (simp_all add: x_def new_contribution_def y_def)
  have m_rail: "rail ?m = rail w @ [ChargeCall (contribution_charge g gid uid i src)
      (charge_answer E w (contribution_charge g gid uid i src))]"
    by (simp add: contribution_charged_def Let_def)
  show ?thesis
  proof (cases "allContributed (store w1) g i")
    case False
    with run w1 fields m_rail show ?thesis
      by (intro exI [of _ x] exI [of _ y] exI [of _ "[]"] exI [of _ w']) (simp add: w'_def)
  next
    case True
    then have "contributions (store w') = contributions (store (snd (settleCycle E g c w1)))"
      "escrow (store w') = escrow (store (snd (settleCycle E g c w1)))" "rail w' = rail (snd (settleCycle E g c w1))"
      "on_mem w' = on_mem (snd (settleCycle E g c w1))"
      by (simp_all add: w'_def split: prod.split sum.split)
    with run w1 fields m_rail s show ?thesis
      by (intro exI [of _ x] exI [of _ y] exI [of _ zs] exI [of _ cs] exI [of _ w']) simp
  qed
qed

section \<open>Counting charges and credits\<close>

definition charged :: "string \<Rightarrow> string \<Rightarrow> int \<Rightarrow> rail_call \<Rightarrow> bool" where
  "charged gid uid i call = (case call of
       ChargeCall r a \<Rightarrow> accepted a \<and> ch_GroupID r = gid \<and> ch_UserID r = uid \<and> ch_CycleIndex r = i
     | DisburseCall r a \<Rightarrow> False)"

definition credited :: "string \<Rightarrow> int \<Rightarrow> escrow_entry \<Rightarrow> bool" where
  "credited uid i y \<longleftrightarrow> e_UserID y = uid \<and> e_CycleIndex y = i \<and> e_Direction y = LedgerCredit"

text \<open>Each second half charges once, credits once and puts its contribution at the place of the member and cycle.\<close>

lemma contribution_rest_counts:
  assumes "on_mem w" and "\<forall>n req. accepted (Charge (env_rail E) n req)"
  shows "\<exists>x w'. contribution_rest E uid gid i src (g, c) w = (Inr x, w') \<and> on_mem w'
    \<and> co_GroupID x = gid \<and> co_CycleIndex x = i
    \<and> contributions (store w') = gm_set (contribKey gid uid i) x (contributions (store w))
    \<and> length (filter (charged gid uid i) (rail w')) = Suc (length (filter (charged gid uid i) (rail w)))
    \<and> length (filter (credited uid i) (ListEscrowByGroup (store w') gid))
        = Suc (length (filter (credited uid i) (ListEscrowByGroup (store w) gid)))"
proof -
  let ?r = "contribution_charge g gid uid i src"
  have acc: "accepted (charge_answer E w ?r)"
    using assms(2) by (simp add: charge_answer_def)
  obtain x y zs cs w' where half: "contribution_rest E uid gid i src (g, c) w = (Inr x, w')"
    "contributions (store w') = contributions (SaveContribution x (store w))"
    "co_GroupID x = gid \<and> co_UserID x = uid \<and> co_CycleIndex x = i"
    "escrow (store w') = escrow (store w) @ y # zs" "\<forall>z \<in> set zs. e_Direction z = LedgerDebit"
    "e_GroupID y = gid \<and> e_UserID y = uid \<and> e_CycleIndex y = i \<and> e_Direction y = LedgerCredit"
    "rail w' = rail w @ ChargeCall ?r (charge_answer E w ?r) # cs"
    "\<forall>x \<in> set cs. \<exists>r a. x = DisburseCall r a" "on_mem w'"
    using contribution_rest_effect [OF assms(1) acc, of c] by auto
  have "filter (charged gid uid i) cs = []" "filter (credited uid i) (filter P zs) = []" for P
    using half(5,8) by (auto simp: filter_empty_conv charged_def credited_def)
  moreover have "charged gid uid i (ChargeCall ?r (charge_answer E w ?r))" "credited uid i y"
    using acc half(6) by (simp_all add: charged_def contribution_charge_def credited_def)
  ultimately show ?thesis
    using half(1-4,6,7,9) by (simp add: ListEscrowByGroup_def SaveContribution_def)
qed

lemma contribution_saved_again:
  assumes "gm_get m k = Some v" and "gm_ok m" and "P v = P x"
  shows "length (filter P (gm_range (gm_set k x m))) = length (filter P (gm_range m))"
  using assms
  by (induction m) (auto simp: gm_get_def gm_set_def gm_range_def gm_ok_def split: if_splits)

lemma settle_checks_pass:
  "GetGroup (store w) gid = Inr g \<Longrightarrow> g_OrganizerID g = actor \<Longrightarrow> GetCycle (store w) gid i = Inr c \<Longrightarrow>
   settle_checks actor gid i w = (Inr (g, c), w)"
  by (simp add: settle_checks_def exec)

lemma contribution_checks_pass:
  assumes "may_contribute (store w) gid uid i g c"
  shows "contribution_checks uid gid i w = (Inr (g, c), w)"
  using assms by (auto simp: may_contribute_def contribution_checks_def exec HasMember_def isl_def split: sum.split)

section \<open>Properties\<close>

text \<open>
  C13: with a rail that accepts every disbursement, two settlements of one cycle that overlap both pay
  out. The organizer's request reads the cycle
  as not settled; before it disburses, another settlement of the cycle runs to its end; then the
  first pays the whole pot again. The ledger is debited twice and the rail moves the pot out twice.
\<close>

theorem overlapping_settlements_pay_twice:
  assumes "reachable E w" and "inj (env_rand E)" and "truth w = MemT m"
    and "\<forall>n req. accepted (Disburse (env_rail E) n req)"
    and "GetGroup (store w) gid = Inr g" and "g_OrganizerID g = actor"
    and "GetCycle (store w) gid i = Inr c" and "\<not> c_Settled c"
  shows "\<exists>p q w'. overlapped (settle_checks actor gid i) (settle_rest E) (SettleCycle E actor gid i) w = (Inr q, w')
    \<and> ListPayoutsByGroup (store w') gid = ListPayoutsByGroup (store w) gid @ [p, q]
    \<and> po_CycleIndex p = i \<and> po_CycleIndex q = i
    \<and> EscrowBalance (ListEscrowByGroup (store w') gid) = EscrowBalance (ListEscrowByGroup (store w) gid)
        - 2 * total_amount (ListContributionsByCycle (store w) gid i)
    \<and> rail_balance (rail w') gid = rail_balance (rail w) gid
        - 2 * total_amount (ListContributionsByCycle (store w) gid i)"
proof -
  have ok: "world_ok E w"
    by (rule reachable_world_ok [OF assms(1,2)])
  have ids: "g_ID g = gid" "c_GroupID c = g_ID g" "c_Index c = i"
    using stored_ids(2) [OF world_okD(1) [OF ok] assms(5)] cycles_wfD [OF world_okD(6) [OF ok] assms(7)] by simp_all
  obtain payee where payee: "GetUser (store w) (c_PayoutUser c) = Inr payee"
    using payee_known [OF ok assms(7)] by blast
  have acc: "accepted (payout_answer E v g c payee)" for v
    using assms(4) by (simp add: payout_answer_def)
  have mem: "on_mem w"
    using assms(3) by (simp add: on_mem_def)
  let ?pot = "total_amount (ListContributionsByCycle (store w) gid i)"
  obtain p y w1 where one: "settleCycle E g c w = (Inr p, w1)" "payouts (store w1) = payouts (store w) @ [p]"
    "escrow (store w1) = escrow (store w) @ [y]" "contributions (store w1) = contributions (store w)"
    "users (store w1) = users (store w)" "on_mem w1"
    "rail w1 = rail w @ [DisburseCall (payout_request w g c payee) (payout_answer E w g c payee)]"
    "payout_for g c payee ?pot p" "debit_for p y"
    using settle_rest_effect [OF mem assms(8) ids(2) payee acc] ids by auto
  have same: "ListContributionsByCycle (store w1) gid i = ListContributionsByCycle (store w) gid i"
    "GetUser (store w1) (c_PayoutUser c) = Inr payee"
    using one(4,5) payee by (simp_all add: ListContributionsByCycle_def GetUser_def)
  obtain q z w2 where two: "settleCycle E g c w1 = (Inr q, w2)" "payouts (store w2) = payouts (store w1) @ [q]"
    "escrow (store w2) = escrow (store w1) @ [z]"
    "rail w2 = rail w1 @ [DisburseCall (payout_request w1 g c payee) (payout_answer E w1 g c payee)]"
    "payout_for g c payee ?pot q" "debit_for q z"
    using settle_rest_effect [OF one(6) assms(8) ids(2) same(2) acc] ids same(1) by auto
  have "overlapped (settle_checks actor gid i) (settle_rest E) (SettleCycle E actor gid i) w = (Inr q, w2)"
    by (simp add: overlapped_def SettleCycle_halves exec settle_checks_pass [OF assms(5,6,7)] settle_rest_def one(1) two(1))
  moreover have "ListPayoutsByGroup (store w2) gid = ListPayoutsByGroup (store w) gid @ [p, q]"
    using one(8) two(5) ids by (simp add: ListPayoutsByGroup_def one(2) two(2) payout_for_def)
  moreover have "po_CycleIndex p = i \<and> po_CycleIndex q = i"
    using one(8) two(5) ids by (simp add: payout_for_def)
  moreover have "EscrowBalance (ListEscrowByGroup (store w2) gid) = EscrowBalance (ListEscrowByGroup (store w) gid) - 2 * ?pot"
    using one(8,9) two(5,6) ids
    by (simp add: ListEscrowByGroup_def one(3) two(3) payout_for_def debit_for_def EscrowBalance_sum
        signed_amount_def)
  moreover have "rail_balance (rail w2) gid = rail_balance (rail w) gid - 2 * ?pot"
    using acc [of w] acc [of w1] ids same(1) by (simp add: two(4) one(7) rail_balance_def payout_request_def)
  ultimately show ?thesis
    by blast
qed

theorem overlapping_settlements_pay_twice_witness:
  "\<exists>p q w'. overlapped (settle_checks (demo_id 1) (demo_id 4) 0) (settle_rest demo_env) (SettleCycle demo_env (demo_id 1) (demo_id 4) 0) demo7
      = (Inr q, w') \<and> ListPayoutsByGroup (store w') (demo_id 4) = [p, q]
    \<and> EscrowBalance (ListEscrowByGroup (store w') (demo_id 4)) = - 100"
proof -
  have rail: "\<forall>n req. accepted (Disburse (env_rail demo_env) n req)"
    using mock.disburse_accepted by simp
  have g: "GetGroup (store demo7) (demo_id 4) = Inr demo_running" "g_OrganizerID demo_running = demo_id 1"
    "GetCycle (store demo7) (demo_id 4) 0 = Inr (demo_cycle 0 1 False)" "\<not> c_Settled (demo_cycle 0 1 False)"
    by (simp_all add: GetGroup_def GetCycle_def gm_get_def found_def)
  have "total_amount (ListContributionsByCycle (store demo7) (demo_id 4) 0) = 100"
    "EscrowBalance (ListEscrowByGroup (store demo7) (demo_id 4)) = 100" "ListPayoutsByGroup (store demo7) (demo_id 4) = []"
    by (simp_all add: total_amount_def ListContributionsByCycle_def gm_range_def ListEscrowByGroup_def demo_credit_def
        EscrowBalance_def escrow_step_def ListPayoutsByGroup_def)
  with overlapping_settlements_pay_twice [OF demo_reachable(7) demo_inj demo7(8) rail g] show ?thesis
    by force
qed

text \<open>
  C14: with a rail that accepts every charge, two contributions of one member to one cycle that overlap
  are both charged and both credited to the escrow, while one contribution is on record: the second request has checked that there is none
  before the first one saves its own.
\<close>

theorem overlapping_contributions_charge_twice:
  assumes "reachable E w" and "inj (env_rand E)" and "truth w = MemT m"
    and "\<forall>n req. accepted (Charge (env_rail E) n req)"
    and "GetGroup (store w) gid = Inr g" and "g_State g = GroupActive" and "uid \<in> set (g_Members g)"
    and "GetCycle (store w) gid i = Inr c" and "\<not> c_Settled c" and "isl (GetContribution (store w) gid uid i)"
  shows "\<exists>x w'. overlapped (contribution_checks uid gid i) (contribution_rest E uid gid i src)
        (SubmitContribution E uid gid i src') w = (Inr x, w')
    \<and> length (filter (charged gid uid i) (rail w')) = length (filter (charged gid uid i) (rail w)) + 2
    \<and> length (filter (credited uid i) (ListEscrowByGroup (store w') gid))
        = length (filter (credited uid i) (ListEscrowByGroup (store w) gid)) + 2
    \<and> length (ListContributionsByCycle (store w') gid i) = length (ListContributionsByCycle (store w) gid i) + 1"
proof -
  have may: "may_contribute (store w) gid uid i g c" and mem: "on_mem w"
    using assms(3,5-10) by (simp_all add: may_contribute_def on_mem_def)
  let ?k = "contribKey gid uid i"
  obtain x w1 where one: "contribution_rest E uid gid i src' (g, c) w = (Inr x, w1)" "on_mem w1"
    "co_GroupID x = gid" "co_CycleIndex x = i" "contributions (store w1) = gm_set ?k x (contributions (store w))"
    "length (filter (charged gid uid i) (rail w1)) = Suc (length (filter (charged gid uid i) (rail w)))"
    "length (filter (credited uid i) (ListEscrowByGroup (store w1) gid)) = Suc (length (filter (credited uid i) (ListEscrowByGroup (store w) gid)))"
    using contribution_rest_counts [OF mem assms(4)] by blast
  obtain x2 w2 where two: "contribution_rest E uid gid i src (g, c) w1 = (Inr x2, w2)"
    "co_GroupID x2 = gid" "co_CycleIndex x2 = i" "contributions (store w2) = gm_set ?k x2 (contributions (store w1))"
    "length (filter (charged gid uid i) (rail w2)) = Suc (length (filter (charged gid uid i) (rail w1)))"
    "length (filter (credited uid i) (ListEscrowByGroup (store w2) gid)) = Suc (length (filter (credited uid i) (ListEscrowByGroup (store w1) gid)))"
    using contribution_rest_counts [OF one(2) assms(4)] by blast
  have new: "gm_get (contributions (store w)) ?k = None" and ok: "gm_ok (contributions (store w1))"
    using assms(10) world_okD(1) [OF reachable_world_ok [OF assms(1,2)]]
    by (auto simp: GetContribution_def found_def one(5) memory_ok_def kept_under_def gm_ok_set split: option.splits)
  have "gm_get (contributions (store w1)) ?k = Some x"
    by (simp add: one(5) gm_get_set)
  from contribution_saved_again [OF this ok, of "\<lambda>x. co_GroupID x = gid \<and> co_CycleIndex x = i" x2] one(3,4) two(2,3)
  have "length (ListContributionsByCycle (store w2) gid i) = length (ListContributionsByCycle (store w1) gid i)"
    by (simp add: ListContributionsByCycle_def two(4))
  also have "\<dots> = length (ListContributionsByCycle (store w) gid i) + 1"
    using one(3,4) by (simp add: ListContributionsByCycle_def one(5) gm_range_set_new [OF new])
  finally show ?thesis
    using one(6,7) two(5,6)
    by (simp add: overlapped_def SubmitContribution_halves exec contribution_checks_pass [OF may] one(1) two(1))
qed

theorem overlapping_contributions_charge_twice_witness:
  "\<exists>x w'. overlapped (contribution_checks (demo_id 1) (demo_id 4) 0) (contribution_rest demo_env (demo_id 1) (demo_id 4) 0 ''bank'')
        (SubmitContribution demo_env (demo_id 1) (demo_id 4) 0 ''card'') demo6 = (Inr x, w')
    \<and> length (filter (charged (demo_id 4) (demo_id 1) 0) (rail w')) = 2
    \<and> length (ListContributionsByCycle (store w') (demo_id 4) 0) = 1"
proof -
  have rail: "\<forall>n req. accepted (Charge (env_rail demo_env) n req)"
    using mock.charge_accepted by simp
  have g: "GetGroup (store demo6) (demo_id 4) = Inr demo_running" "g_State demo_running = GroupActive"
    "demo_id 1 \<in> set (g_Members demo_running)" "GetCycle (store demo6) (demo_id 4) 0 = Inr (demo_cycle 0 1 False)"
    "\<not> c_Settled (demo_cycle 0 1 False)" "isl (GetContribution (store demo6) (demo_id 4) (demo_id 1) 0)"
    by (simp_all add: GetGroup_def GetCycle_def GetContribution_def gm_get_def found_def)
  have "rail demo6 = []" "ListContributionsByCycle (store demo6) (demo_id 4) 0 = []"
    by (simp_all add: ListContributionsByCycle_def gm_range_def)
  with overlapping_contributions_charge_twice [OF demo_reachable(6) demo_inj demo6(8) rail g, of "''bank''" "''card''"] show ?thesis
    by force
qed

end
