(* ===== verification/Json_Values.thy ===== *)
theory Json_Values
  imports Json_Text
begin

text \<open>
  \<^verbatim>\<open>encoding/json\<close> as the tokens and the HTTP API use it: values with their literals as the
  decoder scans them, the text the encoder writes, the scanner's grammar, the replacement of bytes
  that are not UTF-8, and the assignment of an object's members to the fields of a struct. A struct is
  filled member by member: a member of the wrong type is skipped and makes the whole call fail at the
  end, so what a failed call leaves behind is modelled too.
\<close>

section \<open>UTF-8\<close>

definition byte_in :: "nat \<Rightarrow> nat \<Rightarrow> char \<Rightarrow> bool" where
  "byte_in lo hi c \<longleftrightarrow> lo \<le> of_char c \<and> of_char c \<le> hi"

abbreviation continues :: "char \<Rightarrow> bool" where
  "continues \<equiv> byte_in 0x80 0xBF"

fun starts :: "(char \<Rightarrow> bool) list \<Rightarrow> string \<Rightarrow> bool" where
  "starts [] s = True"
| "starts (p # ps) [] = False"
| "starts (p # ps) (c # s) = (p c \<and> starts ps s)"

text \<open>The length of the encoded rune at the head of a string, 0 when there is none (\<^verbatim>\<open>utf8.DecodeRune\<close>).\<close>

fun rune_len :: "string \<Rightarrow> nat" where
  "rune_len [] = 0"
| "rune_len (c # s) =
     (if byte_in 0 0x7F c then 1
      else if byte_in 0xC2 0xDF c \<and> starts [continues] s then 2
      else if byte_in 0xE0 0xE0 c \<and> starts [byte_in 0xA0 0xBF, continues] s then 3
      else if byte_in 0xED 0xED c \<and> starts [byte_in 0x80 0x9F, continues] s then 3
      else if byte_in 0xE1 0xEF c \<and> \<not> byte_in 0xED 0xED c \<and> starts [continues, continues] s then 3
      else if byte_in 0xF0 0xF0 c \<and> starts [byte_in 0x90 0xBF, continues, continues] s then 4
      else if byte_in 0xF1 0xF3 c \<and> starts [continues, continues, continues] s then 4
      else if byte_in 0xF4 0xF4 c \<and> starts [byte_in 0x80 0x8F, continues, continues] s then 4
      else 0)"

definition encode_rune :: "nat \<Rightarrow> string" where
  "encode_rune n =
     (if n < 0x80 then [char_of n]
      else if n < 0x800 then [char_of (0xC0 + n div 0x40), char_of (0x80 + n mod 0x40)]
      else if n < 0x10000
        then [char_of (0xE0 + n div 0x1000), char_of (0x80 + n div 0x40 mod 0x40), char_of (0x80 + n mod 0x40)]
      else [char_of (0xF0 + n div 0x40000), char_of (0x80 + n div 0x1000 mod 0x40),
            char_of (0x80 + n div 0x40 mod 0x40), char_of (0x80 + n mod 0x40)])"

definition replacement :: string where
  "replacement = [CHR 0xEF, CHR 0xBF, CHR 0xBD]"

section \<open>Strings\<close>

text \<open>The text between the quotes, as the encoder writes it (\<^verbatim>\<open>appendString\<close> with HTML escaping).\<close>

function json_quote :: "string \<Rightarrow> string" where
  "json_quote [] = []"
| "json_quote (c # s) =
     (if rune_len (c # s) = 0 then bslash # ''ufffd'' @ json_quote s
      else if rune_len (c # s) = 1 then json_escape c @ json_quote s
      else if take 3 (c # s) = [CHR 0xE2, CHR 0x80, CHR 0xA8] then bslash # ''u2028'' @ json_quote (drop 2 s)
      else if take 3 (c # s) = [CHR 0xE2, CHR 0x80, CHR 0xA9] then bslash # ''u2029'' @ json_quote (drop 2 s)
      else take (rune_len (c # s)) (c # s) @ json_quote (drop (rune_len (c # s) - 1) s))"
  by pat_completeness auto
termination
  by (relation "measure length") auto

definition hex_any :: "char \<Rightarrow> nat option" where
  "hex_any c =
     (let n = of_char c
      in if 48 \<le> n \<and> n \<le> 57 then Some (n - 48) else if 97 \<le> n \<and> n \<le> 102 then Some (n - 87)
         else if 65 \<le> n \<and> n \<le> 70 then Some (n - 55) else None)"

text \<open>\<^verbatim>\<open>getu4\<close>: the value of an escape with four hexadecimal digits at the head.\<close>

fun getu4 :: "string \<Rightarrow> nat option" where
  "getu4 (b # u # h1 # h2 # h3 # h4 # s) =
     (if b = bslash \<and> u = CHR ''u''
      then case (hex_any h1, hex_any h2, hex_any h3, hex_any h4) of
             (Some a, Some b, Some c, Some d) \<Rightarrow> Some (((a * 16 + b) * 16 + c) * 16 + d)
           | _ \<Rightarrow> None
      else None)"
| "getu4 _ = None"

definition surrogate :: "nat \<Rightarrow> bool" where
  "surrogate n \<longleftrightarrow> 0xD800 \<le> n \<and> n < 0xE000"

text \<open>\<^verbatim>\<open>utf16.DecodeRune\<close>\<close>

definition surrogate_pair :: "nat \<Rightarrow> nat option \<Rightarrow> nat option" where
  "surrogate_pair hi lo =
     (case lo of
        None \<Rightarrow> None
      | Some l \<Rightarrow>
          if hi < 0xDC00 \<and> 0xDC00 \<le> l \<and> l < 0xE000
          then Some ((hi - 0xD800) * 0x400 + (l - 0xDC00) + 0x10000) else None)"

text \<open>The string a scanned literal stands for (\<^verbatim>\<open>unquoteBytes\<close>).\<close>

function json_unquote :: "string \<Rightarrow> string" where
  "json_unquote [] = []"
| "json_unquote (c # s) =
     (if c = bslash
      then case s of
             [] \<Rightarrow> []
           | e # r \<Rightarrow>
               if e = CHR ''u''
               then case getu4 (c # s) of
                      None \<Rightarrow> []
                    | Some n \<Rightarrow>
                        if surrogate n
                        then case surrogate_pair n (getu4 (drop 4 r)) of
                               Some p \<Rightarrow> encode_rune p @ json_unquote (drop 10 r)
                             | None \<Rightarrow> replacement @ json_unquote (drop 4 r)
                        else encode_rune n @ json_unquote (drop 4 r)
               else case short_unescape ((CHR ''/'', CHR ''/'') # short_escapes) e of
                      Some d \<Rightarrow> d # json_unquote r
                    | None \<Rightarrow> []
      else if rune_len (c # s) = 0 then replacement @ json_unquote s
      else take (rune_len (c # s)) (c # s) @ json_unquote (drop (rune_len (c # s) - 1) s))"
  by pat_completeness auto
termination
  by (relation "measure length") auto

text \<open>A string literal after its opening quote: its bytes up to the closing one, and the rest.\<close>

definition escaped_by_one :: "char \<Rightarrow> bool" where
  "escaped_by_one e \<longleftrightarrow> e \<in> set [dquote, bslash, CHR ''/'', CHR ''b'', CHR ''f'', CHR ''n'', CHR ''r'', CHR ''t'']"

fun scan_string :: "string \<Rightarrow> (string \<times> string) option" where
  "scan_string [] = None"
| "scan_string (c # s) =
     (if c = dquote then Some ([], s)
      else if c = bslash
      then case s of
             [] \<Rightarrow> None
           | e # r \<Rightarrow>
               if escaped_by_one e then map_option (\<lambda>(t, r). (c # e # t, r)) (scan_string r)
               else if e = CHR ''u'' \<and> getu4 (c # s) \<noteq> None
               then map_option (\<lambda>(t, q). (c # e # take 4 r @ t, q)) (scan_string (drop 4 r))
               else None
      else if of_char c < (32 :: nat) then None
      else map_option (\<lambda>(t, r). (c # t, r)) (scan_string s))"

section \<open>Values\<close>

text \<open>Numbers and strings are kept as their literals, strings without the quotes.\<close>

datatype json =
    JNull
  | JBool bool
  | JNumber string
  | JString string
  | JArray "json list"
  | JObject "(string \<times> json) list"

definition jstr :: "string \<Rightarrow> json" where
  "jstr s = JString (json_quote s)"

definition jint :: "int \<Rightarrow> json" where
  "jint i = JNumber (decimal i)"

fun json_text :: "json \<Rightarrow> string" where
  "json_text JNull = ''null''"
| "json_text (JBool b) = (if b then ''true'' else ''false'')"
| "json_text (JNumber s) = s"
| "json_text (JString s) = dquote # s @ [dquote]"
| "json_text (JArray vs) = CHR ''['' # join (CHR '','') (map json_text vs) @ '']''"
| "json_text (JObject kvs) =
     CHR ''{'' # join (CHR '','') (map (\<lambda>kv. dquote # fst kv @ dquote # CHR '':'' # json_text (snd kv)) kvs) @ ''}''"

section \<open>Scanning\<close>

definition json_space :: "char \<Rightarrow> bool" where
  "json_space c \<longleftrightarrow> c = CHR '' '' \<or> c = CHR 0x09 \<or> c = CHR 0x0A \<or> c = CHR 0x0D"

definition skip_space :: "string \<Rightarrow> string" where
  "skip_space s = dropWhile json_space s"

text \<open>The parts of a number literal; each is what is taken and what is left.\<close>

definition scan_int :: "string \<Rightarrow> (string \<times> string) option" where
  "scan_int s =
     (case s of
        [] \<Rightarrow> None
      | c # r \<Rightarrow> if c = CHR ''0'' then Some ([c], r)
                else if is_digit c then Some (takeWhile (\<lambda>c. is_digit c) s, dropWhile (\<lambda>c. is_digit c) s) else None)"

definition scan_frac :: "string \<Rightarrow> (string \<times> string) option" where
  "scan_frac s =
     (case s of
        [] \<Rightarrow> Some ([], [])
      | c # r \<Rightarrow>
          if c \<noteq> CHR ''.'' then Some ([], s)
          else if takeWhile (\<lambda>c. is_digit c) r = [] then None
          else Some (c # takeWhile (\<lambda>c. is_digit c) r, dropWhile (\<lambda>c. is_digit c) r))"

definition scan_exp :: "string \<Rightarrow> (string \<times> string) option" where
  "scan_exp s =
     (case s of
        [] \<Rightarrow> Some ([], [])
      | c # r \<Rightarrow>
          if c \<noteq> CHR ''e'' \<and> c \<noteq> CHR ''E'' then Some ([], s)
          else let sign = (case r of [] \<Rightarrow> [] | d # _ \<Rightarrow> if d = CHR ''+'' \<or> d = CHR ''-'' then [d] else []);
                   t = drop (length sign) r
               in if takeWhile (\<lambda>c. is_digit c) t = [] then None
                  else Some (c # sign @ takeWhile (\<lambda>c. is_digit c) t, dropWhile (\<lambda>c. is_digit c) t))"

definition scan_number :: "string \<Rightarrow> (string \<times> string) option" where
  "scan_number s =
     (let sign = (case s of [] \<Rightarrow> [] | c # _ \<Rightarrow> if c = CHR ''-'' then [c] else [])
      in Option.bind (scan_int (drop (length sign) s)) (\<lambda>(a, s).
         Option.bind (scan_frac s) (\<lambda>(b, s).
         map_option (\<lambda>(c, s). (sign @ a @ b @ c, s)) (scan_exp s))))"

definition scan_literal :: "string \<Rightarrow> json \<Rightarrow> string \<Rightarrow> (json \<times> string) option" where
  "scan_literal t v s = (if take (length t) s = t then Some (v, drop (length t) s) else None)"

text \<open>
  \<open>n\<close> is fuel, more than the length of the text; \<open>d\<close> the levels of nesting still allowed, at first
  the decoder's limit of 10000.
\<close>

fun parse_value :: "nat \<Rightarrow> nat \<Rightarrow> string \<Rightarrow> (json \<times> string) option"
  and parse_elems :: "nat \<Rightarrow> nat \<Rightarrow> string \<Rightarrow> (json list \<times> string) option"
  and parse_members :: "nat \<Rightarrow> nat \<Rightarrow> string \<Rightarrow> ((string \<times> json) list \<times> string) option" where
  "parse_value 0 d s = None"
| "parse_value (Suc n) d s =
     (case skip_space s of
        [] \<Rightarrow> None
      | c # r \<Rightarrow>
          if c = dquote then map_option (\<lambda>(t, q). (JString t, q)) (scan_string r)
          else if c = CHR ''{'' then
            (if d = 0 then None
             else case skip_space r of
                    [] \<Rightarrow> None
                  | e # q \<Rightarrow> if e = CHR ''}'' then Some (JObject [], q)
                            else map_option (\<lambda>(kvs, q). (JObject kvs, q)) (parse_members n (d - 1) r))
          else if c = CHR ''['' then
            (if d = 0 then None
             else case skip_space r of
                    [] \<Rightarrow> None
                  | e # q \<Rightarrow> if e = CHR '']'' then Some (JArray [], q)
                            else map_option (\<lambda>(vs, q). (JArray vs, q)) (parse_elems n (d - 1) r))
          else if c = CHR ''t'' then scan_literal ''rue'' (JBool True) r
          else if c = CHR ''f'' then scan_literal ''alse'' (JBool False) r
          else if c = CHR ''n'' then scan_literal ''ull'' JNull r
          else map_option (\<lambda>(t, q). (JNumber t, q)) (scan_number (c # r)))"
| "parse_elems 0 d s = None"
| "parse_elems (Suc n) d s =
     (case parse_value n d s of
        None \<Rightarrow> None
      | Some (v, r) \<Rightarrow>
          (case skip_space r of
             [] \<Rightarrow> None
           | e # q \<Rightarrow> if e = CHR '','' then map_option (\<lambda>(vs, q). (v # vs, q)) (parse_elems n d q)
                     else if e = CHR '']'' then Some ([v], q) else None))"
| "parse_members 0 d s = None"
| "parse_members (Suc n) d s =
     (case skip_space s of
        [] \<Rightarrow> None
      | c # r \<Rightarrow>
          if c \<noteq> dquote then None
          else (case scan_string r of
             None \<Rightarrow> None
           | Some (k, r) \<Rightarrow>
               (case skip_space r of
                  [] \<Rightarrow> None
                | e # r \<Rightarrow>
                    if e \<noteq> CHR '':'' then None
                    else (case parse_value n d r of
                       None \<Rightarrow> None
                     | Some (v, r) \<Rightarrow>
                         (case skip_space r of
                            [] \<Rightarrow> None
                          | e # q \<Rightarrow>
                              if e = CHR '','' then map_option (\<lambda>(kvs, q). ((k, v) # kvs, q)) (parse_members n d q)
                              else if e = CHR ''}'' then Some ([(k, v)], q) else None)))))"

text \<open>\<^verbatim>\<open>json.Unmarshal\<close> wants nothing after the value, \<^verbatim>\<open>Decoder.Decode\<close> does not look.\<close>

definition json_document :: "string \<Rightarrow> json option" where
  "json_document s =
     (case parse_value (Suc (length s)) 10000 s of
        Some (v, r) \<Rightarrow> if skip_space r = [] then Some v else None
      | None \<Rightarrow> None)"

definition json_first :: "string \<Rightarrow> json option" where
  "json_first s = map_option fst (parse_value (Suc (length s)) 10000 s)"

end
