(* ===== verification/Json_Structs.thy ===== *)
theory Json_Structs
  imports Json_Values Float64
begin

text \<open>
  Members of a JSON object into the fields of a Go struct, as \<^verbatim>\<open>encoding/json\<close> assigns them. A
  field is its tag and what stores a value in it; the answer says whether no error was noted. A key
  that occurs twice is assigned twice; a slice is then built anew.
\<close>

section \<open>Numbers\<close>

text \<open>\<^verbatim>\<open>strconv.ParseInt(s, 10, 64)\<close> on a scanned literal: no fraction, no exponent, and it fits.\<close>

definition literal_int :: "string \<Rightarrow> int option" where
  "literal_int s =
     (let ds = (case s of [] \<Rightarrow> [] | c # r \<Rightarrow> if c = CHR ''-'' then r else s)
      in if ds \<noteq> [] \<and> (\<forall>c \<in> set ds. is_digit c) \<and> - (2 ^ 63) \<le> parse_decimal s \<and> parse_decimal s < 2 ^ 63
         then Some (parse_decimal s) else None)"

text \<open>The exact value of a literal, rounded to a double; from half an ulp above the largest one it is an error.\<close>

definition literal_real :: "string \<Rightarrow> real" where
  "literal_real s =
     (let neg = (s \<noteq> [] \<and> hd s = CHR ''-'');
          t = (if neg then tl s else s);
          whole = takeWhile (\<lambda>c. is_digit c) t;
          rest = dropWhile (\<lambda>c. is_digit c) t;
          frac = (if rest \<noteq> [] \<and> hd rest = CHR ''.'' then takeWhile (\<lambda>c. is_digit c) (tl rest) else []);
          tail = (if frac = [] then rest else dropWhile (\<lambda>c. is_digit c) (tl rest));
          e = (case tail of
                 [] \<Rightarrow> 0
               | _ # x \<Rightarrow> parse_decimal (case x of [] \<Rightarrow> [] | c # y \<Rightarrow> if c = CHR ''+'' then y else x));
          m = of_nat (digits_value (whole @ frac)) :: real;
          k = e - int (length frac);
          v = (if 0 \<le> k then m * 10 ^ nat k else m / 10 ^ nat (- k))
      in if neg then - v else v)"

definition literal_float :: "string \<Rightarrow> real option" where
  "literal_float s =
     (if 2 ^ 1024 - 2 ^ 970 \<le> \<bar>literal_real s\<bar> then None else Some (f64_round (literal_real s)))"

section \<open>Fields\<close>

type_synonym 'r setter = "json \<Rightarrow> 'r \<Rightarrow> bool \<times> 'r"

definition into_string :: "(string \<Rightarrow> 'r \<Rightarrow> 'r) \<Rightarrow> 'r setter" where
  "into_string upd v r =
     (case v of JNull \<Rightarrow> (True, r) | JString t \<Rightarrow> (True, upd (json_unquote t) r) | _ \<Rightarrow> (False, r))"

definition into_bool :: "(bool \<Rightarrow> 'r \<Rightarrow> 'r) \<Rightarrow> 'r setter" where
  "into_bool upd v r = (case v of JNull \<Rightarrow> (True, r) | JBool b \<Rightarrow> (True, upd b r) | _ \<Rightarrow> (False, r))"

definition into_int :: "(int \<Rightarrow> 'r \<Rightarrow> 'r) \<Rightarrow> 'r setter" where
  "into_int upd v r =
     (case v of
        JNull \<Rightarrow> (True, r)
      | JNumber s \<Rightarrow> (case literal_int s of Some i \<Rightarrow> (True, upd i r) | None \<Rightarrow> (False, r))
      | _ \<Rightarrow> (False, r))"

definition into_float :: "(real \<Rightarrow> 'r \<Rightarrow> 'r) \<Rightarrow> 'r setter" where
  "into_float upd v r =
     (case v of
        JNull \<Rightarrow> (True, r)
      | JNumber s \<Rightarrow> (case literal_float s of Some x \<Rightarrow> (True, upd x r) | None \<Rightarrow> (False, r))
      | _ \<Rightarrow> (False, r))"

text \<open>The elements of a slice start from the zero value; an element of the wrong type keeps it.\<close>

fun into_elems :: "'a \<Rightarrow> 'a setter \<Rightarrow> json list \<Rightarrow> bool \<times> 'a list" where
  "into_elems z f [] = (True, [])"
| "into_elems z f (v # vs) =
     (case f v z of (ok, x) \<Rightarrow> (case into_elems z f vs of (oks, xs) \<Rightarrow> (ok \<and> oks, x # xs)))"

definition into_slice :: "'a \<Rightarrow> 'a setter \<Rightarrow> ('a list \<Rightarrow> 'r \<Rightarrow> 'r) \<Rightarrow> 'r setter" where
  "into_slice z f upd v r =
     (case v of
        JNull \<Rightarrow> (True, upd [] r)
      | JArray vs \<Rightarrow> (case into_elems z f vs of (ok, xs) \<Rightarrow> (ok, upd xs r))
      | _ \<Rightarrow> (False, r))"

abbreviation string_elem :: "string setter" where
  "string_elem \<equiv> into_string (\<lambda>s _. s)"

section \<open>Structs\<close>

text \<open>
  \<^verbatim>\<open>foldName\<close>: names are compared without regard to case. Tags are ASCII, and two other runes fold
  to an ASCII letter: the long s and the Kelvin sign.
\<close>

fun fold_name :: "string \<Rightarrow> string" where
  "fold_name [] = []"
| "fold_name (c # s) =
     (if byte_in 97 122 c then char_of ((of_char c :: nat) - 32) # fold_name s
      else if take 2 (c # s) = [CHR 0xC5, CHR 0xBF] then CHR ''S'' # fold_name (drop 1 s)
      else if take 3 (c # s) = [CHR 0xE2, CHR 0x84, CHR 0xAA] then CHR ''K'' # fold_name (drop 2 s)
      else c # fold_name s)"

type_synonym 'r fields = "(string \<times> 'r setter) list"

definition field_named :: "'r fields \<Rightarrow> string \<Rightarrow> 'r setter option" where
  "field_named fs k =
     (case map_of fs k of
        Some f \<Rightarrow> Some f
      | None \<Rightarrow> map_option snd (List.find (\<lambda>f. fold_name (fst f) = fold_name k) fs))"

text \<open>\<open>strict\<close> is \<^verbatim>\<open>DisallowUnknownFields\<close>.\<close>

fun set_members :: "bool \<Rightarrow> 'r fields \<Rightarrow> (string \<times> json) list \<Rightarrow> 'r \<Rightarrow> bool \<times> 'r" where
  "set_members strict fs [] r = (True, r)"
| "set_members strict fs ((k, v) # kvs) r =
     (case (case field_named fs (json_unquote k) of Some f \<Rightarrow> f v r | None \<Rightarrow> (\<not> strict, r)) of
        (ok, r) \<Rightarrow> (case set_members strict fs kvs r of (oks, r) \<Rightarrow> (ok \<and> oks, r)))"

definition into_struct :: "bool \<Rightarrow> 'r fields \<Rightarrow> 'r setter" where
  "into_struct strict fs v r =
     (case v of JNull \<Rightarrow> (True, r) | JObject kvs \<Rightarrow> set_members strict fs kvs r | _ \<Rightarrow> (False, r))"

text \<open>\<^verbatim>\<open>json.Unmarshal\<close> and \<^verbatim>\<open>Decoder.Decode\<close>: on malformed text the struct stays as it was.\<close>

definition unmarshal :: "'r fields \<Rightarrow> string \<Rightarrow> 'r \<Rightarrow> bool \<times> 'r" where
  "unmarshal fs s r = (case json_document s of None \<Rightarrow> (False, r) | Some v \<Rightarrow> into_struct False fs v r)"

definition decode_body :: "'r fields \<Rightarrow> string \<Rightarrow> 'r \<Rightarrow> bool \<times> 'r" where
  "decode_body fs s r = (case json_first s of None \<Rightarrow> (False, r) | Some v \<Rightarrow> into_struct True fs v r)"

section \<open>What is written is read back\<close>

definition raw_ok :: "string \<Rightarrow> bool" where
  "raw_ok t \<longleftrightarrow> scan_string (t @ [dquote]) = Some (t, [])"

definition stops_number :: "string \<Rightarrow> bool" where
  "stops_number r \<longleftrightarrow> r = [] \<or> (\<not> is_digit (hd r) \<and> hd r \<notin> set ''.eE'')"

definition number_ok :: "string \<Rightarrow> bool" where
  "number_ok t \<longleftrightarrow> (\<forall>r. stops_number r \<longrightarrow> scan_number (t @ r) = Some (t, r))"

fun json_ok :: "json \<Rightarrow> bool" where
  "json_ok (JNumber s) = number_ok s"
| "json_ok (JString s) = raw_ok s"
| "json_ok (JArray vs) = (\<forall>v \<in> set vs. json_ok v)"
| "json_ok (JObject kvs) = (\<forall>kv \<in> set kvs. raw_ok (fst kv) \<and> json_ok (snd kv))"
| "json_ok _ = True"

fun json_depth :: "json \<Rightarrow> nat" where
  "json_depth (JArray vs) = Suc (foldr (max \<circ> json_depth) vs 0)"
| "json_depth (JObject kvs) = Suc (foldr (max \<circ> json_depth \<circ> snd) kvs 0)"
| "json_depth _ = 0"


text \<open>Escapes.\<close>

definition ascii :: "string \<Rightarrow> bool" where
  "ascii s \<longleftrightarrow> (\<forall>c \<in> set s. byte_in 0 0x7F c)"

lemma ascii_Nil [simp]: "ascii []"
  by (simp add: ascii_def)

lemma ascii_Cons [simp]: "ascii (c # s) \<longleftrightarrow> byte_in 0 0x7F c \<and> ascii s"
  by (auto simp: ascii_def)

lemma hex_any_digit: "n < 16 \<Longrightarrow> hex_any (hex_digit n) = Some n"
proof -
  assume "n < 16"
  then have "\<forall>k \<in> {0..<16}. hex_any (hex_digit k) = Some k"
    by (simp add: hex_any_def hex_digit_def atLeastLessThan_nat_numeral upt_conv_Cons char_of_def bit_Suc_0_iff Let_def)
  with \<open>n < 16\<close> show ?thesis
    by simp
qed

lemma hex_any_zero [simp]: "hex_any (CHR ''0'') = Some 0"
  by (simp add: hex_any_def)

text \<open>The three shapes of an escaped byte.\<close>

lemma json_escape_cases:
  assumes "byte_in 0 0x7F c"
  obtains (short) e where "json_escape c = [bslash, e]" "escaped_by_one e" "e \<noteq> CHR ''u''"
      "short_unescape ((CHR ''/'', CHR ''/'') # short_escapes) e = Some c"
    | (hex) h l where "json_escape c = [bslash, CHR ''u'', CHR ''0'', CHR ''0'', h, l]"
      "hex_any h = Some (of_char c div 16)" "hex_any l = Some (of_char c mod 16)" "of_char c < (128 :: nat)"
    | (plain) "json_escape c = [c]" "c \<noteq> dquote" "c \<noteq> bslash" "\<not> of_char c < (32 :: nat)"
proof (cases "c \<in> fst ` set short_escapes")
  case True
  then consider "c = dquote" | "c = bslash" | "c = CHR 0x08" | "c = CHR 0x0C" | "c = CHR 0x0A" | "c = CHR 0x0D" | "c = CHR 0x09"
    by (auto simp: short_escapes_def)
  then show thesis
    by (intro short [of "the (map_of short_escapes c)"]; cases)
      (simp_all add: json_escape_def short_escapes_def escaped_by_one_def)
next
  case False
  then have none: "map_of short_escapes c = None"
    by (simp add: map_of_eq_None_iff)
  show thesis
  proof (cases "html_or_control c")
    case True
    have "of_char c < (128 :: nat)"
      using assms by (simp add: byte_in_def)
    moreover from this have "(of_char c :: nat) div 16 < 16" "(of_char c :: nat) mod 16 < 16"
      by (simp_all add: less_mult_imp_div_less)
    ultimately show thesis
      using True none by (intro hex [of "hex_digit (of_char c div 16)" "hex_digit (of_char c mod 16)"])
        (simp_all add: json_escape_def hex_any_digit)
  next
    case plain_c: False
    with none False show thesis
      by (intro plain) (auto simp: json_escape_def html_or_control_def short_escapes_def)
  qed
qed

lemma scan_string_escape:
  assumes "byte_in 0 0x7F c"
  shows "scan_string (json_escape c @ s) = map_option (\<lambda>(t, r). (json_escape c @ t, r)) (scan_string s)"
  using assms by (cases rule: json_escape_cases) (simp_all add: escaped_by_one_def)

lemma json_unquote_escape:
  assumes "byte_in 0 0x7F c"
  shows "json_unquote (json_escape c @ s) = c # json_unquote s"
  using assms
proof (cases rule: json_escape_cases)
  case (hex h l)
  then have "((0 * 16 + 0) * 16 + of_char c div 16) * 16 + of_char c mod 16 = (of_char c :: nat)"
    by simp
  with hex show ?thesis
    by (simp add: surrogate_def encode_rune_def)
next
  case (short e)
  then show ?thesis
    by simp
next
  case plain
  with assms show ?thesis
    by simp
qed

lemma json_quote_ascii: "byte_in 0 0x7F c \<Longrightarrow> json_quote (c # s) = json_escape c @ json_quote s"
  by simp

lemma scan_string_quote: "ascii s \<Longrightarrow> scan_string (json_quote s @ dquote # r) = Some (json_quote s, r)"
  by (induction s) (simp_all add: json_quote_ascii scan_string_escape del: json_quote.simps(2))

lemma json_unquote_quote [simp]: "ascii s \<Longrightarrow> json_unquote (json_quote s) = s"
  by (induction s) (simp_all add: json_quote_ascii json_unquote_escape del: json_quote.simps(2))

text \<open>Text without escapes stands for itself.\<close>

definition plain_text :: "string \<Rightarrow> bool" where
  "plain_text s \<longleftrightarrow> (\<forall>c \<in> set s. byte_in 0x20 0x7F c \<and> c \<noteq> bslash \<and> c \<noteq> dquote)"

lemma byte_in_sub: "byte_in 0x20 0x7F c \<Longrightarrow> byte_in 0 0x7F c \<and> \<not> of_char c < (32 :: nat)"
  by (simp add: byte_in_def)

lemma json_unquote_plain: "plain_text s \<Longrightarrow> json_unquote s = s"
proof (induction s)
  case (Cons c s)
  then have "byte_in 0 0x7F c" "c \<noteq> bslash" and s: "json_unquote s = s"
    by (simp_all add: plain_text_def byte_in_sub)
  then show ?case
    by simp
qed simp

lemma raw_ok_plain: "plain_text s \<Longrightarrow> raw_ok s"
  unfolding raw_ok_def
  by (induction s) (auto simp: plain_text_def dest: byte_in_sub)

lemma raw_ok_quote: "ascii s \<Longrightarrow> raw_ok (json_quote s)"
  by (simp add: raw_ok_def scan_string_quote)

lemma getu4_append:
  "getu4 (b # u # s) = Some n \<Longrightarrow> 4 \<le> length s \<and> getu4 (b # u # s @ r) = Some n"
  by (cases "b # u # s" rule: getu4.cases) (auto split: if_splits)

lemma scan_string_append:
  "scan_string s = Some (t, q) \<Longrightarrow> scan_string (s @ r) = Some (t, q @ r)"
proof (induction s arbitrary: t q rule: scan_string.induct)
  case (2 c s)
  then show ?case
    by (auto split: if_splits list.splits option.splits dest: getu4_append [of _ _ _ _ r])
qed simp


lemma raw_okD: "raw_ok t \<Longrightarrow> scan_string (t @ dquote # r) = Some (t, r)"
  using scan_string_append [of "t @ [dquote]" t "[]" r] by (simp add: raw_ok_def)

text \<open>Numbers.\<close>

lemma is_digit_zero: "is_digit (CHR ''0'')"
  by simp

lemma nat_digits_hd: "0 < n \<Longrightarrow> hd (nat_digits n) \<noteq> CHR ''0''"
proof (induction n rule: nat_digits.induct)
  case (1 n)
  show ?case
  proof (cases "n < 10")
    case True
    have "(char_of (48 + n) :: char) \<noteq> CHR ''0''"
    proof
      assume "(char_of (48 + n) :: char) = CHR ''0''"
      then have "(of_char (char_of (48 + n) :: char) :: nat) = 48"
        by simp
      with True "1.prems" show False
        by (simp add: of_char_digit)
    qed
    with True show ?thesis
      by (subst nat_digits.simps) simp
  next
    case False
    with 1 show ?thesis
      by (subst nat_digits.simps) simp
  qed
qed

lemma nat_digits_0: "nat_digits 0 = ''0''"
  by (subst nat_digits.simps) (simp add: char_of_def bit_Suc_0_iff)

lemma stops_dropWhile: "stops_number r \<Longrightarrow> takeWhile (\<lambda>c. is_digit c) r = [] \<and> dropWhile (\<lambda>c. is_digit c) r = r"
  by (cases r) (auto simp: stops_number_def)

lemma scan_int_digits:
  assumes "stops_number r"
  shows "scan_int (nat_digits n @ r) = Some (nat_digits n, r)"
proof (cases "n = 0")
  case True
  then show ?thesis
    by (simp add: nat_digits_0 scan_int_def)
next
  case False
  obtain c cs where ds: "nat_digits n = c # cs"
    by (cases "nat_digits n") auto
  have all: "\<forall>x \<in> set (nat_digits n). is_digit x"
    using nat_digits_is_digit by blast
  then have "takeWhile (\<lambda>c. is_digit c) (nat_digits n @ r) = nat_digits n"
    and "dropWhile (\<lambda>c. is_digit c) (nat_digits n @ r) = r"
    using stops_dropWhile [OF assms] by (simp_all add: takeWhile_append2 dropWhile_append2)
  moreover have "c \<noteq> CHR ''0''" "is_digit c"
    using nat_digits_hd [of n] False all by (simp_all add: ds)
  ultimately show ?thesis
    by (simp add: scan_int_def ds)
qed

lemma stops_frac_exp: "stops_number r \<Longrightarrow> scan_frac r = Some ([], r) \<and> scan_exp r = Some ([], r)"
  by (cases r) (auto simp: stops_number_def scan_frac_def scan_exp_def)

lemma number_ok_decimal: "number_ok (decimal i)"
  unfolding number_ok_def
proof (intro allI impI)
  fix r assume r: "stops_number r"
  obtain c cs where ds: "nat_digits (nat i) = c # cs"
    by (cases "nat_digits (nat i)") auto
  have "is_digit c"
    by (rule nat_digits_is_digit [of _ "nat i"]) (simp add: ds)
  then have "c \<noteq> CHR ''-''"
    by auto
  moreover have "scan_int (c # cs @ r) = Some (c # cs, r)"
    using scan_int_digits [OF r, of "nat i"] by (simp add: ds)
  ultimately show "scan_number (decimal i @ r) = Some (decimal i, r)"
    using scan_int_digits [OF r, of "nat (- i)"] stops_frac_exp [OF r] ds
    by (cases "i < 0") (auto simp: scan_number_def decimal_def Let_def)
qed

lemma scan_number_head: "scan_number s = Some (t, r) \<Longrightarrow> \<exists>c q. s = c # q \<and> (c = CHR ''-'' \<or> is_digit c)"
  by (cases s) (auto simp: scan_number_def scan_int_def Let_def bind_eq_Some_conv split: if_splits)

lemma number_ok_head:
  assumes "number_ok t"
  obtains c q where "t = c # q" "c = CHR ''-'' \<or> is_digit c"
  using assms scan_number_head [of t t "[]"] by (force simp: number_ok_def stops_number_def)

text \<open>Whole values.\<close>

lemma skip_space_Cons [simp]: "skip_space (c # s) = (if json_space c then skip_space s else c # s)"
  by (simp add: skip_space_def)

lemma number_head_not_space: "c = CHR ''-'' \<or> is_digit c \<Longrightarrow> \<not> json_space c"
  by (auto simp: json_space_def)

lemma json_text_head:
  assumes "json_ok v"
  obtains c q where "json_text v = c # q" "\<not> json_space c" "c \<noteq> CHR '']''"
proof (cases v)
  case (JNumber t)
  with assms obtain c q where "t = c # q" "c = CHR ''-'' \<or> is_digit c"
    by (auto elim: number_ok_head)
  moreover from this have "c \<noteq> CHR '']''"
    by auto
  ultimately show thesis
    using JNumber number_head_not_space [of c] that by simp
next
  case (JBool b)
  with that show thesis
    by (cases b) (auto simp: json_space_def)
qed (use that in \<open>auto simp: json_space_def\<close>)

lemma json_text_nonempty: "json_ok v \<Longrightarrow> json_text v \<noteq> []"
  by (auto elim: json_text_head)

lemma join_head: "xs \<noteq> [] \<Longrightarrow> hd xs \<noteq> [] \<Longrightarrow> \<exists>q. join s xs = hd (hd xs) # q"
  by (cases "(s, xs)" rule: join.cases) (auto simp: neq_Nil_conv)

definition reads_back :: "nat \<Rightarrow> json \<Rightarrow> bool" where
  "reads_back d v \<longleftrightarrow>
     (\<forall>n r. length (json_text v) < n \<longrightarrow> stops_number r \<longrightarrow> parse_value n d (json_text v @ r) = Some (v, r))"

lemma reads_backD:
  "reads_back d v \<Longrightarrow> length (json_text v) < n \<Longrightarrow> stops_number r \<Longrightarrow> parse_value n d (json_text v @ r) = Some (v, r)"
  by (simp add: reads_back_def)

lemma stops_number_punct [simp]:
  "stops_number (CHR '','' # r)" "stops_number (CHR '']'' # r)" "stops_number (CHR ''}'' # r)" "stops_number []"
  by (simp_all add: stops_number_def)

lemma json_space_punct [simp]:
  "\<not> json_space (CHR '','')" "\<not> json_space (CHR '']'')" "\<not> json_space (CHR ''}'')" "\<not> json_space (CHR '':'')"
  "\<not> json_space dquote" "\<not> json_space (CHR ''{'')" "\<not> json_space (CHR ''['')" "\<not> json_space (CHR ''t'')"
  "\<not> json_space (CHR ''f'')" "\<not> json_space (CHR ''n'')"
  by (simp_all add: json_space_def)

lemma parse_elems_text:
  assumes "vs \<noteq> []" and "\<forall>v \<in> set vs. reads_back d v \<and> json_ok v"
    and "Suc (length (join (CHR '','') (map json_text vs))) < n"
  shows "parse_elems n d (join (CHR '','') (map json_text vs) @ CHR '']'' # r) = Some (vs, r)"
  using assms
proof (induction vs arbitrary: n rule: induct_list012)
  case (2 v)
  then obtain m where "n = Suc m" "length (json_text v) < m"
    by (cases n) auto
  with 2 show ?case
    by (simp add: reads_backD)
next
  case (3 v w vs)
  then obtain m where n: "n = Suc m" and m: "length (json_text v) < m"
      "Suc (length (join (CHR '','') (map json_text (w # vs)))) < m"
    by (cases n) (use json_text_nonempty [of v] in \<open>auto simp: less_Suc_eq_le Suc_le_eq\<close>)
  have "parse_elems m d (join (CHR '','') (map json_text (w # vs)) @ CHR '']'' # r) = Some (w # vs, r)"
    using 3 m(2) by simp
  with 3 m show ?case
    by (simp add: n reads_backD)
qed simp

abbreviation member_text :: "string \<times> json \<Rightarrow> string" where
  "member_text kv \<equiv> dquote # fst kv @ dquote # CHR '':'' # json_text (snd kv)"

lemma parse_members_text:
  assumes "kvs \<noteq> []" and "\<forall>kv \<in> set kvs. reads_back d (snd kv) \<and> raw_ok (fst kv)"
    and "Suc (length (join (CHR '','') (map member_text kvs))) < n"
  shows "parse_members n d (join (CHR '','') (map member_text kvs) @ CHR ''}'' # r) = Some (kvs, r)"
  using assms
proof (induction kvs arbitrary: n rule: induct_list012)
  case (2 kv)
  then obtain m where "n = Suc m" "length (json_text (snd kv)) < m"
    by (cases n) auto
  with 2 show ?case
    by (cases kv) (simp add: reads_backD raw_okD)
next
  case (3 kv kw kvs)
  then obtain m where n: "n = Suc m" and m: "length (json_text (snd kv)) < m"
      "Suc (length (join (CHR '','') (map member_text (kw # kvs)))) < m"
    by (cases n) auto
  have "parse_members m d (join (CHR '','') (map member_text (kw # kvs)) @ CHR ''}'' # r) = Some (kw # kvs, r)"
    using 3 m(2) by simp
  with 3 m show ?case
    by (cases kv) (simp add: n reads_backD raw_okD)
qed simp

lemma max_depth_le: "foldr (max \<circ> f) xs 0 \<le> (d :: nat) \<longleftrightarrow> (\<forall>x \<in> set xs. f x \<le> d)"
  by (induction xs) auto

lemma json_reads_back: "json_ok v \<Longrightarrow> json_depth v \<le> d \<Longrightarrow> reads_back d v"
proof (induction v arbitrary: d)
  case (JNumber t)
  then obtain c q where t: "t = c # q" "c = CHR ''-'' \<or> is_digit c"
    by (auto elim: number_ok_head)
  have "parse_value n d (t @ r) = Some (JNumber t, r)" if "length t < n" and r: "stops_number r" for n r
  proof -
    have "scan_number (t @ r) = Some (t, r)"
      using JNumber.prems(1) r by (simp add: number_ok_def)
    moreover have "c \<noteq> dquote" "c \<noteq> CHR ''{''" "c \<noteq> CHR ''[''" "c \<noteq> CHR ''t''" "c \<noteq> CHR ''f''" "c \<noteq> CHR ''n''"
      using t(2) by auto
    moreover obtain m where "n = Suc m"
      using \<open>length t < n\<close> by (cases n) auto
    ultimately show ?thesis
      using number_head_not_space [OF t(2)] by (simp add: t)
  qed
  then show ?case
    by (simp add: reads_back_def)
next
  case (JString t)
  then show ?case
    by (auto simp: reads_back_def raw_okD less_iff_Suc_add)
next
  case (JArray vs)
  then obtain e where d: "d = Suc e" and "foldr (max \<circ> json_depth) vs 0 \<le> e"
    by (cases d) auto
  with JArray have vs: "\<forall>v \<in> set vs. reads_back e v \<and> json_ok v"
    by (simp add: max_depth_le)
  show ?case
  proof (cases "vs = []")
    case True
    with d show ?thesis
      by (auto simp: reads_back_def less_iff_Suc_add)
  next
    case False
    then have "json_ok (hd vs)"
      using vs by simp
    then obtain c q where "json_text (hd vs) = c # q" "\<not> json_space c" "c \<noteq> CHR '']''"
      by (rule json_text_head)
    with False have "\<exists>q. join (CHR '','') (map json_text vs) = c # q" and c: "\<not> json_space c" "c \<noteq> CHR '']''"
      using join_head [of "map json_text vs" "CHR '',''"] by (simp_all add: hd_map)
    then obtain q where j: "join (CHR '','') (map json_text vs) = c # q"
      by blast
    have "parse_value n d (json_text (JArray vs) @ r) = Some (JArray vs, r)"
      if len: "length (json_text (JArray vs)) < n" for n r
    proof -
      obtain m where n: "n = Suc m" "Suc (length (join (CHR '','') (map json_text vs))) < m"
        using len by (cases n) auto
      then have "parse_elems m e (c # q @ CHR '']'' # r) = Some (vs, r)"
        using parse_elems_text [OF False vs n(2), of r] by (simp add: j)
      with c show ?thesis
        by (simp add: n(1) d j)
    qed
    then show ?thesis
      by (simp add: reads_back_def)
  qed
next
  case (JObject kvs)
  then obtain e where d: "d = Suc e" and "foldr (max \<circ> json_depth \<circ> snd) kvs 0 \<le> e"
    by (cases d) auto
  with JObject have kvs: "\<forall>kv \<in> set kvs. reads_back e (snd kv) \<and> raw_ok (fst kv)"
    by (fastforce simp: max_depth_le comp_assoc)
  show ?case
  proof (cases "kvs = []")
    case True
    with d show ?thesis
      by (auto simp: reads_back_def less_iff_Suc_add)
  next
    case False
    then obtain q where j: "join (CHR '','') (map member_text kvs) = dquote # q"
      using join_head [of "map member_text kvs" "CHR '',''"] by (auto simp: hd_map)
    have "parse_value n d (json_text (JObject kvs) @ r) = Some (JObject kvs, r)"
      if len: "length (json_text (JObject kvs)) < n" for n r
    proof -
      obtain m where n: "n = Suc m" "Suc (length (join (CHR '','') (map member_text kvs))) < m"
        using len by (cases n) auto
      then have "parse_members m e (dquote # q @ CHR ''}'' # r) = Some (kvs, r)"
        using parse_members_text [OF False kvs n(2), of r] by (simp add: j)
      then show ?thesis
        by (simp add: n(1) d j)
    qed
    then show ?thesis
      by (simp add: reads_back_def)
  qed
qed (auto simp: reads_back_def less_iff_Suc_add scan_literal_def)

text \<open>What is printed is read back, by either entry point.\<close>

lemma json_document_text:
  assumes "json_ok v" and "json_depth v \<le> 10000"
  shows "json_document (json_text v) = Some v"
proof -
  have "parse_value (Suc (length (json_text v))) 10000 (json_text v @ []) = Some (v, [])"
    by (rule reads_backD [OF json_reads_back [OF assms]]) simp_all
  then show ?thesis
    by (simp add: json_document_def skip_space_def)
qed

lemma json_first_text:
  assumes "json_ok v" and "json_depth v \<le> 10000"
  shows "json_first (json_text v) = Some v"
proof -
  have "parse_value (Suc (length (json_text v))) 10000 (json_text v @ []) = Some (v, [])"
    by (rule reads_backD [OF json_reads_back [OF assms]]) simp_all
  then show ?thesis
    by (simp add: json_first_def)
qed

end
