(* ===== verification/Duration_Text.thy ===== *)
theory Duration_Text
  imports Calendar Json_Structs
begin

text \<open>
  The JSON form of \<^verbatim>\<open>domain.Duration\<close> (\<^verbatim>\<open>domain/group.go\<close>): what it uses of \<^verbatim>\<open>time.Duration.String\<close> and
  \<^verbatim>\<open>time.ParseDuration\<close>, with the overflow checks of the latter, its 64-bit sum and its float
  arithmetic for fractions; and that a duration printed is read back.
\<close>

section \<open>Printing\<close>

definition frac_text :: "nat \<Rightarrow> nat \<Rightarrow> string" where
  "frac_text prec n = (if n = 0 then [] else CHR ''.'' # strip_zeros (pad prec n))"

definition micro :: string where
  "micro = [CHR 0xC2, CHR 0xB5, CHR ''s'']"

text \<open>\<open>u\<close> is the magnitude, an unsigned 64-bit integer.\<close>

definition magnitude_string :: "nat \<Rightarrow> string" where
  "magnitude_string u =
     (if u < 1000000000
      then if u = 0 then ''0s''
           else if u < 1000 then nat_digits u @ ''ns''
           else if u < 1000000 then nat_digits (u div 1000) @ frac_text 3 (u mod 1000) @ micro
           else nat_digits (u div 1000000) @ frac_text 6 (u mod 1000000) @ ''ms''
      else let s = u div 1000000000; m = s div 60; h = m div 60
           in (if m = 0 then []
               else (if h = 0 then [] else nat_digits h @ ''h'') @ nat_digits (m mod 60) @ ''m'')
              @ nat_digits (s mod 60) @ frac_text 9 (u mod 1000000000) @ ''s'')"

definition duration_string :: "duration \<Rightarrow> string" where
  "duration_string d = (if sint d < 0 then ''-'' else []) @ magnitude_string (nat \<bar>sint d\<bar>)"

section \<open>Parsing\<close>

definition digit_of :: "char \<Rightarrow> nat" where
  "digit_of c = of_char c - 48"

fun leading_int :: "nat \<Rightarrow> string \<Rightarrow> (nat \<times> string) option" where
  "leading_int x [] = Some (x, [])"
| "leading_int x (c # s) =
     (if is_digit c
      then if 2 ^ 63 div 10 < x then None
           else if 2 ^ 63 < 10 * x + digit_of c then None else leading_int (10 * x + digit_of c) s
      else Some (x, c # s))"

text \<open>The digits of a fraction, the power of ten they stand over (a double, exact here) and the rest.\<close>

fun leading_fraction :: "nat \<Rightarrow> nat \<Rightarrow> bool \<Rightarrow> string \<Rightarrow> nat \<times> nat \<times> string" where
  "leading_fraction x scale over [] = (x, scale, [])"
| "leading_fraction x scale over (c # s) =
     (if \<not> is_digit c then (x, scale, c # s)
      else if over \<or> (2 ^ 63 - 1) div 10 < x \<or> 2 ^ 63 < 10 * x + digit_of c then leading_fraction x scale True s
      else leading_fraction (10 * x + digit_of c) (10 * scale) False s)"

definition unitMap :: "(string \<times> nat) list" where
  "unitMap =
     [(''ns'', 1), (''us'', 1000), (micro, 1000), ([CHR 0xCE, CHR 0xBC, CHR ''s''], 1000), (''ms'', 1000000),
      (''s'', 1000000000), (''m'', 60000000000), (''h'', 3600000000000)]"

definition numeric :: "char \<Rightarrow> bool" where
  "numeric c \<longleftrightarrow> c = CHR ''.'' \<or> is_digit c"

text \<open>One number with its unit: its nanoseconds and the rest.\<close>

definition fraction_nanos :: "nat \<Rightarrow> nat \<Rightarrow> nat \<Rightarrow> nat" where
  "fraction_nanos f u scale = nat \<lfloor>f64_mul (f64_of_int (int f)) (f64_div (f64_of_int (int u)) (of_nat scale))\<rfloor>"

definition duration_term :: "string \<Rightarrow> (nat \<times> string) option" where
  "duration_term s =
     (if s = [] \<or> \<not> numeric (hd s) then None
      else case leading_int 0 s of
             None \<Rightarrow> None
           | Some (v, s1) \<Rightarrow>
               let dot = (s1 \<noteq> [] \<and> hd s1 = CHR ''.'');
                   (f, scale, s2) = (if dot then leading_fraction 0 1 False (tl s1) else (0, 1, s1));
                   pre = length s \<noteq> length s1;
                   post = (dot \<and> length (tl s1) \<noteq> length s2)
               in if \<not> pre \<and> \<not> post then None
                  else case map_of unitMap (takeWhile (\<lambda>c. \<not> numeric c) s2) of
                         None \<Rightarrow> None
                       | Some u \<Rightarrow>
                           if 2 ^ 63 div u < v then None
                           else let v' = v * u + (if 0 < f then fraction_nanos f u scale else 0)
                                in if 0 < f \<and> 2 ^ 63 < v' then None
                                   else Some (v', dropWhile (\<lambda>c. \<not> numeric c) s2))"

lemma leading_int_length: "leading_int x s = Some (v, r) \<Longrightarrow> length r \<le> length s"
  by (induction x s rule: leading_int.induct) (auto split: if_splits)

lemma leading_fraction_length: "leading_fraction x sc ov s = (f, k, r) \<Longrightarrow> length r \<le> length s"
  by (induction x sc ov s rule: leading_fraction.induct) (auto split: if_splits)

lemma unitMap_Nil [simp]: "map_of unitMap [] = None"
  by (simp add: unitMap_def micro_def)

lemma duration_term_shorter:
  assumes "duration_term s = Some (v, r)"
  shows "length r < length s"
proof -
  obtain v1 s1 where s1: "leading_int 0 s = Some (v1, s1)"
    using assms by (auto simp: duration_term_def split: if_splits option.splits)
  define dot where "dot = (s1 \<noteq> [] \<and> hd s1 = CHR ''.'')"
  obtain f scale s2 where s2: "(if dot then leading_fraction 0 1 False (tl s1) else (0, 1, s1)) = (f, scale, s2)"
    by (metis prod_cases3)
  have "length s2 \<le> length s1"
    using s2 leading_fraction_length [of 0 1 False "tl s1" f scale s2] by (cases s1) (auto split: if_splits)
  then have "length s2 \<le> length s"
    using leading_int_length [OF s1] by simp
  moreover have "takeWhile (\<lambda>c. \<not> numeric c) s2 \<noteq> []" and r: "r = dropWhile (\<lambda>c. \<not> numeric c) s2"
    using assms s2 by (auto simp: duration_term_def s1 Let_def dot_def [symmetric] split: if_splits option.splits)
  then have "length r < length s2"
    unfolding r by (cases s2) (auto simp: le_imp_less_Suc length_dropWhile_le)
  ultimately show ?thesis
    by simp
qed

text \<open>The loop over the terms; the sum is a 64-bit one.\<close>

function duration_terms :: "nat \<Rightarrow> string \<Rightarrow> nat option" where
  "duration_terms d s =
     (if s = [] then Some d
      else case duration_term s of
             None \<Rightarrow> None
           | Some (v, r) \<Rightarrow>
               if 2 ^ 63 < (d + v) mod 2 ^ 64 then None else duration_terms ((d + v) mod 2 ^ 64) r)"
  by pat_completeness auto
termination
  by (relation "measure (\<lambda>(d, s). length s)") (auto simp: duration_term_shorter)

declare duration_terms.simps [simp del]

definition ParseDuration :: "string \<Rightarrow> duration option" where
  "ParseDuration orig =
     (let signed = (orig \<noteq> [] \<and> (hd orig = CHR ''-'' \<or> hd orig = CHR ''+''));
          neg = (signed \<and> hd orig = CHR ''-'');
          s = (if signed then tl orig else orig)
      in if s = ''0'' then Some 0
         else if s = [] then None
         else case duration_terms 0 s of
                None \<Rightarrow> None
              | Some d \<Rightarrow>
                  if neg then Some (- of_nat d)
                  else if 2 ^ 63 - 1 < d then None else Some (of_nat d))"

section \<open>JSON (domain/group.go)\<close>

definition duration_json :: "duration \<Rightarrow> json" where
  "duration_json d = JString (duration_string d)"

text \<open>\<^verbatim>\<open>UnmarshalJSON\<close> gets the bytes of the literal and drops the quotes without undoing escapes.\<close>

definition into_duration :: "(duration \<Rightarrow> 'r \<Rightarrow> 'r) \<Rightarrow> 'r setter" where
  "into_duration upd v r =
     (case ParseDuration (case v of JString t \<Rightarrow> t | _ \<Rightarrow> json_text v) of
        Some d \<Rightarrow> (True, upd d r) | None \<Rightarrow> (False, r))"

section \<open>A duration printed is read back\<close>

definition no_digit_ahead :: "string \<Rightarrow> bool" where
  "no_digit_ahead r \<longleftrightarrow> r = [] \<or> \<not> is_digit (hd r)"

lemma digits_value_shift: "digits_value (c # cs) = digit_of c * 10 ^ length cs + digits_value cs"
  using digits_value_append [of "[c]" cs] by (simp add: digits_value_def digit_of_def)

lemma leading_int_digits:
  assumes "\<forall>c \<in> set ds. is_digit c" and "no_digit_ahead r" and "x * 10 ^ length ds + digits_value ds \<le> 2 ^ 63"
  shows "leading_int x (ds @ r) = Some (x * 10 ^ length ds + digits_value ds, r)"
  using assms
proof (induction ds arbitrary: x)
  case Nil
  then show ?case
    by (cases r) (auto simp: no_digit_ahead_def digits_value_def)
next
  case (Cons c ds)
  let ?y = "10 * x + digit_of c"
  have v: "x * 10 ^ length (c # ds) + digits_value (c # ds) = ?y * 10 ^ length ds + digits_value ds"
    by (simp add: digits_value_shift algebra_simps)
  have "?y \<le> ?y * 10 ^ length ds"
    by simp
  with Cons.prems(3) v have y: "?y \<le> 2 ^ 63"
    by linarith
  then have "10 * x \<le> 2 ^ 63"
    by simp
  then have "x \<le> 2 ^ 63 div 10"
    by (simp add: less_eq_div_iff_mult_less_eq mult.commute)
  with Cons y v show ?case
    by simp
qed

lemma leading_fraction_digits:
  assumes "\<forall>c \<in> set ds. is_digit c" and "no_digit_ahead r" and "x * 10 ^ length ds + digits_value ds < 2 ^ 63"
  shows "leading_fraction x sc False (ds @ r) = (x * 10 ^ length ds + digits_value ds, sc * 10 ^ length ds, r)"
  using assms
proof (induction ds arbitrary: x sc)
  case Nil
  then show ?case
    by (cases r) (auto simp: no_digit_ahead_def digits_value_def)
next
  case (Cons c ds)
  let ?y = "10 * x + digit_of c"
  have v: "x * 10 ^ length (c # ds) + digits_value (c # ds) = ?y * 10 ^ length ds + digits_value ds"
    by (simp add: digits_value_shift algebra_simps)
  have "?y \<le> ?y * 10 ^ length ds"
    by simp
  with Cons.prems(3) v have y: "?y < 2 ^ 63"
    by linarith
  then have "10 * x \<le> 2 ^ 63 - 1"
    by simp
  then have "x \<le> (2 ^ 63 - 1) div 10"
    by (simp add: less_eq_div_iff_mult_less_eq mult.commute)
  with Cons y v show ?case
    by simp
qed


text \<open>A unit and what may follow a term.\<close>

definition unit_named :: "string \<Rightarrow> nat \<Rightarrow> bool" where
  "unit_named u k \<longleftrightarrow> map_of unitMap u = Some k \<and> (\<forall>c \<in> set u. \<not> numeric c)"

definition term_ahead :: "string \<Rightarrow> bool" where
  "term_ahead r \<longleftrightarrow> r = [] \<or> numeric (hd r)"

lemma unit_named_units:
  "unit_named ''ns'' 1" "unit_named micro 1000" "unit_named ''ms'' 1000000" "unit_named ''s'' 1000000000"
  "unit_named ''m'' 60000000000" "unit_named ''h'' 3600000000000"
  by (simp_all add: unit_named_def unitMap_def micro_def numeric_def)

lemma unit_split:
  assumes "unit_named u k" and "term_ahead r"
  shows "takeWhile (\<lambda>c. \<not> numeric c) (u @ r) = u \<and> dropWhile (\<lambda>c. \<not> numeric c) (u @ r) = r"
proof -
  have "takeWhile (\<lambda>c. \<not> numeric c) r = []" "dropWhile (\<lambda>c. \<not> numeric c) r = r"
    using assms(2) by (cases r; auto simp: term_ahead_def)+
  with assms(1) show ?thesis
    by (simp add: unit_named_def takeWhile_append2 dropWhile_append2)
qed

lemma unit_head:
  assumes "unit_named u k"
  obtains c q where "u = c # q" "\<not> numeric c"
  using assms by (cases u) (auto simp: unit_named_def)

lemma nat_digits_all: "\<forall>c \<in> set (nat_digits n). is_digit c"
  by (blast dest: nat_digits_is_digit)

lemma nat_digits_numeric: "numeric (hd (nat_digits n @ s))"
  using nat_digits_all [of n] by (cases "nat_digits n") (auto simp: numeric_def)

lemma leading_int_nat:
  assumes "no_digit_ahead r" and "n \<le> 2 ^ 63"
  shows "leading_int 0 (nat_digits n @ r) = Some (n, r)"
  using leading_int_digits [OF nat_digits_all [of n] assms(1), of 0] assms(2) by (simp add: nat_digits_value)

lemma term_plain:
  assumes u: "unit_named u k" and r: "term_ahead r" and v: "v \<le> 2 ^ 63 div k" and k: "0 < k"
  shows "duration_term (nat_digits v @ u @ r) = Some (v * k, r)"
proof -
  obtain c q where c: "u = c # q" "\<not> numeric c"
    using u by (rule unit_head)
  have "v \<le> 2 ^ 63"
    using v k by (meson div_le_dividend le_trans)
  with c have "leading_int 0 (nat_digits v @ u @ r) = Some (v, u @ r)"
    by (intro leading_int_nat) (auto simp: no_digit_ahead_def numeric_def)
  moreover have "c \<noteq> CHR ''.''"
    using c(2) by (auto simp: numeric_def)
  moreover have "map_of unitMap u = Some k"
    using u by (simp add: unit_named_def)
  ultimately show ?thesis
    using unit_split [OF u r] nat_digits_numeric [of v "u @ r"] v c(1) by (simp add: duration_term_def Let_def)
qed

lemma fraction_nanos_exact:
  assumes k: "k \<le> p" and p: "p \<le> 9" and f: "f < 10 ^ k"
  shows "fraction_nanos f (10 ^ p) (10 ^ k) = f * 10 ^ (p - k)"
proof -
  have e: "(10::int) ^ j < 2 ^ 53" if "j \<le> 9" for j
    using power_increasing [OF that, of "10 :: int"] by simp
  have u: "f64_of_int (10 ^ p) = 10 ^ p"
    using f64_of_int_exact [of "10 ^ p"] e [OF p] by simp
  have "(10::real) ^ p / 10 ^ k = of_int (10 ^ (p - k))"
    using power_diff [of "10 :: real" k p] k by (simp only: of_int_power of_int_numeral)
  then have d: "f64_div (f64_of_int (int (10 ^ p))) (of_nat (10 ^ k)) = of_int (10 ^ (p - k))"
    using f64_round_int [of "10 ^ (p - k)"] e [of "p - k"] p
    by (simp only: f64_div_def of_nat_power of_nat_numeral u) simp
  have "int f < 10 ^ k"
    using f by (metis of_nat_less_iff of_nat_numeral of_nat_power)
  then have fe: "f64_of_int (int f) = of_int (int f)"
    using e [of k] k p \<open>int f < 10 ^ k\<close> by (intro f64_of_int_exact) linarith
  have "int f * 10 ^ (p - k) < 10 ^ k * 10 ^ (p - k)"
    using \<open>int f < 10 ^ k\<close> by simp
  also have "\<dots> = 10 ^ p"
    using k by (simp flip: power_add)
  finally have small: "int f * 10 ^ (p - k) < 2 ^ 53"
    using e [OF p] by linarith
  have "f64_mul (f64_of_int (int f)) (of_int (10 ^ (p - k))) = of_int (int f * 10 ^ (p - k))"
    unfolding f64_mul_def fe of_int_mult [symmetric] by (rule f64_round_int) (use small in simp)
  then have "fraction_nanos f (10 ^ p) (10 ^ k) = nat \<lfloor>of_int (int f * 10 ^ (p - k)) :: real\<rfloor>"
    by (simp only: fraction_nanos_def d)
  also have "\<dots> = f * 10 ^ (p - k)"
    by (simp only: floor_of_int) (simp add: nat_mult_distrib nat_power_eq)
  finally show ?thesis .
qed

lemma strip_zeros_value:
  assumes "n < 10 ^ p" and "0 < p"
  shows "length (strip_zeros (pad p n)) \<le> p \<and> (\<forall>c \<in> set (strip_zeros (pad p n)). is_digit c)
    \<and> digits_value (strip_zeros (pad p n)) * 10 ^ (p - length (strip_zeros (pad p n))) = n"
proof -
  let ?s = "strip_zeros (pad p n)"
  have len: "length (pad p n) = p"
    using assms by (simp add: pad_length)
  have s: "?s @ replicate (p - length ?s) (CHR ''0'') = pad p n"
    using strip_zeros_pad [of "pad p n"] by (simp add: len)
  have "set ?s \<subseteq> set (pad p n)"
    using s by (metis Un_upper1 set_append)
  moreover have "digits_value (?s @ replicate (p - length ?s) (CHR ''0'')) = n"
    unfolding s by simp
  moreover have "length ?s \<le> p"
    using strip_zeros_length [of "pad p n"] by (simp add: len)
  ultimately show ?thesis
    using pad_digits by (auto simp: digits_value_append digits_value_zeros)
qed

lemma term_frac:
  assumes u: "unit_named u (10 ^ p)" and p: "0 < p" "p \<le> 9" and n: "n < 10 ^ p" and v: "v * 10 ^ p + n \<le> 2 ^ 63"
  shows "duration_term (nat_digits v @ frac_text p n @ u) = Some (v * 10 ^ p + n, [])"
proof (cases "n = 0")
  case True
  have "v \<le> 2 ^ 63 div 10 ^ p"
    using v by (simp add: less_eq_div_iff_mult_less_eq True)
  from term_plain [OF u _ this, of "[]"] True show ?thesis
    by (simp add: frac_text_def term_ahead_def)
next
  case False
  define s where "s = strip_zeros (pad p n)"
  have s: "length s \<le> p" "\<forall>c \<in> set s. is_digit c" "digits_value s * 10 ^ (p - length s) = n"
    using strip_zeros_value [OF n p(1)] by (simp_all add: s_def)
  obtain c q where c: "u = c # q" "\<not> numeric c"
    using u by (rule unit_head)
  have stop: "no_digit_ahead u"
    using c by (simp add: no_digit_ahead_def numeric_def)
  have pos: "0 < digits_value s"
    using s(3) False by (cases "digits_value s") auto
  have le: "v \<le> 2 ^ 63 div 10 ^ p"
    using v by (simp add: less_eq_div_iff_mult_less_eq)
  then have "v \<le> 2 ^ 63"
    by (meson div_le_dividend le_trans)
  then have int: "leading_int 0 (nat_digits v @ CHR ''.'' # s @ u) = Some (v, CHR ''.'' # s @ u)"
    by (intro leading_int_nat) (simp add: no_digit_ahead_def)
  have lt: "digits_value s < 10 ^ length s"
  proof -
    have "digits_value s * 10 ^ (p - length s) < 10 ^ length s * 10 ^ (p - length s)"
      using s(1) n s(3) by (simp flip: power_add)
    then show ?thesis
      by simp
  qed
  then have "digits_value s < 2 ^ 63"
    using power_increasing [of "length s" 9 "10 :: nat"] s(1) p(2) by simp
  then have frac: "leading_fraction 0 1 False (s @ u) = (digits_value s, 10 ^ length s, u)"
    using leading_fraction_digits [OF s(2) stop, of 0 1] by simp
  have "fraction_nanos (digits_value s) (10 ^ p) (10 ^ length s) = n"
    using fraction_nanos_exact [OF s(1) p(2) lt] s(3) by simp
  moreover have "map_of unitMap u = Some (10 ^ p)"
    using u by (simp add: unit_named_def)
  moreover have "s \<noteq> []"
    using pos by (auto simp: digits_value_def)
  moreover have "takeWhile (\<lambda>c. \<not> numeric c) u = u" "dropWhile (\<lambda>c. \<not> numeric c) u = []"
    using unit_split [OF u, of "[]"] by (simp_all add: term_ahead_def)
  ultimately show ?thesis
    using nat_digits_numeric [of v "CHR ''.'' # s @ u"] le v pos False
    by (simp add: duration_term_def Let_def frac_text_def s_def [symmetric] int frac del: One_nat_def
        takeWhile_eq_all_conv dropWhile_eq_Nil_conv)
qed


text \<open>The sum, and the whole text.\<close>

lemma duration_terms_step:
  assumes "duration_term s = Some (v, r)" and "d + v \<le> 2 ^ 63"
  shows "duration_terms d s = duration_terms (d + v) r"
proof -
  have "s \<noteq> []"
    using assms(1) by (auto simp: duration_term_def)
  with assms show ?thesis
    by (subst duration_terms.simps) simp
qed

lemma duration_terms_Nil [simp]: "duration_terms d [] = Some d"
  by (subst duration_terms.simps) simp

lemma term_ahead_digits [simp]: "term_ahead (nat_digits n @ s)"
  using nat_digits_numeric [of n s] by (simp add: term_ahead_def)

lemma terms_last:
  assumes "unit_named u (10 ^ p)" "0 < p" "p \<le> 9" "n < 10 ^ p" "d + v * 10 ^ p + n \<le> 2 ^ 63"
  shows "duration_terms d (nat_digits v @ frac_text p n @ u) = Some (d + v * 10 ^ p + n)"
proof -
  have "duration_term (nat_digits v @ frac_text p n @ u) = Some (v * 10 ^ p + n, [])"
    using assms by (intro term_frac) simp_all
  from duration_terms_step [OF this, of d] show ?thesis
    using assms(5) by (simp add: add.assoc)
qed

lemma terms_plain:
  assumes "unit_named u k" "term_ahead r" "0 < k" "d + v * k \<le> 2 ^ 63"
  shows "duration_terms d (nat_digits v @ u @ r) = duration_terms (d + v * k) r"
proof -
  have "v * k \<le> 2 ^ 63"
    using assms(4) by simp
  then have "v \<le> 2 ^ 63 div k"
    using assms(3) by (simp add: less_eq_div_iff_mult_less_eq)
  from duration_terms_step [OF term_plain [OF assms(1,2) this assms(3)] assms(4)] show ?thesis .
qed

lemma terms_magnitude:
  assumes "u \<le> 2 ^ 63"
  shows "duration_terms 0 (magnitude_string u) = Some u"
proof (cases "u < 1000000000")
  case True
  consider "u = 0" | "0 < u" "u < 1000" | "1000 \<le> u" "u < 1000000" | "1000000 \<le> u"
    by linarith
  then show ?thesis
  proof cases
    case 1
    have "nat_digits 0 = ''0''"
      by (rule nat_digits_0)
    with terms_plain [OF unit_named_units(4), of "[]" 0 0] show ?thesis
      by (simp add: 1 magnitude_string_def term_ahead_def)
  next
    case 2
    with terms_plain [OF unit_named_units(1), of "[]" 0 u] show ?thesis
      by (simp add: magnitude_string_def term_ahead_def)
  next
    case 3
    with terms_last [of micro 3 "u mod 1000" 0 "u div 1000"] unit_named_units(2) True show ?thesis
      by (simp add: magnitude_string_def)
  next
    case 4
    with terms_last [of "''ms''" 6 "u mod 1000000" 0 "u div 1000000"] unit_named_units(3) True show ?thesis
      by (simp add: magnitude_string_def)
  qed
next
  case False
  define s where "s = u div 1000000000"
  define n where "n = u mod 1000000000"
  define m where "m = s div 60"
  define h where "h = m div 60"
  have n: "n < 10 ^ 9" and u: "u = s * 1000000000 + n" and s: "s = m * 60 + s mod 60" and m: "m = h * 60 + m mod 60"
    by (simp_all add: s_def n_def m_def h_def)
  have sec: "duration_terms d (nat_digits (s mod 60) @ frac_text 9 n @ ''s'') = Some u"
    if "d = m * 60 * 1000000000" for d
    using terms_last [of "''s''" 9 n d "s mod 60"] unit_named_units(4) n assms u s that
    by (simp add: algebra_simps)
  have minute: "duration_terms d (nat_digits (m mod 60) @ ''m'' @ nat_digits (s mod 60) @ frac_text 9 n @ ''s'') = Some u"
    if "d = h * 3600 * 1000000000" for d
  proof -
    have "d + m mod 60 * 60000000000 = m * 60 * 1000000000"
      using m that by (simp add: algebra_simps)
    moreover have "m * 60 * 1000000000 \<le> u"
      using u s by linarith
    ultimately show ?thesis
      using terms_plain [OF unit_named_units(5), of "nat_digits (s mod 60) @ frac_text 9 n @ ''s''" d "m mod 60"] sec assms
      by simp
  qed
  have "h * 3600 * 1000000000 \<le> u"
    using u s m by linarith
  then have hour: "duration_terms 0 (nat_digits h @ ''h'' @ nat_digits (m mod 60) @ ''m'' @ nat_digits (s mod 60) @ frac_text 9 n @ ''s'') = Some u"
    using terms_plain [OF unit_named_units(6), of "nat_digits (m mod 60) @ ''m'' @ nat_digits (s mod 60) @ frac_text 9 n @ ''s''" 0 h]
      minute [of "h * 3600 * 1000000000"] assms by (simp add: mult.commute [of _ h])
  have "magnitude_string u = (if m = 0 then [] else (if h = 0 then [] else nat_digits h @ ''h'') @ nat_digits (m mod 60) @ ''m'')
      @ nat_digits (s mod 60) @ frac_text 9 n @ ''s''"
    using False by (simp add: magnitude_string_def Let_def s_def n_def m_def h_def)
  then show ?thesis
    using sec [of 0] minute [of 0] hour by simp
qed

lemma magnitude_head: "\<exists>c q. magnitude_string u = c # q \<and> is_digit c"
proof -
  have d: "\<exists>c q. nat_digits n @ s = c # q \<and> is_digit c" for n s
    using nat_digits_all [of n] by (cases "nat_digits n") auto
  show ?thesis
    unfolding magnitude_string_def Let_def using d by auto
qed

lemma ParseDuration_string: "ParseDuration (duration_string d) = Some d"
proof -
  define u where "u = nat \<bar>sint d\<bar>"
  have "- (2 ^ 63) \<le> sint d" "sint d < 2 ^ 63"
    using sint_greater_eq [of d] sint_less [of d] by simp_all
  then have u: "u \<le> 2 ^ 63" and pos: "0 \<le> sint d \<Longrightarrow> u \<le> 2 ^ 63 - 1"
    by (auto simp: u_def)
  obtain c q where c: "magnitude_string u = c # q" "is_digit c"
    using magnitude_head by blast
  then have plain: "c \<noteq> CHR ''-''" "c \<noteq> CHR ''+''"
    by auto
  have val: "(if sint d < 0 then - of_nat u else of_nat u) = d"
    by (simp add: u_def)
  show ?thesis
  proof (cases "magnitude_string u = ''0''")
    case True
    have "duration_term ''0'' = None"
      by (simp add: duration_term_def numeric_def digit_of_def Let_def)
    with True terms_magnitude [OF u] show ?thesis
      by (simp add: duration_terms.simps)
  next
    case False
    with terms_magnitude [OF u] c plain pos val show ?thesis
      by (auto simp: ParseDuration_def duration_string_def u_def [symmetric] Let_def split: if_splits)
  qed
qed

text \<open>
  C36: a group's cycle length written as JSON is read back to the nanosecond, for every 64-bit duration.
\<close>

theorem duration_roundtrip: "into_duration upd (duration_json d) r = (True, upd d r)"
  by (simp add: into_duration_def duration_json_def ParseDuration_string)

end
