(* ===== verification/Auth_Token.thy ===== *)
theory Auth_Token
  imports Json_Structs Encodings Enum_Text
begin

text \<open>
  \<^verbatim>\<open>internal/auth/token.go\<close>: HS256 tokens, minted and verified. HMAC-SHA-256 is a parameter of
  the issuer, a function of the key and the message; the clock readings are arguments. Minting prints
  the claims as JSON and base64; verifying splits, checks the signature first, then decodes.
\<close>

definition TokenAccess :: string where
  "TokenAccess = ''access''"

definition TokenRefresh :: string where
  "TokenRefresh = ''refresh''"

record claims =
  cl_Sub :: string
  cl_Role :: role
  cl_Typ :: string
  cl_Exp :: int
  cl_Iat :: int

record issuer =
  is_hmac :: "string \<Rightarrow> string \<Rightarrow> string"
  is_secret :: string
  is_accessTTL :: duration
  is_refreshTTL :: duration

definition NewIssuer :: "(string \<Rightarrow> string \<Rightarrow> string) \<Rightarrow> string \<Rightarrow> duration \<Rightarrow> duration \<Rightarrow> issuer" where
  "NewIssuer hmac secret accessTTL refreshTTL =
     \<lparr>is_hmac = hmac, is_secret = secret, is_accessTTL = accessTTL, is_refreshTTL = refreshTTL\<rparr>"

definition b64 :: "string \<Rightarrow> string" where
  "b64 bs = b64_encode b64_url bs"

definition sign :: "issuer \<Rightarrow> string \<Rightarrow> string" where
  "sign I input = b64 (is_hmac I (is_secret I) input)"

definition header_json :: json where
  "header_json = JObject [(''alg'', jstr ''HS256''), (''typ'', jstr ''JWT'')]"

definition claims_json :: "claims \<Rightarrow> json" where
  "claims_json c =
     JObject [(''sub'', jstr (cl_Sub c)), (''role'', jstr (role_string (cl_Role c))), (''typ'', jstr (cl_Typ c)),
              (''exp'', jint (cl_Exp c)), (''iat'', jint (cl_Iat c))]"

text \<open>A \<^verbatim>\<open>Role\<close> is any string; the two constants have constructors of their own.\<close>

definition role_value :: "string \<Rightarrow> role" where
  "role_value s = (if s = ''member'' then RoleMember else if s = ''admin'' then RoleAdmin else RoleOther s)"

definition claims_fields :: "claims fields" where
  "claims_fields =
     [(''sub'', into_string (\<lambda>s c. c\<lparr>cl_Sub := s\<rparr>)), (''role'', into_string (\<lambda>s c. c\<lparr>cl_Role := role_value s\<rparr>)),
      (''typ'', into_string (\<lambda>s c. c\<lparr>cl_Typ := s\<rparr>)), (''exp'', into_int (\<lambda>i c. c\<lparr>cl_Exp := i\<rparr>)),
      (''iat'', into_int (\<lambda>i c. c\<lparr>cl_Iat := i\<rparr>))]"

definition no_claims :: claims where
  "no_claims = \<lparr>cl_Sub = [], cl_Role = RoleOther [], cl_Typ = [], cl_Exp = 0, cl_Iat = 0\<rparr>"

definition minted_claims :: "time \<Rightarrow> string \<Rightarrow> role \<Rightarrow> string \<Rightarrow> duration \<Rightarrow> claims" where
  "minted_claims now userID r typ ttl =
     \<lparr>cl_Sub = userID, cl_Role = r, cl_Typ = typ, cl_Exp = unix_seconds (now + sint ttl), cl_Iat = unix_seconds now\<rparr>"

definition mint :: "issuer \<Rightarrow> time \<Rightarrow> string \<Rightarrow> role \<Rightarrow> string \<Rightarrow> duration \<Rightarrow> err + string" where
  "mint I now userID r typ ttl =
     (let signingInput = b64 (json_text header_json) @ ''.'' @ b64 (json_text (claims_json (minted_claims now userID r typ ttl)))
      in Inr (signingInput @ ''.'' @ sign I signingInput))"

definition Issue :: "issuer \<Rightarrow> time \<Rightarrow> string \<Rightarrow> role \<Rightarrow> err + string" where
  "Issue I now userID r = mint I now userID r TokenAccess (is_accessTTL I)"

definition IssueRefresh :: "issuer \<Rightarrow> time \<Rightarrow> string \<Rightarrow> role \<Rightarrow> err + string" where
  "IssueRefresh I now userID r = mint I now userID r TokenRefresh (is_refreshTTL I)"

definition invalid_token :: "err + 'a" where
  "invalid_token = Inl (sentinel_err ErrInvalidToken)"

definition token_verify :: "issuer \<Rightarrow> time \<Rightarrow> string \<Rightarrow> string \<Rightarrow> err + claims" where
  "token_verify I now token wantType =
     (let parts = split_on (CHR ''.'') token
      in if length parts \<noteq> 3 then invalid_token
         else let signingInput = parts ! 0 @ ''.'' @ parts ! 1
              in if sign I signingInput \<noteq> parts ! 2 then invalid_token
                 else case b64_decode b64_url (parts ! 1) of
                        None \<Rightarrow> invalid_token
                      | Some raw \<Rightarrow>
                          (case unmarshal claims_fields raw no_claims of
                             (ok, c) \<Rightarrow>
                               if \<not> ok then invalid_token
                               else if cl_Typ c \<noteq> wantType then invalid_token
                               else if cl_Exp c \<le> unix_seconds now then invalid_token
                               else Inr c))"

definition Verify :: "issuer \<Rightarrow> time \<Rightarrow> string \<Rightarrow> err + claims" where
  "Verify I now token = token_verify I now token TokenAccess"

definition VerifyRefresh :: "issuer \<Rightarrow> time \<Rightarrow> string \<Rightarrow> err + claims" where
  "VerifyRefresh I now token = token_verify I now token TokenRefresh"

section \<open>Tokens keep their claims\<close>

definition int64 :: "int \<Rightarrow> bool" where
  "int64 i \<longleftrightarrow> - (2 ^ 63) \<le> i \<and> i < 2 ^ 63"

definition claims_plain :: "claims \<Rightarrow> bool" where
  "claims_plain c \<longleftrightarrow> ascii (cl_Sub c) \<and> ascii (role_string (cl_Role c)) \<and> role_plain (cl_Role c) \<and> ascii (cl_Typ c)
     \<and> int64 (cl_Exp c) \<and> int64 (cl_Iat c)"

lemma role_value_string: "role_plain r \<Longrightarrow> role_value (role_string r) = r"
  by (cases r) (auto simp: role_value_def role_plain_def)

lemma literal_int_decimal: "int64 i \<Longrightarrow> literal_int (decimal i) = Some i"
proof -
  assume i: "int64 i"
  obtain c cs where ds: "nat_digits (nat i) = c # cs"
    by (cases "nat_digits (nat i)") auto
  have all: "\<forall>x \<in> set (nat_digits n). is_digit x" for n
    by (blast dest: nat_digits_is_digit)
  have "c \<noteq> CHR ''-''"
    using all [of "nat i"] ds by auto
  then have "(case decimal i of [] \<Rightarrow> [] | c # r \<Rightarrow> if c = CHR ''-'' then r else decimal i) = nat_digits (nat \<bar>i\<bar>)"
    by (cases "i < 0") (auto simp: decimal_def ds)
  with i all [of "nat \<bar>i\<bar>"] show ?thesis
    unfolding literal_int_def by (simp add: int64_def parse_decimal_decimal del: mem_simps)
qed

lemma tag_literals:
  "raw_ok ''alg''" "raw_ok ''typ''" "raw_ok ''sub''" "raw_ok ''role''" "raw_ok ''exp''" "raw_ok ''iat''"
  by (simp_all add: raw_ok_plain plain_text_def byte_in_def)

lemma claims_json_ok: "claims_plain c \<Longrightarrow> json_ok (claims_json c)"
  by (simp add: claims_json_def claims_plain_def jstr_def jint_def raw_ok_quote number_ok_decimal tag_literals)

lemma claims_field_named:
  "field_named claims_fields (json_unquote ''sub'') = Some (into_string (\<lambda>s c. c\<lparr>cl_Sub := s\<rparr>))"
  "field_named claims_fields (json_unquote ''role'') = Some (into_string (\<lambda>s c. c\<lparr>cl_Role := role_value s\<rparr>))"
  "field_named claims_fields (json_unquote ''typ'') = Some (into_string (\<lambda>s c. c\<lparr>cl_Typ := s\<rparr>))"
  "field_named claims_fields (json_unquote ''exp'') = Some (into_int (\<lambda>i c. c\<lparr>cl_Exp := i\<rparr>))"
  "field_named claims_fields (json_unquote ''iat'') = Some (into_int (\<lambda>i c. c\<lparr>cl_Iat := i\<rparr>))"
  by (simp_all add: field_named_def claims_fields_def json_unquote_plain plain_text_def byte_in_def)

lemma unmarshal_claims:
  assumes "claims_plain c"
  shows "unmarshal claims_fields (json_text (claims_json c)) r = (True, c)"
proof -
  have "json_document (json_text (claims_json c)) = Some (claims_json c)"
    by (rule json_document_text [OF claims_json_ok [OF assms]]) (simp add: claims_json_def jstr_def jint_def)
  with assms show ?thesis
    by (simp add: unmarshal_def into_struct_def claims_json_def claims_plain_def claims_field_named
        jstr_def jint_def into_string_def into_int_def literal_int_decimal role_value_string
        del: json_unquote.simps)
qed

lemma b64_no_dot: "CHR ''.'' \<notin> set (b64 bs)"
proof
  assume "CHR ''.'' \<in> set (b64 bs)"
  then have "CHR ''.'' \<in> set b64_url"
    unfolding b64_def by (rule b64_encode_chars [OF b64_alphabets(2)])
  then show False
    by (simp add: b64_url_def)
qed

lemma split_token: "split_on (CHR ''.'') (b64 h @ ''.'' @ b64 p @ ''.'' @ b64 s) = [b64 h, b64 p, b64 s]"
  using split_on_join [of "[b64 h, b64 p, b64 s]" "CHR ''.''"] by (simp add: b64_no_dot)

lemma verify_minted:
  assumes "mint I now userID r typ ttl = Inr token" and "claims_plain (minted_claims now userID r typ ttl)"
  shows "token_verify I later token want =
    (if typ = want \<and> unix_seconds later < unix_seconds (now + sint ttl)
     then Inr (minted_claims now userID r typ ttl) else invalid_token)"
proof -
  let ?c = "minted_claims now userID r typ ttl"
  let ?h = "b64 (json_text header_json)" and ?p = "b64 (json_text (claims_json ?c))"
  have token: "token = ?h @ ''.'' @ ?p @ ''.'' @ sign I (?h @ ''.'' @ ?p)"
    using assms(1) by (simp add: mint_def Let_def)
  have parts: "split_on (CHR ''.'') token = [?h, ?p, sign I (?h @ ''.'' @ ?p)]"
    unfolding token sign_def by (rule split_token)
  have dec: "b64_decode b64_url ?p = Some (json_text (claims_json ?c))"
    by (simp add: b64_def b64_decode_encode b64_alphabets)
  have "cl_Typ ?c = typ" "cl_Exp ?c = unix_seconds (now + sint ttl)"
    by (simp_all add: minted_claims_def)
  then show ?thesis
    by (auto simp: token_verify_def Let_def parts dec unmarshal_claims [OF assms(2)])
qed

text \<open>A token that is accepted carries the MAC of its first two parts.\<close>

lemma verify_accepts:
  assumes "token_verify I now token want = Inr c"
  shows "\<exists>h p. token = h @ ''.'' @ p @ ''.'' @ sign I (h @ ''.'' @ p) \<and> cl_Typ c = want \<and> unix_seconds now < cl_Exp c"
proof -
  let ?parts = "split_on (CHR ''.'') token"
  from assms have len: "length ?parts = 3" and mac: "sign I (?parts ! 0 @ ''.'' @ ?parts ! 1) = ?parts ! 2"
    and c: "cl_Typ c = want" "unix_seconds now < cl_Exp c"
    by (auto simp: token_verify_def Let_def invalid_token_def split: if_splits option.splits prod.splits)
  then obtain h p s where parts: "?parts = [h, p, s]"
    by (auto simp: numeral_3_eq_3 length_Suc_conv)
  have "token = join (CHR ''.'') ?parts"
    by (simp add: join_split_on)
  with mac c show ?thesis
    by (auto simp: parts)
qed


section \<open>Properties\<close>

text \<open>
  C35: an access token is accepted with the user and the role it was issued for, until the second its
  lifetime ends in and not in that second; it is never accepted where a refresh token is asked for.
\<close>

theorem access_token_roundtrip:
  assumes "Issue I now userID r = Inr token"
    and "ascii userID" and "ascii (role_string r)" and "role_plain r"
    and "int64 (unix_seconds now)" and "int64 (unix_seconds (now + sint (is_accessTTL I)))"
  shows "Verify I later token =
      (if unix_seconds later < unix_seconds (now + sint (is_accessTTL I))
       then Inr \<lparr>cl_Sub = userID, cl_Role = r, cl_Typ = TokenAccess,
         cl_Exp = unix_seconds (now + sint (is_accessTTL I)), cl_Iat = unix_seconds now\<rparr>
       else Inl (sentinel_err ErrInvalidToken))
    \<and> VerifyRefresh I later token = Inl (sentinel_err ErrInvalidToken)"
proof -
  have "claims_plain (minted_claims now userID r TokenAccess (is_accessTTL I))"
    using assms(2-) by (simp add: claims_plain_def minted_claims_def TokenAccess_def byte_in_def)
  from verify_minted [OF assms(1) [unfolded Issue_def] this, of later] show ?thesis
    by (simp add: Verify_def VerifyRefresh_def minted_claims_def invalid_token_def TokenAccess_def TokenRefresh_def)
qed

theorem access_token_roundtrip_witness:
  "\<exists>token. Issue (NewIssuer (\<lambda>k m. k @ m) ''key'' 900000000000 0) 0 ''ab12'' RoleAdmin = Inr token
     \<and> Verify (NewIssuer (\<lambda>k m. k @ m) ''key'' 900000000000 0) 899999999999 token =
         Inr \<lparr>cl_Sub = ''ab12'', cl_Role = RoleAdmin, cl_Typ = ''access'', cl_Exp = 900, cl_Iat = 0\<rparr>
     \<and> Verify (NewIssuer (\<lambda>k m. k @ m) ''key'' 900000000000 0) 900000000000 token = Inl (sentinel_err ErrInvalidToken)"
proof -
  let ?I = "NewIssuer (\<lambda>k m. k @ m) ''key'' 900000000000 0"
  obtain token where t: "Issue ?I 0 ''ab12'' RoleAdmin = Inr token"
    by (simp add: Issue_def mint_def Let_def)
  have ttl: "sint (is_accessTTL ?I) = 900000000000"
    by (simp add: NewIssuer_def)
  show ?thesis
    using access_token_roundtrip [OF t, of 899999999999] access_token_roundtrip [OF t, of 900000000000] t
    by (simp add: ttl byte_in_def role_plain_def int64_def unix_seconds_def TokenAccess_def)
qed

end
