(* ===== verification/App_Sessions.thy ===== *)
theory App_Sessions
  imports App_Accounts Auth_Token
begin

text \<open>
  The token operations of \<^verbatim>\<open>internal/app/auth.go\<close>: logging in and renewing a pair of tokens. The
  service's issuer is an argument; each token takes a clock reading of its own.
\<close>

record token_pair =
  tp_AccessToken :: string
  tp_RefreshToken :: string

definition issueTokens :: "env \<Rightarrow> issuer \<Rightarrow> user \<Rightarrow> (world, token_pair) act" where
  "issueTokens E I u =
     andThen (nowUTC E) (\<lambda>now.
     andThen (lift (Issue I now (u_ID u) (u_Role u))) (\<lambda>access.
     andThen (nowUTC E) (\<lambda>now.
     andThen (lift (IssueRefresh I now (u_ID u) (u_Role u))) (\<lambda>refresh.
     ret \<lparr>tp_AccessToken = access, tp_RefreshToken = refresh\<rparr>))))"

definition Login :: "env \<Rightarrow> issuer \<Rightarrow> string \<Rightarrow> string \<Rightarrow> (world, token_pair \<times> user) act" where
  "Login E I email password =
     andThen (attempt (reads (\<lambda>m. GetUserByEmail m (normal_email E email)))) (\<lambda>found.
     case found of
       Inl e \<Rightarrow> fail (sentinel_err ErrUnauthorized)
     | Inr u \<Rightarrow>
         andThen (guardE (\<not> VerifyPassword (env_pbkdf2 E) (u_PasswordHash u) password)
           (sentinel_err ErrUnauthorized)) (\<lambda>_.
         andThen (guardE (u_Status u \<noteq> UserActive)
           (Errorf ErrForbidden ''account is %s'' [user_status_string (u_Status u)])) (\<lambda>_.
         andThen (issueTokens E I u) (\<lambda>pair.
         ret (pair, u)))))"

text \<open>The reading \<^verbatim>\<open>verify\<close> takes for the expiry is drawn first; nothing else is between them.\<close>

definition Refresh :: "env \<Rightarrow> issuer \<Rightarrow> string \<Rightarrow> (world, token_pair) act" where
  "Refresh E I refreshToken =
     andThen (nowUTC E) (\<lambda>now.
     case VerifyRefresh I now refreshToken of
       Inl e \<Rightarrow> fail (sentinel_err ErrUnauthorized)
     | Inr cl \<Rightarrow>
         andThen (attempt (reads (\<lambda>m. GetUser m (cl_Sub cl)))) (\<lambda>found.
         case found of
           Inl e \<Rightarrow> fail (sentinel_err ErrUnauthorized)
         | Inr u \<Rightarrow>
             andThen (guardE (u_Status u \<noteq> UserActive)
               (Errorf ErrForbidden ''account is %s'' [user_status_string (u_Status u)])) (\<lambda>_.
             issueTokens E I u)))"

lemma issueTokens_apply [exec]:
  "issueTokens E I u w = (Inr \<lparr>tp_AccessToken = projr (Issue I (env_clock E (ticks w)) (u_ID u) (u_Role u)),
     tp_RefreshToken = projr (IssueRefresh I (env_clock E (Suc (ticks w))) (u_ID u) (u_Role u))\<rparr>,
     w\<lparr>ticks := Suc (Suc (ticks w))\<rparr>)"
  by (simp add: issueTokens_def exec Issue_def IssueRefresh_def mint_def Let_def)

text \<open>Neither changes more than the number of clock readings.\<close>

lemma Login_clock: "\<exists>k. snd (Login E I email password w) = w\<lparr>ticks := k\<rparr>"
  by (auto simp: Login_def exec split: sum.split intro: exI [of _ "ticks w"])

lemma Refresh_clock: "\<exists>k. snd (Refresh E I token w) = w\<lparr>ticks := k\<rparr>"
  by (auto simp: Refresh_def exec split: sum.split)

end
