(* ===== verification/Intelligence.thy ===== *)
theory Intelligence
  imports Domain_Group Domain_Ledger Float64 "HOL-Library.Signed_Division"
begin

text \<open>
  \<^verbatim>\<open>internal/intelligence\<close>: default risk, behaviour flags, the grouping of candidates and the
  liquidity forecast. Every float operation rounds (\<open>Float64\<close>), in the order the code writes them and
  without fusing; \<^verbatim>\<open>math.Exp\<close> is the argument \<open>ex\<close>. Values that overflow a double are not represented.
\<close>

section \<open>Default risk (risk.go)\<close>

record features =
  fe_Reliability :: real
  fe_PriorParticipations :: int
  fe_IncomeConsistency :: real
  fe_SpendingVolatility :: real
  fe_Expulsions :: int

definition FeaturesFromReputation :: "reputation_summary \<Rightarrow> features" where
  "FeaturesFromReputation s =
     \<lparr>fe_Reliability = rs_ReliabilityRatio s, fe_PriorParticipations = rs_PayoutsReceived s,
      fe_IncomeConsistency = 0, fe_SpendingVolatility = 0, fe_Expulsions = rs_Expulsions s\<rparr>"

record risk_score =
  rk_Probability :: real
  rk_Band :: string

record risk_weights =
  wt_Bias :: real
  wt_Reliability :: real
  wt_IncomeConsistency :: real
  wt_SpendingVolatility :: real
  wt_History :: real
  wt_Expulsion :: real

definition weights :: risk_weights where
  "weights =
     \<lparr>wt_Bias = f64_round (- 4 / 10), wt_Reliability = f64_round (- 32 / 10),
      wt_IncomeConsistency = f64_round (- 15 / 10), wt_SpendingVolatility = 2,
      wt_History = f64_round (- 12 / 10), wt_Expulsion = f64_round (18 / 10)\<rparr>"

definition clamp01 :: "real \<Rightarrow> real" where
  "clamp01 x = (if x < 0 then 0 else if 1 < x then 1 else x)"

definition sigmoid :: "(real \<Rightarrow> real) \<Rightarrow> real \<Rightarrow> real" where
  "sigmoid ex z = f64_div 1 (f64_add 1 (ex (- z)))"

definition band :: "real \<Rightarrow> string" where
  "band p = (if p < f64_round (1 / 5) then ''low'' else if p < f64_round (1 / 2) then ''medium'' else ''high'')"

definition ScoreDefaultRisk :: "(real \<Rightarrow> real) \<Rightarrow> features \<Rightarrow> risk_score" where
  "ScoreDefaultRisk ex f =
     (let history = f64_sub 1 (ex (f64_div (- f64_of_int (fe_PriorParticipations f)) 3));
          z = f64_add (f64_add (f64_add (f64_add (f64_add (wt_Bias weights)
                (f64_mul (wt_Reliability weights) (clamp01 (fe_Reliability f))))
                (f64_mul (wt_IncomeConsistency weights) (clamp01 (fe_IncomeConsistency f))))
                (f64_mul (wt_SpendingVolatility weights) (clamp01 (fe_SpendingVolatility f))))
                (f64_mul (wt_History weights) history))
                (f64_mul (wt_Expulsion weights) (f64_of_int (fe_Expulsions f)));
          p = sigmoid ex z
      in \<lparr>rk_Probability = p, rk_Band = band p\<rparr>)"

section \<open>Behaviour (behavioral.go)\<close>

datatype flag_level = FlagNone | FlagWatch | FlagAtRisk

fun flag_level_string :: "flag_level \<Rightarrow> string" where
  "flag_level_string FlagNone = ''none''"
| "flag_level_string FlagWatch = ''watch''"
| "flag_level_string FlagAtRisk = ''at_risk''"

record behavior_flag =
  bf_UserID :: string
  bf_Level :: flag_level
  bf_Reasons :: "string list"

fun rank :: "flag_level \<Rightarrow> int" where
  "rank FlagAtRisk = 2"
| "rank FlagWatch = 1"
| "rank FlagNone = 0"

definition escalate :: "flag_level \<Rightarrow> string \<Rightarrow> behavior_flag \<Rightarrow> behavior_flag" where
  "escalate level reason f =
     (let f = f\<lparr>bf_Reasons := bf_Reasons f @ [reason]\<rparr>
      in if rank (bf_Level f) < rank level then f\<lparr>bf_Level := level\<rparr> else f)"

text \<open>The loop from the last event backwards.\<close>

fun miss_streak :: "int \<Rightarrow> reputation_event list \<Rightarrow> int" where
  "miss_streak streak [] = streak"
| "miss_streak streak (e # es) =
     (case r_Type e of
        EventContributionMissed \<Rightarrow> miss_streak (streak + 1) es
      | EventContributionMade \<Rightarrow> streak
      | _ \<Rightarrow> miss_streak streak es)"

definition trailingMissStreak :: "reputation_event list \<Rightarrow> int" where
  "trailingMissStreak events = miss_streak 0 (rev events)"

text \<open>\<^verbatim>\<open>Time.Sub\<close> saturates at the ends of the 64-bit range.\<close>

definition time_sub :: "time \<Rightarrow> time \<Rightarrow> int" where
  "time_sub t u = max (- (2 ^ 63)) (min (2 ^ 63 - 1) (t - u))"

definition hour :: int where
  "hour = 3600000000000"

definition MonitorMember ::
  "string \<Rightarrow> reputation_summary \<Rightarrow> reputation_event list \<Rightarrow> cycle \<Rightarrow> bool \<Rightarrow> time \<Rightarrow> behavior_flag" where
  "MonitorMember userID summary recent cyc paidThisCycle now =
     (let flag = \<lparr>bf_UserID = userID, bf_Level = FlagNone, bf_Reasons = []\<rparr>;
          window = time_sub (c_Deadline cyc) now;
          flag = (if \<not> paidThisCycle \<and> \<not> c_Settled cyc
                  then if window \<le> 0 then escalate FlagAtRisk ''contribution past deadline and unpaid'' flag
                       else if window \<le> 24 * hour then escalate FlagAtRisk ''unpaid with <24h to deadline'' flag
                       else if window \<le> 72 * hour then escalate FlagWatch ''unpaid with <72h to deadline'' flag
                       else flag
                  else flag);
          streak = trailingMissStreak recent;
          flag = (if 2 \<le> streak then escalate FlagAtRisk ''two or more consecutive missed contributions'' flag
                  else if streak = 1 then escalate FlagWatch ''missed the previous contribution'' flag
                  else flag)
      in if 3 \<le> rs_ContributionsMade summary + rs_ContributionsMissed summary
            \<and> rs_ReliabilityRatio summary < f64_round (3 / 5)
         then escalate FlagWatch ''reliability below 60%'' flag
         else flag)"

section \<open>Grouping of candidates (optimizer.go)\<close>

record candidate =
  cd_UserID :: string
  cd_Risk :: real

record proposed_group =
  pg_Members :: "string list"
  pg_AvgRisk :: real
  pg_SurvivalScore :: real

definition summariseGroup :: "candidate list \<Rightarrow> proposed_group" where
  "summariseGroup members =
     (let ids = map cd_UserID members;
          total = foldl (\<lambda>s m. f64_add s (cd_Risk m)) 0 members;
          survival = foldl (\<lambda>s m. f64_mul s (f64_sub 1 (cd_Risk m))) 1 members;
          avg = (if members \<noteq> [] then f64_div total (f64_of_int (int (length members))) else 0)
      in \<lparr>pg_Members = ids, pg_AvgRisk = avg, pg_SurvivalScore = survival\<rparr>)"

text \<open>The snake draft: \<open>g\<close> is the group that gets the next candidate, \<open>dir\<close> the direction.\<close>

fun snake_draft :: "nat \<Rightarrow> candidate list list \<Rightarrow> int \<Rightarrow> int \<Rightarrow> candidate list \<Rightarrow> candidate list list" where
  "snake_draft n gs g dir [] = gs"
| "snake_draft n gs g dir (c # cs) =
     (let gs = gs[nat g := gs ! nat g @ [c]]; g = g + dir
      in if g = int n then snake_draft n gs (int n - 1) (- 1) cs
         else if g < 0 then snake_draft n gs 0 1 cs
         else snake_draft n gs g dir cs)"

text \<open>\<^verbatim>\<open>nil\<close> is the empty slice here; the JSON shows the difference as \<^verbatim>\<open>null\<close>.\<close>

definition OptimizeGroups :: "candidate list \<Rightarrow> int \<Rightarrow> proposed_group list option" where
  "OptimizeGroups candidates groupSize =
     (if groupSize \<le> 0 \<or> int (length candidates) < groupSize then None
      else let sorted_cs = sort_key cd_Risk candidates;
               numGroups = length sorted_cs div nat groupSize;
               gs = snake_draft numGroups (replicate numGroups []) 0 1 (take (numGroups * nat groupSize) sorted_cs)
           in Some (map summariseGroup gs))"

section \<open>Liquidity (liquidity.go)\<close>

record member_risk =
  mr_UserID :: string
  mr_Risk :: real

record liquidity_assessment =
  la_GroupID :: string
  la_CycleIndex :: int
  la_ExpectedInflow :: money
  la_PredictedShortfall :: money
  la_EscrowBalance :: money
  la_CollapseProbability :: real
  la_Level :: string

text \<open>\<^verbatim>\<open>domain.Money(x)\<close> cuts a double towards zero.\<close>

definition money_of_float :: "real \<Rightarrow> money" where
  "money_of_float x = word_of_int (if 0 \<le> x then \<lfloor>x\<rfloor> else \<lceil>x\<rceil>)"

definition predicted_shortfall :: "money \<Rightarrow> member_risk list \<Rightarrow> money" where
  "predicted_shortfall contribution members =
     foldl (\<lambda>s m. s + money_of_float (f64_mul (f64_of_int (sint contribution)) (clamp01 (mr_Risk m)))) 0 members"

definition no_default :: "member_risk list \<Rightarrow> real" where
  "no_default members = foldl (\<lambda>p m. f64_mul p (f64_sub 1 (clamp01 (mr_Risk m)))) 1 members"

definition AssessLiquidity :: "string \<Rightarrow> int \<Rightarrow> money \<Rightarrow> money \<Rightarrow> member_risk list \<Rightarrow> liquidity_assessment" where
  "AssessLiquidity groupID cycleIndex contribution escrow members =
     (let expected = contribution * of_nat (length members);
          shortfall = predicted_shortfall contribution members;
          collapse = f64_sub 1 (no_default members);
          available = escrow + expected - shortfall;
          eighty = word_of_int (sint (expected * 8) sdiv 10) :: money;
          level = (if sint expected \<le> sint available \<and> collapse < f64_round (1 / 4) then ''ok''
                   else if sint eighty \<le> sint available \<and> collapse < f64_round (1 / 2) then ''stressed''
                   else ''critical'')
      in \<lparr>la_GroupID = groupID, la_CycleIndex = cycleIndex, la_ExpectedInflow = expected,
          la_PredictedShortfall = shortfall, la_EscrowBalance = escrow, la_CollapseProbability = collapse,
          la_Level = level\<rparr>)"

section \<open>The draft deals every group the same number\<close>

text \<open>
  After \<open>q\<close> full rounds and \<open>r\<close> candidates of the next: going up, the groups before position \<open>r\<close> have one
  more; going down, the last \<open>r\<close> of them.
\<close>

definition dealt :: "nat \<Rightarrow> nat \<Rightarrow> nat \<Rightarrow> bool \<Rightarrow> candidate list list \<Rightarrow> bool" where
  "dealt n q r up gs \<longleftrightarrow> length gs = n \<and>
     (\<forall>j < n. length (gs ! j) = q + (if (if up then j < r else n - r \<le> j) then 1 else 0))"

definition turn :: "nat \<Rightarrow> nat \<Rightarrow> bool \<Rightarrow> int" where
  "turn n r up = (if up then int r else int n - 1 - int r)"

lemma dealt_one:
  assumes "dealt n q r up gs" and "r < n"
  shows "dealt n q (Suc r) up (gs[nat (turn n r up) := gs ! nat (turn n r up) @ [c]])"
  using assms by (auto simp: dealt_def turn_def nth_list_update nat_diff_distrib' split: if_splits)

lemma dealt_round: "dealt n q n up gs \<longleftrightarrow> dealt n (Suc q) 0 (\<not> up) gs"
  by (cases up) (simp_all add: dealt_def)

abbreviation direction :: "bool \<Rightarrow> int" where
  "direction up \<equiv> if up then 1 else - 1"

lemma snake_draft_Cons:
  assumes "r < n"
  shows "snake_draft n gs (turn n r up) (direction up) (c # cs) =
    (let gs' = gs[nat (turn n r up) := gs ! nat (turn n r up) @ [c]]
     in if Suc r = n then snake_draft n gs' (turn n 0 (\<not> up)) (direction (\<not> up)) cs
        else snake_draft n gs' (turn n (Suc r) up) (direction up) cs)"
  using assms by (cases up) (auto simp: turn_def Let_def add.commute [of 1])

lemma snake_draft_dealt:
  assumes "dealt n q r up gs" and "r < n"
  shows "\<exists>q' r' up'. dealt n q' r' up' (snake_draft n gs (turn n r up) (direction up) cs)
    \<and> r' < n \<and> q' * n + r' = q * n + r + length cs"
  using assms
proof (induction cs arbitrary: gs q r up)
  case Nil
  then show ?case
    by auto
next
  case (Cons c cs)
  let ?gs = "gs[nat (turn n r up) := gs ! nat (turn n r up) @ [c]]"
  have d: "dealt n q (Suc r) up ?gs"
    using Cons.prems by (rule dealt_one)
  show ?case
  proof (cases "Suc r = n")
    case True
    then have "dealt n (Suc q) 0 (\<not> up) ?gs" and "0 < n"
      using d dealt_round by simp_all
    from Cons.IH [OF this] obtain q' r' up' where
      "dealt n q' r' up' (snake_draft n ?gs (turn n 0 (\<not> up)) (direction (\<not> up)) cs)"
      "r' < n" "q' * n + r' = Suc q * n + 0 + length cs"
      by blast
    with True show ?thesis
      unfolding snake_draft_Cons [OF Cons.prems(2)] Let_def
      by (intro exI [of _ q'] exI [of _ r'] exI [of _ up']) simp
  next
    case False
    with Cons.prems(2) have "Suc r < n"
      by simp
    from Cons.IH [OF d this] obtain q' r' up' where
      "dealt n q' r' up' (snake_draft n ?gs (turn n (Suc r) up) (direction up) cs)"
      "r' < n" "q' * n + r' = q * n + Suc r + length cs"
      by blast
    with False show ?thesis
      unfolding snake_draft_Cons [OF Cons.prems(2)] Let_def
      by (intro exI [of _ q'] exI [of _ r'] exI [of _ up']) simp
  qed
qed

lemma mset_concat_update:
  "i < length gs \<Longrightarrow> mset (concat (gs[i := gs ! i @ [c]])) = add_mset c (mset (concat gs))"
  by (induction gs arbitrary: i) (auto split: nat.split simp: nth_Cons)

lemma snake_draft_mset:
  assumes "length gs = n" and "r < n"
  shows "mset (concat (snake_draft n gs (turn n r up) (direction up) cs)) = mset (concat gs) + mset cs"
  using assms
proof (induction cs arbitrary: gs r up)
  case (Cons c cs)
  let ?gs = "gs[nat (turn n r up) := gs ! nat (turn n r up) @ [c]]"
  have one: "mset (concat ?gs) = add_mset c (mset (concat gs))"
    using Cons.prems by (intro mset_concat_update) (auto simp: turn_def)
  have len: "length ?gs = n"
    using Cons.prems by simp
  then show ?case
    unfolding snake_draft_Cons [OF Cons.prems(2)] Let_def
    using Cons.IH [OF len, of 0 "\<not> up"] Cons.IH [OF len, of "Suc r" up] Cons.prems one by simp
qed simp

text \<open>A draft of as many candidates as fill \<open>n\<close> groups of \<open>k\<close> fills them.\<close>

lemma snake_draft_fills:
  assumes "length cs = n * k" and "0 < n"
  shows "length (snake_draft n (replicate n []) 0 1 cs) = n"
    and "\<forall>g \<in> set (snake_draft n (replicate n []) 0 1 cs). length g = k"
    and "mset (concat (snake_draft n (replicate n []) 0 1 cs)) = mset cs"
proof -
  let ?gs = "snake_draft n (replicate n []) 0 1 cs"
  have start: "dealt n 0 0 True (replicate n [])" "turn n 0 True = 0"
    by (simp_all add: dealt_def turn_def)
  obtain q r up where d: "dealt n q r up ?gs" and "r < n" and total: "q * n + r = n * k"
    using snake_draft_dealt [OF start(1) assms(2), of cs] by (auto simp: start(2) assms(1))
  then have "(q * n + r) mod n = 0"
    by simp
  then have r: "r = 0"
    using \<open>r < n\<close> by simp
  then have "q = k"
    using total assms(2) by simp
  with d r show "length ?gs = n" "\<forall>g \<in> set ?gs. length g = k"
    by (auto simp: dealt_def in_set_conv_nth split: if_splits)
  show "mset (concat ?gs) = mset cs"
    using snake_draft_mset [of "replicate n []" n 0 True cs] assms(2) by (simp add: start(2))
qed

text \<open>
  C37: for a positive size the optimizer answers exactly when there are at least as many candidates. It
  then makes as many groups as they fill, each of exactly the size asked for; together they hold each of
  the least risky candidates once, and no candidate left out is less risky than one taken.
\<close>

theorem OptimizeGroups_balanced:
  "if 0 < groupSize \<and> groupSize \<le> int (length candidates)
   then \<exists>out chosen rest. OptimizeGroups candidates groupSize = Some out
      \<and> length out = length candidates div nat groupSize \<and> (\<forall>p \<in> set out. int (length (pg_Members p)) = groupSize)
      \<and> mset (concat (map pg_Members out)) = mset (map cd_UserID chosen)
      \<and> mset chosen + mset rest = mset candidates \<and> (\<forall>c \<in> set chosen. \<forall>d \<in> set rest. cd_Risk c \<le> cd_Risk d)
   else OptimizeGroups candidates groupSize = None"
proof (cases "0 < groupSize \<and> groupSize \<le> int (length candidates)")
  case True
  define k where "k = nat groupSize"
  define n where "n = length candidates div k"
  define xs where "xs = sort_key cd_Risk candidates"
  define cs where "cs = take (n * k) xs"
  define gs where "gs = snake_draft n (replicate n []) 0 1 cs"
  have out: "OptimizeGroups candidates groupSize = Some (map summariseGroup gs)"
    using True by (simp add: OptimizeGroups_def Let_def gs_def cs_def xs_def n_def k_def)
  from True have k: "0 < k" "k \<le> length candidates" "int k = groupSize"
    unfolding k_def by linarith+
  then have n: "0 < n" "n * k \<le> length xs"
    by (simp_all add: n_def xs_def div_greater_zero_iff)
  then have len: "length cs = n * k"
    by (simp add: cs_def)
  note gs = snake_draft_fills [OF len n(1), folded gs_def]
  have "mset (concat (map pg_Members (map summariseGroup gs))) = mset (map cd_UserID cs)"
    using gs(3) by (simp add: summariseGroup_def comp_def flip: map_concat)
  moreover have "mset cs + mset (drop (n * k) xs) = mset candidates"
    unfolding cs_def by (simp flip: mset_append) (simp add: xs_def)
  moreover have "\<forall>c \<in> set cs. \<forall>d \<in> set (drop (n * k) xs). cd_Risk c \<le> cd_Risk d"
  proof -
    have "sorted (map cd_Risk (cs @ drop (n * k) xs))"
      unfolding cs_def append_take_drop_id by (simp add: xs_def)
    then show ?thesis
      by (auto simp: sorted_append)
  qed
  moreover have "length (map summariseGroup gs) = length candidates div nat groupSize"
    "\<forall>p \<in> set (map summariseGroup gs). int (length (pg_Members p)) = groupSize"
    using gs(1,2) k(3) by (auto simp: n_def k_def [symmetric] summariseGroup_def)
  ultimately show ?thesis
    using out True by (simp only: if_P conj_assoc) blast
next
  case False
  then show ?thesis
    by (simp add: OptimizeGroups_def not_le not_less) linarith
qed

theorem OptimizeGroups_balanced_witness:
  "\<exists>out. OptimizeGroups [\<lparr>cd_UserID = ''a'', cd_Risk = 0\<rparr>, \<lparr>cd_UserID = ''b'', cd_Risk = 1\<rparr>,
       \<lparr>cd_UserID = ''c'', cd_Risk = 0\<rparr>] 3 = Some out \<and> length out = 1
     \<and> (\<forall>p \<in> set out. length (pg_Members p) = 3)"
  using OptimizeGroups_balanced [of 3 "[\<lparr>cd_UserID = ''a'', cd_Risk = 0\<rparr>, \<lparr>cd_UserID = ''b'', cd_Risk = 1\<rparr>,
       \<lparr>cd_UserID = ''c'', cd_Risk = 0\<rparr>]"]
  by auto

end
