(* ===== verification/App_Intelligence.thy ===== *)
theory App_Intelligence
  imports App_Accounts Intelligence
begin

text \<open>
  \<^verbatim>\<open>internal/app/intelligence.go\<close> and the liquidity board of \<^verbatim>\<open>admin.go\<close>: the advisory engines on
  what the store holds. None of them changes more than the count of clock readings.
\<close>

definition ScoreRisk :: "(real \<Rightarrow> real) \<Rightarrow> string \<Rightarrow> features \<Rightarrow> (world, risk_score) act" where
  "ScoreRisk ex userID offchain =
     andThen (Reputation userID) (\<lambda>summary.
     let f = FeaturesFromReputation summary;
         f = f\<lparr>fe_IncomeConsistency := fe_IncomeConsistency offchain,
               fe_SpendingVolatility := fe_SpendingVolatility offchain\<rparr>;
         f = (if fe_PriorParticipations f < fe_PriorParticipations offchain
              then f\<lparr>fe_PriorParticipations := fe_PriorParticipations offchain\<rparr> else f)
     in ret (ScoreDefaultRisk ex f))"

definition memberRisk :: "(real \<Rightarrow> real) \<Rightarrow> memory \<Rightarrow> string \<Rightarrow> real" where
  "memberRisk ex m userID =
     (let summary = SummariseReputation userID (ReputationEvents m userID);
          f = (FeaturesFromReputation summary)\<lparr>fe_IncomeConsistency := f64_round (1 / 2), fe_SpendingVolatility := f64_round (1 / 2)\<rparr>
      in rk_Probability (ScoreDefaultRisk ex f))"

definition MonitorGroup :: "env \<Rightarrow> string \<Rightarrow> (world, behavior_flag list) act" where
  "MonitorGroup E groupID =
     andThen (reads (\<lambda>m. GetGroup m groupID)) (\<lambda>g.
     andThen (CurrentCycle groupID) (\<lambda>cyc.
     andThen (lists (\<lambda>m. ListContributionsByCycle m groupID (c_Index cyc))) (\<lambda>contribs.
     let paid = (\<lambda>uid. uid \<in> set (map co_UserID contribs))
     in andThen (nowUTC E) (\<lambda>now.
        lists (\<lambda>m. map (\<lambda>uid.
          MonitorMember uid (SummariseReputation uid (ReputationEvents m uid)) (ReputationEvents m uid) cyc (paid uid) now)
          (g_Members g))))))"

text \<open>The assessment reads only; the board calls it for one group after the other.\<close>

definition assess_group :: "(real \<Rightarrow> real) \<Rightarrow> memory \<Rightarrow> string \<Rightarrow> err + liquidity_assessment" where
  "assess_group ex m groupID =
     (case GetGroup m groupID of
        Inl e \<Rightarrow> Inl e
      | Inr g \<Rightarrow>
          let cycleIdx = (case current_cycle m groupID of Inr cur \<Rightarrow> c_Index cur | Inl _ \<Rightarrow> 0);
              entries = ListEscrowByGroup m groupID;
              risks = map (\<lambda>uid. \<lparr>mr_UserID = uid, mr_Risk = memberRisk ex m uid\<rparr>) (g_Members g)
          in Inr (AssessLiquidity groupID cycleIdx (g_ContributionAmount g) (EscrowBalance entries) risks))"

definition AssessGroupLiquidity :: "(real \<Rightarrow> real) \<Rightarrow> string \<Rightarrow> (world, liquidity_assessment) act" where
  "AssessGroupLiquidity ex groupID = reads (\<lambda>m. assess_group ex m groupID)"

fun liquidity_rows :: "(real \<Rightarrow> real) \<Rightarrow> memory \<Rightarrow> group list \<Rightarrow> liquidity_assessment list" where
  "liquidity_rows ex m [] = []"
| "liquidity_rows ex m (g # gs) =
     (if g_State g \<noteq> GroupActive then liquidity_rows ex m gs
      else case assess_group ex m (g_ID g) of
             Inl e \<Rightarrow> liquidity_rows ex m gs
           | Inr a \<Rightarrow> a # liquidity_rows ex m gs)"

definition LiquidityBoard :: "(real \<Rightarrow> real) \<Rightarrow> (world, liquidity_assessment list) act" where
  "LiquidityBoard ex = lists (\<lambda>m. liquidity_rows ex m (fst (ListGroups m \<lparr>p_Offset = 0, p_Limit = 100000\<rparr>)))"

section \<open>What they leave\<close>

lemma ScoreRisk_keeps: "snd (ScoreRisk ex uid f w) = w"
  by (simp add: ScoreRisk_def Reputation_def exec Let_def)

lemma AssessGroupLiquidity_keeps: "snd (AssessGroupLiquidity ex gid w) = w"
  by (simp add: AssessGroupLiquidity_def exec)

lemma LiquidityBoard_keeps: "snd (LiquidityBoard ex w) = w"
  by (simp add: LiquidityBoard_def exec)

lemma MonitorGroup_clock: "\<exists>k. snd (MonitorGroup E gid w) = w\<lparr>ticks := k\<rparr>"
  by (auto simp: MonitorGroup_def CurrentCycle_def exec Let_def split: sum.split intro: exI [of _ "ticks w"])

section \<open>Bounds of the risk\<close>

text \<open>The exponential is never negative, so a probability is one.\<close>

lemma sigmoid_unit:
  assumes "0 \<le> ex (- z)"
  shows "0 \<le> sigmoid ex z \<and> sigmoid ex z \<le> 1"
proof -
  have one: "1 \<le> f64_add 1 (ex (- z))"
    using f64_round_mono [of 1 "1 + ex (- z)"] assms by (simp add: f64_add_def)
  then have "0 \<le> 1 / f64_add 1 (ex (- z))" "1 / f64_add 1 (ex (- z)) \<le> 1"
    by (simp_all add: divide_le_eq)
  then show ?thesis
    using f64_round_mono [of "1 / f64_add 1 (ex (- z))" 1] f64_round_nonneg [of "1 / f64_add 1 (ex (- z))"]
    by (simp add: sigmoid_def f64_div_def)
qed

lemma memberRisk_unit: "(\<And>x. 0 \<le> ex x) \<Longrightarrow> 0 \<le> memberRisk ex m uid \<and> memberRisk ex m uid \<le> 1"
  by (simp add: memberRisk_def ScoreDefaultRisk_def Let_def sigmoid_unit)

lemma clamp01_unit: "0 \<le> clamp01 x \<and> clamp01 x \<le> 1"
  by (simp add: clamp01_def)

lemma f64_sub_unit: "0 \<le> x \<Longrightarrow> x \<le> 1 \<Longrightarrow> 0 \<le> f64_sub 1 x \<and> f64_sub 1 x \<le> 1"
  using f64_round_mono [of "1 - x" 1] f64_round_nonneg [of "1 - x"] by (simp add: f64_sub_def)

lemma f64_mul_unit: "0 \<le> x \<Longrightarrow> x \<le> 1 \<Longrightarrow> 0 \<le> y \<Longrightarrow> y \<le> 1 \<Longrightarrow> 0 \<le> f64_mul x y \<and> f64_mul x y \<le> 1"
  using f64_round_mono [of "x * y" 1] f64_round_nonneg [of "x * y"] by (simp add: f64_mul_def mult_le_one)

lemma no_default_unit: "0 \<le> no_default ms \<and> no_default ms \<le> 1"
proof -
  have "0 \<le> p \<Longrightarrow> p \<le> 1 \<Longrightarrow> 0 \<le> foldl (\<lambda>p m. f64_mul p (f64_sub 1 (clamp01 (mr_Risk m)))) p ms
      \<and> foldl (\<lambda>p m. f64_mul p (f64_sub 1 (clamp01 (mr_Risk m)))) p ms \<le> 1" for p
    by (induction ms arbitrary: p) (simp_all add: f64_mul_unit f64_sub_unit clamp01_unit)
  then show ?thesis
    by (simp add: no_default_def)
qed

lemma collapse_unit: "0 \<le> la_CollapseProbability (AssessLiquidity g i c e ms) \<and> la_CollapseProbability (AssessLiquidity g i c e ms) \<le> 1"
  by (simp add: AssessLiquidity_def Let_def f64_sub_unit no_default_unit)

end
