(* ===== verification/Http_Views.thy ===== *)
theory Http_Views
  imports Duration_Text App_Sessions App_Intelligence
begin

text \<open>
  The JSON the API answers with: one function per struct, following its field tags, with
  \<^verbatim>\<open>omitempty\<close> and \<^verbatim>\<open>json:"-"\<close>; maps print their keys in order. \<open>fl\<close> prints a float. A slice that is
  only built by appending to nil is \<^verbatim>\<open>null\<close> when empty. Times are the texts of the years 1 to 9999.
\<close>

section \<open>Values\<close>

definition jtime :: "time \<Rightarrow> json" where
  "jtime t = JString (tstr t)"

definition jmoney :: "money \<Rightarrow> json" where
  "jmoney m = jint (sint m)"

definition jslice :: "('a \<Rightarrow> json) \<Rightarrow> 'a list \<Rightarrow> json" where
  "jslice f xs = JArray (map f xs)"

definition jnilslice :: "('a \<Rightarrow> json) \<Rightarrow> 'a list \<Rightarrow> json" where
  "jnilslice f xs = (if xs = [] then JNull else JArray (map f xs))"

definition omit_nil :: "string \<Rightarrow> time option \<Rightarrow> (string \<times> json) list" where
  "omit_nil k t = (case t of None \<Rightarrow> [] | Some t \<Rightarrow> [(k, jtime t)])"

definition omit_blank :: "string \<Rightarrow> string \<Rightarrow> (string \<times> json) list" where
  "omit_blank k s = (if s = [] then [] else [(k, jstr s)])"

section \<open>Structs\<close>

definition user_json :: "user \<Rightarrow> json" where
  "user_json u = JObject
     [(''id'', jstr (u_ID u)), (''email'', jstr (u_Email u)), (''display_name'', jstr (u_DisplayName u)),
      (''wallet_address'', jstr (u_WalletAddress u)), (''identity_commitment'', jstr (u_IdentityCommitment u)),
      (''kyc_provider'', jstr (u_KYCProvider u)), (''kyc_status'', jstr (kyc_status_string (u_KYCStatus u))),
      (''role'', jstr (role_string (u_Role u))), (''status'', jstr (user_status_string (u_Status u))),
      (''created_at'', jtime (u_CreatedAt u)), (''updated_at'', jtime (u_UpdatedAt u))]"

definition group_json :: "group \<Rightarrow> json" where
  "group_json g = JObject
     ([(''id'', jstr (g_ID g)), (''contract_address'', jstr (g_ContractAddress g)), (''name'', jstr (g_Name g)),
       (''organizer_id'', jstr (g_OrganizerID g)), (''contribution_amount'', jmoney (g_ContributionAmount g)),
       (''cycle_length'', duration_json (g_CycleLength g)), (''max_members'', jint (g_MaxMembers g)),
       (''total_cycles'', jint (g_TotalCycles g)), (''members'', jnilslice jstr (g_Members g)),
       (''payout_order'', jnilslice jstr (g_PayoutOrder g)), (''state'', jstr (group_state_string (g_State g))),
       (''created_at'', jtime (g_CreatedAt g))] @ omit_nil ''activated_at'' (g_ActivatedAt g))"

definition membership_json :: "membership \<Rightarrow> json" where
  "membership_json m = JObject
     [(''id'', jstr (m_ID m)), (''group_id'', jstr (m_GroupID m)), (''user_id'', jstr (m_UserID m)),
      (''organizer'', JBool (m_Organizer m)), (''status'', jstr (membership_status_string (m_Status m))),
      (''joined_at'', jtime (m_JoinedAt m))]"

definition join_request_json :: "join_request \<Rightarrow> json" where
  "join_request_json j = JObject
     ([(''id'', jstr (j_ID j)), (''group_id'', jstr (j_GroupID j)), (''user_id'', jstr (j_UserID j)),
       (''status'', jstr (join_request_status_string (j_Status j))), (''created_at'', jtime (j_CreatedAt j))]
      @ omit_nil ''decided_at'' (j_DecidedAt j) @ omit_blank ''decided_by'' (j_DecidedBy j))"

definition invitation_json :: "invitation \<Rightarrow> json" where
  "invitation_json i = JObject
     [(''id'', jstr (i_ID i)), (''group_id'', jstr (i_GroupID i)), (''user_id'', jstr (i_UserID i)),
      (''invited_by'', jstr (i_InvitedBy i)), (''status'', jstr (invitation_status_string (i_Status i))),
      (''created_at'', jtime (i_CreatedAt i))]"

definition cycle_json :: "cycle \<Rightarrow> json" where
  "cycle_json c = JObject
     [(''group_id'', jstr (c_GroupID c)), (''index'', jint (c_Index c)), (''deadline'', jtime (c_Deadline c)),
      (''payout_user'', jstr (c_PayoutUser c)), (''settled'', JBool (c_Settled c))]"

definition contribution_json :: "contribution \<Rightarrow> json" where
  "contribution_json c = JObject
     ([(''id'', jstr (co_ID c)), (''group_id'', jstr (co_GroupID c)), (''user_id'', jstr (co_UserID c)),
       (''cycle_index'', jint (co_CycleIndex c)), (''amount'', jmoney (co_Amount c)),
       (''commitment'', jstr (co_Commitment c)), (''revealed'', JBool (co_Revealed c))]
      @ omit_nil ''paid_at'' (co_PaidAt c))"

definition payout_json :: "payout \<Rightarrow> json" where
  "payout_json p = JObject
     [(''id'', jstr (po_ID p)), (''group_id'', jstr (po_GroupID p)), (''cycle_index'', jint (po_CycleIndex p)),
      (''payee_user_id'', jstr (po_PayeeUserID p)), (''gross_amount'', jmoney (po_GrossAmount p)),
      (''expected_amount'', jmoney (po_ExpectedAmount p)), (''shortfall'', jmoney (po_Shortfall p)),
      (''disbursement_ref'', jstr (po_DisbursementRef p)), (''settled_at'', jtime (po_SettledAt p))]"

definition audit_json :: "audit_entry \<Rightarrow> json" where
  "audit_json a = JObject
     [(''id'', jstr (a_ID a)), (''actor_id'', jstr (a_ActorID a)), (''action'', jstr (a_Action a)),
      (''target'', jstr (a_Target a)), (''detail'', jstr (a_Detail a)), (''created_at'', jtime (a_CreatedAt a))]"

definition notification_json :: "notification \<Rightarrow> json" where
  "notification_json n = JObject
     [(''id'', jstr (n_ID n)), (''user_id'', jstr (n_UserID n)), (''kind'', jstr (notification_kind_string (n_Kind n))),
      (''title'', jstr (n_Title n)), (''body'', jstr (n_Body n)), (''read'', JBool (n_Read n)),
      (''created_at'', jtime (n_CreatedAt n))]"

definition webhook_json :: "webhook \<Rightarrow> json" where
  "webhook_json w = JObject
     ([(''id'', jstr (w_ID w)), (''url'', jstr (w_URL w))] @ omit_blank ''secret'' (w_Secret w)
      @ [(''active'', JBool (w_Active w)), (''created_by'', jstr (w_CreatedBy w)), (''created_at'', jtime (w_CreatedAt w))])"

definition reputation_event_json :: "reputation_event \<Rightarrow> json" where
  "reputation_event_json e = JObject
     [(''id'', jstr (r_ID e)), (''user_id'', jstr (r_UserID e)), (''group_id'', jstr (r_GroupID e)),
      (''cycle_index'', jint (r_CycleIndex e)), (''type'', jstr (event_type_string (r_Type e))),
      (''amount'', jmoney (r_Amount e)), (''proof_hash'', jstr (r_ProofHash e)), (''timestamp'', jtime (r_Timestamp e))]"

definition summary_json :: "(real \<Rightarrow> string) \<Rightarrow> reputation_summary \<Rightarrow> json" where
  "summary_json fl s = JObject
     [(''user_id'', jstr (rs_UserID s)), (''contributions_made'', jint (rs_ContributionsMade s)),
      (''contributions_missed'', jint (rs_ContributionsMissed s)), (''payouts_received'', jint (rs_PayoutsReceived s)),
      (''group_exits'', jint (rs_GroupExits s)), (''expulsions'', jint (rs_Expulsions s)),
      (''total_contributed'', jmoney (rs_TotalContributed s)), (''total_missed'', jmoney (rs_TotalMissed s)),
      (''reliability_ratio'', JNumber (fl (rs_ReliabilityRatio s)))]"

definition my_group_json :: "my_group_membership \<Rightarrow> json" where
  "my_group_json g = JObject
     [(''group'', group_json (mg_Group g)), (''organizer'', JBool (mg_Organizer g)),
      (''status'', jstr (membership_status_string (mg_Status g)))]"

definition cycle_status_json :: "cycle_status \<Rightarrow> json" where
  "cycle_status_json s = JObject
     [(''cycle'', cycle_json (cs_Cycle s)),
      (''members'', jnilslice (\<lambda>m. JObject [(''user_id'', jstr (ms_UserID m)), (''paid'', JBool (ms_Paid m))]) (cs_Members s)),
      (''collected'', jmoney (cs_Collected s)), (''expected'', jmoney (cs_Expected s))]"

definition overview_json :: "platform_overview \<Rightarrow> json" where
  "overview_json ov = JObject
     [(''users'', jint (ov_Users ov)),
      (''groups_by_state'', JObject (List.map_filter
        (\<lambda>st. map_option (\<lambda>n. (group_state_string st, jint n)) (gm_get (ov_GroupsByState ov) st))
        [GroupActive, GroupClosed, GroupCreated, GroupSettlement])),
      (''total_groups'', jint (ov_TotalGroups ov)), (''pending_kyc'', jint (ov_PendingKYC ov)),
      (''total_escrow'', jmoney (ov_TotalEscrow ov)), (''total_payouts'', jint (ov_TotalPayouts ov))]"

definition user_detail_json :: "(real \<Rightarrow> string) \<Rightarrow> admin_user_detail \<Rightarrow> json" where
  "user_detail_json fl d = JObject
     [(''user'', user_json (ad_User d)), (''groups'', jslice my_group_json (ad_Groups d)),
      (''reputation'', summary_json fl (ad_Reputation d))]"

definition risk_score_json :: "(real \<Rightarrow> string) \<Rightarrow> risk_score \<Rightarrow> json" where
  "risk_score_json fl r = JObject [(''probability'', JNumber (fl (rk_Probability r))), (''band'', jstr (rk_Band r))]"

definition flag_json :: "behavior_flag \<Rightarrow> json" where
  "flag_json f = JObject
     [(''user_id'', jstr (bf_UserID f)), (''level'', jstr (flag_level_string (bf_Level f))),
      (''reasons'', jnilslice jstr (bf_Reasons f))]"

definition proposed_group_json :: "(real \<Rightarrow> string) \<Rightarrow> proposed_group \<Rightarrow> json" where
  "proposed_group_json fl p = JObject
     [(''members'', jslice jstr (pg_Members p)), (''avg_risk'', JNumber (fl (pg_AvgRisk p))),
      (''survival_score'', JNumber (fl (pg_SurvivalScore p)))]"

definition assessment_json :: "(real \<Rightarrow> string) \<Rightarrow> liquidity_assessment \<Rightarrow> json" where
  "assessment_json fl a = JObject
     [(''group_id'', jstr (la_GroupID a)), (''cycle_index'', jint (la_CycleIndex a)),
      (''expected_inflow'', jmoney (la_ExpectedInflow a)), (''predicted_shortfall'', jmoney (la_PredictedShortfall a)),
      (''escrow_balance'', jmoney (la_EscrowBalance a)),
      (''collapse_probability'', JNumber (fl (la_CollapseProbability a))), (''level'', jstr (la_Level a))]"

end
