(* ===== verification/Webhook_Delivery.thy ===== *)
theory Webhook_Delivery
  imports Http_Views Scenario "HOL-Library.Char_ord" "HOL-Library.List_Lexorder"
begin

text \<open>
  The requests of \<^verbatim>\<open>internal/webhooks/webhooks.go\<close>: the event's JSON, the request \<^verbatim>\<open>deliver\<close> builds for a
  webhook, and what a notification makes of the webhooks that are registered. HMAC-SHA-256 and
  whether \<^verbatim>\<open>http.NewRequest\<close> takes a URL are parameters; what the endpoint answers is only logged.
\<close>

section \<open>The event (domain/webhook.go)\<close>

text \<open>A map is printed in the order of its keys.\<close>

definition data_json :: "(string \<times> string) list \<Rightarrow> json" where
  "data_json d = JObject (map (\<lambda>(k, v). (json_quote k, jstr v)) (sort_key fst d))"

definition webhook_event_json :: "webhook_event \<Rightarrow> json" where
  "webhook_event_json e = JObject
     ([(''id'', jstr (we_ID e)), (''type'', jstr (we_Type e))] @ omit_blank ''user_id'' (we_UserID e)
      @ (if we_Data e = [] then [] else [(''data'', data_json (we_Data e))])
      @ [(''timestamp'', jtime (we_Timestamp e))])"

section \<open>The request (webhooks.go)\<close>

record http_post =
  hp_URL :: string
  hp_Header :: "(string \<times> string) list"
  hp_Body :: string

definition signature_header :: "(string \<Rightarrow> string \<Rightarrow> string) \<Rightarrow> string \<Rightarrow> string \<Rightarrow> (string \<times> string) list" where
  "signature_header hmac secret body =
     (if secret = [] then [] else [(''X-Rota-Signature'', ''sha256='' @ hex_encode (hmac secret body))])"

definition deliver :: "(string \<Rightarrow> string \<Rightarrow> string) \<Rightarrow> (string \<Rightarrow> bool) \<Rightarrow> webhook \<Rightarrow> string \<Rightarrow> http_post option" where
  "deliver hmac url_ok h body =
     (if \<not> url_ok (w_URL h) then None
      else Some \<lparr>hp_URL = w_URL h,
        hp_Header = [(''Content-Type'', ''application/json''), (''User-Agent'', ''Rotasavings-Webhook/1'')]
          @ signature_header hmac (w_Secret h) body,
        hp_Body = body\<rparr>)"

text \<open>The posts of the deliveries that were started, which no order is given to.\<close>

definition delivery :: "(string \<Rightarrow> string \<Rightarrow> string) \<Rightarrow> (string \<Rightarrow> bool) \<Rightarrow> webhook \<times> webhook_event \<Rightarrow> http_post option" where
  "delivery hmac url_ok d = deliver hmac url_ok (fst d) (json_text (webhook_event_json (snd d)))"

definition posts :: "(string \<Rightarrow> string \<Rightarrow> string) \<Rightarrow> (string \<Rightarrow> bool) \<Rightarrow> (webhook \<times> webhook_event) list \<Rightarrow> http_post multiset" where
  "posts hmac url_ok ds = mset (List.map_filter (delivery hmac url_ok) ds)"

text \<open>
  Every delivery is a goroutine of its own, so the requests leave in any order. A run is scheduled by a
  list of positions: at each step the pending delivery at that position, if there is one, makes its
  request. The result is what was sent, in order, and what is still pending.
\<close>

fun deliver_run :: "(string \<Rightarrow> string \<Rightarrow> string) \<Rightarrow> (string \<Rightarrow> bool) \<Rightarrow> nat list \<Rightarrow> (webhook \<times> webhook_event) list
    \<Rightarrow> http_post list \<times> (webhook \<times> webhook_event) list" where
  "deliver_run hmac url_ok [] pending = ([], pending)"
| "deliver_run hmac url_ok (i # schedule) pending =
     (if i < length pending
      then let (sent, left) = deliver_run hmac url_ok schedule (take i pending @ drop (Suc i) pending)
           in (case delivery hmac url_ok (pending ! i) of None \<Rightarrow> sent | Some p \<Rightarrow> p # sent, left)
      else deliver_run hmac url_ok schedule pending)"

section \<open>The body is well-formed JSON\<close>

lemma is_digit_plain: "is_digit c \<Longrightarrow> byte_in 0x20 0x7F c \<and> c \<noteq> bslash \<and> c \<noteq> dquote"
  by (auto simp: byte_in_def)

lemma plain_text_append: "plain_text (s @ t) \<longleftrightarrow> plain_text s \<and> plain_text t"
  by (auto simp: plain_text_def)

lemma plain_pad: "plain_text (pad w n)"
  using pad_digits is_digit_plain by (auto simp: plain_text_def)

lemma plain_fraction: "plain_text (fraction n)"
proof -
  have "set (strip_zeros s) \<subseteq> set s" for s
    unfolding strip_zeros_def by (auto dest: set_dropWhileD)
  then have "plain_text (strip_zeros (pad 9 n))"
    using plain_pad [of 9 n] by (auto simp: plain_text_def)
  then show ?thesis
    by (simp add: fraction_def plain_text_def byte_in_def)
qed

lemma plain_text_Nil: "plain_text []"
  by (simp add: plain_text_def)

lemma plain_text_Cons: "plain_text (c # s) \<longleftrightarrow> byte_in 0x20 0x7F c \<and> c \<noteq> bslash \<and> c \<noteq> dquote \<and> plain_text s"
  by (auto simp: plain_text_def)

lemma plain_tstr: "plain_text (tstr t)"
  by (simp add: tstr_def Let_def plain_text_append plain_text_Cons plain_text_Nil plain_pad plain_fraction byte_in_def split: prod.split)

definition event_ascii :: "webhook_event \<Rightarrow> bool" where
  "event_ascii e \<longleftrightarrow> ascii (we_ID e) \<and> ascii (we_Type e) \<and> ascii (we_UserID e)
     \<and> (\<forall>(k, v) \<in> set (we_Data e). ascii k \<and> ascii v)"

lemma event_json_ok:
  assumes "event_ascii e"
  shows "json_document (json_text (webhook_event_json e)) = Some (webhook_event_json e)"
proof (rule json_document_text)
  have tags: "raw_ok ''id''" "raw_ok ''type''" "raw_ok ''user_id''" "raw_ok ''data''" "raw_ok ''timestamp''"
    by (simp_all add: raw_ok_plain plain_text_def byte_in_def)
  have "json_ok (data_json (we_Data e))"
    using assms by (auto simp: data_json_def event_ascii_def jstr_def raw_ok_quote)
  with assms tags show "json_ok (webhook_event_json e)"
    by (auto simp: webhook_event_json_def event_ascii_def jstr_def jtime_def omit_blank_def raw_ok_quote raw_ok_plain plain_tstr)
  have "foldr (max \<circ> json_depth \<circ> snd) (map (\<lambda>(k, v). (json_quote k, jstr v)) d) 0 = 0" for d :: "(string \<times> string) list"
    by (induction d) (auto simp: jstr_def)
  then show "json_depth (webhook_event_json e) \<le> 10000"
    by (simp add: webhook_event_json_def data_json_def jstr_def jtime_def omit_blank_def)
qed

section \<open>What a notification posts\<close>

lemma posts_append: "posts hmac ok (ds @ es) = posts hmac ok ds + posts hmac ok es"
  by (simp add: posts_def map_filter_append)

lemma posts_one_event:
  "posts hmac ok (map (\<lambda>h. (h, e)) hs) =
     image_mset (\<lambda>h. \<lparr>hp_URL = w_URL h,
        hp_Header = [(''Content-Type'', ''application/json''), (''User-Agent'', ''Rotasavings-Webhook/1'')]
          @ signature_header hmac (w_Secret h) (json_text (webhook_event_json e)),
        hp_Body = json_text (webhook_event_json e)\<rparr>) (mset (filter (\<lambda>h. ok (w_URL h)) hs))"
  by (induction hs) (simp_all add: posts_def map_filter_def delivery_def deliver_def)

text \<open>In whatever order the deliveries run, what was sent and what is pending make up the posts.\<close>

lemma deliver_run_posts:
  "mset (fst (deliver_run hmac ok schedule ds)) + posts hmac ok (snd (deliver_run hmac ok schedule ds)) = posts hmac ok ds"
proof (induction hmac ok schedule ds rule: deliver_run.induct)
  case (2 hmac ok i schedule pending)
  show ?case
  proof (cases "i < length pending")
    case True
    have one: "posts hmac ok (d # ds) = (case delivery hmac ok d of None \<Rightarrow> {#} | Some p \<Rightarrow> {#p#}) + posts hmac ok ds" for d ds
      by (simp add: posts_def map_filter_def split: option.split)
    have "posts hmac ok pending = posts hmac ok (take i pending @ pending ! i # drop (Suc i) pending)"
      using True by (simp flip: id_take_nth_drop)
    then have "posts hmac ok pending = (case delivery hmac ok (pending ! i) of None \<Rightarrow> {#} | Some p \<Rightarrow> {#p#})
        + posts hmac ok (take i pending @ drop (Suc i) pending)"
      by (simp add: posts_append one ac_simps)
    with "2.IH"(1) [OF True] True show ?thesis
      by (auto simp: split_beta split: option.split)
  next
    case False
    with "2.IH"(2) [OF False] show ?thesis
      by simp
  qed
qed simp

lemma notifyUser_outbox:
  assumes "env_hooks E"
  shows "outbox (snd (notifyUser E uid kind title body w)) = outbox w @ map (\<lambda>h.
      (h, \<lparr>we_ID = NewID (env_rand E (idseq w)), we_Type = notification_kind_string kind, we_UserID = uid,
        we_Data = [(''title'', title), (''body'', body)], we_Timestamp = env_clock E (ticks w)\<rparr>))
      (filter w_Active (ListWebhooks (store w)))"
proof -
  have "ListWebhooks (SaveNotification n m) = ListWebhooks m" for n m
    by (simp add: ListWebhooks_def SaveNotification_def)
  then show ?thesis
    using assms by (simp add: notifyUser_def exec Let_def Notify_def Dispatch_def)
qed

section \<open>Property\<close>

text \<open>
  C31: a notification adds one post for each active webhook whose URL is accepted, and no other, to what
  the deliveries send: in whatever order they run, the requests sent and those still pending are the
  earlier ones and these. Every post has the same body, signed with the webhook's secret where it has
  one. For ASCII texts the body is a JSON document of the event.
\<close>

theorem notification_posts:
  assumes "env_hooks E"
    and "event = \<lparr>we_ID = NewID (env_rand E (idseq w)), we_Type = notification_kind_string kind, we_UserID = uid,
        we_Data = [(''title'', title), (''body'', body)], we_Timestamp = env_clock E (ticks w)\<rparr>"
    and "deliver_run hmac ok schedule (outbox (snd (notifyUser E uid kind title body w))) = (sent, left)"
  shows "mset sent + posts hmac ok left = posts hmac ok (outbox w) +
      image_mset (\<lambda>h. \<lparr>hp_URL = w_URL h,
        hp_Header = [(''Content-Type'', ''application/json''), (''User-Agent'', ''Rotasavings-Webhook/1'')] @
          (if w_Secret h = [] then []
           else [(''X-Rota-Signature'', ''sha256='' @ hex_encode (hmac (w_Secret h) (json_text (webhook_event_json event))))]),
        hp_Body = json_text (webhook_event_json event)\<rparr>)
      (mset (filter (\<lambda>h. w_Active h \<and> ok (w_URL h)) (ListWebhooks (store w))))
    \<and> (ascii uid \<and> ascii title \<and> ascii body \<longrightarrow>
        json_document (json_text (webhook_event_json event)) = Some (webhook_event_json event))"
proof -
  have total: "mset sent + posts hmac ok left = posts hmac ok (outbox (snd (notifyUser E uid kind title body w)))"
    using deliver_run_posts [of hmac ok schedule "outbox (snd (notifyUser E uid kind title body w))"]
    unfolding assms(3) fst_conv snd_conv .
  have "ascii (notification_kind_string kind)"
    by (cases kind) (simp_all add: byte_in_def)
  moreover have "ascii (NewID b)" for b
    by (auto simp: NewID_def ascii_def byte_in_def dest!: hex_encode_chars)
  ultimately have "event_ascii event" if "ascii uid" "ascii title" "ascii body"
    using that by (simp add: event_ascii_def assms(2) byte_in_def)
  then show ?thesis
    using event_json_ok total
    by (simp add: notifyUser_outbox [OF assms(1)] posts_append posts_one_event signature_header_def
        assms(2) [symmetric] filter_filter conj_commute)
qed

definition hooked_env :: env where
  "hooked_env = demo_env\<lparr>env_hooks := True\<rparr>"

definition hooked :: world where
  "hooked = snd (CreateWebhook hooked_env (demo_id 1) ''http://h'' ''s'' demo2)"

text \<open>Two webhooks, of which one has a secret, and the second delivery runs first.\<close>

definition hooked2 :: world where
  "hooked2 = snd (CreateWebhook hooked_env (demo_id 1) ''http://i'' '''' hooked)"

theorem notification_posts_witness:
  "\<exists>p q body. deliver_run (\<lambda>k m. k @ m) (\<lambda>_. True) [1, 0]
        (outbox (snd (notifyUser hooked_env (demo_id 3) NotifyPayoutSent ''t'' ''b'' hooked2))) = ([p, q], [])
     \<and> hp_Body p = body \<and> hp_Body q = body \<and> {hp_URL p, hp_URL q} = {''http://h'', ''http://i''} \<and> json_document body \<noteq> None"
proof -
  let ?hmac = "\<lambda>k m :: string. k @ m" and ?ok = "\<lambda>_ :: string. True"
  let ?out = "outbox (snd (notifyUser hooked_env (demo_id 3) NotifyPayoutSent ''t'' ''b'' hooked2))"
  have on: "env_hooks hooked_env"
    by (simp add: hooked_env_def)
  have hooks: "\<exists>h i. ListWebhooks (store hooked2) = [h, i] \<and> w_Active h \<and> w_Active i \<and> w_URL h = ''http://h'' \<and> w_URL i = ''http://i''"
      "outbox hooked2 = []"
    by (simp_all add: hooked2_def hooked_def hooked_env_def demo2 CreateWebhook_def exec Let_def booted_def NewMemory_def SaveWebhook_def
        ListWebhooks_def gm_set_new gm_get_def gm_range_def audited_def audit_log_def AppendAudit_def)
  then obtain h i e where out: "?out = [(h, e), (i, e)]"
    by (auto simp: notifyUser_outbox [OF on])
  then obtain p q where run: "deliver_run ?hmac ?ok [1, 0] ?out = ([p, q], [])"
    by (simp add: delivery_def deliver_def)
  have "ascii (demo_id 3)"
    by (auto simp: demo_id_def NewID_def ascii_def byte_in_def dest!: hex_encode_chars)
  with notification_posts [OF on refl run] hooks run show ?thesis
    by (auto simp: byte_in_def posts_def map_filter_def add_eq_conv_ex)
qed

end
