(* ===== verification/Config.thy ===== *)
theory Config
  imports Duration_Text
begin

text \<open>
  \<^verbatim>\<open>internal/config/config.go\<close>: the configuration read from the environment, with its defaults. The
  process environment is a function; \<^verbatim>\<open>strconv.Atoi\<close> reads a plain number as seconds.
\<close>

type_synonym environment = "string \<Rightarrow> string option"

text \<open>\<^verbatim>\<open>strconv.Atoi\<close>: the value, clamped to 64 bits or 0 for what is no number, and whether it is one.\<close>

definition atoi :: "string \<Rightarrow> int \<times> bool" where
  "atoi s =
     (let signed = (s \<noteq> [] \<and> (hd s = CHR ''-'' \<or> hd s = CHR ''+''));
          ds = (if signed then tl s else s);
          v = (if signed \<and> hd s = CHR ''-'' then - int (digits_value ds) else int (digits_value ds))
      in if ds = [] \<or> \<not> (\<forall>c \<in> set ds. is_digit c) then (0, False)
         else if v < - (2 ^ 63) then (- (2 ^ 63), False)
         else if 2 ^ 63 \<le> v then (2 ^ 63 - 1, False)
         else (v, True))"

record config =
  cfg_HTTPAddr :: string
  cfg_ReadTimeout :: duration
  cfg_WriteTimeout :: duration
  cfg_JWTSecret :: string
  cfg_JWTTTL :: duration
  cfg_JWTRefreshTTL :: duration
  cfg_AdminEmail :: string
  cfg_AdminPassword :: string
  cfg_SchedulerInterval :: duration
  cfg_CORSOrigins :: string
  cfg_ChainRPCURL :: string
  cfg_ChainPrivateKey :: string
  cfg_IdentityRegistryAddress :: string
  cfg_ReputationLedgerAddress :: string
  cfg_DBPath :: string
  cfg_PostgresDSN :: string

definition getEnv :: "environment \<Rightarrow> string \<Rightarrow> string \<Rightarrow> string" where
  "getEnv V key def = (case V key of Some v \<Rightarrow> v | None \<Rightarrow> def)"

definition second :: duration where
  "second = 1000000000"

definition getDuration :: "environment \<Rightarrow> string \<Rightarrow> duration \<Rightarrow> duration" where
  "getDuration V key def =
     (case V key of
        None \<Rightarrow> def
      | Some v \<Rightarrow>
          (case ParseDuration v of
             Some d \<Rightarrow> d
           | None \<Rightarrow> (case atoi v of (secs, ok) \<Rightarrow> if ok then word_of_int secs * second else def)))"

definition Load :: "environment \<Rightarrow> config" where
  "Load V =
     \<lparr>cfg_HTTPAddr = getEnv V ''ROTA_HTTP_ADDR'' '':8080'',
      cfg_ReadTimeout = getDuration V ''ROTA_READ_TIMEOUT'' (10 * second),
      cfg_WriteTimeout = getDuration V ''ROTA_WRITE_TIMEOUT'' (10 * second),
      cfg_JWTSecret = getEnv V ''ROTA_JWT_SECRET'' ''dev-insecure-secret-change-me'',
      cfg_JWTTTL = getDuration V ''ROTA_JWT_TTL'' (3600 * second),
      cfg_JWTRefreshTTL = getDuration V ''ROTA_JWT_REFRESH_TTL'' (720 * 3600 * second),
      cfg_AdminEmail = getEnv V ''ROTA_ADMIN_EMAIL'' ''admin@rotasavings.local'',
      cfg_AdminPassword = getEnv V ''ROTA_ADMIN_PASSWORD'' ''changeme123'',
      cfg_SchedulerInterval = getDuration V ''ROTA_SCHEDULER_INTERVAL'' (30 * second),
      cfg_CORSOrigins = getEnv V ''ROTA_CORS_ORIGINS'' ''*'',
      cfg_ChainRPCURL = getEnv V ''ROTA_CHAIN_RPC_URL'' [],
      cfg_ChainPrivateKey = getEnv V ''ROTA_CHAIN_PRIVATE_KEY'' [],
      cfg_IdentityRegistryAddress = getEnv V ''ROTA_IDENTITY_REGISTRY'' [],
      cfg_ReputationLedgerAddress = getEnv V ''ROTA_REPUTATION_LEDGER'' [],
      cfg_DBPath = getEnv V ''ROTA_DB_PATH'' ''rota.db'',
      cfg_PostgresDSN = getEnv V ''ROTA_POSTGRES_DSN'' []\<rparr>"

text \<open>A variable that holds the text of a duration gives it.\<close>

lemma getDuration_string: "V key = Some (duration_string d) \<Longrightarrow> getDuration V key def = d"
  by (simp add: getDuration_def ParseDuration_string)

lemma getDuration_unset: "V key = None \<Longrightarrow> getDuration V key def = def"
  by (simp add: getDuration_def)

text \<open>
  A number is taken as seconds only where it is no duration by itself, that is for all but 0, and the
  product wraps.
\<close>

lemma getDuration_seconds:
  "V key = Some s \<Longrightarrow> ParseDuration s = None \<Longrightarrow> atoi s = (n, True) \<Longrightarrow> getDuration V key def = word_of_int n * second"
  by (simp add: getDuration_def)

end
