(* ===== verification/Http_Base.thy ===== *)
theory Http_Base
  imports Http_Views Config
begin

text \<open>
  The vocabulary of \<^verbatim>\<open>internal/httpapi\<close> and \<^verbatim>\<open>auth/middleware.go\<close>: requests as \<^verbatim>\<open>net/http\<close> hands them
  over (the path also as its unescaped segments, the query as its pairs, the header as its first
  values), responses with their bytes, the server's constants, and the helpers of \<^verbatim>\<open>server.go\<close>.
\<close>

section \<open>Requests and responses\<close>

record request =
  rq_Method :: string
  rq_Path :: string
  rq_Segments :: "string list"
  rq_Query :: "(string \<times> string) list"
  rq_Header :: "(string \<times> string) list"
  rq_RemoteAddr :: string
  rq_Body :: string

definition header_get :: "request \<Rightarrow> string \<Rightarrow> string" where
  "header_get r k = (case map_of (rq_Header r) k of Some v \<Rightarrow> v | None \<Rightarrow> [])"

definition query_get :: "request \<Rightarrow> string \<Rightarrow> string" where
  "query_get r k = (case map_of (rq_Query r) k of Some v \<Rightarrow> v | None \<Rightarrow> [])"

record response =
  hr_Status :: int
  hr_Header :: "(string \<times> string) list"
  hr_Body :: string

text \<open>Headers a middleware sets before it calls the next one.\<close>

definition with_headers :: "(string \<times> string) list \<Rightarrow> response \<Rightarrow> response" where
  "with_headers hs r = r\<lparr>hr_Header := hs @ hr_Header r\<rparr>"

record principal =
  pr_UserID :: string
  pr_Role :: role

text \<open>A request on its way through the middlewares: what they put in its context, and the path values.\<close>

record call =
  ca_Request :: request
  ca_Principal :: "principal option"
  ca_RequestID :: string
  ca_Vars :: "(string \<times> string) list"

definition PathValue :: "call \<Rightarrow> string \<Rightarrow> string" where
  "PathValue c k = (case map_of (ca_Vars c) k of Some v \<Rightarrow> v | None \<Rightarrow> [])"

definition caller :: "call \<Rightarrow> principal" where
  "caller c = (case ca_Principal c of Some p \<Rightarrow> p | None \<Rightarrow> \<lparr>pr_UserID = [], pr_Role = RoleOther []\<rparr>)"

text \<open>
  The server: the service's surroundings and issuer, \<^verbatim>\<open>math.Exp\<close> and the printing of floats, the embedded
  specification, the options, and the clock and random bytes the middlewares read.
\<close>

record server =
  sv_env :: env
  sv_issuer :: issuer
  sv_exp :: "real \<Rightarrow> real"
  sv_float :: "real \<Rightarrow> string"
  sv_openapi :: string
  sv_rate :: real
  sv_burst :: real
  sv_idemTTL :: duration
  sv_cors :: string
  sv_clock :: "nat \<Rightarrow> time"
  sv_rand :: "nat \<Rightarrow> string"

section \<open>Writing responses (server.go)\<close>

definition newline :: string where
  "newline = [CHR 0x0A]"

definition writeJSON :: "int \<Rightarrow> json \<Rightarrow> response" where
  "writeJSON status body =
     \<lparr>hr_Status = status, hr_Header = [(''Content-Type'', ''application/json'')], hr_Body = json_text body @ newline\<rparr>"

definition error_json :: "string \<Rightarrow> json" where
  "error_json msg = JObject [(''error'', jstr msg)]"

definition error_status :: "err \<Rightarrow> int" where
  "error_status e =
     (if errors_Is e ErrNotFound then 404
      else if errors_Is e ErrValidation then 400
      else if errors_Is e ErrConflict then 409
      else if errors_Is e ErrInvalidTransition then 409
      else if errors_Is e ErrUnauthorized then 401
      else if errors_Is e ErrForbidden then 403
      else 500)"

definition writeError :: "err \<Rightarrow> response" where
  "writeError e =
     writeJSON (error_status e) (error_json (if error_status e = 500 then ''internal error'' else err_Error e))"

definition badBody :: err where
  "badBody = Errorf ErrValidation ''malformed request body'' []"

text \<open>The answer of a handler to what the service returned.\<close>

definition reply :: "int \<Rightarrow> ('a \<Rightarrow> json) \<Rightarrow> (world, 'a) act \<Rightarrow> world \<Rightarrow> response \<times> world" where
  "reply status view m w =
     (case m w of
        (Inl e, w') \<Rightarrow> (writeError e, w')
      | (Inr x, w') \<Rightarrow> (writeJSON status (view x), w'))"

definition refuse :: "err \<Rightarrow> world \<Rightarrow> response \<times> world" where
  "refuse e w = (writeError e, w)"

text \<open>\<^verbatim>\<open>if err := decode(r, &req); err != nil\<close>\<close>

definition with_body :: "'r fields \<Rightarrow> 'r \<Rightarrow> call \<Rightarrow> ('r \<Rightarrow> world \<Rightarrow> response \<times> world) \<Rightarrow> world \<Rightarrow> response \<times> world" where
  "with_body fs z c k =
     (case decode_body fs (rq_Body (ca_Request c)) z of (ok, req) \<Rightarrow> if ok then k req else refuse badBody)"

section \<open>Numbers of paths and queries\<close>

definition with_index :: "call \<Rightarrow> (int \<Rightarrow> world \<Rightarrow> response \<times> world) \<Rightarrow> world \<Rightarrow> response \<times> world" where
  "with_index c k = (case atoi (PathValue c ''index'') of (i, ok) \<Rightarrow> if ok then k i else refuse badBody)"

definition pageFrom :: "request \<Rightarrow> page" where
  "pageFrom r =
     (let offset = fst (atoi (query_get r ''offset'')); limit = fst (atoi (query_get r ''limit''))
      in \<lparr>p_Offset = offset, p_Limit = (if limit \<le> 0 \<or> 200 < limit then 50 else limit)\<rparr>)"

section \<open>What an answer leaves of the world\<close>

lemma reply_world [simp]: "snd (reply st view m w) = snd (m w)"
  by (simp add: reply_def split: prod.split sum.split)

lemma refuse_world [simp]: "snd (refuse e w) = w"
  by (simp add: refuse_def)

lemma reply_status: "hr_Status (fst (reply st view m w)) = (case fst (m w) of Inl e \<Rightarrow> error_status e | Inr x \<Rightarrow> st)"
  by (simp add: reply_def writeError_def writeJSON_def split: prod.split sum.split)

end
