(* ===== verification/Http_Handlers.thy ===== *)
theory Http_Handlers
  imports Http_Base
begin

text \<open>
  \<^verbatim>\<open>internal/httpapi/handlers.go\<close> and \<^verbatim>\<open>admin_handlers.go\<close>, one definition per handler: decode, call
  the service, answer. The request structs of a handler are tuples, in the order of their fields.
\<close>

section \<open>Authentication\<close>

definition register_fields :: "register_input fields" where
  "register_fields =
     [(''email'', into_string (\<lambda>s r. r\<lparr>ri_Email := s\<rparr>)), (''password'', into_string (\<lambda>s r. r\<lparr>ri_Password := s\<rparr>)),
      (''display_name'', into_string (\<lambda>s r. r\<lparr>ri_DisplayName := s\<rparr>)),
      (''wallet_address'', into_string (\<lambda>s r. r\<lparr>ri_WalletAddress := s\<rparr>)),
      (''kyc_provider'', into_string (\<lambda>s r. r\<lparr>ri_KYCProvider := s\<rparr>)),
      (''kyc_signature'', into_string (\<lambda>s r. r\<lparr>ri_KYCSignature := s\<rparr>))]"

definition no_registration :: register_input where
  "no_registration = \<lparr>ri_Email = [], ri_Password = [], ri_DisplayName = [], ri_WalletAddress = [],
     ri_KYCProvider = [], ri_KYCSignature = []\<rparr>"

definition handleRegister :: "server \<Rightarrow> call \<Rightarrow> world \<Rightarrow> response \<times> world" where
  "handleRegister S c =
     with_body register_fields no_registration c (\<lambda>req. reply 201 user_json (Register (sv_env S) req))"

definition login_fields :: "(string \<times> string) fields" where
  "login_fields =
     [(''email'', into_string (\<lambda>s (e, p). (s, p))), (''password'', into_string (\<lambda>s (e, p). (e, s)))]"

definition handleLogin :: "server \<Rightarrow> call \<Rightarrow> world \<Rightarrow> response \<times> world" where
  "handleLogin S c =
     with_body login_fields ([], []) c (\<lambda>(email, password).
     reply 200 (\<lambda>(pair, u). JObject
       [(''access_token'', jstr (tp_AccessToken pair)), (''refresh_token'', jstr (tp_RefreshToken pair)),
        (''token'', jstr (tp_AccessToken pair)), (''user'', user_json u)])
       (Login (sv_env S) (sv_issuer S) email password))"

definition handleRefresh :: "server \<Rightarrow> call \<Rightarrow> world \<Rightarrow> response \<times> world" where
  "handleRefresh S c =
     with_body [(''refresh_token'', string_elem)] [] c (\<lambda>token.
     reply 200 (\<lambda>pair. JObject
       [(''access_token'', jstr (tp_AccessToken pair)), (''refresh_token'', jstr (tp_RefreshToken pair))])
       (Refresh (sv_env S) (sv_issuer S) token))"

section \<open>The caller's account\<close>

definition handleMe :: "server \<Rightarrow> call \<Rightarrow> world \<Rightarrow> response \<times> world" where
  "handleMe S c = reply 200 user_json (Service_GetUser (pr_UserID (caller c)))"

definition handleUpdateMe :: "server \<Rightarrow> call \<Rightarrow> world \<Rightarrow> response \<times> world" where
  "handleUpdateMe S c =
     with_body [(''display_name'', string_elem)] [] c (\<lambda>name.
     reply 200 user_json (UpdateProfile (sv_env S) (pr_UserID (caller c)) name))"

definition handleMyNotifications :: "server \<Rightarrow> call \<Rightarrow> world \<Rightarrow> response \<times> world" where
  "handleMyNotifications S c =
     reply 200 (\<lambda>ns. JObject [(''notifications'', jslice notification_json ns)]) (Notifications (pr_UserID (caller c)))"

definition handleMyGroups :: "server \<Rightarrow> call \<Rightarrow> world \<Rightarrow> response \<times> world" where
  "handleMyGroups S c = reply 200 (\<lambda>gs. JObject [(''groups'', jslice my_group_json gs)]) (MyGroups (pr_UserID (caller c)))"

definition handleMyTransactions :: "server \<Rightarrow> call \<Rightarrow> world \<Rightarrow> response \<times> world" where
  "handleMyTransactions S c =
     reply 200 (\<lambda>ts. JObject [(''transactions'', jslice reputation_event_json ts)]) (Transactions (pr_UserID (caller c)))"

definition handleReputation :: "server \<Rightarrow> call \<Rightarrow> world \<Rightarrow> response \<times> world" where
  "handleReputation S c = reply 200 (summary_json (sv_float S)) (Reputation (PathValue c ''id''))"

definition no_features :: features where
  "no_features = \<lparr>fe_Reliability = 0, fe_PriorParticipations = 0, fe_IncomeConsistency = 0,
     fe_SpendingVolatility = 0, fe_Expulsions = 0\<rparr>"

definition risk_fields :: "features fields" where
  "risk_fields =
     [(''income_consistency'', into_float (\<lambda>x f. f\<lparr>fe_IncomeConsistency := x\<rparr>)),
      (''spending_volatility'', into_float (\<lambda>x f. f\<lparr>fe_SpendingVolatility := x\<rparr>)),
      (''prior_participations'', into_int (\<lambda>i f. f\<lparr>fe_PriorParticipations := i\<rparr>))]"

definition handleRiskScore :: "server \<Rightarrow> call \<Rightarrow> world \<Rightarrow> response \<times> world" where
  "handleRiskScore S c =
     with_body risk_fields no_features c (\<lambda>f.
     reply 200 (risk_score_json (sv_float S)) (ScoreRisk (sv_exp S) (PathValue c ''id'') f))"

section \<open>Groups\<close>

definition group_fields :: "create_group_input fields" where
  "group_fields =
     [(''name'', into_string (\<lambda>s r. r\<lparr>cg_Name := s\<rparr>)),
      (''contribution_amount'', into_int (\<lambda>i r. r\<lparr>cg_ContributionAmount := word_of_int i\<rparr>)),
      (''cycle_length'', into_duration (\<lambda>d r. r\<lparr>cg_CycleLength := d\<rparr>)),
      (''max_members'', into_int (\<lambda>i r. r\<lparr>cg_MaxMembers := i\<rparr>))]"

definition no_group_input :: create_group_input where
  "no_group_input = \<lparr>cg_Name = [], cg_ContributionAmount = 0, cg_CycleLength = 0, cg_MaxMembers = 0\<rparr>"

definition handleCreateGroup :: "server \<Rightarrow> call \<Rightarrow> world \<Rightarrow> response \<times> world" where
  "handleCreateGroup S c =
     with_body group_fields no_group_input c (\<lambda>req.
     reply 201 group_json (CreateGroup (sv_env S) (pr_UserID (caller c)) req))"

definition handleListGroups :: "server \<Rightarrow> call \<Rightarrow> world \<Rightarrow> response \<times> world" where
  "handleListGroups S c =
     reply 200 (\<lambda>(gs, total). JObject [(''groups'', jslice group_json gs), (''total'', jint total)])
       (Service_ListGroups (pageFrom (ca_Request c)))"

definition handleGetGroup :: "server \<Rightarrow> call \<Rightarrow> world \<Rightarrow> response \<times> world" where
  "handleGetGroup S c = reply 200 group_json (Service_GetGroup (PathValue c ''id''))"

definition handleListMembers :: "server \<Rightarrow> call \<Rightarrow> world \<Rightarrow> response \<times> world" where
  "handleListMembers S c =
     reply 200 (\<lambda>ms. JObject [(''members'', jslice membership_json ms)]) (ListMembers (PathValue c ''id''))"

definition handleRequestJoin :: "server \<Rightarrow> call \<Rightarrow> world \<Rightarrow> response \<times> world" where
  "handleRequestJoin S c =
     reply 201 join_request_json (RequestToJoin (sv_env S) (pr_UserID (caller c)) (PathValue c ''id''))"

definition handleListJoinRequests :: "server \<Rightarrow> call \<Rightarrow> world \<Rightarrow> response \<times> world" where
  "handleListJoinRequests S c =
     reply 200 (\<lambda>rs. JObject [(''join_requests'', jslice join_request_json rs)])
       (ListJoinRequests (pr_UserID (caller c)) (PathValue c ''id''))"

definition handleDecideJoin :: "server \<Rightarrow> call \<Rightarrow> world \<Rightarrow> response \<times> world" where
  "handleDecideJoin S c =
     with_body [(''approve'', into_bool (\<lambda>b _. b))] False c (\<lambda>approve.
     reply 200 join_request_json (DecideJoinRequest (sv_env S) (pr_UserID (caller c)) (PathValue c ''id'') approve))"

definition handleInvite :: "server \<Rightarrow> call \<Rightarrow> world \<Rightarrow> response \<times> world" where
  "handleInvite S c =
     with_body [(''user_id'', string_elem)] [] c (\<lambda>uid.
     reply 201 invitation_json (Invite (sv_env S) (pr_UserID (caller c)) (PathValue c ''id'') uid))"

definition handleMyInvitations :: "server \<Rightarrow> call \<Rightarrow> world \<Rightarrow> response \<times> world" where
  "handleMyInvitations S c =
     reply 200 (\<lambda>is. JObject [(''invitations'', jslice invitation_json is)]) (MyInvitations (pr_UserID (caller c)))"

definition handleRespondInvite :: "server \<Rightarrow> call \<Rightarrow> world \<Rightarrow> response \<times> world" where
  "handleRespondInvite S c =
     with_body [(''accept'', into_bool (\<lambda>b _. b))] False c (\<lambda>accept.
     reply 200 invitation_json (RespondInvitation (sv_env S) (pr_UserID (caller c)) (PathValue c ''id'') accept))"

definition status_json :: "string \<Rightarrow> json" where
  "status_json s = JObject [(''status'', jstr s)]"

definition handleLeave :: "server \<Rightarrow> call \<Rightarrow> world \<Rightarrow> response \<times> world" where
  "handleLeave S c = reply 200 (\<lambda>_. status_json ''left'') (LeaveGroup (pr_UserID (caller c)) (PathValue c ''id''))"

definition handleRemoveMember :: "server \<Rightarrow> call \<Rightarrow> world \<Rightarrow> response \<times> world" where
  "handleRemoveMember S c =
     reply 200 (\<lambda>_. status_json ''removed'')
       (RemoveMember (pr_UserID (caller c)) (PathValue c ''id'') (PathValue c ''userID''))"

text \<open>Any decoding error is ignored, and with it a member of the wrong type.\<close>

definition handleActivate :: "server \<Rightarrow> call \<Rightarrow> world \<Rightarrow> response \<times> world" where
  "handleActivate S c =
     (let order = snd (decode_body [(''payout_order'', into_slice [] string_elem (\<lambda>xs _. xs))] (rq_Body (ca_Request c)) [])
      in reply 200 group_json (ActivateGroup (sv_env S) (pr_UserID (caller c)) (PathValue c ''id'') order))"

section \<open>Cycles and contributions\<close>

definition handleListCycles :: "server \<Rightarrow> call \<Rightarrow> world \<Rightarrow> response \<times> world" where
  "handleListCycles S c =
     reply 200 (\<lambda>cs. JObject [(''cycles'', jslice cycle_json cs)]) (ListCycles (PathValue c ''id''))"

definition handleCurrentCycle :: "server \<Rightarrow> call \<Rightarrow> world \<Rightarrow> response \<times> world" where
  "handleCurrentCycle S c = reply 200 cycle_json (CurrentCycle (PathValue c ''id''))"

definition handleCycleStatus :: "server \<Rightarrow> call \<Rightarrow> world \<Rightarrow> response \<times> world" where
  "handleCycleStatus S c =
     with_index c (\<lambda>idx. reply 200 cycle_status_json (CycleStatus (PathValue c ''id'') idx))"

definition contribute_fields :: "(int \<times> string) fields" where
  "contribute_fields =
     [(''cycle_index'', into_int (\<lambda>i (_, s). (i, s))), (''source'', into_string (\<lambda>s (i, _). (i, s)))]"

definition handleContribute :: "server \<Rightarrow> call \<Rightarrow> world \<Rightarrow> response \<times> world" where
  "handleContribute S c =
     with_body contribute_fields (0, []) c (\<lambda>(idx, source).
     reply 201 contribution_json
       (SubmitContribution (sv_env S) (pr_UserID (caller c)) (PathValue c ''id'') idx source))"

definition handleSettle :: "server \<Rightarrow> call \<Rightarrow> world \<Rightarrow> response \<times> world" where
  "handleSettle S c =
     with_index c (\<lambda>idx.
     reply 200 payout_json (SettleCycle (sv_env S) (pr_UserID (caller c)) (PathValue c ''id'') idx))"

section \<open>Intelligence\<close>

definition handleMonitor :: "server \<Rightarrow> call \<Rightarrow> world \<Rightarrow> response \<times> world" where
  "handleMonitor S c =
     reply 200 (\<lambda>fs. JObject [(''flags'', jslice flag_json fs)]) (MonitorGroup (sv_env S) (PathValue c ''id''))"

definition handleGroupLiquidity :: "server \<Rightarrow> call \<Rightarrow> world \<Rightarrow> response \<times> world" where
  "handleGroupLiquidity S c =
     reply 200 (assessment_json (sv_float S)) (AssessGroupLiquidity (sv_exp S) (PathValue c ''id''))"

definition candidate_fields :: "candidate fields" where
  "candidate_fields =
     [(''user_id'', into_string (\<lambda>s c. c\<lparr>cd_UserID := s\<rparr>)), (''risk'', into_float (\<lambda>x c. c\<lparr>cd_Risk := x\<rparr>))]"

definition optimize_fields :: "(int \<times> candidate list) fields" where
  "optimize_fields =
     [(''group_size'', into_int (\<lambda>i (_, cs). (i, cs))),
      (''candidates'', into_slice \<lparr>cd_UserID = [], cd_Risk = 0\<rparr> (into_struct True candidate_fields) (\<lambda>cs (i, _). (i, cs)))]"

definition handleOptimize :: "server \<Rightarrow> call \<Rightarrow> world \<Rightarrow> response \<times> world" where
  "handleOptimize S c =
     with_body optimize_fields (0, []) c (\<lambda>(size, candidates).
     if size < 2 then refuse (Errorf ErrValidation ''group_size must be >= 2'' [])
     else (\<lambda>w. (writeJSON 200 (JObject [(''groups'',
            case OptimizeGroups candidates size of
              None \<Rightarrow> JNull | Some gs \<Rightarrow> jslice (proposed_group_json (sv_float S)) gs)]), w)))"

section \<open>The operator's handlers (admin_handlers.go)\<close>

definition handleAdminOverview :: "server \<Rightarrow> call \<Rightarrow> world \<Rightarrow> response \<times> world" where
  "handleAdminOverview S c = reply 200 overview_json Overview"

definition handleAdminUsers :: "server \<Rightarrow> call \<Rightarrow> world \<Rightarrow> response \<times> world" where
  "handleAdminUsers S c =
     reply 200 (\<lambda>(us, total). JObject [(''total'', jint total), (''users'', jslice user_json us)])
       (Service_ListUsers (pageFrom (ca_Request c)))"

definition handleAdminSuspend :: "server \<Rightarrow> call \<Rightarrow> world \<Rightarrow> response \<times> world" where
  "handleAdminSuspend S c =
     reply 200 user_json (SetUserStatus (sv_env S) (pr_UserID (caller c)) (PathValue c ''id'') UserSuspended)"

definition handleAdminActivate :: "server \<Rightarrow> call \<Rightarrow> world \<Rightarrow> response \<times> world" where
  "handleAdminActivate S c =
     reply 200 user_json (SetUserStatus (sv_env S) (pr_UserID (caller c)) (PathValue c ''id'') UserActive)"

definition handleAdminKYCPending :: "server \<Rightarrow> call \<Rightarrow> world \<Rightarrow> response \<times> world" where
  "handleAdminKYCPending S c = reply 200 (\<lambda>us. JObject [(''pending'', jslice user_json us)]) PendingKYC"

definition handleAdminKYCDecision :: "server \<Rightarrow> call \<Rightarrow> world \<Rightarrow> response \<times> world" where
  "handleAdminKYCDecision S c =
     with_body [(''approve'', into_bool (\<lambda>b _. b))] False c (\<lambda>approve.
     reply 200 user_json (DecideKYC (sv_env S) (pr_UserID (caller c)) (PathValue c ''id'') approve))"

definition handleAdminLiquidity :: "server \<Rightarrow> call \<Rightarrow> world \<Rightarrow> response \<times> world" where
  "handleAdminLiquidity S c =
     reply 200 (\<lambda>rows. JObject [(''groups'', jslice (assessment_json (sv_float S)) rows)]) (LiquidityBoard (sv_exp S))"

definition handleAdminSetRole :: "server \<Rightarrow> call \<Rightarrow> world \<Rightarrow> response \<times> world" where
  "handleAdminSetRole S c =
     with_body [(''role'', string_elem)] [] c (\<lambda>r.
     reply 200 user_json (SetUserRole (sv_env S) (pr_UserID (caller c)) (PathValue c ''id'') (role_value r)))"

definition handleAdminUserDetail :: "server \<Rightarrow> call \<Rightarrow> world \<Rightarrow> response \<times> world" where
  "handleAdminUserDetail S c = reply 200 (user_detail_json (sv_float S)) (UserDetail (PathValue c ''id''))"

definition handleAdminGroups :: "server \<Rightarrow> call \<Rightarrow> world \<Rightarrow> response \<times> world" where
  "handleAdminGroups S c =
     reply 200 (\<lambda>(gs, total). JObject [(''groups'', jslice group_json gs), (''total'', jint total)])
       (AllGroups (pageFrom (ca_Request c)))"

definition handleAdminTransactions :: "server \<Rightarrow> call \<Rightarrow> world \<Rightarrow> response \<times> world" where
  "handleAdminTransactions S c =
     reply 200 (\<lambda>(ts, total). JObject [(''total'', jint total), (''transactions'', jslice reputation_event_json ts)])
       (AllTransactions (pageFrom (ca_Request c)))"

definition handleAdminForceSettle :: "server \<Rightarrow> call \<Rightarrow> world \<Rightarrow> response \<times> world" where
  "handleAdminForceSettle S c =
     with_index c (\<lambda>idx.
     reply 200 payout_json (AdminSettleCycle (sv_env S) (pr_UserID (caller c)) (PathValue c ''id'') idx))"

definition handleAdminListWebhooks :: "server \<Rightarrow> call \<Rightarrow> world \<Rightarrow> response \<times> world" where
  "handleAdminListWebhooks S c =
     reply 200 (\<lambda>hs. JObject [(''webhooks'', jslice webhook_json hs)]) Service_ListWebhooks"

definition webhook_fields :: "(string \<times> string) fields" where
  "webhook_fields =
     [(''url'', into_string (\<lambda>s (_, t). (s, t))), (''secret'', into_string (\<lambda>t (s, _). (s, t)))]"

definition handleAdminCreateWebhook :: "server \<Rightarrow> call \<Rightarrow> world \<Rightarrow> response \<times> world" where
  "handleAdminCreateWebhook S c =
     with_body webhook_fields ([], []) c (\<lambda>(url, secret).
     reply 201 webhook_json (CreateWebhook (sv_env S) (pr_UserID (caller c)) url secret))"

definition handleAdminDeleteWebhook :: "server \<Rightarrow> call \<Rightarrow> world \<Rightarrow> response \<times> world" where
  "handleAdminDeleteWebhook S c =
     reply 200 (\<lambda>_. status_json ''deleted'') (Service_DeleteWebhook (sv_env S) (pr_UserID (caller c)) (PathValue c ''id''))"

definition handleAdminAudit :: "server \<Rightarrow> call \<Rightarrow> world \<Rightarrow> response \<times> world" where
  "handleAdminAudit S c =
     reply 200 (\<lambda>(as, total). JObject [(''audit'', jslice audit_json as), (''total'', jint total)])
       (AuditLog (pageFrom (ca_Request c)))"

end
