(* ===== verification/Http_Server.thy ===== *)
theory Http_Server
  imports Http_Handlers
begin

text \<open>
  The middlewares of \<^verbatim>\<open>internal/httpapi\<close> and \<^verbatim>\<open>internal/auth\<close>, the route table of \<^verbatim>\<open>server.go\<close> and their
  composition. The gateway is all that a request may change: the service's world, the buckets of the
  rate limiter, the remembered responses, the metrics, and how many clock readings and random
  identifiers the middlewares have drawn. Requests are served one after the other; no modelled
  handler panics, so \<^verbatim>\<open>recoverPanic\<close> is the call of its argument.
\<close>

section \<open>State\<close>

record token_bucket =
  tb_tokens :: real
  tb_last :: time

record idempotent_response =
  ir_status :: int
  ir_body :: string
  ir_expires :: time

type_synonym counter = "64 word"

record metrics =
  mt_total :: counter
  mt_status2xx :: counter
  mt_status3xx :: counter
  mt_status4xx :: counter
  mt_status5xx :: counter
  mt_inFlight :: counter
  mt_latencyMsTotal :: counter

record gateway =
  gw_world :: world
  gw_buckets :: "(string, token_bucket) gomap"
  gw_idem :: "(string, idempotent_response) gomap"
  gw_metrics :: metrics
  gw_ticks :: nat
  gw_draws :: nat

definition NewMetrics :: metrics where
  "NewMetrics = \<lparr>mt_total = 0, mt_status2xx = 0, mt_status3xx = 0, mt_status4xx = 0, mt_status5xx = 0,
     mt_inFlight = 0, mt_latencyMsTotal = 0\<rparr>"

definition new_gateway :: "world \<Rightarrow> gateway" where
  "new_gateway w = \<lparr>gw_world = w, gw_buckets = [], gw_idem = [], gw_metrics = NewMetrics, gw_ticks = 0, gw_draws = 0\<rparr>"

type_synonym handler = "call \<Rightarrow> gateway \<Rightarrow> response \<times> gateway"

definition gw_now :: "server \<Rightarrow> gateway \<Rightarrow> time" where
  "gw_now S gw = sv_clock S (gw_ticks gw)"

definition gw_tick :: "gateway \<Rightarrow> gateway" where
  "gw_tick gw = gw\<lparr>gw_ticks := Suc (gw_ticks gw)\<rparr>"

definition on_world :: "(call \<Rightarrow> world \<Rightarrow> response \<times> world) \<Rightarrow> handler" where
  "on_world h c gw = (case h c (gw_world gw) of (r, w) \<Rightarrow> (r, gw\<lparr>gw_world := w\<rparr>))"

section \<open>Authentication (auth/middleware.go)\<close>

definition bearer :: string where
  "bearer = ''Bearer ''"

definition Authenticate :: "server \<Rightarrow> handler \<Rightarrow> handler" where
  "Authenticate S next_h c gw =
     (let h = header_get (ca_Request c) ''Authorization''
      in if take 7 h = bearer
         then next_h
           (case Verify (sv_issuer S) (gw_now S gw) (drop 7 h) of
              Inr cl \<Rightarrow> c\<lparr>ca_Principal := Some \<lparr>pr_UserID = cl_Sub cl, pr_Role = cl_Role cl\<rparr>\<rparr>
            | Inl _ \<Rightarrow> c) (gw_tick gw)
         else next_h c gw)"

definition auth_writeErr :: "int \<Rightarrow> string \<Rightarrow> response" where
  "auth_writeErr status msg =
     \<lparr>hr_Status = status, hr_Header = [(''Content-Type'', ''application/json'')],
      hr_Body = [CHR ''{'', dquote] @ ''error'' @ [dquote, CHR '':'', dquote] @ msg @ [dquote, CHR ''}'']\<rparr>"

definition RequireAuth :: "handler \<Rightarrow> handler" where
  "RequireAuth next_h c gw =
     (if ca_Principal c = None then (auth_writeErr 401 ''authentication required'', gw) else next_h c gw)"

definition RequireAdmin :: "handler \<Rightarrow> handler" where
  "RequireAdmin next_h c gw =
     (case ca_Principal c of
        None \<Rightarrow> (auth_writeErr 401 ''authentication required'', gw)
      | Some p \<Rightarrow>
          if pr_Role p \<noteq> RoleAdmin then (auth_writeErr 403 ''admin role required'', gw) else next_h c gw)"

section \<open>Rate limiter (ratelimit.go)\<close>

text \<open>\<^verbatim>\<open>Duration.Seconds\<close>\<close>

definition duration_seconds :: "int \<Rightarrow> real" where
  "duration_seconds d =
     f64_add (f64_of_int (d sdiv 1000000000)) (f64_div (f64_of_int (d smod 1000000000)) 1000000000)"

definition allow :: "server \<Rightarrow> string \<Rightarrow> gateway \<Rightarrow> bool \<times> gateway" where
  "allow S key gw =
     (let now = gw_now S gw; gw = gw_tick gw
      in case gm_get (gw_buckets gw) key of
           None \<Rightarrow>
             (True, gw\<lparr>gw_buckets := gm_set key \<lparr>tb_tokens = f64_sub (sv_burst S) 1, tb_last = now\<rparr> (gw_buckets gw)\<rparr>)
         | Some b \<Rightarrow>
             let tokens = f64_add (tb_tokens b) (f64_mul (duration_seconds (time_sub now (tb_last b))) (sv_rate S));
                 tokens = (if sv_burst S < tokens then sv_burst S else tokens)
             in if tokens < 1
                then (False, gw\<lparr>gw_buckets := gm_set key \<lparr>tb_tokens = tokens, tb_last = now\<rparr> (gw_buckets gw)\<rparr>)
                else (True, gw\<lparr>gw_buckets := gm_set key \<lparr>tb_tokens = f64_sub tokens 1, tb_last = now\<rparr> (gw_buckets gw)\<rparr>))"

text \<open>One tick of \<^verbatim>\<open>gc\<close>: buckets idle for five minutes go.\<close>

definition limiter_gc :: "server \<Rightarrow> gateway \<Rightarrow> gateway" where
  "limiter_gc S gw =
     (let cutoff = gw_now S gw - 300000000000
      in gw_tick (gw\<lparr>gw_buckets := filter (\<lambda>(k, b). \<not> tb_last b < cutoff) (gw_buckets gw)\<rparr>))"

text \<open>\<^verbatim>\<open>net.SplitHostPort\<close>: the host, or nothing where it returns an error.\<close>

definition split_host_port :: "string \<Rightarrow> string option" where
  "split_host_port s =
     (let back = rev s; port = takeWhile (\<lambda>c. c \<noteq> CHR '':'') back;
          host = rev (drop (Suc (length port)) back)
      in if CHR '':'' \<notin> set s then None
         else if hd s = CHR ''[''
         then (let inner = takeWhile (\<lambda>c. c \<noteq> CHR '']'') (tl s)
               in if host = CHR ''['' # inner @ '']'' \<and> CHR ''['' \<notin> set (inner @ port) \<and> CHR '']'' \<notin> set port
                  then Some inner else None)
         else if CHR '':'' \<in> set host \<or> CHR ''['' \<in> set s \<or> CHR '']'' \<in> set s then None
         else Some host)"

definition clientIP :: "request \<Rightarrow> string" where
  "clientIP r =
     (let xff = header_get r ''X-Forwarded-For''
      in if xff \<noteq> [] then xff
         else case split_host_port (rq_RemoteAddr r) of None \<Rightarrow> rq_RemoteAddr r | Some host \<Rightarrow> host)"

definition limiter_Middleware :: "server \<Rightarrow> handler \<Rightarrow> handler" where
  "limiter_Middleware S next_h c gw =
     (case allow S (clientIP (ca_Request c)) gw of
        (ok, gw) \<Rightarrow>
          if \<not> ok
          then (with_headers [(''Retry-After'', ''1'')] (writeJSON 429 (error_json ''rate limit exceeded'')), gw)
          else next_h c gw)"

section \<open>Idempotency (idempotency.go)\<close>

definition idem_key :: "request \<Rightarrow> string" where
  "idem_key r = header_get r ''Idempotency-Key'' @ '' '' @ rq_Method r @ '' '' @ rq_Path r"

definition idem_applies :: "request \<Rightarrow> bool" where
  "idem_applies r \<longleftrightarrow> header_get r ''Idempotency-Key'' \<noteq> [] \<and> rq_Method r \<noteq> ''GET'' \<and> rq_Method r \<noteq> ''HEAD''"

definition replayed :: "idempotent_response \<Rightarrow> response" where
  "replayed e =
     \<lparr>hr_Status = ir_status e,
      hr_Header = [(''Idempotency-Replayed'', ''true''), (''Content-Type'', ''application/json'')], hr_Body = ir_body e\<rparr>"

definition idem_Middleware :: "server \<Rightarrow> handler \<Rightarrow> handler" where
  "idem_Middleware S next_h c gw =
     (if \<not> idem_applies (ca_Request c) then next_h c gw
      else let key = idem_key (ca_Request c); found = gm_get (gw_idem gw) key;
               fresh = (case found of Some e \<Rightarrow> gw_now S gw < ir_expires e | None \<Rightarrow> False);
               gw = (if found = None then gw else gw_tick gw)
           in if fresh then (replayed (the found), gw)
              else case next_h c gw of
                     (r, gw) \<Rightarrow>
                       if hr_Status r < 500
                       then (r, gw_tick (gw\<lparr>gw_idem := gm_set key
                              \<lparr>ir_status = hr_Status r, ir_body = hr_Body r,
                               ir_expires = gw_now S gw + sint (sv_idemTTL S)\<rparr> (gw_idem gw)\<rparr>))
                       else (r, gw))"

definition idem_gc :: "server \<Rightarrow> gateway \<Rightarrow> gateway" where
  "idem_gc S gw =
     gw_tick (gw\<lparr>gw_idem := filter (\<lambda>(k, e). \<not> ir_expires e < gw_now S gw) (gw_idem gw)\<rparr>)"

section \<open>Request identifiers, access log, metrics (middleware.go, metrics.go)\<close>

definition requestID :: "server \<Rightarrow> handler \<Rightarrow> handler" where
  "requestID S next_h c gw =
     (let given = header_get (ca_Request c) ''X-Request-ID'';
          rid = (if given = [] then take 12 (NewID (sv_rand S (gw_draws gw))) else given);
          gw = (if given = [] then gw\<lparr>gw_draws := Suc (gw_draws gw)\<rparr> else gw)
      in case next_h (c\<lparr>ca_RequestID := rid\<rparr>) gw of (r, gw) \<Rightarrow> (with_headers [(''X-Request-ID'', rid)] r, gw))"

definition observe :: "int \<Rightarrow> int \<Rightarrow> metrics \<Rightarrow> metrics" where
  "observe status latencyMs m =
     (let m = m\<lparr>mt_total := mt_total m + 1, mt_latencyMsTotal := mt_latencyMsTotal m + word_of_int latencyMs\<rparr>
      in if 500 \<le> status then m\<lparr>mt_status5xx := mt_status5xx m + 1\<rparr>
         else if 400 \<le> status then m\<lparr>mt_status4xx := mt_status4xx m + 1\<rparr>
         else if 300 \<le> status then m\<lparr>mt_status3xx := mt_status3xx m + 1\<rparr>
         else m\<lparr>mt_status2xx := mt_status2xx m + 1\<rparr>)"

definition in_flight :: "counter \<Rightarrow> gateway \<Rightarrow> gateway" where
  "in_flight d gw = gw\<lparr>gw_metrics := (gw_metrics gw)\<lparr>mt_inFlight := mt_inFlight (gw_metrics gw) + d\<rparr>\<rparr>"

definition accessLog :: "server \<Rightarrow> handler \<Rightarrow> handler" where
  "accessLog S next_h c gw =
     (let start = gw_now S gw
      in case next_h c (in_flight 1 (gw_tick gw)) of
           (r, gw) \<Rightarrow>
             let gw = in_flight (- 1) gw; ms = time_sub (gw_now S gw) start sdiv 1000000
             in (r, gw_tick (gw\<lparr>gw_metrics := observe (hr_Status r) ms (gw_metrics gw)\<rparr>)))"

definition metric_lines :: "metrics \<Rightarrow> string list" where
  "metric_lines m =
     (let q = [dquote]; n = (\<lambda>x. decimal (sint x))
      in [''# HELP rota_http_requests_total Total HTTP requests by status class.'',
          ''# TYPE rota_http_requests_total counter'',
          ''rota_http_requests_total{class='' @ q @ ''2xx'' @ q @ ''} '' @ n (mt_status2xx m),
          ''rota_http_requests_total{class='' @ q @ ''3xx'' @ q @ ''} '' @ n (mt_status3xx m),
          ''rota_http_requests_total{class='' @ q @ ''4xx'' @ q @ ''} '' @ n (mt_status4xx m),
          ''rota_http_requests_total{class='' @ q @ ''5xx'' @ q @ ''} '' @ n (mt_status5xx m),
          ''# HELP rota_http_requests Total HTTP requests.'',
          ''# TYPE rota_http_requests counter'',
          ''rota_http_requests '' @ n (mt_total m),
          ''# HELP rota_http_in_flight In-flight HTTP requests.'',
          ''# TYPE rota_http_in_flight gauge'',
          ''rota_http_in_flight '' @ n (mt_inFlight m),
          ''# HELP rota_http_request_duration_ms_sum Total request latency in milliseconds.'',
          ''# TYPE rota_http_request_duration_ms_sum counter'',
          ''rota_http_request_duration_ms_sum '' @ n (mt_latencyMsTotal m)])"

definition metrics_Handler :: handler where
  "metrics_Handler c gw =
     (\<lparr>hr_Status = 200, hr_Header = [(''Content-Type'', ''text/plain; version=0.0.4'')],
       hr_Body = concat (map (\<lambda>l. l @ newline) (metric_lines (gw_metrics gw)))\<rparr>, gw)"

section \<open>Probes and the specification (server.go, openapi.go)\<close>

definition handleHealth :: handler where
  "handleHealth c gw = (writeJSON 200 (status_json ''ok''), gw)"

text \<open>The in-memory store's \<^verbatim>\<open>Health\<close> never fails.\<close>

definition handleReady :: handler where
  "handleReady c gw = (writeJSON 200 (status_json ''ready''), gw)"

definition handleOpenAPI :: "server \<Rightarrow> handler" where
  "handleOpenAPI S c gw =
     (\<lparr>hr_Status = 200, hr_Header = [(''Content-Type'', ''application/yaml'')], hr_Body = sv_openapi S\<rparr>, gw)"

section \<open>Cross-origin requests (cors.go)\<close>

definition cors_any :: "string \<Rightarrow> bool" where
  "cors_any allowed \<longleftrightarrow> ascii_trim allowed = ''*''"

definition cors_origins :: "string \<Rightarrow> string list" where
  "cors_origins allowed = filter (\<lambda>s. s \<noteq> []) (map ascii_trim (split_on (CHR '','') allowed))"

definition cors_headers :: "string \<Rightarrow> string \<Rightarrow> (string \<times> string) list" where
  "cors_headers allowed origin =
     (if origin \<noteq> [] \<and> (cors_any allowed \<or> origin \<in> set (cors_origins allowed))
      then (if cors_any allowed then [(''Access-Control-Allow-Origin'', ''*'')]
            else [(''Access-Control-Allow-Origin'', origin), (''Vary'', ''Origin'')])
           @ [(''Access-Control-Allow-Methods'', ''GET, POST, PATCH, DELETE, OPTIONS''),
              (''Access-Control-Allow-Headers'', ''Authorization, Content-Type, Idempotency-Key, X-Request-ID''),
              (''Access-Control-Max-Age'', ''86400'')]
      else [])"

definition cors :: "string \<Rightarrow> handler \<Rightarrow> handler" where
  "cors allowed next_h c gw =
     (let hs = cors_headers allowed (header_get (ca_Request c) ''Origin'')
      in if rq_Method (ca_Request c) = ''OPTIONS'' then (\<lparr>hr_Status = 204, hr_Header = hs, hr_Body = []\<rparr>, gw)
         else case next_h c gw of (r, gw) \<Rightarrow> (with_headers hs r, gw))"

section \<open>Routes (server.go)\<close>

text \<open>A pattern's segments; one in braces matches any segment but the empty one and binds it.\<close>

definition pattern_segments :: "string \<Rightarrow> string list" where
  "pattern_segments p = split_on (CHR ''/'') (tl p)"

definition wildcard :: "string \<Rightarrow> bool" where
  "wildcard seg \<longleftrightarrow> seg \<noteq> [] \<and> hd seg = CHR ''{''"

fun match_segments :: "string list \<Rightarrow> string list \<Rightarrow> (string \<times> string) list option" where
  "match_segments [] [] = Some []"
| "match_segments (p # ps) (s # ss) =
     (if wildcard p
      then if s = [] then None else map_option (\<lambda>vs. (butlast (tl p), s) # vs) (match_segments ps ss)
      else if p = s then match_segments ps ss else None)"
| "match_segments _ _ = None"

type_synonym route = "string \<times> string \<times> handler"

definition public_routes :: "server \<Rightarrow> route list" where
  "public_routes S =
     [(''GET'', ''/healthz'', handleHealth), (''GET'', ''/readyz'', handleReady),
      (''GET'', ''/metrics'', metrics_Handler), (''GET'', ''/openapi.yaml'', handleOpenAPI S),
      (''POST'', ''/v1/auth/register'', on_world (handleRegister S)),
      (''POST'', ''/v1/auth/login'', on_world (handleLogin S)),
      (''POST'', ''/v1/auth/refresh'', on_world (handleRefresh S))]"

definition member_routes :: "server \<Rightarrow> (string \<times> string \<times> (call \<Rightarrow> world \<Rightarrow> response \<times> world)) list" where
  "member_routes S =
     [(''GET'', ''/v1/me'', handleMe S), (''PATCH'', ''/v1/me'', handleUpdateMe S),
      (''GET'', ''/v1/me/notifications'', handleMyNotifications S),
      (''GET'', ''/v1/me/invitations'', handleMyInvitations S),
      (''GET'', ''/v1/me/groups'', handleMyGroups S), (''GET'', ''/v1/me/transactions'', handleMyTransactions S),
      (''GET'', ''/v1/users/{id}/reputation'', handleReputation S),
      (''POST'', ''/v1/users/{id}/risk-score'', handleRiskScore S),
      (''POST'', ''/v1/groups'', handleCreateGroup S), (''GET'', ''/v1/groups'', handleListGroups S),
      (''GET'', ''/v1/groups/{id}'', handleGetGroup S), (''GET'', ''/v1/groups/{id}/members'', handleListMembers S),
      (''POST'', ''/v1/groups/{id}/join-requests'', handleRequestJoin S),
      (''GET'', ''/v1/groups/{id}/join-requests'', handleListJoinRequests S),
      (''POST'', ''/v1/join-requests/{id}/decision'', handleDecideJoin S),
      (''POST'', ''/v1/groups/{id}/invitations'', handleInvite S),
      (''POST'', ''/v1/invitations/{id}/response'', handleRespondInvite S),
      (''POST'', ''/v1/groups/{id}/leave'', handleLeave S),
      (''DELETE'', ''/v1/groups/{id}/members/{userID}'', handleRemoveMember S),
      (''POST'', ''/v1/groups/{id}/activate'', handleActivate S),
      (''GET'', ''/v1/groups/{id}/cycles'', handleListCycles S),
      (''GET'', ''/v1/groups/{id}/cycles/current'', handleCurrentCycle S),
      (''GET'', ''/v1/groups/{id}/cycles/{index}/status'', handleCycleStatus S),
      (''POST'', ''/v1/groups/{id}/contributions'', handleContribute S),
      (''POST'', ''/v1/groups/{id}/cycles/{index}/settle'', handleSettle S),
      (''GET'', ''/v1/groups/{id}/monitor'', handleMonitor S),
      (''GET'', ''/v1/groups/{id}/liquidity'', handleGroupLiquidity S),
      (''POST'', ''/v1/intelligence/optimize-groups'', handleOptimize S)]"

definition admin_routes :: "server \<Rightarrow> (string \<times> string \<times> (call \<Rightarrow> world \<Rightarrow> response \<times> world)) list" where
  "admin_routes S =
     [(''GET'', ''/v1/admin/overview'', handleAdminOverview S), (''GET'', ''/v1/admin/users'', handleAdminUsers S),
      (''POST'', ''/v1/admin/users/{id}/suspend'', handleAdminSuspend S),
      (''POST'', ''/v1/admin/users/{id}/activate'', handleAdminActivate S),
      (''GET'', ''/v1/admin/kyc/pending'', handleAdminKYCPending S),
      (''POST'', ''/v1/admin/kyc/{id}/decision'', handleAdminKYCDecision S),
      (''GET'', ''/v1/admin/users/{id}'', handleAdminUserDetail S),
      (''POST'', ''/v1/admin/users/{id}/role'', handleAdminSetRole S),
      (''GET'', ''/v1/admin/groups'', handleAdminGroups S),
      (''POST'', ''/v1/admin/groups/{id}/cycles/{index}/settle'', handleAdminForceSettle S),
      (''GET'', ''/v1/admin/transactions'', handleAdminTransactions S),
      (''GET'', ''/v1/admin/webhooks'', handleAdminListWebhooks S),
      (''POST'', ''/v1/admin/webhooks'', handleAdminCreateWebhook S),
      (''DELETE'', ''/v1/admin/webhooks/{id}'', handleAdminDeleteWebhook S),
      (''GET'', ''/v1/admin/liquidity'', handleAdminLiquidity S), (''GET'', ''/v1/admin/audit'', handleAdminAudit S)]"

definition routes :: "server \<Rightarrow> route list" where
  "routes S =
     public_routes S @ map (\<lambda>(m, p, h). (m, p, RequireAuth (on_world h))) (member_routes S)
       @ map (\<lambda>(m, p, h). (m, p, RequireAdmin (on_world h))) (admin_routes S)"

text \<open>
  \<^verbatim>\<open>http.ServeMux\<close> on this table, in which no two patterns of a method overlap: a \<^verbatim>\<open>GET\<close> pattern also takes
  \<^verbatim>\<open>HEAD\<close>, a path that only other methods have is 405 with their names, any other is 404.
\<close>

definition takes_method :: "string \<Rightarrow> string \<Rightarrow> bool" where
  "takes_method p m \<longleftrightarrow> m = p \<or> (p = ''GET'' \<and> m = ''HEAD'')"

definition route_vars :: "request \<Rightarrow> route \<Rightarrow> (string \<times> string) list option" where
  "route_vars r rt = (case rt of (m, p, h) \<Rightarrow> match_segments (pattern_segments p) (rq_Segments r))"

definition allowed_methods :: "route list \<Rightarrow> request \<Rightarrow> string list" where
  "allowed_methods rts r =
     filter (\<lambda>m. \<exists>rt \<in> set rts. takes_method (fst rt) m \<and> route_vars r rt \<noteq> None)
       [''DELETE'', ''GET'', ''HEAD'', ''PATCH'', ''POST'']"

fun comma_separated :: "string list \<Rightarrow> string" where
  "comma_separated [] = []"
| "comma_separated [m] = m"
| "comma_separated (m # ms) = m @ '', '' @ comma_separated ms"

definition plain_error :: "int \<Rightarrow> string \<Rightarrow> response" where
  "plain_error status msg =
     \<lparr>hr_Status = status, hr_Header = [(''Content-Type'', ''text/plain; charset=utf-8''),
        (''X-Content-Type-Options'', ''nosniff'')], hr_Body = msg @ newline\<rparr>"

definition serve_mux :: "route list \<Rightarrow> handler" where
  "serve_mux rts c gw =
     (let r = ca_Request c
      in case List.find (\<lambda>rt. takes_method (fst rt) (rq_Method r) \<and> route_vars r rt \<noteq> None) rts of
           Some rt \<Rightarrow> snd (snd rt) (c\<lparr>ca_Vars := the (route_vars r rt)\<rparr>) gw
         | None \<Rightarrow>
             if allowed_methods rts r \<noteq> []
             then (with_headers [(''Allow'', comma_separated (allowed_methods rts r))]
                     (plain_error 405 ''Method Not Allowed''), gw)
             else (plain_error 404 ''404 page not found'', gw))"

text \<open>The middleware chain, outermost first.\<close>

definition Routes :: "server \<Rightarrow> handler" where
  "Routes S =
     cors (sv_cors S)
       (requestID S
         (limiter_Middleware S
           (accessLog S
             (idem_Middleware S
               (Authenticate S (serve_mux (routes S)))))))"

definition serve :: "server \<Rightarrow> request \<Rightarrow> gateway \<Rightarrow> response \<times> gateway" where
  "serve S r = Routes S \<lparr>ca_Request = r, ca_Principal = None, ca_RequestID = [], ca_Vars = []\<rparr>"

end
