(* ===== verification/Http_Facts.thy ===== *)
theory Http_Facts
  imports Http_Server Reachable
begin

text \<open>
  What a request may do: every handler is a step of the service, every middleware at most calls the
  next one once, so the worlds behind the API are the reachable ones; who the caller must be; what a
  repeated idempotency key answers.
\<close>

named_theorems handler_step \<open>a handler is a step of the service\<close>

section \<open>Handlers are steps\<close>

definition steps :: "server \<Rightarrow> (world \<Rightarrow> response \<times> world) \<Rightarrow> bool" where
  "steps S h \<longleftrightarrow> (\<forall>w. api_step (sv_env S) w (snd (h w)))"

lemma stepsI: "(\<And>w. api_step (sv_env S) w (snd (h w))) \<Longrightarrow> steps S h"
  by (simp add: steps_def)

lemma api_step_refl: "api_step E w w"
  using api_step.clock_read [of E w "ticks w"] by simp

lemma api_step_clock: "\<exists>k. w' = w\<lparr>ticks := k\<rparr> \<Longrightarrow> api_step E w w'"
  by (auto intro: api_step.clock_read)

lemma steps_reply: "(\<And>w. api_step (sv_env S) w (snd (m w))) \<Longrightarrow> steps S (reply st view m)"
  by (simp add: steps_def)

lemma steps_reply_query: "(\<And>w. snd (m w) = w) \<Longrightarrow> steps S (reply st view m)"
  by (simp add: steps_def api_step_refl)

lemma steps_refuse: "steps S (refuse e)"
  by (simp add: steps_def api_step_refl)

lemma steps_with_body: "(\<And>req. steps S (k req)) \<Longrightarrow> steps S (with_body fs z c k)"
  by (auto simp: with_body_def steps_refuse split: prod.split)

lemma steps_with_index: "(\<And>i. steps S (k i)) \<Longrightarrow> steps S (with_index c k)"
  by (auto simp: with_index_def steps_refuse split: prod.split)

lemmas queries = Service_GetUser_def Notifications_def MyGroups_def Transactions_def Reputation_def
  Service_ListGroups_def Service_GetGroup_def ListMembers_def ListJoinRequests_def MyInvitations_def ListCycles_def
  CurrentCycle_def CycleStatus_def Overview_def Service_ListUsers_def PendingKYC_def UserDetail_def AllGroups_def
  AllTransactions_def Service_ListWebhooks_def AuditLog_def

lemma query_keeps [simp]:
  "snd (Service_GetUser a w) = w" "snd (Notifications a w) = w" "snd (MyGroups a w) = w" "snd (Transactions a w) = w"
  "snd (Reputation a w) = w" "snd (Service_ListGroups p w) = w" "snd (Service_GetGroup a w) = w"
  "snd (ListMembers a w) = w" "snd (ListJoinRequests a b w) = w" "snd (MyInvitations a w) = w"
  "snd (ListCycles a w) = w" "snd (CurrentCycle a w) = w" "snd (CycleStatus a i w) = w" "snd (Overview w) = w"
  "snd (Service_ListUsers p w) = w" "snd (PendingKYC w) = w" "snd (UserDetail a w) = w" "snd (AllGroups p w) = w"
  "snd (AllTransactions p w) = w" "snd (Service_ListWebhooks w) = w" "snd (AuditLog p w) = w"
  by (simp_all add: queries exec split: sum.split)

lemma member_query_steps [handler_step]:
  "steps S (handleMe S c)" "steps S (handleMyNotifications S c)" "steps S (handleMyGroups S c)"
  "steps S (handleMyTransactions S c)" "steps S (handleReputation S c)" "steps S (handleListGroups S c)"
  "steps S (handleGetGroup S c)" "steps S (handleListMembers S c)" "steps S (handleListJoinRequests S c)"
  "steps S (handleMyInvitations S c)" "steps S (handleListCycles S c)" "steps S (handleCurrentCycle S c)"
  unfolding handleMe_def handleMyNotifications_def handleMyGroups_def handleMyTransactions_def handleReputation_def
    handleListGroups_def handleGetGroup_def handleListMembers_def handleListJoinRequests_def handleMyInvitations_def
    handleListCycles_def handleCurrentCycle_def
  by (rule steps_reply_query, simp)+

lemma admin_query_steps [handler_step]:
  "steps S (handleAdminOverview S c)" "steps S (handleAdminUsers S c)" "steps S (handleAdminKYCPending S c)"
  "steps S (handleAdminUserDetail S c)" "steps S (handleAdminGroups S c)" "steps S (handleAdminTransactions S c)"
  "steps S (handleAdminListWebhooks S c)" "steps S (handleAdminAudit S c)"
  unfolding handleAdminOverview_def handleAdminUsers_def handleAdminKYCPending_def handleAdminUserDetail_def
    handleAdminGroups_def handleAdminTransactions_def handleAdminListWebhooks_def handleAdminAudit_def
  by (rule steps_reply_query, simp)+

lemma advice_steps [handler_step]:
  "steps S (handleRiskScore S c)" "steps S (handleGroupLiquidity S c)" "steps S (handleAdminLiquidity S c)"
  "steps S (handleCycleStatus S c)" "steps S (handleMonitor S c)" "steps S (handleOptimize S c)"
proof -
  show "steps S (handleRiskScore S c)"
    unfolding handleRiskScore_def by (intro steps_with_body steps_reply_query ScoreRisk_keeps)
  show "steps S (handleGroupLiquidity S c)"
    unfolding handleGroupLiquidity_def by (intro steps_reply_query AssessGroupLiquidity_keeps)
  show "steps S (handleAdminLiquidity S c)"
    unfolding handleAdminLiquidity_def by (intro steps_reply_query LiquidityBoard_keeps)
  show "steps S (handleCycleStatus S c)"
    unfolding handleCycleStatus_def by (intro steps_with_index steps_reply_query query_keeps)
  show "steps S (handleMonitor S c)"
    unfolding handleMonitor_def by (intro steps_reply api_step_clock MonitorGroup_clock)
  show "steps S (handleOptimize S c)"
    unfolding handleOptimize_def
    by (intro steps_with_body) (auto simp: steps_refuse steps_def api_step_refl split: prod.split)
qed

lemma steps_case_prod: "(\<And>a b. steps S (f a b)) \<Longrightarrow> steps S (case p of (a, b) \<Rightarrow> f a b)"
  by (cases p) simp

lemma account_steps [handler_step]:
  "steps S (handleRegister S c)" "steps S (handleLogin S c)" "steps S (handleRefresh S c)" "steps S (handleUpdateMe S c)"
  unfolding handleRegister_def handleLogin_def handleRefresh_def handleUpdateMe_def
  by (intro steps_with_body steps_case_prod steps_reply api_step.register api_step_clock Login_clock Refresh_clock
      api_step.update_profile)+

lemma group_steps [handler_step]:
  "steps S (handleCreateGroup S c)" "steps S (handleRequestJoin S c)" "steps S (handleDecideJoin S c)"
  "steps S (handleInvite S c)" "steps S (handleRespondInvite S c)" "steps S (handleLeave S c)"
  "steps S (handleRemoveMember S c)" "steps S (handleActivate S c)" "steps S (handleContribute S c)"
  "steps S (handleSettle S c)"
  unfolding handleCreateGroup_def handleRequestJoin_def handleDecideJoin_def handleInvite_def handleRespondInvite_def
    handleLeave_def handleRemoveMember_def handleActivate_def handleContribute_def handleSettle_def Let_def
  by (intro steps_with_body steps_with_index steps_case_prod steps_reply api_step.intros)+

lemma admin_steps [handler_step]:
  "steps S (handleAdminSuspend S c)" "steps S (handleAdminActivate S c)" "steps S (handleAdminKYCDecision S c)"
  "steps S (handleAdminSetRole S c)" "steps S (handleAdminForceSettle S c)" "steps S (handleAdminCreateWebhook S c)"
  "steps S (handleAdminDeleteWebhook S c)"
  unfolding handleAdminSuspend_def handleAdminActivate_def handleAdminKYCDecision_def handleAdminSetRole_def
    handleAdminForceSettle_def handleAdminCreateWebhook_def handleAdminDeleteWebhook_def
  by (intro steps_with_body steps_with_index steps_case_prod steps_reply api_step.intros)+

section \<open>Middlewares pass a step on\<close>

definition handler_steps :: "server \<Rightarrow> handler \<Rightarrow> bool" where
  "handler_steps S h \<longleftrightarrow> (\<forall>c gw. api_step (sv_env S) (gw_world gw) (gw_world (snd (h c gw))))"

lemma handler_stepsD: "handler_steps S h \<Longrightarrow> gw_world gw = w \<Longrightarrow> api_step (sv_env S) w (gw_world (snd (h c gw)))"
  by (auto simp: handler_steps_def)

lemma handler_steps_world: "(\<And>c. steps S (h c)) \<Longrightarrow> handler_steps S (on_world h)"
  by (auto simp: handler_steps_def steps_def on_world_def split: prod.split)
    (metis snd_conv)

lemma handler_steps_same: "(\<And>c gw. gw_world (snd (h c gw)) = gw_world gw) \<Longrightarrow> handler_steps S h"
  by (simp add: handler_steps_def api_step_refl)

lemma gw_world_tick [simp]: "gw_world (gw_tick gw) = gw_world gw" "gw_world (in_flight d gw) = gw_world gw"
  by (simp_all add: gw_tick_def in_flight_def)

lemma allow_world [simp]: "gw_world (snd (allow S k gw)) = gw_world gw"
  by (simp add: allow_def Let_def split: option.split)

lemma handler_steps_guards:
  assumes "handler_steps S h"
  shows "handler_steps S (RequireAuth h)" "handler_steps S (RequireAdmin h)" "handler_steps S (Authenticate S h)"
  unfolding handler_steps_def
  using handler_stepsD [OF assms] by (auto simp: RequireAuth_def RequireAdmin_def Authenticate_def Let_def api_step_refl
      split: option.split sum.split)

lemma handler_steps_middleware:
  assumes "handler_steps S h"
  shows "handler_steps S (cors a h)" "handler_steps S (requestID S h)" "handler_steps S (limiter_Middleware S h)"
    "handler_steps S (accessLog S h)" "handler_steps S (idem_Middleware S h)"
proof -
  have h: "api_step (sv_env S) (gw_world gw) (gw_world gw')" if "h c g = (r, gw')" "gw_world g = gw_world gw" for c g gw gw' r
    using handler_stepsD [OF assms that(2), of c] that(1) by simp
  show "handler_steps S (cors a h)"
    by (auto simp: handler_steps_def cors_def Let_def api_step_refl intro: h split: prod.split)
  show "handler_steps S (requestID S h)"
    by (auto simp: handler_steps_def requestID_def Let_def intro: h split: prod.split)
  show "handler_steps S (accessLog S h)"
    by (auto simp: handler_steps_def accessLog_def Let_def intro: h split: prod.split)
  show "handler_steps S (idem_Middleware S h)"
    by (auto simp: handler_steps_def idem_Middleware_def Let_def api_step_refl intro: h split: prod.split)
  show "handler_steps S (limiter_Middleware S h)"
    unfolding handler_steps_def
  proof (intro allI)
    fix c :: call and gw
    obtain ok gw' where a: "allow S (clientIP (ca_Request c)) gw = (ok, gw')"
      by (cases "allow S (clientIP (ca_Request c)) gw")
    then have "gw_world gw' = gw_world gw"
      using allow_world [of S "clientIP (ca_Request c)" gw] by simp
    then show "api_step (sv_env S) (gw_world gw) (gw_world (snd (limiter_Middleware S h c gw)))"
      using handler_stepsD [OF assms, of gw'] by (auto simp: limiter_Middleware_def a api_step_refl)
  qed
qed

lemma public_routes_step: "\<forall>rt \<in> set (public_routes S). handler_steps S (snd (snd rt))"
proof -
  have "handler_steps S handleHealth" "handler_steps S handleReady" "handler_steps S metrics_Handler"
    "handler_steps S (handleOpenAPI S)"
    by (rule handler_steps_same, simp add: handleHealth_def handleReady_def metrics_Handler_def handleOpenAPI_def)+
  then show ?thesis
    by (simp add: public_routes_def handler_steps_world handler_step)
qed

lemma member_routes_step: "\<forall>(m, p, h) \<in> set (member_routes S). \<forall>c. steps S (h c)"
  by (simp add: member_routes_def handler_step)

lemma admin_routes_step: "\<forall>(m, p, h) \<in> set (admin_routes S). \<forall>c. steps S (h c)"
  by (simp add: admin_routes_def handler_step)

lemma routes_step: "\<forall>rt \<in> set (routes S). handler_steps S (snd (snd rt))"
  unfolding routes_def
  using public_routes_step [of S] member_routes_step [of S] admin_routes_step [of S]
  by (fastforce intro!: handler_steps_guards handler_steps_world)

lemma serve_mux_steps:
  assumes "\<forall>rt \<in> set rts. handler_steps S (snd (snd rt))"
  shows "handler_steps S (serve_mux rts)"
proof -
  have "handler_steps S (snd (snd rt))"
    if "List.find P rts = Some rt" for P rt
    using that assms by (metis find_Some_iff nth_mem)
  then show ?thesis
    by (auto simp: handler_steps_def serve_mux_def Let_def api_step_refl split: option.split)
qed

lemma Routes_steps: "handler_steps S (Routes S)"
  unfolding Routes_def by (intro handler_steps_middleware handler_steps_guards serve_mux_steps routes_step)


section \<open>Who may change the world\<close>

text \<open>\<open>effects Q h\<close>: \<open>h\<close> changes the world only for requests and principals that satisfy \<open>Q\<close>.\<close>

definition effects :: "(request \<Rightarrow> principal option \<Rightarrow> bool) \<Rightarrow> handler \<Rightarrow> bool" where
  "effects Q h \<longleftrightarrow> (\<forall>c gw. gw_world (snd (h c gw)) \<noteq> gw_world gw \<longrightarrow> Q (ca_Request c) (ca_Principal c))"

lemma effectsD: "effects Q h \<Longrightarrow> gw_world (snd (h c gw)) \<noteq> gw_world gw \<Longrightarrow> Q (ca_Request c) (ca_Principal c)"
  unfolding effects_def by blast

definition session_paths :: "string list list" where
  "session_paths = [[''v1'', ''auth'', ''register''], [''v1'', ''auth'', ''login''], [''v1'', ''auth'', ''refresh'']]"

definition admin_path :: "request \<Rightarrow> bool" where
  "admin_path r \<longleftrightarrow> take 2 (rq_Segments r) = [''v1'', ''admin'']"

definition entitled :: "request \<Rightarrow> principal option \<Rightarrow> bool" where
  "entitled r p \<longleftrightarrow> rq_Segments r \<in> set session_paths
     \<or> (\<exists>q. p = Some q \<and> (admin_path r \<longrightarrow> pr_Role q = RoleAdmin))"

lemma match_literal:
  "\<not> wildcard p \<Longrightarrow> match_segments (p # ps) ss \<noteq> None \<longleftrightarrow> (\<exists>qs. ss = p # qs \<and> match_segments ps qs \<noteq> None)"
  by (cases ss) auto

lemma match_Nil: "match_segments [] ss \<noteq> None \<longleftrightarrow> ss = []"
  by (cases ss) auto

lemma match_second:
  assumes "match_segments (p # q # ps) ss \<noteq> None" and "\<not> wildcard p" and "\<not> wildcard q"
  shows "take 2 ss = [p, q]"
  using assms by (cases ss; cases "tl ss") (auto split: if_splits)

lemma session_routes_match:
  "match_segments (pattern_segments ''/v1/auth/register'') ss \<noteq> None \<Longrightarrow> ss = [''v1'', ''auth'', ''register'']"
  "match_segments (pattern_segments ''/v1/auth/login'') ss \<noteq> None \<Longrightarrow> ss = [''v1'', ''auth'', ''login'']"
  "match_segments (pattern_segments ''/v1/auth/refresh'') ss \<noteq> None \<Longrightarrow> ss = [''v1'', ''auth'', ''refresh'']"
  by (simp_all add: pattern_segments_def match_literal match_Nil wildcard_def del: not_None_eq)

lemma public_effects:
  assumes "(m, p, h) \<in> set (public_routes S)" and "match_segments (pattern_segments p) (rq_Segments r) \<noteq> None"
    and "gw_world (snd (h c gw)) \<noteq> gw_world gw"
  shows "rq_Segments r \<in> set session_paths"
proof -
  have "gw_world (snd (handleHealth c gw)) = gw_world gw" "gw_world (snd (handleReady c gw)) = gw_world gw"
    "gw_world (snd (metrics_Handler c gw)) = gw_world gw" "gw_world (snd (handleOpenAPI S c gw)) = gw_world gw"
    by (simp_all add: handleHealth_def handleReady_def metrics_Handler_def handleOpenAPI_def)
  with assms(1,3) have "p = ''/v1/auth/register'' \<or> p = ''/v1/auth/login'' \<or> p = ''/v1/auth/refresh''"
    unfolding public_routes_def by auto
  then show ?thesis
    unfolding session_paths_def using assms(2) session_routes_match [of "rq_Segments r"] by (elim disjE) auto
qed

text \<open>No pattern of the members' table begins as the operator's paths do.\<close>

definition second_segment :: "string \<Rightarrow> string" where
  "second_segment p = pattern_segments p ! 1"

lemma member_patterns:
  "\<forall>(m, p, h) \<in> set (member_routes S). \<exists>q ps. pattern_segments p = ''v1'' # q # ps \<and> \<not> wildcard q \<and> q \<noteq> ''admin''"
  by (simp add: member_routes_def pattern_segments_def wildcard_def)

lemma member_not_admin:
  assumes "(m, p, h) \<in> set (member_routes S)" and "match_segments (pattern_segments p) (rq_Segments r) \<noteq> None"
  shows "\<not> admin_path r"
proof -
  obtain q ps where p: "pattern_segments p = ''v1'' # q # ps" "\<not> wildcard q" "q \<noteq> ''admin''"
    using member_patterns [of S] assms(1) by blast
  then have "take 2 (rq_Segments r) = [''v1'', q]"
    using assms(2) by (intro match_second) (simp_all add: wildcard_def)
  with p(3) show ?thesis
    by (simp add: admin_path_def)
qed

lemma mux_effects: "effects entitled (serve_mux (routes S))"
  unfolding effects_def
proof (intro allI impI)
  fix c :: call and gw
  let ?r = "ca_Request c"
  assume change: "gw_world (snd (serve_mux (routes S) c gw)) \<noteq> gw_world gw"
  then obtain rt where find: "List.find (\<lambda>rt. takes_method (fst rt) (rq_Method ?r) \<and> route_vars ?r rt \<noteq> None) (routes S) = Some rt"
    and run: "gw_world (snd (snd (snd rt) (c\<lparr>ca_Vars := the (route_vars ?r rt)\<rparr>) gw)) \<noteq> gw_world gw"
    by (auto simp: serve_mux_def Let_def split: option.splits if_splits)
  then have rt: "rt \<in> set (routes S)" and vars: "route_vars ?r rt \<noteq> None"
    by (auto simp: find_Some_iff)
  obtain m p h where [simp]: "rt = (m, p, h)"
    by (metis prod_cases3)
  have match: "match_segments (pattern_segments p) (rq_Segments ?r) \<noteq> None"
    using vars by (simp add: route_vars_def)
  from rt consider "rt \<in> set (public_routes S)"
    | k where "(m, p, k) \<in> set (member_routes S)" "h = RequireAuth (on_world k)"
    | k where "(m, p, k) \<in> set (admin_routes S)" "h = RequireAdmin (on_world k)"
    by (auto simp: routes_def)
  then show "entitled ?r (ca_Principal c)"
  proof cases
    case 1
    then show ?thesis
      using public_effects [of m p h S, OF _ match] run by (auto simp: entitled_def)
  next
    case 2
    with run have "ca_Principal c \<noteq> None"
      by (auto simp: RequireAuth_def split: if_splits)
    with member_not_admin [OF 2(1) match] show ?thesis
      by (auto simp: entitled_def)
  next
    case 3
    with run obtain q where "ca_Principal c = Some q" "pr_Role q = RoleAdmin"
      by (auto simp: RequireAdmin_def split: option.splits if_splits)
    then show ?thesis
      by (auto simp: entitled_def)
  qed
qed

section \<open>The outer middlewares\<close>

definition fresh_call :: "request \<Rightarrow> call" where
  "fresh_call r = \<lparr>ca_Request = r, ca_Principal = None, ca_RequestID = [], ca_Vars = []\<rparr>"

definition outer :: "server \<Rightarrow> handler \<Rightarrow> handler" where
  "outer S h = cors (sv_cors S) (requestID S (limiter_Middleware S (accessLog S h)))"

lemma serve_outer: "serve S r gw = outer S (idem_Middleware S (Authenticate S (serve_mux (routes S)))) (fresh_call r) gw"
  by (simp add: serve_def Routes_def outer_def fresh_call_def)

lemma allow_draws [simp]: "fst (allow S k (gw\<lparr>gw_draws := n\<rparr>)) = fst (allow S k gw)"
  by (simp add: allow_def gw_now_def gw_tick_def Let_def split: option.split)

lemma allow_idem: "gw_idem (snd (allow S k gw)) = gw_idem gw"
  by (simp add: allow_def gw_tick_def Let_def split: option.split)

lemma gw_idem_tick [simp]: "gw_idem (gw_tick gw) = gw_idem gw" "gw_idem (in_flight d gw) = gw_idem gw"
  by (simp_all add: gw_tick_def in_flight_def)

lemma gw_ticks_simps [simp]: "gw_ticks (gw_tick gw) = Suc (gw_ticks gw)" "gw_ticks (in_flight d gw) = gw_ticks gw"
  by (simp_all add: gw_tick_def in_flight_def)

lemma allow_ticks [simp]: "gw_ticks (snd (allow S k gw)) = Suc (gw_ticks gw)"
  by (simp add: allow_def gw_tick_def Let_def split: option.split)

text \<open>A request the limiter lets through is answered by the inner handler, on the same world and memory.\<close>

lemma outer_inner:
  assumes "rq_Method (ca_Request c) \<noteq> ''OPTIONS''"
  obtains (limited) "\<not> fst (allow S (clientIP (ca_Request c)) gw)" "hr_Status (fst (outer S h c gw)) = 429"
      "gw_world (snd (outer S h c gw)) = gw_world gw" "gw_idem (snd (outer S h c gw)) = gw_idem gw"
      "gw_ticks gw \<le> gw_ticks (snd (outer S h c gw))"
    | (served) c' g where "fst (allow S (clientIP (ca_Request c)) gw)" "ca_Request c' = ca_Request c"
      "gw_world g = gw_world gw" "gw_idem g = gw_idem gw" "gw_ticks gw \<le> gw_ticks g"
      "hr_Status (fst (outer S h c gw)) = hr_Status (fst (h c' g))"
      "hr_Body (fst (outer S h c gw)) = hr_Body (fst (h c' g))"
      "gw_world (snd (outer S h c gw)) = gw_world (snd (h c' g))"
      "gw_idem (snd (outer S h c gw)) = gw_idem (snd (h c' g))"
      "gw_ticks (snd (h c' g)) \<le> gw_ticks (snd (outer S h c gw))"
      "ca_Principal c' = ca_Principal c"
proof -
  define given where "given = header_get (ca_Request c) ''X-Request-ID''"
  define rid where "rid = (if given = [] then take 12 (NewID (sv_rand S (gw_draws gw))) else given)"
  define g0 where "g0 = (if given = [] then gw\<lparr>gw_draws := Suc (gw_draws gw)\<rparr> else gw)"
  define c' where "c' = c\<lparr>ca_RequestID := rid\<rparr>"
  obtain ok g1 where a: "allow S (clientIP (ca_Request c)) g0 = (ok, g1)"
    by (cases "allow S (clientIP (ca_Request c)) g0")
  have g0: "gw_world g0 = gw_world gw" "gw_idem g0 = gw_idem gw" "gw_ticks g0 = gw_ticks gw"
    by (simp_all add: g0_def)
  have "fst (allow S (clientIP (ca_Request c)) g0) = fst (allow S (clientIP (ca_Request c)) gw)"
    by (simp add: g0_def)
  then have ok: "ok = fst (allow S (clientIP (ca_Request c)) gw)"
    by (simp add: a)
  have g1: "gw_world g1 = gw_world gw" "gw_idem g1 = gw_idem gw" "gw_ticks g1 = Suc (gw_ticks gw)"
    using allow_world [of S "clientIP (ca_Request c)" g0] allow_idem [of S "clientIP (ca_Request c)" g0]
      allow_ticks [of S "clientIP (ca_Request c)" g0] by (simp_all add: a g0)
  have req: "ca_Request c' = ca_Request c" "ca_Principal c' = ca_Principal c"
    by (simp_all add: c'_def)
  let ?l = "limiter_Middleware S (accessLog S h) c' g0"
  have o: "hr_Status (fst (outer S h c gw)) = hr_Status (fst ?l)" "hr_Body (fst (outer S h c gw)) = hr_Body (fst ?l)"
    "snd (outer S h c gw) = snd ?l"
    using assms by (simp_all add: outer_def cors_def requestID_def Let_def given_def [symmetric] rid_def [symmetric]
        g0_def [symmetric] c'_def [symmetric] with_headers_def case_prod_beta)
  show thesis
  proof (cases ok)
    case False
    with o ok g1 show thesis
      by (intro limited) (simp_all add: limiter_Middleware_def req a with_headers_def writeJSON_def)
  next
    case True
    let ?g = "in_flight 1 (gw_tick g1)"
    have "hr_Status (fst ?l) = hr_Status (fst (h c' ?g))" "hr_Body (fst ?l) = hr_Body (fst (h c' ?g))"
      "gw_world (snd ?l) = gw_world (snd (h c' ?g))" "gw_idem (snd ?l) = gw_idem (snd (h c' ?g))"
      "gw_ticks (snd ?l) = Suc (gw_ticks (snd (h c' ?g)))"
      using True by (simp_all add: limiter_Middleware_def req a accessLog_def Let_def case_prod_beta)
    with o ok True req g1 show thesis
      by (intro served [of c' ?g]) simp_all
  qed
qed

section \<open>Idempotency keys\<close>

text \<open>What is inside the idempotency cache leaves it alone and lets time pass.\<close>

definition quiet :: "handler \<Rightarrow> bool" where
  "quiet h \<longleftrightarrow> (\<forall>c gw. gw_idem (snd (h c gw)) = gw_idem gw \<and> gw_ticks gw \<le> gw_ticks (snd (h c gw)))"

lemma quiet_on_world: "quiet (on_world h)"
  by (simp add: quiet_def on_world_def case_prod_beta)

lemma quiet_guards: "quiet h \<Longrightarrow> quiet (RequireAuth h)" "quiet h \<Longrightarrow> quiet (RequireAdmin h)"
  by (auto simp: quiet_def RequireAuth_def RequireAdmin_def split: option.split)

lemma quiet_routes: "\<forall>rt \<in> set (routes S). quiet (snd (snd rt))"
proof -
  have "quiet handleHealth" "quiet handleReady" "quiet metrics_Handler" "quiet (handleOpenAPI S)"
    by (simp_all add: quiet_def handleHealth_def handleReady_def metrics_Handler_def handleOpenAPI_def)
  then have "\<forall>rt \<in> set (public_routes S). quiet (snd (snd rt))"
    by (simp add: public_routes_def quiet_on_world)
  then show ?thesis
    unfolding routes_def by (auto simp: quiet_guards quiet_on_world)
qed

lemma quiet_mux:
  assumes "\<forall>rt \<in> set rts. quiet (snd (snd rt))"
  shows "quiet (serve_mux rts)"
proof -
  have "quiet (snd (snd rt))" if "List.find P rts = Some rt" for P rt
    using that assms by (metis find_Some_iff nth_mem)
  then show ?thesis
    by (auto simp: quiet_def serve_mux_def Let_def split: option.split)
qed

lemma quiet_Authenticate: "quiet h \<Longrightarrow> quiet (Authenticate S h)"
  unfolding quiet_def Authenticate_def Let_def
  by (auto split: sum.split) (metis Suc_leD gw_ticks_simps(1))+

definition inner :: "server \<Rightarrow> handler" where
  "inner S = Authenticate S (serve_mux (routes S))"

lemma quiet_inner: "quiet (inner S)"
  unfolding inner_def by (intro quiet_Authenticate quiet_mux quiet_routes)

lemma serve_inner: "serve S r gw = outer S (idem_Middleware S (inner S)) (fresh_call r) gw"
  by (simp add: serve_outer inner_def)

lemma idem_ticks:
  assumes "quiet h"
  shows "gw_ticks g \<le> gw_ticks (snd (idem_Middleware S h c g))"
proof -
  have "gw_ticks g \<le> gw_ticks (snd (h c g'))" if "gw_ticks g \<le> gw_ticks g'" for g'
    using assms that unfolding quiet_def by (meson le_trans)
  then show ?thesis
    by (auto simp: idem_Middleware_def Let_def case_prod_beta le_SucI)
qed

lemma idem_remembers:
  assumes "mono (sv_clock S)" and "quiet h" and "idem_applies (ca_Request c)"
    and "\<forall>e. gm_get (gw_idem g) (idem_key (ca_Request c)) = Some e \<longrightarrow> ir_expires e \<le> sv_clock S (gw_ticks g)"
    and "hr_Status (fst (idem_Middleware S h c g)) < 500"
  shows "\<exists>n \<ge> gw_ticks g. gm_get (gw_idem (snd (idem_Middleware S h c g))) (idem_key (ca_Request c)) =
    Some \<lparr>ir_status = hr_Status (fst (idem_Middleware S h c g)), ir_body = hr_Body (fst (idem_Middleware S h c g)),
      ir_expires = sv_clock S n + sint (sv_idemTTL S)\<rparr>"
proof -
  have later: "gw_ticks g \<le> gw_ticks (snd (h c g'))" if "gw_ticks g \<le> gw_ticks g'" for g'
    using assms(2) that unfolding quiet_def by (meson le_trans)
  show ?thesis
    using assms(3-) later [of g] later [of "gw_tick g"]
    by (auto simp: idem_Middleware_def Let_def case_prod_beta gm_get_set gw_now_def split: if_splits option.splits)
qed

lemma idem_replays:
  assumes "idem_applies (ca_Request c)" and "gm_get (gw_idem g) (idem_key (ca_Request c)) = Some e"
    and "sv_clock S (gw_ticks g) < ir_expires e"
  shows "fst (idem_Middleware S h c g) = replayed e" "gw_world (snd (idem_Middleware S h c g)) = gw_world g"
    "gw_idem (snd (idem_Middleware S h c g)) = gw_idem g"
  using assms by (simp_all add: idem_Middleware_def Let_def gw_now_def)

lemma idem_keeps:
  assumes "quiet h" and "gm_get (gw_idem g) k = Some e" and "sv_clock S (gw_ticks g) < ir_expires e"
  shows "gm_get (gw_idem (snd (idem_Middleware S h c g))) k = Some e"
proof (cases "idem_applies (ca_Request c) \<and> idem_key (ca_Request c) = k")
  case True
  then show ?thesis
    using idem_replays(3) [of c g e S h] assms by auto
next
  case False
  have "gw_idem (snd (h c g')) = gw_idem g'" for g'
    using assms(1) by (simp add: quiet_def)
  then show ?thesis
    using False assms(2) by (auto simp: idem_Middleware_def Let_def case_prod_beta gm_get_set)
qed

section \<open>Who may change the world, and when it is checked\<close>

lemma Verify_unexpired: "Verify I now token = Inr cl \<Longrightarrow> unix_seconds now < cl_Exp cl"
  by (auto simp: Verify_def token_verify_def invalid_token_def Let_def split: if_splits option.splits prod.splits)

text \<open>The request carries an access token that verifies at the \<open>n\<close>-th reading of the clock.\<close>

definition authorised_at :: "server \<Rightarrow> request \<Rightarrow> nat \<Rightarrow> bool" where
  "authorised_at S r n \<longleftrightarrow> (\<exists>token cl. header_get r ''Authorization'' = bearer @ token
     \<and> Verify (sv_issuer S) (sv_clock S n) token = Inr cl \<and> (admin_path r \<longrightarrow> cl_Role cl = RoleAdmin))"

lemma inner_effects:
  assumes "gw_world (snd (inner S c g)) \<noteq> gw_world g" and "ca_Principal c = None"
  shows "rq_Segments (ca_Request c) \<in> set session_paths
    \<or> authorised_at S (ca_Request c) (gw_ticks g) \<and> gw_ticks g < gw_ticks (snd (inner S c g))"
proof -
  let ?mux = "serve_mux (routes S)" and ?h = "header_get (ca_Request c) ''Authorization''"
  have later: "gw_ticks g < gw_ticks (snd (?mux c' (gw_tick g)))" for c'
    using quiet_mux [OF quiet_routes, of S] unfolding quiet_def by (metis Suc_le_lessD gw_ticks_simps(1))
  have plain: "rq_Segments (ca_Request c) \<in> set session_paths" if "gw_world (snd (?mux c g')) \<noteq> gw_world g'" for g'
    using effectsD [OF mux_effects that] assms(2) by (simp add: entitled_def)
  show ?thesis
  proof (cases "take 7 ?h = bearer")
    case False
    with assms plain [of g] show ?thesis
      by (simp add: inner_def Authenticate_def Let_def)
  next
    case True
    then have h: "?h = bearer @ drop 7 ?h"
      by (metis append_take_drop_id)
    show ?thesis
    proof (cases "Verify (sv_issuer S) (gw_now S g) (drop 7 ?h)")
      case (Inl e)
      with True assms plain [of "gw_tick g"] show ?thesis
        by (simp add: inner_def Authenticate_def Let_def)
    next
      case (Inr cl)
      let ?c = "c\<lparr>ca_Principal := Some \<lparr>pr_UserID = cl_Sub cl, pr_Role = cl_Role cl\<rparr>\<rparr>"
      have run: "inner S c g = ?mux ?c (gw_tick g)"
        using True Inr by (simp add: inner_def Authenticate_def Let_def)
      with assms have "gw_world (snd (?mux ?c (gw_tick g))) \<noteq> gw_world (gw_tick g)"
        by simp
      from effectsD [OF mux_effects this]
      have "rq_Segments (ca_Request c) \<in> set session_paths \<or> (admin_path (ca_Request c) \<longrightarrow> cl_Role cl = RoleAdmin)"
        by (simp add: entitled_def)
      then show ?thesis
        using h Inr later [of ?c] unfolding run authorised_at_def gw_now_def by blast
    qed
  qed
qed

lemma idem_effects:
  assumes "gw_world (snd (idem_Middleware S h c g)) \<noteq> gw_world g"
  shows "\<exists>g'. gw_world g' = gw_world g \<and> gw_ticks g \<le> gw_ticks g' \<and> gw_world (snd (h c g')) \<noteq> gw_world g'
    \<and> gw_ticks (snd (h c g')) \<le> gw_ticks (snd (idem_Middleware S h c g))"
proof (cases "idem_applies (ca_Request c)")
  case True
  define g' where "g' = (if gm_get (gw_idem g) (idem_key (ca_Request c)) = None then g else gw_tick g)"
  have "gw_world (snd (idem_Middleware S h c g)) = gw_world (snd (h c g'))"
    "gw_ticks (snd (h c g')) \<le> gw_ticks (snd (idem_Middleware S h c g))"
    using True assms by (auto simp: idem_Middleware_def g'_def Let_def case_prod_beta split: if_splits)
  moreover have "gw_world g' = gw_world g" "gw_ticks g \<le> gw_ticks g'"
    by (simp_all add: g'_def)
  ultimately show ?thesis
    using assms by (intro exI [of _ g']) simp
qed (use assms in \<open>auto simp: idem_Middleware_def\<close>)

lemma serve_effects:
  assumes "gw_world (snd (serve S r gw)) \<noteq> gw_world gw"
  shows "rq_Segments r \<in> set session_paths
    \<or> (\<exists>n. gw_ticks gw \<le> n \<and> n < gw_ticks (snd (serve S r gw)) \<and> authorised_at S r n)"
proof -
  let ?M = "idem_Middleware S (inner S)"
  have c: "ca_Request (fresh_call r) = r" "ca_Principal (fresh_call r) = None"
    by (simp_all add: fresh_call_def)
  have m: "rq_Method (ca_Request (fresh_call r)) \<noteq> ''OPTIONS''"
    using assms by (auto simp: serve_inner outer_def cors_def Let_def c)
  show ?thesis
  proof (cases rule: outer_inner [OF m, of S gw ?M, case_names limited served])
    case limited
    with assms show ?thesis
      by (simp add: serve_inner)
  next
    case (served c' g)
    then have "gw_world (snd (?M c' g)) \<noteq> gw_world g"
      using assms by (simp add: serve_inner)
    from idem_effects [OF this] obtain g' where g': "gw_ticks g \<le> gw_ticks g'"
      "gw_world (snd (inner S c' g')) \<noteq> gw_world g'" "gw_ticks (snd (inner S c' g')) \<le> gw_ticks (snd (?M c' g))"
      by blast
    have "ca_Request c' = r" "ca_Principal c' = None"
      using served by (simp_all add: c)
    with inner_effects [OF g'(2)] g'(1,3) served(5,10) show ?thesis
      by (auto simp: serve_inner intro!: exI [of _ "gw_ticks g'"])
  qed
qed

section \<open>The life of a gateway\<close>

inductive gateway_step :: "server \<Rightarrow> gateway \<Rightarrow> gateway \<Rightarrow> bool" for S where
  request: "gateway_step S gw (snd (serve S r gw))"
| collect_buckets: "gateway_step S gw (limiter_gc S gw)"
| collect_responses: "gateway_step S gw (idem_gc S gw)"
| background: "api_step (sv_env S) (gw_world gw) w \<Longrightarrow> gateway_step S gw (gw\<lparr>gw_world := w\<rparr>)"

lemma gateway_step_world: "gateway_step S gw gw' \<Longrightarrow> api_step (sv_env S) (gw_world gw) (gw_world gw')"
proof (induction rule: gateway_step.induct)
  case (request gw r)
  then show ?case
    using handler_stepsD [OF Routes_steps refl] by (simp add: serve_def)
qed (simp_all add: api_step_refl limiter_gc_def idem_gc_def Let_def)

lemma serve_ticks: "gw_ticks gw \<le> gw_ticks (snd (serve S r gw))"
proof (cases "rq_Method r = ''OPTIONS''")
  case True
  then show ?thesis
    by (simp add: serve_inner outer_def cors_def Let_def fresh_call_def)
next
  case False
  then have m: "rq_Method (ca_Request (fresh_call r)) \<noteq> ''OPTIONS''"
    by (simp add: fresh_call_def)
  show ?thesis
    using outer_inner [OF m, of S gw "idem_Middleware S (inner S)"] idem_ticks [OF quiet_inner, of _ S S]
    by (metis le_trans serve_inner)
qed

lemma serve_keeps:
  assumes "mono (sv_clock S)" and "gm_get (gw_idem gw) k = Some e"
    and "sv_clock S (gw_ticks (snd (serve S r gw))) < ir_expires e"
  shows "gm_get (gw_idem (snd (serve S r gw))) k = Some e"
proof (cases "rq_Method r = ''OPTIONS''")
  case True
  then show ?thesis
    using assms(2) by (simp add: serve_inner outer_def cors_def Let_def fresh_call_def)
next
  case False
  then have m: "rq_Method (ca_Request (fresh_call r)) \<noteq> ''OPTIONS''"
    by (simp add: fresh_call_def)
  show ?thesis
  proof (cases rule: outer_inner [OF m, of S gw "idem_Middleware S (inner S)", case_names limited served])
    case limited
    then show ?thesis
      using assms(2) by (simp add: serve_inner)
  next
    case (served c' g)
    have "gw_ticks g \<le> gw_ticks (snd (serve S r gw))"
      using served(10) idem_ticks [OF quiet_inner, of g S S c'] by (simp add: serve_inner)
    then have "sv_clock S (gw_ticks g) < ir_expires e"
      using assms(1,3) by (meson le_less_trans monoD)
    with idem_keeps [OF quiet_inner, of g k e S S c'] served(4,9) assms(2) show ?thesis
      by (simp add: serve_inner)
  qed
qed

lemma gm_get_filter: "gm_get m k = Some e \<Longrightarrow> P (k, e) \<Longrightarrow> gm_get (filter P m) k = Some e"
  by (induction m) (auto simp: gm_get_def split: if_splits)

lemma gateway_step_keeps:
  assumes "gateway_step S gw gw'" and "mono (sv_clock S)"
  shows "gw_ticks gw \<le> gw_ticks gw' \<and> (gm_get (gw_idem gw) k = Some e \<longrightarrow> sv_clock S (gw_ticks gw') < ir_expires e
    \<longrightarrow> gm_get (gw_idem gw') k = Some e)"
  using assms
proof (induction rule: gateway_step.induct)
  case (collect_responses gw)
  have "sv_clock S (gw_ticks gw) \<le> sv_clock S (Suc (gw_ticks gw))"
    using collect_responses by (simp add: monoD)
  then show ?case
    by (auto simp: idem_gc_def gw_now_def intro!: gm_get_filter)
qed (auto simp: serve_ticks serve_keeps limiter_gc_def Let_def)

lemma gateway_steps_keep:
  assumes "(gateway_step S)\<^sup>*\<^sup>* gw gw'" and "mono (sv_clock S)"
  shows "gw_ticks gw \<le> gw_ticks gw' \<and> (gm_get (gw_idem gw) k = Some e \<longrightarrow> sv_clock S (gw_ticks gw') < ir_expires e
    \<longrightarrow> gm_get (gw_idem gw') k = Some e)"
  using assms(1)
proof (induction rule: rtranclp_induct)
  case (step g g')
  have "sv_clock S (gw_ticks g) \<le> sv_clock S (gw_ticks g')"
    using gateway_step_keeps [OF step(2) assms(2)] assms(2) by (simp add: monoD)
  with step.IH gateway_step_keeps [OF step(2) assms(2), of k e] show ?case
    by auto
qed simp

end
