(* ===== verification/Process.thy ===== *)
theory Process
  imports Http_Facts Config Deadlines
begin

text \<open>
  \<^verbatim>\<open>cmd/server/main.go\<close> with what it wires: the choice of the truth layer and of the store, the EVM
  client's construction, the server's options, and the process that results: requests, the two
  collectors, the loops of the indexer and of the scheduler, the poller of an EVM node, the signal
  and the shutdown. Each turn of a goroutine is an event; a run is a sequence of events, in any order
  the conditions allow. What is opened outside (databases, node) is a parameter that answers an error
  or a handle; of a database, the entities it holds.
\<close>

section \<open>The EVM client (chain/evm)\<close>

definition identityRegistryABI :: string where
  \<open>identityRegistryABI = join (CHR 0x0A)
     [''['',
      ''  {"type":"function","name":"register","stateMutability":"nonpayable",'',
      ''   "inputs":[{"name":"commitment","type":"bytes32"}],"outputs":[]},'',
      ''  {"type":"function","name":"isRegistered","stateMutability":"view",'',
      ''   "inputs":[{"name":"commitment","type":"bytes32"}],"outputs":[{"name":"","type":"bool"}]}'',
      '']'']\<close>

definition reputationLedgerABI :: string where
  \<open>reputationLedgerABI = join (CHR 0x0A)
     [''['',
      ''  {"type":"function","name":"record","stateMutability":"nonpayable",'',
      ''   "inputs":['',
      ''     {"name":"user","type":"address"},'',
      ''     {"name":"cycleIndex","type":"uint256"},'',
      ''     {"name":"eventType","type":"uint8"},'',
      ''     {"name":"amount","type":"uint256"}],"outputs":[]},'',
      ''  {"type":"event","name":"ReputationEvent","anonymous":false,'',
      ''   "inputs":['',
      ''     {"name":"user","type":"address","indexed":true},'',
      ''     {"name":"group","type":"address","indexed":true},'',
      ''     {"name":"cycleIndex","type":"uint256","indexed":false},'',
      ''     {"name":"eventType","type":"uint8","indexed":false},'',
      ''     {"name":"amount","type":"uint256","indexed":false},'',
      ''     {"name":"timestamp","type":"uint64","indexed":false}]}'',
      '']'']\<close>

record evm_config =
  ec_RPCURL :: string
  ec_PrivateKeyHex :: string
  ec_IdentityRegistry :: string
  ec_ReputationLedger :: string
  ec_PollInterval :: duration
  ec_StartBlock :: nat

text \<open>What the constructor calls of go-ethereum; a function without a result it keeps answers an error or none.\<close>

record evm_library =
  el_Dial :: "string \<Rightarrow> err option"
  el_ParseABI :: "string \<Rightarrow> err option"
  el_ChainID :: "string \<Rightarrow> err + string"
  el_HexToECDSA :: "string \<Rightarrow> err + string"
  el_Transactor :: "string \<Rightarrow> string \<Rightarrow> err option"
  el_HexToAddress :: "string \<Rightarrow> string"

definition trim_prefix :: "string \<Rightarrow> string \<Rightarrow> string" where
  "trim_prefix p s = (if take (length p) s = p then drop (length p) s else s)"

definition unless_error :: "err option \<Rightarrow> err + 'a \<Rightarrow> err + 'a" where
  "unless_error e r = (case e of Some e \<Rightarrow> Inl e | None \<Rightarrow> r)"

definition evm_signer :: "evm_library \<Rightarrow> evm_config \<Rightarrow> err + bool" where
  "evm_signer L cfg =
     (if ec_PrivateKeyHex cfg = [] then Inr False
      else case el_ChainID L (ec_RPCURL cfg) of
             Inl e \<Rightarrow> Inl (Wrapf ''chain id'' e)
           | Inr chain \<Rightarrow>
               (case el_HexToECDSA L (trim_prefix ''0x'' (ec_PrivateKeyHex cfg)) of
                  Inl e \<Rightarrow> Inl (Wrapf ''parse private key'' e)
                | Inr key \<Rightarrow> unless_error (el_Transactor L key chain) (Inr True)))"

definition evm_New :: "evm_library \<Rightarrow> evm_config \<Rightarrow> err + (evm_config \<times> evm_chain)" where
  "evm_New L cfg =
     (let cfg = (if ec_PollInterval cfg = 0 then cfg\<lparr>ec_PollInterval := 12 * second\<rparr> else cfg)
      in case el_Dial L (ec_RPCURL cfg) of
           Some e \<Rightarrow> Inl (Wrapf (''dial '' @ ec_RPCURL cfg) e)
         | None \<Rightarrow>
             unless_error (el_ParseABI L identityRegistryABI)
               (unless_error (el_ParseABI L reputationLedgerABI)
                  (case evm_signer L cfg of
                     Inl e \<Rightarrow> Inl e
                   | Inr signer \<Rightarrow> Inr (cfg, \<lparr>ev_signer = signer, ev_calls = 0\<rparr>))))"

section \<open>Options of the server (httpapi/server.go)\<close>

record options =
  op_RatePerSec :: real
  op_RateBurst :: real
  op_IdempotencyTTL :: duration
  op_CORSOrigins :: string

definition DefaultOptions :: options where
  "DefaultOptions = \<lparr>op_RatePerSec = 20, op_RateBurst = 40, op_IdempotencyTTL = 24 * 3600 * second, op_CORSOrigins = ''*''\<rparr>"

text \<open>\<open>S\<close> holds the parameters of the model: the clock, the exponential, the embedded specification.\<close>

definition NewServer :: "env \<Rightarrow> issuer \<Rightarrow> options \<Rightarrow> server \<Rightarrow> server" where
  "NewServer E I opts S =
     S\<lparr>sv_env := E, sv_issuer := I, sv_rate := op_RatePerSec opts, sv_burst := op_RateBurst opts,
       sv_idemTTL := op_IdempotencyTTL opts, sv_cors := op_CORSOrigins opts\<rparr>"

section \<open>Opening a database (sqlitestore.go, pgstore.go)\<close>

text \<open>
  A database driver, for a connection string: opening and pinging answer an error or none, executing
  the embedded schema an error or the entities that are then stored.
\<close>

record db_driver =
  dd_Open :: "string \<Rightarrow> err option"
  dd_Ping :: "string \<Rightarrow> err option"
  dd_Schema :: "string \<Rightarrow> err + memory"

definition sqlite_dsn :: "string \<Rightarrow> string" where
  "sqlite_dsn path =
     ''file:'' @ path @ ''?_pragma=busy_timeout(5000)&_pragma=journal_mode(WAL)&_pragma=foreign_keys(on)''"

definition sqlite_Open :: "db_driver \<Rightarrow> string \<Rightarrow> err + memory" where
  "sqlite_Open D path =
     (let dsn = sqlite_dsn path
      in unless_error (dd_Open D dsn)
           (unless_error (dd_Ping D dsn)
              (case dd_Schema D dsn of Inl e \<Rightarrow> Inl (Wrapf ''apply schema'' e) | Inr m \<Rightarrow> Inr m)))"

definition pg_Open :: "db_driver \<Rightarrow> string \<Rightarrow> err + memory" where
  "pg_Open D dsn = unless_error (dd_Open D dsn) (unless_error (dd_Ping D dsn) (dd_Schema D dsn))"

section \<open>Opening (main.go)\<close>

record outside =
  ou_Postgres :: db_driver
  ou_Sqlite :: db_driver
  ou_Evm :: evm_library

definition openCache :: "outside \<Rightarrow> config \<Rightarrow> err + memory" where
  "openCache X cfg =
     (if cfg_PostgresDSN cfg \<noteq> [] then pg_Open (ou_Postgres X) (cfg_PostgresDSN cfg)
      else if cfg_DBPath cfg = ''memory'' then Inr NewMemory
      else sqlite_Open (ou_Sqlite X) (cfg_DBPath cfg))"

definition openChain :: "outside \<Rightarrow> config \<Rightarrow> err + truth_layer" where
  "openChain X cfg =
     (if cfg_ChainRPCURL cfg = [] then Inr (MemT NewMemChain)
      else case evm_New (ou_Evm X)
             \<lparr>ec_RPCURL = cfg_ChainRPCURL cfg, ec_PrivateKeyHex = cfg_ChainPrivateKey cfg,
              ec_IdentityRegistry = el_HexToAddress (ou_Evm X) (cfg_IdentityRegistryAddress cfg),
              ec_ReputationLedger = el_HexToAddress (ou_Evm X) (cfg_ReputationLedgerAddress cfg),
              ec_PollInterval = 0, ec_StartBlock = 0\<rparr> of
             Inl e \<Rightarrow> Inl e
           | Inr (_, c) \<Rightarrow> Inr (EvmT c))"

section \<open>The process\<close>

datatype indexer_loop = IndexerStarting | IndexerReading | IndexerEnded

datatype scheduler_loop = SchedulerStarting | SchedulerTicking | SchedulerEnded

text \<open>
  \<open>ps_channel\<close> is the indexer's subscription on the in-memory chain. \<open>ps_queue\<close> is what lies in a channel
  whose sender is not the chain: the EVM poller's, with the events it is still sending, or a closed
  one's. \<open>ps_exit\<close> is the result of \<^verbatim>\<open>run\<close> once it has returned.
\<close>

record process =
  ps_gateway :: gateway
  ps_indexer :: indexer_loop
  ps_channel :: "nat option"
  ps_queue :: "reputation_event list"
  ps_from :: nat
  ps_scheduler :: scheduler_loop
  ps_cancelled :: bool
  ps_exit :: "err option option"

definition run_start ::
  "(string \<Rightarrow> string \<Rightarrow> string) \<Rightarrow> env \<Rightarrow> server \<Rightarrow> outside \<Rightarrow> environment \<Rightarrow> err + (server \<times> duration \<times> process)" where
  "run_start hmac E S X V =
     (let cfg = Load V
      in case openChain X cfg of
           Inl e \<Rightarrow> Inl e
         | Inr t \<Rightarrow>
             (case openCache X cfg of
                Inl e \<Rightarrow> Inl e
              | Inr m \<Rightarrow>
                  let issuer = NewIssuer hmac (cfg_JWTSecret cfg) (cfg_JWTTTL cfg) (cfg_JWTRefreshTTL cfg);
                      E = E\<lparr>env_rail := NewMockProvider (env_sha E), env_hooks := True\<rparr>;
                      w = \<lparr>store = m, truth = t, rail = [], delivered = [], outbox = [], idseq = 0, ticks = 0\<rparr>;
                      w = snd (SeedAdmin E (cfg_AdminEmail cfg) (cfg_AdminPassword cfg) ''Platform Admin'' w);
                      opts = DefaultOptions\<lparr>op_CORSOrigins := cfg_CORSOrigins cfg\<rparr>
                  in Inr (NewServer E issuer opts S, cfg_SchedulerInterval cfg,
                       \<lparr>ps_gateway = new_gateway w, ps_indexer = IndexerStarting, ps_channel = None, ps_queue = [],
                        ps_from = 0, ps_scheduler = SchedulerStarting, ps_cancelled = False, ps_exit = None\<rparr>)))"

section \<open>Events\<close>

datatype event =
    Serve request
  | CollectBuckets
  | CollectResponses
  | IndexerStart
  | IndexerReceive
  | IndexerStop
  | Unsubscribe
  | EvmPoll node_answer
  | EvmStop nat
  | SchedulerStart
  | SchedulerTick
  | SchedulerStop
  | Signal
  | ListenFails err
  | ShutdownReturns "err option"

text \<open>An event is not possible yet, leads to a state, never ends, or ends the program by a panic.\<close>

datatype outcome = Blocked | Next process | Diverges | Crashes string

text \<open>The node behind an EVM client: the decoder of its logs, and the logs of each block.\<close>

record node =
  nd_decode :: "evm_log \<Rightarrow> reputation_event option"
  nd_block_logs :: "nat \<Rightarrow> evm_log list"

definition ps_world :: "process \<Rightarrow> world" where
  "ps_world p = gw_world (ps_gateway p)"

definition set_world :: "world \<Rightarrow> process \<Rightarrow> process" where
  "set_world w p = p\<lparr>ps_gateway := (ps_gateway p)\<lparr>gw_world := w\<rparr>\<rparr>"

subsection \<open>The indexer (indexer.go)\<close>

definition indexer_start :: "process \<Rightarrow> outcome" where
  "indexer_start p =
     (if ps_indexer p \<noteq> IndexerStarting then Blocked
      else case truth (ps_world p) of
             MemT m \<Rightarrow>
               (case mem_Subscribe m of (ch, m') \<Rightarrow>
                  Next (set_world ((ps_world p)\<lparr>truth := MemT m'\<rparr>)
                    (p\<lparr>ps_indexer := IndexerReading, ps_channel := Some ch\<rparr>)))
           | EvmT c \<Rightarrow> Next (p\<lparr>ps_indexer := IndexerReading\<rparr>))"

definition indexer_receive :: "process \<Rightarrow> outcome" where
  "indexer_receive p =
     (if ps_indexer p \<noteq> IndexerReading then Blocked
      else case ps_queue p of
             ev # evs \<Rightarrow>
               Next (set_world ((ps_world p)\<lparr>store := AppendReputationEvent ev (store (ps_world p))\<rparr>) (p\<lparr>ps_queue := evs\<rparr>))
           | [] \<Rightarrow>
               (case (ps_channel p, truth (ps_world p)) of
                  (Some ch, MemT m) \<Rightarrow>
                    if chan_pending m ch = [] then Blocked else Next (set_world (indexer_turn ch (ps_world p)) p)
                | _ \<Rightarrow> Blocked))"

text \<open>The loop ends on the cancelled context, or on a channel that is closed and empty.\<close>

definition indexer_stop :: "process \<Rightarrow> outcome" where
  "indexer_stop p =
     (if ps_indexer p = IndexerReading \<and> ps_cancelled p then Next (p\<lparr>ps_indexer := IndexerEnded\<rparr>) else Blocked)"

text \<open>The goroutine of \<^verbatim>\<open>MemChain.Subscribe\<close>: the chain forgets the channel, which keeps what it holds.\<close>

definition unsubscribe :: "process \<Rightarrow> outcome" where
  "unsubscribe p =
     (case (ps_channel p, truth (ps_world p)) of
        (Some ch, MemT m) \<Rightarrow>
          if ps_cancelled p
          then Next (set_world ((ps_world p)\<lparr>truth := MemT (mem_unsubscribe ch m)\<rparr>)
                 (p\<lparr>ps_channel := None, ps_queue := chan_pending m ch\<rparr>))
          else Blocked
      | _ \<Rightarrow> Blocked)"

text \<open>
  A tick of the EVM poller. It is back at its ticker only when the channel has taken all events of
  the poll before. On the cancelled context it closes the channel with what it has sent.
\<close>

definition evm_tick :: "node \<Rightarrow> node_answer \<Rightarrow> process \<Rightarrow> outcome" where
  "evm_tick N a p =
     (case truth (ps_world p) of
        MemT m \<Rightarrow> Blocked
      | EvmT c \<Rightarrow>
          if ps_indexer p = IndexerStarting \<or> ps_cancelled p \<or> chan_capacity < length (ps_queue p) then Blocked
          else case evm_poll (nd_decode N) (nd_block_logs N) a (ps_from p, ps_queue p) of
                 (from', q) \<Rightarrow> Next (p\<lparr>ps_from := from', ps_queue := q\<rparr>))"

definition evm_stop :: "nat \<Rightarrow> process \<Rightarrow> outcome" where
  "evm_stop sent p =
     (case truth (ps_world p) of
        MemT m \<Rightarrow> Blocked
      | EvmT c \<Rightarrow>
          if ps_cancelled p \<and> sent \<le> chan_capacity then Next (p\<lparr>ps_queue := take sent (ps_queue p)\<rparr>) else Blocked)"

subsection \<open>The scheduler (scheduler.go)\<close>

text \<open>\<^verbatim>\<open>time.NewTicker\<close> panics on an interval that is not positive; nothing recovers in that goroutine.\<close>

definition scheduler_start :: "duration \<Rightarrow> process \<Rightarrow> outcome" where
  "scheduler_start interval p =
     (if ps_scheduler p \<noteq> SchedulerStarting then Blocked
      else if sint interval \<le> 0 then Crashes ''non-positive interval for NewTicker''
      else Next (p\<lparr>ps_scheduler := SchedulerTicking\<rparr>))"

definition scheduler_tick :: "env \<Rightarrow> process \<Rightarrow> outcome" where
  "scheduler_tick E p =
     (if ps_scheduler p \<noteq> SchedulerTicking then Blocked
      else let w = ps_world p
           in case ProcessDeadlines E (env_clock E (ticks w)) (w\<lparr>ticks := Suc (ticks w)\<rparr>) of
                None \<Rightarrow> Diverges
              | Some (n, w') \<Rightarrow> Next (set_world w' p))"

definition scheduler_stop :: "process \<Rightarrow> outcome" where
  "scheduler_stop p =
     (if ps_scheduler p = SchedulerTicking \<and> ps_cancelled p then Next (p\<lparr>ps_scheduler := SchedulerEnded\<rparr>) else Blocked)"

subsection \<open>All of them\<close>

fun process_event :: "server \<Rightarrow> duration \<Rightarrow> node \<Rightarrow> event \<Rightarrow> process \<Rightarrow> outcome" where
  "process_event S iv N (Serve r) p = Next (p\<lparr>ps_gateway := snd (serve S r (ps_gateway p))\<rparr>)"
| "process_event S iv N CollectBuckets p = Next (p\<lparr>ps_gateway := limiter_gc S (ps_gateway p)\<rparr>)"
| "process_event S iv N CollectResponses p = Next (p\<lparr>ps_gateway := idem_gc S (ps_gateway p)\<rparr>)"
| "process_event S iv N IndexerStart p = indexer_start p"
| "process_event S iv N IndexerReceive p = indexer_receive p"
| "process_event S iv N IndexerStop p = indexer_stop p"
| "process_event S iv N Unsubscribe p = unsubscribe p"
| "process_event S iv N (EvmPoll a) p = evm_tick N a p"
| "process_event S iv N (EvmStop k) p = evm_stop k p"
| "process_event S iv N SchedulerStart p = scheduler_start iv p"
| "process_event S iv N SchedulerTick p = scheduler_tick (sv_env S) p"
| "process_event S iv N SchedulerStop p = scheduler_stop p"
| "process_event S iv N Signal p = Next (p\<lparr>ps_cancelled := True\<rparr>)"
| "process_event S iv N (ListenFails e) p = Next (p\<lparr>ps_exit := Some (Some e)\<rparr>)"
| "process_event S iv N (ShutdownReturns r) p = (if ps_cancelled p then Next (p\<lparr>ps_exit := Some r\<rparr>) else Blocked)"

text \<open>When \<^verbatim>\<open>run\<close> has returned the program ends with all its goroutines.\<close>

definition process_step :: "server \<Rightarrow> duration \<Rightarrow> node \<Rightarrow> event \<Rightarrow> process \<Rightarrow> outcome" where
  "process_step S iv N e p = (if ps_exit p = None then process_event S iv N e p else Blocked)"

fun process_run :: "server \<Rightarrow> duration \<Rightarrow> node \<Rightarrow> event list \<Rightarrow> process \<Rightarrow> outcome" where
  "process_run S iv N [] p = Next p"
| "process_run S iv N (e # es) p =
     (case process_step S iv N e p of Next p' \<Rightarrow> process_run S iv N es p' | other \<Rightarrow> other)"

section \<open>The worlds of a process\<close>

lemma ps_world_simps [simp]:
  "ps_world (set_world w p) = w" "ps_world (p\<lparr>ps_indexer := i\<rparr>) = ps_world p" "ps_world (p\<lparr>ps_queue := q\<rparr>) = ps_world p"
  "ps_world (p\<lparr>ps_channel := ch\<rparr>) = ps_world p" "ps_world (p\<lparr>ps_from := n\<rparr>) = ps_world p"
  "ps_world (p\<lparr>ps_scheduler := s\<rparr>) = ps_world p" "ps_world (p\<lparr>ps_cancelled := b\<rparr>) = ps_world p"
  "ps_world (p\<lparr>ps_exit := x\<rparr>) = ps_world p" "ps_world (p\<lparr>ps_gateway := g\<rparr>) = gw_world g"
  by (simp_all add: ps_world_def set_world_def)

lemma serve_api_step: "api_step (sv_env S) (gw_world gw) (gw_world (snd (serve S r gw)))"
  using handler_stepsD [OF Routes_steps refl] by (simp add: serve_def)

lemma gc_worlds [simp]: "gw_world (limiter_gc S gw) = gw_world gw" "gw_world (idem_gc S gw) = gw_world gw"
  by (simp_all add: limiter_gc_def idem_gc_def Let_def)

lemma scheduler_tick_world:
  assumes "scheduler_tick E p = Next p'"
  shows "(api_step E)\<^sup>*\<^sup>* (ps_world p) (ps_world p')"
proof -
  let ?w = "(ps_world p)\<lparr>ticks := Suc (ticks (ps_world p))\<rparr>"
  obtain n w' where "ProcessDeadlines E (env_clock E (ticks (ps_world p))) ?w = Some (n, w')" "ps_world p' = w'"
    using assms by (auto simp: scheduler_tick_def Let_def split: if_splits option.splits)
  then have "api_step E (ps_world p) ?w" "api_step E ?w (ps_world p')"
    by (auto intro: api_step.clock_read api_step.deadlines)
  then show ?thesis
    by (meson converse_rtranclp_into_rtranclp rtranclp.rtrancl_refl)
qed

lemma process_event_world:
  "process_event S iv N e p = Next p' \<Longrightarrow> (api_step (sv_env S))\<^sup>*\<^sup>* (ps_world p) (ps_world p')"
proof (cases e)
  case (Serve r)
  assume "process_event S iv N e p = Next p'"
  with Serve show ?thesis
    using serve_api_step [of S "ps_gateway p" r] by (auto simp: ps_world_def)
next
  case IndexerStart
  assume "process_event S iv N e p = Next p'"
  with IndexerStart consider "ps_world p' = ps_world p"
    | m where "truth (ps_world p) = MemT m" "ps_world p' = (ps_world p)\<lparr>truth := MemT (snd (mem_Subscribe m))\<rparr>"
    by (auto simp: indexer_start_def split: if_splits truth_layer.splits prod.splits)
  then show ?thesis
    by cases (auto intro: api_step.subscribed)
next
  case IndexerReceive
  assume "process_event S iv N e p = Next p'"
  with IndexerReceive show ?thesis
    by (auto simp: indexer_receive_def split: if_splits truth_layer.splits option.splits list.splits
        intro!: r_into_rtranclp intro: api_step.indexer api_step.projected)
next
  case Unsubscribe
  assume "process_event S iv N e p = Next p'"
  with Unsubscribe show ?thesis
    by (auto simp: unsubscribe_def split: if_splits truth_layer.splits option.splits
        intro!: r_into_rtranclp intro: api_step.unsubscribed)
next
  case SchedulerTick
  assume "process_event S iv N e p = Next p'"
  with SchedulerTick show ?thesis
    by (simp add: scheduler_tick_world)
qed (auto simp: indexer_stop_def evm_tick_def evm_stop_def scheduler_start_def scheduler_stop_def ps_world_def [of p] ps_world_def [of p']
    split: if_splits truth_layer.splits prod.splits)

lemma process_run_worlds:
  assumes "process_run S iv N es p = Next p'" and "reachable (sv_env S) (ps_world p)"
  shows "reachable (sv_env S) (ps_world p')"
proof -
  have walk: "reachable E w'" if "(api_step E)\<^sup>*\<^sup>* w w'" "reachable E w" for E w w'
    using that by (induction rule: rtranclp_induct) (auto intro: reachable.step)
  show ?thesis
    using assms
  proof (induction es arbitrary: p)
    case (Cons e es)
    then obtain q where "process_event S iv N e p = Next q" "process_run S iv N es q = Next p'"
      by (auto simp: process_step_def split: outcome.splits if_splits)
    with Cons show ?case
      using walk process_event_world by blast
  qed simp
qed

lemma run_start_reachable:
  assumes "run_start hmac E S0 X V = Inr (S, iv, p)" and "getEnv V ''ROTA_POSTGRES_DSN'' [] = []"
    and "V ''ROTA_DB_PATH'' = Some ''memory''"
  shows "reachable (sv_env S) (ps_world p)"
proof -
  have "openCache X (Load V) = Inr NewMemory"
    using assms(2,3) by (simp add: openCache_def Load_def getEnv_def)
  with assms(1) obtain t E' email pw where S: "sv_env S = E'"
    and p: "ps_world p = snd (SeedAdmin E' email pw ''Platform Admin'' (booted t))"
    by (auto simp: run_start_def Let_def NewServer_def booted_def ps_world_def new_gateway_def split: sum.splits)
  show ?thesis
    unfolding S p by (rule reachable.step [OF reachable.boot api_step.seed_admin])
qed

end
