(* ===== verification/Http_Properties.thy ===== *)
theory Http_Properties
  imports Http_Facts Scenario
begin

text \<open>
  What the API promises as a whole: its worlds are the reachable ones, only whom a token vouches for
  changes them, a repeated idempotency key is answered from memory; each on a served request.
\<close>

section \<open>A server and its requests, evaluated\<close>

definition demo_server :: server where
  "demo_server = \<lparr>sv_env = demo_env, sv_issuer = NewIssuer (\<lambda>k m. k @ m) ''key'' 900000000000 86400000000000,
     sv_exp = (\<lambda>x. x), sv_float = (\<lambda>x. []), sv_openapi = [], sv_rate = 20, sv_burst = 40,
     sv_idemTTL = 86400000000000, sv_cors = ''*'', sv_clock = (\<lambda>n. 0), sv_rand = (\<lambda>n. [])\<rparr>"

definition demo_token :: string where
  "demo_token = projr (Issue (sv_issuer demo_server) 0 (demo_id 1) RoleMember)"

definition demo_patch :: request where
  "demo_patch = \<lparr>rq_Method = ''PATCH'', rq_Path = ''/v1/me'', rq_Segments = [''v1'', ''me''], rq_Query = [],
     rq_Header = [(''Authorization'', bearer @ demo_token), (''Idempotency-Key'', ''k'')],
     rq_RemoteAddr = ''h:1'', rq_Body = ''null''\<rparr>"

lemma demo_server_fields [simp]:
  "sv_env demo_server = demo_env" "sv_cors demo_server = ''*''" "sv_clock demo_server n = 0" "sv_burst demo_server = 40"
  "sv_idemTTL demo_server = 86400000000000"
  by (simp_all add: demo_server_def)

lemma demo_token_verifies: "Verify (sv_issuer demo_server) 0 demo_token = Inr (minted_claims 0 (demo_id 1) RoleMember ''access'' 900000000000)"
proof -
  have "ascii (demo_id 1)"
    by (auto simp: demo_id_def NewID_def ascii_def byte_in_def dest!: hex_encode_chars)
  then have "claims_plain (minted_claims 0 (demo_id 1) RoleMember TokenAccess 900000000000)"
    by (simp add: claims_plain_def minted_claims_def role_plain_def int64_def unix_seconds_def TokenAccess_def byte_in_def)
  moreover have "mint (sv_issuer demo_server) 0 (demo_id 1) RoleMember TokenAccess 900000000000 = Inr demo_token"
    by (simp only: demo_token_def Issue_def mint_def Let_def sum.sel) (simp only: demo_server_def NewIssuer_def server.simps issuer.simps)
  ultimately have "token_verify (sv_issuer demo_server) 0 demo_token TokenAccess =
    (if TokenAccess = TokenAccess \<and> unix_seconds 0 < unix_seconds (0 + sint (900000000000 :: duration))
     then Inr (minted_claims 0 (demo_id 1) RoleMember TokenAccess 900000000000) else invalid_token)"
    by (rule verify_minted [rotated])
  moreover have "unix_seconds 0 < unix_seconds (0 + sint (900000000000 :: duration))"
    by (simp add: unix_seconds_def)
  ultimately show ?thesis
    by (simp only: Verify_def TokenAccess_def refl if_True simp_thms)
qed

lemma find_append: "List.find P (xs @ ys) = (case List.find P xs of None \<Rightarrow> List.find P ys | Some x \<Rightarrow> Some x)"
  by (induction xs) auto

lemma patch_route:
  assumes "rq_Method (ca_Request c) = ''PATCH''" and "rq_Segments (ca_Request c) = [''v1'', ''me'']"
  shows "serve_mux (routes S) c gw = RequireAuth (on_world (handleUpdateMe S)) (c\<lparr>ca_Vars := []\<rparr>) gw"
proof -
  let ?P = "\<lambda>rt. takes_method (fst rt) (rq_Method (ca_Request c)) \<and> route_vars (ca_Request c) rt \<noteq> None"
  have "List.find ?P (public_routes S) = None"
    using assms by (simp add: public_routes_def takes_method_def)
  moreover have "List.find ?P (map (\<lambda>(m, p, h). (m, p, RequireAuth (on_world h))) (member_routes S)) =
      Some (''PATCH'', ''/v1/me'', RequireAuth (on_world (handleUpdateMe S)))"
    using assms by (simp add: member_routes_def takes_method_def route_vars_def pattern_segments_def wildcard_def)
  ultimately have "List.find ?P (routes S) = Some (''PATCH'', ''/v1/me'', RequireAuth (on_world (handleUpdateMe S)))"
    unfolding routes_def by (simp add: find_append)
  then show ?thesis
    using assms by (simp add: serve_mux_def Let_def route_vars_def pattern_segments_def wildcard_def)
qed

lemma demo_update: "\<exists>u. fst (UpdateProfile demo_env (demo_id 1) [] demo2) = Inr u \<and> snd (UpdateProfile demo_env (demo_id 1) [] demo2) \<noteq> demo2"
proof -
  have "\<exists>u w. UpdateProfile demo_env (demo_id 1) [] demo2 = (Inr u, w) \<and> ticks w = 5"
    by (simp add: UpdateProfile_def exec GetUser_def SaveUser_def gm_get_def demo2 booted_def NewMemory_def Let_def)
  moreover have "ticks demo2 = 4"
    by (simp add: demo2)
  ultimately show ?thesis
    by auto
qed

lemma demo_handler:
  assumes "ca_Request c = demo_patch" and "gw_world g = demo2"
  shows "hr_Status (fst (inner demo_server c g)) = 200 \<and> gw_world (snd (inner demo_server c g)) \<noteq> demo2
    \<and> gw_buckets (snd (inner demo_server c g)) = gw_buckets g"
proof -
  let ?p = "\<lparr>pr_UserID = demo_id 1, pr_Role = RoleMember\<rparr>"
  have "header_get (ca_Request c) ''Authorization'' = bearer @ demo_token"
    using assms by (simp add: demo_patch_def header_get_def)
  moreover have "gw_now demo_server g = 0"
    by (simp add: gw_now_def)
  ultimately have "inner demo_server c g = serve_mux (routes demo_server) (c\<lparr>ca_Principal := Some ?p\<rparr>) (gw_tick g)"
    by (simp add: inner_def Authenticate_def Let_def demo_token_verifies minted_claims_def bearer_def)
  also have "\<dots> = on_world (handleUpdateMe demo_server) (c\<lparr>ca_Principal := Some ?p, ca_Vars := []\<rparr>) (gw_tick g)"
    using assms by (subst patch_route) (simp_all add: demo_patch_def RequireAuth_def)
  finally have "inner demo_server c g = on_world (handleUpdateMe demo_server) (c\<lparr>ca_Principal := Some ?p, ca_Vars := []\<rparr>) (gw_tick g)" .
  moreover have "decode_body [(''display_name'', string_elem)] (rq_Body demo_patch) [] = (True, [])"
    by (simp add: decode_body_def demo_patch_def json_first_def scan_literal_def into_struct_def)
  ultimately have "inner demo_server c g = (case reply 200 user_json (UpdateProfile demo_env (demo_id 1) []) demo2 of
      (r, w) \<Rightarrow> (r, (gw_tick g)\<lparr>gw_world := w\<rparr>))"
    using assms by (simp add: on_world_def handleUpdateMe_def with_body_def caller_def)
  then show ?thesis
    using demo_update by (auto simp: reply_def gw_tick_def writeJSON_def case_prod_beta split: sum.splits)
qed

text \<open>The same key from another client, with no token and no body.\<close>

definition demo_stranger :: request where
  "demo_stranger = demo_patch\<lparr>rq_Header := [(''Idempotency-Key'', ''k'')], rq_RemoteAddr := ''i:1'', rq_Body := []\<rparr>"

lemma demo_clients: "clientIP demo_patch = ''h''" "clientIP demo_stranger = ''i''"
  by (simp_all add: clientIP_def demo_patch_def demo_stranger_def header_get_def split_host_port_def Let_def)

lemma demo_allowed: "gm_get (gw_buckets gw) k = None \<Longrightarrow> fst (allow S k gw)"
  by (simp add: allow_def gw_tick_def Let_def)

lemma demo_first:
  "hr_Status (fst (serve demo_server demo_patch (new_gateway demo2))) = 200"
  "gw_world (snd (serve demo_server demo_patch (new_gateway demo2))) \<noteq> demo2"
  "gm_get (gw_buckets (snd (serve demo_server demo_patch (new_gateway demo2)))) ''i'' = None"
proof -
  have m: "rq_Method demo_patch \<noteq> ''OPTIONS''" "idem_applies demo_patch"
    by (simp_all add: demo_patch_def idem_applies_def header_get_def)
  show "hr_Status (fst (serve demo_server demo_patch (new_gateway demo2))) = 200"
  "gw_world (snd (serve demo_server demo_patch (new_gateway demo2))) \<noteq> demo2"
  "gm_get (gw_buckets (snd (serve demo_server demo_patch (new_gateway demo2)))) ''i'' = None"
    unfolding serve_inner outer_def cors_def requestID_def limiter_Middleware_def accessLog_def idem_Middleware_def
    by (simp_all add: Let_def case_prod_beta m fresh_call_def demo_clients allow_def demo_handler new_gateway_def gw_tick_def
        in_flight_def with_headers_def gm_get_set)
qed

section \<open>What is remembered\<close>

text \<open>The first answer under a key is remembered from a clock reading taken while it was served.\<close>

lemma first_answer_remembered:
  assumes "mono (sv_clock S)" and "idem_applies first" and "rq_Method first \<noteq> ''OPTIONS''"
    and "gm_get (gw_idem gw) (idem_key first) = None" and "fst (allow S (clientIP first) gw)"
    and "serve S first gw = (ans, gw1)" and "hr_Status ans < 500"
  shows "\<exists>n \<ge> gw_ticks gw. gm_get (gw_idem gw1) (idem_key first) =
      Some \<lparr>ir_status = hr_Status ans, ir_body = hr_Body ans, ir_expires = sv_clock S n + sint (sv_idemTTL S)\<rparr>"
proof -
  let ?M = "idem_Middleware S (inner S)"
  have m: "rq_Method (ca_Request (fresh_call first)) \<noteq> ''OPTIONS''" and req: "ca_Request (fresh_call first) = first"
    and one: "outer S ?M (fresh_call first) gw = (ans, gw1)"
    using assms(3,6) by (simp_all add: fresh_call_def serve_inner)
  show ?thesis
  proof (cases rule: outer_inner [OF m, of S gw ?M, case_names limited served])
    case limited
    with assms(5) show ?thesis
      by (simp add: req)
  next
    case (served c' g)
    then show ?thesis
      using idem_remembers [OF assms(1) quiet_inner, of c' g S] assms(2,4,7) by (auto simp: one req intro: le_trans)
  qed
qed

section \<open>Properties\<close>

text \<open>
  Whatever is requested, and whenever the limiter's and the idempotency cache's collectors, the
  scheduler and the indexer run, the world behind the API is a reachable one: all the invariants of
  reachable worlds hold of it.
\<close>

lemma gateway_worlds_reachable:
  assumes "(gateway_step S)\<^sup>*\<^sup>* (new_gateway (booted t)) gw"
  shows "reachable (sv_env S) (gw_world gw)"
  using assms
  by (induction rule: rtranclp_induct)
    (auto simp: new_gateway_def intro: reachable.boot reachable.step gateway_step_world)

text \<open>
  C10: a request changes the world only if it registers, logs in or renews a token, or carries a bearer
  token that verifies with the server's key, unexpired, at a reading of the clock taken while the
  request is served; below \<^verbatim>\<open>/v1/admin\<close> one with the operator's role.
\<close>

theorem request_effects_authorised:
  assumes "gw_world (snd (serve S r gw)) \<noteq> gw_world gw"
  shows "rq_Segments r \<in> set session_paths
    \<or> (\<exists>n token cl. gw_ticks gw \<le> n \<and> n < gw_ticks (snd (serve S r gw))
        \<and> header_get r ''Authorization'' = bearer @ token
        \<and> Verify (sv_issuer S) (sv_clock S n) token = Inr cl \<and> unix_seconds (sv_clock S n) < cl_Exp cl
        \<and> (admin_path r \<longrightarrow> cl_Role cl = RoleAdmin))"
  using serve_effects [OF assms] Verify_unexpired unfolding authorised_at_def by meson

theorem request_effects_authorised_witness:
  "gw_world (snd (serve demo_server demo_patch (new_gateway demo2))) \<noteq> demo2
    \<and> (\<exists>n token cl. header_get demo_patch ''Authorization'' = bearer @ token
        \<and> Verify (sv_issuer demo_server) (sv_clock demo_server n) token = Inr cl)"
proof -
  have change: "gw_world (snd (serve demo_server demo_patch (new_gateway demo2))) \<noteq> gw_world (new_gateway demo2)"
    using demo_first(2) by (simp add: new_gateway_def)
  have "rq_Segments demo_patch \<notin> set session_paths"
    by (simp add: demo_patch_def session_paths_def)
  with request_effects_authorised [OF change] demo_first(2) show ?thesis
    by blast
qed

text \<open>
  C12: a request answered below 500 under an idempotency key answers every request of its method, path
  and key within the cache's lifetime, whoever sends it and whatever its body: the same status and
  body, and nothing changes; unless the limiter refuses it. Whatever is requested in between.
\<close>

theorem idempotent_replay:
  assumes "mono (sv_clock S)" and "idem_applies first" and "rq_Method first \<noteq> ''OPTIONS''"
    and "gm_get (gw_idem gw) (idem_key first) = None" and "fst (allow S (clientIP first) gw)"
    and "serve S first gw = (ans, gw1)" and "hr_Status ans < 500"
    and "(gateway_step S)\<^sup>*\<^sup>* gw1 gw2"
    and "rq_Method again = rq_Method first" and "rq_Path again = rq_Path first"
    and "header_get again ''Idempotency-Key'' = header_get first ''Idempotency-Key''"
    and "serve S again gw2 = (echo, gw3)"
    and "sv_clock S (gw_ticks gw3) < sv_clock S (gw_ticks gw) + sint (sv_idemTTL S)"
  shows "gw_world gw3 = gw_world gw2 \<and>
    (if fst (allow S (clientIP again) gw2) then hr_Status echo = hr_Status ans \<and> hr_Body echo = hr_Body ans
     else hr_Status echo = 429)"
proof -
  let ?k = "idem_key first" and ?M = "idem_Middleware S (inner S)"
  have m: "rq_Method (ca_Request (fresh_call again)) \<noteq> ''OPTIONS''" and req: "ca_Request (fresh_call again) = again"
    and key: "idem_key again = ?k" and applies: "idem_applies again" and two: "outer S ?M (fresh_call again) gw2 = (echo, gw3)"
    using assms(2,3,9-12) by (simp_all add: fresh_call_def idem_key_def idem_applies_def serve_inner)
  obtain n where n: "gw_ticks gw \<le> n" and memo: "gm_get (gw_idem gw1) ?k =
      Some \<lparr>ir_status = hr_Status ans, ir_body = hr_Body ans, ir_expires = sv_clock S n + sint (sv_idemTTL S)\<rparr>"
      (is "_ = Some ?e")
    using first_answer_remembered [OF assms(1-7)] by blast
  have "sv_clock S (gw_ticks gw) \<le> sv_clock S n"
    using assms(1) n by (simp add: monoD)
  then have expiry: "sv_clock S (gw_ticks gw3) < ir_expires ?e"
    using assms(13) by simp
  have unexpired: "sv_clock S t < ir_expires ?e" if "t \<le> gw_ticks gw3" for t
    using monoD [OF assms(1) that] expiry by simp
  have "gw_ticks gw2 \<le> gw_ticks gw3"
    using serve_ticks [of gw2 S again] assms(12) by simp
  then have memo2: "gm_get (gw_idem gw2) ?k = Some ?e"
    using gateway_steps_keep [OF assms(8,1), of ?k ?e] memo unexpired by blast
  show ?thesis
  proof (cases rule: outer_inner [OF m, of S gw2 ?M, case_names limited served])
    case limited
    then show ?thesis
      by (simp add: two req)
  next
    case (served c' g)
    have "gw_ticks g \<le> gw_ticks gw3"
      using served(10) idem_ticks [OF quiet_inner, of g S S c'] by (simp add: two)
    then have "sv_clock S (gw_ticks g) < ir_expires ?e"
      by (rule unexpired)
    with idem_replays [of c' g ?e S "inner S"] served memo2 applies key show ?thesis
      by (simp add: two req replayed_def)
  qed
qed

theorem idempotent_replay_witness:
  "let gw1 = snd (serve demo_server demo_patch (new_gateway demo2))
   in hr_Status (fst (serve demo_server demo_stranger gw1)) = 200
    \<and> hr_Body (fst (serve demo_server demo_stranger gw1)) = hr_Body (fst (serve demo_server demo_patch (new_gateway demo2)))
    \<and> gw_world (snd (serve demo_server demo_stranger gw1)) = gw_world gw1"
proof -
  obtain ans gw1 where one: "serve demo_server demo_patch (new_gateway demo2) = (ans, gw1)"
    by fastforce
  obtain echo gw3 where two: "serve demo_server demo_stranger gw1 = (echo, gw3)"
    by fastforce
  have first: "mono (sv_clock demo_server)" "idem_applies demo_patch" "rq_Method demo_patch \<noteq> ''OPTIONS''"
    "gm_get (gw_idem (new_gateway demo2)) (idem_key demo_patch) = None"
    "fst (allow demo_server (clientIP demo_patch) (new_gateway demo2))"
    by (simp_all add: mono_def demo_patch_def idem_applies_def header_get_def new_gateway_def demo_allowed)
  have below: "hr_Status ans < 500"
    using demo_first(1) by (simp add: one)
  have again: "rq_Method demo_stranger = rq_Method demo_patch" "rq_Path demo_stranger = rq_Path demo_patch"
    "header_get demo_stranger ''Idempotency-Key'' = header_get demo_patch ''Idempotency-Key''"
    by (simp_all add: demo_stranger_def demo_patch_def header_get_def)
  have "fst (allow demo_server (clientIP demo_stranger) gw1)"
    using demo_first(3) by (simp add: demo_allowed one demo_clients)
  moreover have in_time: "sv_clock demo_server (gw_ticks gw3) < sv_clock demo_server (gw_ticks (new_gateway demo2)) + sint (sv_idemTTL demo_server)"
    by simp
  note idempotent_replay [OF first(1-5) one below rtranclp.rtrancl_refl again two in_time] demo_first(1)
  ultimately show ?thesis
    by (simp add: one two)
qed

end
