(* ===== verification/Process_Properties.thy ===== *)
theory Process_Properties
  imports Process Http_Properties
begin

text \<open>
  What holds of every run of the process that keeps its entities in memory, whatever the environment
  sets besides: its worlds are reachable ones, no event of it runs for ever, and what can end it by a
  panic; and that the indexer writes what is in its channel.
\<close>

section \<open>A run, evaluated\<close>

definition demo_environment :: environment where
  "demo_environment = [''ROTA_DB_PATH'' \<mapsto> ''memory'']"

definition demo_driver :: db_driver where
  "demo_driver = \<lparr>dd_Open = (\<lambda>_. None), dd_Ping = (\<lambda>_. None), dd_Schema = (\<lambda>_. Inr NewMemory)\<rparr>"

definition demo_outside :: outside where
  "demo_outside = \<lparr>ou_Postgres = demo_driver, ou_Sqlite = demo_driver,
     ou_Evm = \<lparr>el_Dial = (\<lambda>_. None), el_ParseABI = (\<lambda>_. None), el_ChainID = (\<lambda>_. Inr ''1''), el_HexToECDSA = Inr,
       el_Transactor = (\<lambda>_ _. None), el_HexToAddress = (\<lambda>s. s)\<rparr>\<rparr>"

definition demo_node :: node where
  "demo_node = \<lparr>nd_decode = (\<lambda>_. None), nd_block_logs = (\<lambda>_. [])\<rparr>"

lemma demo_start: "\<exists>S p. run_start (\<lambda>k m. k @ m) demo_env demo_server demo_outside demo_environment = Inr (S, 30 * second, p)
    \<and> ps_scheduler p = SchedulerStarting \<and> ps_exit p = None"
  by (simp add: run_start_def Load_def demo_environment_def demo_outside_def getEnv_def getDuration_def openChain_def
      openCache_def Let_def)

lemma demo_memory: "getEnv demo_environment ''ROTA_POSTGRES_DSN'' [] = []" "demo_environment ''ROTA_DB_PATH'' = Some ''memory''"
  by (simp_all add: demo_environment_def getEnv_def)

text \<open>A running process whose chain has just emitted an event to the indexer.\<close>

definition demo_event :: reputation_event where
  "demo_event = contribution_event (\<lambda>s. []) ''e'' 7
     \<lparr>co_ID = ''c'', co_GroupID = ''g'', co_UserID = ''u'', co_CycleIndex = 0, co_Amount = 5, co_Commitment = ''h'',
      co_Revealed = False, co_PaidAt = Some 7\<rparr>"

definition demo_process :: process where
  "demo_process = \<lparr>ps_gateway = new_gateway (booted (MemT (emit demo_event (snd (mem_Subscribe NewMemChain))))),
     ps_indexer = IndexerReading, ps_channel = Some 0, ps_queue = [], ps_from = 0, ps_scheduler = SchedulerTicking,
     ps_cancelled = False, ps_exit = None\<rparr>"

section \<open>What an event can end in\<close>

lemma run_start_fields:
  assumes "run_start hmac E S0 X V = Inr (S, iv, p)"
  shows "env_rand (sv_env S) = env_rand E" "iv = getDuration V ''ROTA_SCHEDULER_INTERVAL'' (30 * second)"
    "ps_scheduler p = SchedulerStarting" "ps_exit p = None"
  using assms by (auto simp: run_start_def Let_def NewServer_def Load_def split: sum.splits)

lemma process_step_returns:
  assumes "reachable (sv_env S) (ps_world p)" and "inj (env_rand (sv_env S))"
  shows "process_step S iv N e p \<noteq> Diverges \<and> (\<forall>why. process_step S iv N e p = Crashes why \<longrightarrow> sint iv \<le> 0)"
proof (cases e)
  case SchedulerTick
  let ?w = "ps_world p"
  have "memory_ok (store (?w\<lparr>ticks := Suc (ticks ?w)\<rparr>))"
    using world_okD(1) [OF reachable_world_ok [OF assms]] by simp
  then obtain n w' where "ProcessDeadlines (sv_env S) (env_clock (sv_env S) (ticks ?w)) (?w\<lparr>ticks := Suc (ticks ?w)\<rparr>) = Some (n, w')"
    using ProcessDeadlines_total by blast
  with SchedulerTick show ?thesis
    by (simp add: process_step_def scheduler_tick_def Let_def)
qed (auto simp: process_step_def indexer_start_def indexer_receive_def indexer_stop_def unsubscribe_def evm_tick_def
    evm_stop_def scheduler_start_def scheduler_stop_def split: if_splits truth_layer.splits option.splits list.splits prod.splits)

lemma process_run_returns:
  assumes "reachable (sv_env S) (ps_world p)" and "inj (env_rand (sv_env S))"
  shows "process_run S iv N es p \<noteq> Diverges \<and> (\<forall>why. process_run S iv N es p = Crashes why \<longrightarrow> sint iv \<le> 0)"
  using assms(1)
proof (induction es arbitrary: p)
  case (Cons e es)
  note one = process_step_returns [OF Cons.prems assms(2), of iv N e]
  show ?case
  proof (cases "process_step S iv N e p")
    case (Next q)
    then have "process_run S iv N [e] p = Next q"
      by simp
    with process_run_worlds [OF _ Cons.prems] have "reachable (sv_env S) (ps_world q)"
      by blast
    with Cons.IH Next show ?thesis
      by simp
  qed (use one in simp_all)
qed simp

section \<open>The indexer's channel\<close>

text \<open>What the indexer has still to receive: of a channel outside the world, then of the in-memory chain's.\<close>

definition backlog :: "process \<Rightarrow> reputation_event list" where
  "backlog p = ps_queue p @
     (case (ps_channel p, truth (ps_world p)) of (Some ch, MemT m) \<Rightarrow> chan_pending m ch | _ \<Rightarrow> [])"

lemma indexer_turn_pending:
  assumes "truth w = MemT m" and "chan_pending m ch = ev # evs"
  shows "\<exists>m'. indexer_turn ch w = w\<lparr>truth := MemT m', store := AppendReputationEvent ev (store w)\<rparr> \<and> chan_pending m' ch = evs"
  using assms by (auto simp: indexer_turn_def mem_receive_def chan_pending_def update_conv' split: option.splits list.splits)

lemma set_world_fields [simp]:
  "ps_indexer (set_world w p) = ps_indexer p" "ps_exit (set_world w p) = ps_exit p" "ps_queue (set_world w p) = ps_queue p"
  "ps_channel (set_world w p) = ps_channel p"
  by (simp_all add: set_world_def)

lemma indexer_receive_backlog:
  assumes "ps_indexer p = IndexerReading"
  shows "case backlog p of
      [] \<Rightarrow> indexer_receive p = Blocked
    | ev # evs \<Rightarrow> (\<exists>q. indexer_receive p = Next q \<and> backlog q = evs \<and> ps_indexer q = IndexerReading \<and> ps_exit q = ps_exit p
        \<and> store (ps_world q) = AppendReputationEvent ev (store (ps_world p)))"
proof (cases "ps_queue p")
  case (Cons ev evs)
  then show ?thesis
    using assms by (simp add: backlog_def indexer_receive_def split: option.splits truth_layer.splits)
next
  case Nil
  show ?thesis
  proof (cases "backlog p")
    case Nil': Nil
    then show ?thesis
      using assms Nil by (auto simp: backlog_def indexer_receive_def split: option.splits truth_layer.splits)
  next
    case (Cons ev evs)
    then obtain ch m where ch: "ps_channel p = Some ch" and m: "truth (ps_world p) = MemT m"
      and "chan_pending m ch = ev # evs"
      using Nil by (auto simp: backlog_def split: option.splits truth_layer.splits)
    moreover from indexer_turn_pending [OF this(2,3)] obtain m' where
      "indexer_turn ch (ps_world p) = (ps_world p)\<lparr>truth := MemT m', store := AppendReputationEvent ev (store (ps_world p))\<rparr>"
      "chan_pending m' ch = evs"
      by blast
    ultimately show ?thesis
      using assms Nil Cons by (simp add: backlog_def indexer_receive_def)
  qed
qed

section \<open>Properties\<close>

text \<open>
  C11: of a process started on the in-memory store, whatever truth layer and options the environment
  sets: whatever events follow in whatever order (requests, collectors, the indexer's and the
  scheduler's turns, polls of the node, the signal and the end of the subscriptions), the entities
  are those of a reachable world, so that every invariant of reachable worlds holds of the process.
\<close>

theorem process_worlds_reachable:
  assumes "run_start hmac E S0 X V = Inr (S, iv, p)"
    and "getEnv V ''ROTA_POSTGRES_DSN'' [] = []" and "V ''ROTA_DB_PATH'' = Some ''memory''"
    and "process_run S iv N es p = Next q"
  shows "reachable (sv_env S) (ps_world q)"
  by (rule process_run_worlds [OF assms(4) run_start_reachable [OF assms(1-3)]])

theorem process_worlds_reachable_witness:
  "\<exists>S iv p q. run_start (\<lambda>k m. k @ m) demo_env demo_server demo_outside demo_environment = Inr (S, iv, p)
     \<and> process_run S iv demo_node [SchedulerStart, Serve demo_patch, Signal, SchedulerStop] p = Next q
     \<and> reachable (sv_env S) (ps_world q)"
proof -
  obtain S p where start: "run_start (\<lambda>k m. k @ m) demo_env demo_server demo_outside demo_environment = Inr (S, 30 * second, p)"
    and "ps_scheduler p = SchedulerStarting" "ps_exit p = None"
    using demo_start by blast
  then obtain q where run: "process_run S (30 * second) demo_node [SchedulerStart, Serve demo_patch, Signal, SchedulerStop] p = Next q"
    by (simp add: process_step_def scheduler_start_def scheduler_stop_def second_def)
  from start run process_worlds_reachable [OF start demo_memory run] show ?thesis
    by blast
qed

text \<open>
  C15: the process on the in-memory store is never caught in an event: each ends, the scheduler's pass
  included. A panic can end it exactly when the environment sets a scheduler interval that is not
  positive, as \<^verbatim>\<open>0\<close>, a negative one, or seconds that wrap; the configuration accepts them all.
\<close>

theorem process_events_return:
  assumes "run_start hmac E S0 X V = Inr (S, iv, p)"
    and "getEnv V ''ROTA_POSTGRES_DSN'' [] = []" and "V ''ROTA_DB_PATH'' = Some ''memory''"
    and "inj (env_rand E)"
  shows "(\<forall>es. process_run S iv N es p \<noteq> Diverges)
    \<and> ((\<exists>es why. process_run S iv N es p = Crashes why) \<longleftrightarrow>
         sint (getDuration V ''ROTA_SCHEDULER_INTERVAL'' (30 * second)) \<le> 0)"
proof -
  note start = run_start_fields [OF assms(1)]
  have all: "process_run S iv N es p \<noteq> Diverges \<and> (\<forall>why. process_run S iv N es p = Crashes why \<longrightarrow> sint iv \<le> 0)" for es
    using process_run_returns [OF run_start_reachable [OF assms(1-3)]] assms(4) start(1) by simp
  moreover have "sint iv \<le> 0 \<Longrightarrow> process_run S iv N [SchedulerStart] p = Crashes ''non-positive interval for NewTicker''"
    using start(3,4) by (simp add: process_step_def scheduler_start_def)
  ultimately show ?thesis
    using start(2) by blast
qed

theorem process_events_return_witness:
  "\<exists>S iv p. run_start (\<lambda>k m. k @ m) demo_env demo_server demo_outside demo_environment = Inr (S, iv, p)
     \<and> (\<forall>es why. process_run S iv demo_node es p \<noteq> Diverges \<and> process_run S iv demo_node es p \<noteq> Crashes why)"
proof -
  obtain S p where start: "run_start (\<lambda>k m. k @ m) demo_env demo_server demo_outside demo_environment = Inr (S, 30 * second, p)"
    using demo_start by blast
  moreover have "\<not> sint (getDuration demo_environment ''ROTA_SCHEDULER_INTERVAL'' (30 * second)) \<le> 0"
    by (simp add: getDuration_def demo_environment_def second_def)
  ultimately show ?thesis
    using process_events_return [OF start demo_memory demo_inj, of demo_node] by blast
qed

text \<open>
  C16: as many turns of the indexer as events lie in its channel, the in-memory chain's, an EVM poller's
  or one that is closed, write each of them to its user's log, in their order and after what is
  there, and nothing else; then the channel is empty and the indexer waits.
\<close>

theorem indexer_projects_backlog:
  assumes "ps_indexer p = IndexerReading" and "ps_exit p = None"
  shows "\<exists>q. process_run S iv N (replicate (length (backlog p)) IndexerReceive) p = Next q
    \<and> (\<forall>u. ReputationEvents (store (ps_world q)) u = ReputationEvents (store (ps_world p)) u @ filter (\<lambda>e. r_UserID e = u) (backlog p))
    \<and> store (ps_world q) = fold AppendReputationEvent (backlog p) (store (ps_world p))
    \<and> backlog q = [] \<and> process_step S iv N IndexerReceive q = Blocked"
proof -
  have "\<exists>q. process_run S iv N (replicate (length (backlog p)) IndexerReceive) p = Next q
    \<and> store (ps_world q) = fold AppendReputationEvent (backlog p) (store (ps_world p))
    \<and> backlog q = [] \<and> process_step S iv N IndexerReceive q = Blocked"
    using assms
  proof (induction "backlog p" arbitrary: p)
    case Nil
    then show ?case
      using indexer_receive_backlog [of p] by (auto simp: process_step_def)
  next
    case (Cons ev evs)
    from indexer_receive_backlog [of p] Cons.prems Cons.hyps(2) [symmetric] obtain q where
      q: "indexer_receive p = Next q" "evs = backlog q" "ps_indexer q = IndexerReading" "ps_exit q = None"
        "store (ps_world q) = AppendReputationEvent ev (store (ps_world p))"
      by auto
    have "process_step S iv N IndexerReceive p = Next q"
      using q(1) Cons.prems by (simp add: process_step_def)
    with Cons.hyps(1) [OF q(2-4)] q(2,5) Cons.hyps(2) [symmetric] show ?case
      by auto
  qed
  then show ?thesis
    by (auto simp: reputation_log.entries_appends)
qed

theorem indexer_projects_backlog_witness:
  "\<exists>q. process_run demo_server second demo_node [IndexerReceive] demo_process = Next q
     \<and> ReputationEvents (store (ps_world q)) ''u'' = [demo_event] \<and> backlog q = []"
proof -
  have "backlog demo_process = [demo_event]"
    by (simp add: demo_process_def backlog_def ps_world_def new_gateway_def booted_def emit_def mem_Subscribe_def
        NewMemChain_def offer_def chan_capacity_def chan_pending_def)
  moreover have "ReputationEvents (store (ps_world demo_process)) ''u'' = []"
    by (simp add: demo_process_def ps_world_def new_gateway_def booted_def NewMemory_def ReputationEvents_def slice_at_def gm_get_def)
  moreover have "r_UserID demo_event = ''u''" "ps_indexer demo_process = IndexerReading" "ps_exit demo_process = None"
    by (simp_all add: demo_event_def contribution_event_def demo_process_def)
  ultimately show ?thesis
    using indexer_projects_backlog [of demo_process demo_server second demo_node] by auto
qed

end
