(* ===== verification/Spec2Isabelle.thy ===== *)
theory Spec2Isabelle
  imports Deadlines Operations Defects Float64 Sqlite_Refinement Pg_Refinement Races
    Webhook_Delivery Process_Properties
begin

text \<open>
  Rotasavings: rotating savings groups (ROSCAs) as a service. A group of members pays a fixed amount
  into each cycle and one member per cycle is paid the pot, in a payout order fixed when the
  organizer activates the group. The Go program keeps users, groups, memberships, cycles,
  contributions, payouts and an escrow ledger in a store, sequences every write with a payment rail
  and a chain (the truth layer), and runs an indexer and a deadline scheduler beside its HTTP API.

  Theories and the code they model (paths under \<^verbatim>\<open>src/internal\<close>):

  \<^item> \<open>Rota_Prelude\<close>: errors with their sentinels, operations as functions of a state that answer an
    error or a value and the state they leave (also when they fail), Go maps as association lists
    in iteration order, decimal numerals, the named theorems \<open>exec\<close> and \<open>keeps\<close>.
  \<^item> \<open>Domain_Types\<close>, \<open>Domain_Group\<close>, \<open>Domain_Ledger\<close>: the package \<^verbatim>\<open>domain\<close>: accounts, money as 64-bit
    words, hash commitments, the lifecycle of groups, their validation and schedule of cycles, the
    escrow and reputation folds. \<open>Float64\<close>: the double arithmetic of the reliability ratio.
  \<^item> \<open>Store_Contracts\<close>: the contracts of a keyed table, of an append-only log and of the escrow
    ledger, as locales; \<open>Memory_Store\<close>: every method of \<^verbatim>\<open>store/memory.go\<close>; \<open>Store_Facts\<close>: the
    contracts interpreted on its tables, its well-formedness invariant \<open>memory_ok\<close>, its pages.
  \<^item> \<open>Enum_Text\<close>, \<open>Calendar\<close>, \<open>Time_Order\<close>, \<open>Json_Text\<close>: the texts the SQLite store writes for
    enumerations, times and slices of strings, read back, and how the texts of times compare;
    \<open>Sql_Table\<close>: the SQL its statements use; \<open>Sql_Codec\<close>: the contracts of a row format and of a
    keyed table, as locales; \<open>Store_Mirror\<close>: tables that mirror the in-memory store, the contract of
    a format for all thirteen of them, and what it gives for reads and writes.
  \<^item> \<open>Sqlite_Rows\<close>, \<open>Sqlite_Store\<close>: \<^verbatim>\<open>store/sqlitestore\<close>, row by row and statement by statement;
    \<open>Sqlite_Refinement\<close>: it implements the in-memory store. \<open>Pg_Rows\<close>, \<open>Pg_Store\<close>: \<^verbatim>\<open>store/pgstore\<close>
    with the checks and foreign keys of its schema; \<open>Pg_Refinement\<close>: it implements the in-memory
    store to the microsecond, for cycle indices of 32 bits. The parameter \<open>nilv\<close> is what the driver
    sends for a nil slice. Rows an \<^verbatim>\<open>ORDER BY\<close> does not tell apart come in the order of the table.
  \<^item> \<open>Truth_Chain\<close>: \<^verbatim>\<open>chain/memchain.go\<close> with its bounded subscriptions and \<^verbatim>\<open>chain/evm\<close> with its
    decoding and polling; \<open>Payments\<close>: the rail's interface, its mock, the movements of money.
  \<^item> \<open>Error_Text\<close>, \<open>Encodings\<close>, \<open>Auth_Password\<close>: rendering of errors, base64, password hashing.
  \<^item> \<open>Json_Values\<close>, \<open>Json_Structs\<close>: \<^verbatim>\<open>encoding/json\<close> as the program uses it: the text of a value, the
    decoder with its limit of nesting, decoding into a struct by its field names, and that what is
    printed is read back. \<open>Duration_Text\<close>: the JSON text of \<^verbatim>\<open>domain.Duration\<close>, over
    \<^verbatim>\<open>Duration.String\<close> and \<^verbatim>\<open>ParseDuration\<close>. \<open>Auth_Token\<close>: \<^verbatim>\<open>auth/token.go\<close>.
  \<^item> \<open>Service\<close>: the state of the running service (\<open>world\<close>: store, truth layer, rail, deliveries,
    counters of drawn identifiers and clock readings) and its surroundings (\<open>env\<close>).
  \<^item> \<open>App_Groups\<close>, \<open>App_Cycles\<close>, \<open>App_Accounts\<close>, \<open>App_Sessions\<close>: the methods of \<^verbatim>\<open>app\<close>, call by call.
    \<open>Intelligence\<close>: the package \<^verbatim>\<open>intelligence\<close>, with every float operation rounded;
    \<open>App_Intelligence\<close>: its use by the service.
  \<^item> \<open>Books\<close>: the abstract specification, the books and the twelve steps that may change them;
    \<open>Simulation\<close>: each operation is a run of these steps; \<open>Book_Invariants\<close>: what they keep.
  \<^item> \<open>Reachable\<close>: the worlds the service reaches from an empty store by API calls, scheduler ticks
    and indexer turns in any order, and the invariants they all have. \<open>Scenario\<close>: one such run,
    evaluated, on which the theorems below are instantiated. \<open>Deadlines\<close>: termination of the
    scheduler's loops and what they achieve. \<open>Operations\<close>: who may do what, and what a refusal
    leaves behind. \<open>Defects\<close>: reachable states the code does not mean to reach; \<open>Races\<close>: what two
    overlapping settlements or contributions do.
  \<^item> \<open>Http_Views\<close>, \<open>Http_Base\<close>, \<open>Http_Handlers\<close>, \<open>Http_Server\<close>: \<^verbatim>\<open>httpapi\<close> and \<^verbatim>\<open>auth/middleware.go\<close>:
    the JSON of every struct, requests and responses, each handler by its name, the middlewares as
    functions from handlers to handlers on the state \<open>gateway\<close> (world, rate-limiter buckets,
    remembered responses, metrics), the route table. \<open>Http_Facts\<close>: every handler is a step of the
    service, who may change the world, how long a remembered response is kept;
    \<open>Http_Properties\<close>: the API's theorems, on served requests. \<open>Webhook_Delivery\<close>: the requests
    \<^verbatim>\<open>webhooks\<close> posts, one goroutine per delivery, in whatever order these run.
  \<^item> \<open>Config\<close>: \<^verbatim>\<open>config/config.go\<close>. \<open>Process\<close>: \<^verbatim>\<open>cmd/server/main.go\<close> (under \<^verbatim>\<open>src\<close>) with the EVM client's
    construction, the opening of a store, the server's options, and the loops of \<^verbatim>\<open>indexer\<close> and
    \<^verbatim>\<open>scheduler\<close>: a process is a sequence of events (requests, collectors, turns of the loops, polls of
    a node, the signal, the end of the subscriptions and of the server), each with its guard;
    \<open>Process_Properties\<close>: what holds of every run.

  This theory states the guarantees that span the components: the ledgers agree with each other and
  with the rail, a cycle is paid out once and for what was collected, memberships and groups agree,
  the terms of a started group never change, and every operation refines the books.

  Conventions. The events of a process may come in any order, but each is taken as a whole: requests
  are served as if no two overlapped. The code does not enforce this, since each store method holds
  the store's mutex but no operation holds a lock from its checks to its writes. The invariants of
  reachable worlds are those of such runs; \<open>Races\<close> cuts two operations between their checks and
  their writes and shows which promises an overlap breaks. No modelled handler panics, so
  \<^verbatim>\<open>recoverPanic\<close> is the call of its argument. Getters return copies, and
  each operation reads an entity, changes its copy and saves it, so entities are values; the slices
  inside them are only appended to or rebuilt before they are saved. An operation that fails halfway
  leaves what its earlier calls did. Times are nanoseconds since the epoch. The deadline loop is a
  \<open>partial_function (option)\<close>, where \<open>None\<close> is a loop that does not end; its totality is proved with
  the number of cycles of the group as the measure.

  Parameters, for code that is not in the repository: SHA-256, HMAC, PBKDF2, the randomness and the
  clocks (streams read in order), \<^verbatim>\<open>math.Exp\<close> and the printing of floats, the payment provider,
  go-ethereum's dialling, keys, transactor, hex and ABI decoding, the logs of each block, which no
  reorganisation replaces, the database drivers (of an opened
  database, the entities it holds), whether \<^verbatim>\<open>http.NewRequest\<close> takes a URL, the Unicode cases of the
  e-mail normalisation, and what \<^verbatim>\<open>net/http\<close> makes of a request line: the path with its unescaped
  segments, the pairs of the query. The path is taken to be clean, since \<^verbatim>\<open>ServeMux\<close> answers any
  other with a redirect. The theorems on reachable worlds assume of the parameters only that the
  random stream does not repeat itself.

  Not modelled: log lines and what only they read (a webhook's answer), the guard against panics,
  closing a database and pinging it later, the listening socket with its time limits, the ABI text
  \<^verbatim>\<open>rotasavingsGroupABI\<close>, which nothing reads, the Solidity contracts and the user interface.
\<close>

text \<open>
  C1: the escrow balance of a group is, in every reachable world, exactly what was contributed to
  those of its cycles that are not settled yet: nothing is lost and nothing is paid from elsewhere.
\<close>

theorem escrow_holds_open_contributions:
  assumes "reachable E w" and "inj (env_rand E)"
  shows "EscrowBalance (ListEscrowByGroup (store w) gid)
    = sum_list (map co_Amount (filter (\<lambda>x. co_GroupID x = gid
        \<and> (\<exists>c. GetCycle (store w) gid (co_CycleIndex x) = Inr c \<and> \<not> c_Settled c)) (gm_range (contributions (store w)))))"
  using world_okD(9) [OF reachable_world_ok [OF assms]]
  unfolding escrow_conserved_def open_pool_def cycle_open_def all_contributions_def by blast

theorem escrow_holds_open_contributions_witness:
  "EscrowBalance (ListEscrowByGroup (store demo7) (demo_id 4)) = 100"
  by (simp add: escrow_holds_open_contributions [OF demo_reachable(7) demo_inj] gm_range_def GetCycle_def found_def
     gm_get_def)

text \<open>
  C7: on the development chain the escrow ledger agrees with the payment rail: a group's balance is
  what the accepted charges moved in less what the accepted disbursements moved out.
\<close>

theorem rail_matches_escrow:
  assumes "reachable E w" and "inj (env_rand E)" and "truth w = MemT m"
  shows "rail_balance (rail w) gid = EscrowBalance (ListEscrowByGroup (store w) gid)"
  using world_okD(11) [OF reachable_world_ok [OF assms(1,2)]] assms(3)
  by (simp add: rail_agrees_def on_mem_def ListEscrowByGroup_def)

theorem rail_matches_escrow_witness:
  "rail_balance (rail demo7) (demo_id 4) = 100"
  by (simp add: rail_matches_escrow [OF demo_reachable(7) demo_inj demo7(8)] ListEscrowByGroup_def demo_credit_def EscrowBalance_def escrow_step_def)

text \<open>
  C2: a settled cycle has exactly one payout, to the member its position in the payout order names,
  of what was contributed to it, with the expected amount and the shortfall recorded; a cycle that
  is not settled has none.
\<close>

theorem settled_cycle_paid_once:
  assumes "reachable E w" and "inj (env_rand E)" and "GetCycle (store w) gid i = Inr c"
  shows "if c_Settled c
    then \<exists>p g. filter (\<lambda>p. po_CycleIndex p = i) (ListPayoutsByGroup (store w) gid) = [p]
      \<and> GetGroup (store w) gid = Inr g \<and> po_PayeeUserID p = g_PayoutOrder g ! nat i
      \<and> po_GrossAmount p = total_amount (ListContributionsByCycle (store w) gid i)
      \<and> po_ExpectedAmount p = expected_amount g \<and> po_Shortfall p = po_ExpectedAmount p - po_GrossAmount p
    else filter (\<lambda>p. po_CycleIndex p = i) (ListPayoutsByGroup (store w) gid) = []"
proof -
  note ok = world_okD [OF reachable_world_ok [OF assms(1,2)]]
  obtain g where g: "GetGroup (store w) gid = Inr g" "c_PayoutUser c = g_PayoutOrder g ! nat i"
    using cycles_wfD(4) [OF ok(6) assms(3)] by blast
  have "cycle_done (store w) gid i = c_Settled c"
    using assms(3) by (simp add: cycle_done_def)
  with ok(10) [unfolded payouts_wf_def, rule_format, of gid i] g assms(3) show ?thesis
    by (auto simp: payouts_of_def paid_right_def split: if_splits)
qed

theorem settled_cycle_paid_once_witness:
  "\<exists>p. ListPayoutsByGroup (store demo8) (demo_id 4) = [p] \<and> po_GrossAmount p = 200"
proof -
  have "GetCycle (store demo8) (demo_id 4) 0 = Inr (demo_cycle 0 1 True)"
    by (simp add: GetCycle_def found_def gm_get_def)
  from settled_cycle_paid_once [OF demo_reachable(8) demo_inj this] show ?thesis
    by (simp add: ListPayoutsByGroup_def demo_payout_def)
qed
text \<open>
  C3: every operation of the API, of the scheduler and of the indexer is a run of the steps of the
  abstract books, each taken only under the conditions the specification puts on it.
\<close>

theorem operations_refine_books:
  assumes "reachable E w" and "inj (env_rand E)" and "api_step E w w'"
  shows "(book_step E (on_mem w))\<^sup>*\<^sup>* (books_of w) (books_of w')"
  using api_step_simulated [OF assms(3) world_okD(1,2) [OF reachable_world_ok [OF assms(1,2)]]]
  by (simp add: simulated_def)

theorem operations_refine_books_witness:
  "(book_step demo_env True)\<^sup>*\<^sup>* (books_of demo7) (books_of demo8)"
proof -
  have "api_step demo_env demo7 demo8"
    unfolding demo8_def by (rule api_step.submit_contribution)
  from operations_refine_books [OF demo_reachable(7) demo_inj this] show ?thesis
    by (simp add: on_mem_def)
qed

text \<open>
  C21: the member list of a group and the membership records agree: a user is listed exactly when the
  membership is active.
\<close>

theorem membership_matches_group:
  assumes "reachable E w" and "inj (env_rand E)" and "GetGroup (store w) gid = Inr g"
  shows "uid \<in> set (g_Members g)
    \<longleftrightarrow> (\<exists>x. GetMembership (store w) gid uid = Inr x \<and> m_Status x = MembershipActive)"
  using world_okD(5) [OF reachable_world_ok [OF assms(1,2)]] assms(3) by (auto simp: memberships_agree_def)

theorem membership_matches_group_witness:
  "\<exists>x. GetMembership (store demo5) (demo_id 4) (demo_id 3) = Inr x \<and> m_Status x = MembershipActive"
proof -
  have "GetGroup (store demo5) (demo_id 4) = Inr (demo_group [demo_id 1, demo_id 3])"
    by (simp add: GetGroup_def found_def gm_get_def)
  from membership_matches_group [OF demo_reachable(5) demo_inj this, of "demo_id 3"] show ?thesis
    by (simp add: demo_group_def)
qed

text \<open>
  C8: every stored group is well formed: it has a name, positive terms, its organizer among at most
  \<open>MaxMembers\<close> members, is never left in SETTLEMENT, has no payout order before its activation and
  one of distinct members' length after it, and exactly the cycles 0 to \<open>TotalCycles\<close> - 1 are stored.
\<close>

theorem group_well_formed:
  assumes "reachable E w" and "inj (env_rand E)" and "GetGroup (store w) gid = Inr g"
  shows "g_Name g \<noteq> '''' \<and> 0 < sint (g_ContributionAmount g) \<and> 0 < sint (g_CycleLength g)
    \<and> g_OrganizerID g \<in> set (g_Members g) \<and> int (length (g_Members g)) \<le> g_MaxMembers g
    \<and> g_State g \<noteq> GroupSettlement
    \<and> (if g_State g = GroupCreated then g_PayoutOrder g = [] \<and> g_TotalCycles g = 0
       else distinct (g_Members g) \<and> length (g_PayoutOrder g) = length (g_Members g)
         \<and> set (g_PayoutOrder g) \<subseteq> set (g_Members g) \<and> g_TotalCycles g = int (length (g_Members g)))
    \<and> (\<forall>i. (\<exists>c. GetCycle (store w) gid i = Inr c) \<longleftrightarrow> 0 \<le> i \<and> i < g_TotalCycles g)"
proof -
  note ok = world_okD [OF reachable_world_ok [OF assms(1,2)]]
  have wf: "group_wf g"
    by (rule groups_wfD [OF ok(3) assms(3)])
  have "\<exists>c. GetCycle (store w) gid i = Inr c" if "0 \<le> i" "i < g_TotalCycles g" for i
    using ok(7) assms(3) that wf by (auto simp: cycles_complete_def group_wf_def split: if_splits)
  moreover have "0 \<le> i \<and> i < g_TotalCycles g" if "GetCycle (store w) gid i = Inr c" for i c
    using cycles_wfD(3,4) [OF ok(6) that] assms(3) by auto
  ultimately show ?thesis
    using wf by (auto simp: group_wf_def ValidateConfig_ok Validate_ok split: if_splits)
qed

theorem group_well_formed_witness:
  "\<forall>i. (\<exists>c. GetCycle (store demo8) (demo_id 4) i = Inr c) \<longleftrightarrow> 0 \<le> i \<and> i < 2"
proof -
  have "GetGroup (store demo8) (demo_id 4) = Inr demo_running"
    by (simp add: GetGroup_def found_def gm_get_def)
  from group_well_formed [OF demo_reachable(8) demo_inj this] show ?thesis
    by simp
qed

text \<open>
  C6: once a group has left CREATED nothing about it ever changes but its state, and that only moves
  forward: amount, members, payout order and number of cycles are fixed.
\<close>

theorem terms_frozen_after_activation:
  assumes "reachable E w" and "inj (env_rand E)" and "(api_step E)\<^sup>*\<^sup>* w w'"
    and "GetGroup (store w) gid = Inr g" and "g_State g \<noteq> GroupCreated"
  shows "\<exists>s. GetGroup (store w') gid = Inr (g\<lparr>g_State := s\<rparr>) \<and> g_State g \<le> s"
proof -
  have ok: "world_ok E w"
    by (rule reachable_world_ok [OF assms(1,2)])
  have run: "book_run E (on_mem w) (books_of w) (books_of w')"
    using later_simulated [OF assms(3) ok assms(2)] by simp
  have "books_ok E (on_mem w) (books_of w)" "GetGroup (ledger (books_of w)) gid = Inr g"
    using ok assms(4) by (simp_all add: world_ok_def)
  from run_started_group [OF run assms(2) this assms(5)] show ?thesis
    by (auto simp: same_terms_def)
qed

theorem terms_frozen_after_activation_witness:
  "\<exists>s. GetGroup (store demo8) (demo_id 4) = Inr (demo_running\<lparr>g_State := s\<rparr>) \<and> GroupActive \<le> s"
proof -
  have "GetGroup (store demo7) (demo_id 4) = Inr demo_running"
    by (simp add: GetGroup_def found_def gm_get_def)
  moreover have "(api_step demo_env)\<^sup>*\<^sup>* demo7 demo8"
    unfolding demo8_def by (rule r_into_rtranclp, rule api_step.submit_contribution)
  ultimately show ?thesis
    using terms_frozen_after_activation [OF demo_reachable(7) demo_inj, of demo8 "demo_id 4" demo_running] by simp
qed

text \<open>
  C17: a settled cycle is final: whatever is called later, the cycle, its contributions and its payout
  stay what they were.
\<close>

theorem settlement_is_final:
  assumes "reachable E w" and "inj (env_rand E)" and "(api_step E)\<^sup>*\<^sup>* w w'"
    and "GetCycle (store w) gid i = Inr c" and "c_Settled c"
  shows "GetCycle (store w') gid i = Inr c
    \<and> ListContributionsByCycle (store w') gid i = ListContributionsByCycle (store w) gid i
    \<and> filter (\<lambda>p. po_CycleIndex p = i) (ListPayoutsByGroup (store w') gid)
        = filter (\<lambda>p. po_CycleIndex p = i) (ListPayoutsByGroup (store w) gid)"
proof -
  have ok: "world_ok E w"
    by (rule reachable_world_ok [OF assms(1,2)])
  have run: "book_run E (on_mem w) (books_of w) (books_of w')"
    using later_simulated [OF assms(3) ok assms(2)] by simp
  have "books_ok E (on_mem w) (books_of w)" "GetCycle (ledger (books_of w)) gid i = Inr c"
    using ok assms(4) by (simp_all add: world_ok_def)
  from run_settled_cycle [OF run assms(2) this assms(5)] show ?thesis
    by (simp add: payouts_of_def ListPayoutsByGroup_def)
qed

theorem settlement_is_final_witness:
  "GetCycle (store (snd (SettleCycle demo_env (demo_id 1) (demo_id 4) 0 demo8))) (demo_id 4) 0
    = Inr (demo_cycle 0 1 True)"
proof -
  have "GetCycle (store demo8) (demo_id 4) 0 = Inr (demo_cycle 0 1 True)"
    by (simp add: GetCycle_def found_def gm_get_def)
  moreover have "(api_step demo_env)\<^sup>*\<^sup>* demo8 (snd (SettleCycle demo_env (demo_id 1) (demo_id 4) 0 demo8))"
    by (rule r_into_rtranclp, rule api_step.settle_cycle)
  ultimately show ?thesis
    using settlement_is_final [OF demo_reachable(8) demo_inj, of _ "demo_id 4" 0 "demo_cycle 0 1 True"] by simp
qed

text \<open>
  C22: every stored contribution is by a member of a started group, for the group's amount, to one of
  its cycles, and is the only one of that member to that cycle.
\<close>

theorem contributions_by_members:
  assumes "reachable E w" and "inj (env_rand E)" and "x \<in> set (gm_range (contributions (store w)))"
  shows "(\<exists>g c. GetGroup (store w) (co_GroupID x) = Inr g \<and> g_State g \<noteq> GroupCreated
      \<and> co_UserID x \<in> set (g_Members g) \<and> co_Amount x = g_ContributionAmount g
      \<and> GetCycle (store w) (co_GroupID x) (co_CycleIndex x) = Inr c)
    \<and> GetContribution (store w) (co_GroupID x) (co_UserID x) (co_CycleIndex x) = Inr x"
proof -
  note ok = world_okD [OF reachable_world_ok [OF assms(1,2)]]
  have "kept_under (\<lambda>x. contribKey (co_GroupID x) (co_UserID x) (co_CycleIndex x)) (contributions (store w))"
    using ok(1) by (simp add: memory_ok_def)
  then have "GetContribution (store w) (co_GroupID x) (co_UserID x) (co_CycleIndex x) = Inr x"
    using assms(3) by (simp add: kept_under_range GetContribution_def)
  moreover have "\<exists>g c. GetGroup (store w) (co_GroupID x) = Inr g \<and> g_State g \<noteq> GroupCreated
      \<and> co_UserID x \<in> set (g_Members g) \<and> co_Amount x = g_ContributionAmount g
      \<and> GetCycle (store w) (co_GroupID x) (co_CycleIndex x) = Inr c"
    using ok(8) assms(3) by (simp add: contributions_wf_def all_contributions_def)
  ultimately show ?thesis
    by blast
qed

theorem contributions_by_members_witness:
  "GetContribution (store demo8) (demo_id 4) (demo_id 3) 0 = Inr (demo_paid 15 3 15)"
proof -
  have "demo_paid 15 3 15 \<in> set (gm_range (contributions (store demo8)))"
    by (simp add: gm_range_def)
  from contributions_by_members [OF demo_reachable(8) demo_inj this] show ?thesis
    by simp
qed

text \<open>
  C23: an e-mail address identifies an account: the lookup by e-mail answers a given account exactly
  for its own address, in whatever order the map is iterated.
\<close>

theorem email_finds_account:
  assumes "reachable E w" and "inj (env_rand E)" and "GetUser (store w) k = Inr u"
  shows "GetUserByEmail (store w) a = Inr u \<longleftrightarrow> u_Email u = a"
proof -
  note ok = world_okD [OF reachable_world_ok [OF assms(1,2)]]
  have "GetUserByEmail (store w) (u_Email u) = Inr u"
  proof (cases "GetUserByEmail (store w) (u_Email u)")
    case (Inl e)
    from GetUserByEmail_none [OF this users_range [OF ok(1) assms(3)]] show ?thesis
      by simp
  next
    case (Inr v)
    then have "v \<in> set (gm_range (users (store w)))" "u_Email v = u_Email u"
      by (auto simp: GetUserByEmail_def find_Some_iff)
    then have v: "GetUser (store w) (u_ID v) = Inr v"
      using ok(1) kept_under_range [of u_ID "users (store w)"] by (simp add: memory_ok_def GetUser_def)
    have "u_ID v = k"
      by (rule emails_uniqueD [OF ok(4) v assms(3)]) fact
    with v assms(3) Inr show ?thesis
      by simp
  qed
  moreover have "u_Email u = a" if "GetUserByEmail (store w) a = Inr u"
    using that by (auto simp: GetUserByEmail_def find_Some_iff)
  ultimately show ?thesis
    by blast
qed

theorem email_finds_account_witness:
  "GetUserByEmail (store demo2) ''b'' = Inr (demo_user 3 ''b'' ''B'' 2)"
proof -
  have "GetUser (store demo2) (demo_id 3) = Inr (demo_user 3 ''b'' ''B'' 2)"
    by (simp add: demo2 GetUser_def found_def gm_get_def)
  from email_finds_account [OF demo_reachable(2) demo_inj this] show ?thesis
    by simp
qed

end
